(* ===== verification/Prelude.thy ===== *)
theory Prelude
  imports Main "HOL-Library.Word"
begin

text \<open>
  Shared vocabulary of the development: the Go types the sources use (fixed-width integers,
  nil-able byte slices, error values), the outcome of a Go call (a value, a returned error, or a
  panic), the state-passing computations in which handlers are written, and a weakest-precondition
  calculus for them. The collection \<open>wp_rules\<close> carries the component proofs.

  A Go slice is \<^emph>\<open>nil\<close> or holds bytes: \<open>None\<close> is the nil slice and \<open>Some []\<close> the empty
  non-nil slice. \<open>bytes.Equal\<close> identifies the two, a comparison with nil does not; the
  transaction system of this program depends on the difference.

  An error value keeps the format string of its \<open>errors.New\<close> or \<open>fmt.Errorf\<close> call and the
  error it wraps (verb \<open>%w\<close>); the arguments rendered into the message are not kept.
\<close>

named_theorems wp_rules \<open>weakest preconditions of the computation combinators\<close>
named_theorems go_simps \<open>unfolding rules for the model of Go values\<close>

section \<open>Go values\<close>

type_synonym byte = "8 word"
type_synonym uint64 = "64 word"
type_synonym slice = "byte list option"

text \<open>The bytes of a slice: nil reads as the empty sequence (\<open>len(nil) = 0\<close>).\<close>

definition sliceBytes :: "slice \<Rightarrow> byte list" where
  "sliceBytes s = (case s of None \<Rightarrow> [] | Some bs \<Rightarrow> bs)"

definition sliceLen :: "slice \<Rightarrow> nat" where
  "sliceLen s = length (sliceBytes s)"

text \<open>\<open>bytes.Equal\<close>: compares contents, a nil argument is equivalent to an empty slice.\<close>

definition bytesEqual :: "slice \<Rightarrow> slice \<Rightarrow> bool" where
  "bytesEqual a b \<longleftrightarrow> sliceBytes a = sliceBytes b"

datatype goerror =
    Errorf string
  | Wrapf string goerror
  | JoinErr goerror goerror

text \<open>\<open>errors.Is\<close>: the target occurs in the tree of wrapped errors.\<close>

fun errorsIs :: "goerror \<Rightarrow> goerror \<Rightarrow> bool" where
  "errorsIs (Errorf m) t \<longleftrightarrow> Errorf m = t"
| "errorsIs (Wrapf m e) t \<longleftrightarrow> Wrapf m e = t \<or> errorsIs e t"
| "errorsIs (JoinErr a b) t \<longleftrightarrow> JoinErr a b = t \<or> errorsIs a t \<or> errorsIs b t"

section \<open>Outcomes and computations\<close>

text \<open>
  The outcome of a call: \<open>Ok x\<close> (the error result is nil), \<open>Fail e\<close> (an error is returned)
  or \<open>Panics m\<close> (the goroutine panics: nil dereference, slice bounds, ...). A computation takes
  the state and returns the outcome and the state the call leaves behind: a Go function that
  returns an error keeps the assignments it made before.
\<close>

datatype 'a outcome = Ok 'a | Fail goerror | Panics string

type_synonym ('s, 'a) comp = "'s \<Rightarrow> 'a outcome \<times> 's"

definition ret :: "'a \<Rightarrow> ('s, 'a) comp" where
  "ret x = (\<lambda>s. (Ok x, s))"

definition fail :: "goerror \<Rightarrow> ('s, 'a) comp" where
  "fail e = (\<lambda>s. (Fail e, s))"

definition panic :: "string \<Rightarrow> ('s, 'a) comp" where
  "panic m = (\<lambda>s. (Panics m, s))"

text \<open>Sequencing with the early return of \<open>if err != nil \<lbrace> return err \<rbrace>\<close>.\<close>

definition andThen :: "('s, 'a) comp \<Rightarrow> ('a \<Rightarrow> ('s, 'b) comp) \<Rightarrow> ('s, 'b) comp" where
  "andThen m f = (\<lambda>s. case m s of
      (Ok x, s') \<Rightarrow> f x s'
    | (Fail e, s') \<Rightarrow> (Fail e, s')
    | (Panics p, s') \<Rightarrow> (Panics p, s'))"

definition andSeq :: "('s, 'a) comp \<Rightarrow> ('s, 'b) comp \<Rightarrow> ('s, 'b) comp" where
  "andSeq m k = andThen m (\<lambda>_. k)"

text \<open>The call with its error as a value, for callers that inspect \<open>err\<close> themselves.\<close>

definition attempt :: "('s, 'a) comp \<Rightarrow> ('s, goerror + 'a) comp" where
  "attempt m = (\<lambda>s. case m s of
      (Ok x, s') \<Rightarrow> (Ok (Inr x), s')
    | (Fail e, s') \<Rightarrow> (Ok (Inl e), s')
    | (Panics p, s') \<Rightarrow> (Panics p, s'))"

text \<open>\<open>return fmt.Errorf(msg + ": %w", err)\<close> around a call.\<close>

definition wrapErr :: "string \<Rightarrow> ('s, 'a) comp \<Rightarrow> ('s, 'a) comp" where
  "wrapErr msg m = (\<lambda>s. case m s of
      (Ok x, s') \<Rightarrow> (Ok x, s')
    | (Fail e, s') \<Rightarrow> (Fail (Wrapf msg e), s')
    | (Panics p, s') \<Rightarrow> (Panics p, s'))"

definition gets :: "('s \<Rightarrow> 'a) \<Rightarrow> ('s, 'a) comp" where
  "gets f = (\<lambda>s. (Ok (f s), s))"

definition modify :: "('s \<Rightarrow> 's) \<Rightarrow> ('s, unit) comp" where
  "modify f = (\<lambda>s. (Ok (), f s))"

text \<open>Pure results: \<open>(T, error)\<close> pairs, bare \<open>error\<close> results, pointer dereferences.\<close>

definition liftE :: "goerror + 'a \<Rightarrow> ('s, 'a) comp" where
  "liftE r = (case r of Inl e \<Rightarrow> fail e | Inr x \<Rightarrow> ret x)"

definition liftErr :: "goerror option \<Rightarrow> ('s, unit) comp" where
  "liftErr r = (case r of None \<Rightarrow> ret () | Some e \<Rightarrow> fail e)"

definition deref :: "'a option \<Rightarrow> ('s, 'a) comp" where
  "deref p = (case p of None \<Rightarrow> panic ''nil pointer dereference'' | Some x \<Rightarrow> ret x)"

definition liftOut :: "'a outcome \<Rightarrow> ('s, 'a) comp" where
  "liftOut r = (\<lambda>s. (r, s))"

text \<open>A call on a component: the computation runs on one field of the state.\<close>

definition zoom :: "('s \<Rightarrow> 't) \<Rightarrow> (('t \<Rightarrow> 't) \<Rightarrow> 's \<Rightarrow> 's) \<Rightarrow> ('t, 'a) comp \<Rightarrow> ('s, 'a) comp" where
  "zoom field upd m = (\<lambda>s. case m (field s) of (r, t) \<Rightarrow> (r, upd (\<lambda>_. t) s))"

text \<open>A method called on a local variable: its new value is the result.\<close>

definition onLocal :: "('t, unit) comp \<Rightarrow> 't \<Rightarrow> ('s, 't) comp" where
  "onLocal m x = (\<lambda>s. case m x of
      (Ok _, y) \<Rightarrow> (Ok y, s)
    | (Fail e, y) \<Rightarrow> (Fail e, s)
    | (Panics p, y) \<Rightarrow> (Panics p, s))"

text \<open>\<open>for _, x := range xs\<close> with an early return on the first error.\<close>

fun forEach :: "'a list \<Rightarrow> ('a \<Rightarrow> ('s, unit) comp) \<Rightarrow> ('s, unit) comp" where
  "forEach [] f = ret ()"
| "forEach (x # xs) f = andSeq (f x) (forEach xs f)"

section \<open>Weakest preconditions\<close>

text \<open>
  \<open>wp c m Q E s\<close>: run from \<open>s\<close>, a normal return satisfies \<open>Q\<close>, an error return satisfies
  \<open>E\<close>, and a panic is possible only if \<open>c\<close> holds. With \<open>c = False\<close> the statement includes that
  the computation does not panic.
\<close>

definition wp :: "bool \<Rightarrow> ('s, 'a) comp \<Rightarrow> ('a \<Rightarrow> 's \<Rightarrow> bool) \<Rightarrow> (goerror \<Rightarrow> 's \<Rightarrow> bool) \<Rightarrow> 's \<Rightarrow> bool"
  where
  "wp c m Q E s = (case m s of
      (Ok x, s') \<Rightarrow> Q x s'
    | (Fail e, s') \<Rightarrow> E e s'
    | (Panics p, s') \<Rightarrow> c)"

lemma errorsIs_refl [simp]: "errorsIs e e"
  by (cases e) auto

lemma sliceBytes_simps [simp]:
  "sliceBytes None = []" "sliceBytes (Some bs) = bs"
  by (simp_all add: sliceBytes_def)

lemma bytesEqual_refl [simp]: "bytesEqual a a"
  by (simp add: bytesEqual_def)

lemma bytesEqual_sym: "bytesEqual a b \<longleftrightarrow> bytesEqual b a"
  by (auto simp: bytesEqual_def)

lemma bytesEqual_trans: "bytesEqual a b \<Longrightarrow> bytesEqual b c \<Longrightarrow> bytesEqual a c"
  by (simp add: bytesEqual_def)

lemma bytesEqual_nil [simp]: "bytesEqual None (Some bs) \<longleftrightarrow> bs = []"
  "bytesEqual (Some bs) None \<longleftrightarrow> bs = []"
  by (auto simp: bytesEqual_def)

lemma bytesEqual_Some [simp]: "bytesEqual (Some as) (Some bs) \<longleftrightarrow> as = bs"
  by (simp add: bytesEqual_def)

lemmas comp_defs = ret_def fail_def panic_def andThen_def andSeq_def attempt_def wrapErr_def
  gets_def modify_def liftE_def liftErr_def deref_def liftOut_def zoom_def onLocal_def

lemma wp_ret [wp_rules]: "wp c (ret x) Q E s = Q x s"
  by (simp add: wp_def ret_def)

lemma wp_fail [wp_rules]: "wp c (fail e) Q E s = E e s"
  by (simp add: wp_def fail_def)

lemma wp_panic [wp_rules]: "wp c (panic p) Q E s = c"
  by (simp add: wp_def panic_def)

lemma wp_andThen [wp_rules]:
  "wp c (andThen m f) Q E s = wp c m (\<lambda>x. wp c (f x) Q E) E s"
  by (auto simp: wp_def andThen_def split: outcome.splits prod.splits)

lemma wp_andSeq [wp_rules]: "wp c (andSeq m k) Q E s = wp c m (\<lambda>_. wp c k Q E) E s"
  by (simp add: andSeq_def wp_andThen)

lemma wp_attempt [wp_rules]:
  "wp c (attempt m) Q E s = wp c m (\<lambda>x. Q (Inr x)) (\<lambda>e. Q (Inl e)) s"
  by (auto simp: wp_def attempt_def split: outcome.splits prod.splits)

lemma wp_wrapErr [wp_rules]:
  "wp c (wrapErr msg m) Q E s = wp c m Q (\<lambda>e. E (Wrapf msg e)) s"
  by (auto simp: wp_def wrapErr_def split: outcome.splits prod.splits)

lemma wp_gets [wp_rules]: "wp c (gets f) Q E s = Q (f s) s"
  by (simp add: wp_def gets_def)

lemma wp_modify [wp_rules]: "wp c (modify f) Q E s = Q () (f s)"
  by (simp add: wp_def modify_def)

lemma wp_liftE [wp_rules]:
  "wp c (liftE r) Q E s = (case r of Inl e \<Rightarrow> E e s | Inr x \<Rightarrow> Q x s)"
  by (simp add: liftE_def wp_rules split: sum.splits)

lemma wp_liftErr [wp_rules]:
  "wp c (liftErr r) Q E s = (case r of None \<Rightarrow> Q () s | Some e \<Rightarrow> E e s)"
  by (simp add: liftErr_def wp_rules split: option.splits)

lemma wp_deref [wp_rules]:
  "wp c (deref p) Q E s = (case p of None \<Rightarrow> c | Some x \<Rightarrow> Q x s)"
  by (simp add: deref_def wp_rules split: option.splits)

lemma wp_liftOut [wp_rules]:
  "wp c (liftOut r) Q E s = (case r of Ok x \<Rightarrow> Q x s | Fail e \<Rightarrow> E e s | Panics p \<Rightarrow> c)"
  by (simp add: wp_def liftOut_def split: outcome.splits)

lemma wp_zoom [wp_rules]:
  "wp c (zoom field upd m) Q E s =
     wp c m (\<lambda>x t. Q x (upd (\<lambda>_. t) s)) (\<lambda>e t. E e (upd (\<lambda>_. t) s)) (field s)"
  by (auto simp: wp_def zoom_def split: outcome.splits prod.splits)

lemma wp_onLocal [wp_rules]:
  "wp c (onLocal m x) Q E s = wp c m (\<lambda>_ y. Q y s) (\<lambda>e _. E e s) x"
  by (auto simp: wp_def onLocal_def split: outcome.splits prod.splits)

lemma wp_if [wp_rules]:
  "wp c (if b then m else k) Q E s = (if b then wp c m Q E s else wp c k Q E s)"
  by simp

lemma wp_case_option [wp_rules]:
  "wp c (case x of None \<Rightarrow> m | Some y \<Rightarrow> k y) Q E s =
    (case x of None \<Rightarrow> wp c m Q E s | Some y \<Rightarrow> wp c (k y) Q E s)"
  by (simp split: option.splits)

lemma wp_case_sum [wp_rules]:
  "wp c (case x of Inl e \<Rightarrow> m e | Inr y \<Rightarrow> k y) Q E s =
    (case x of Inl e \<Rightarrow> wp c (m e) Q E s | Inr y \<Rightarrow> wp c (k y) Q E s)"
  by (simp split: sum.splits)

text \<open>Consequence: a proved specification of a call is used for any weaker postcondition.\<close>

lemma wp_mono:
  assumes "wp c m Q E s"
    and "\<And>x t. Q x t \<Longrightarrow> Q' x t" and "\<And>e t. E e t \<Longrightarrow> E' e t" and "c \<Longrightarrow> c'"
  shows "wp c' m Q' E' s"
  using assms by (auto simp: wp_def split: outcome.splits prod.splits)

lemma wp_conj:
  "wp c m Q E s \<Longrightarrow> wp c m Q' E' s \<Longrightarrow>
    wp c m (\<lambda>x t. Q x t \<and> Q' x t) (\<lambda>e t. E e t \<and> E' e t) s"
  by (auto simp: wp_def split: outcome.splits prod.splits)

text \<open>Reading a specification back as facts about one run.\<close>

lemma wp_Ok: "wp c m Q E s \<Longrightarrow> m s = (Ok x, t) \<Longrightarrow> Q x t"
  by (simp add: wp_def)

lemma wp_Fail: "wp c m Q E s \<Longrightarrow> m s = (Fail e, t) \<Longrightarrow> E e t"
  by (simp add: wp_def)

lemma wp_no_panic: "wp False m Q E s \<Longrightarrow> fst (m s) \<noteq> Panics p"
  by (auto simp: wp_def split: outcome.splits prod.splits)

lemma wp_snd: "wp False m (\<lambda>_. I) (\<lambda>_. I) s \<Longrightarrow> I (snd (m s))"
  by (cases "m s"; cases "fst (m s)") (auto simp: wp_def)

lemma wp_forEach_inv:
  assumes "I s" and "\<And>x t. x \<in> set xs \<Longrightarrow> I t \<Longrightarrow> wp c (f x) (\<lambda>_. I) (\<lambda>_. I) t"
  shows "wp c (forEach xs f) (\<lambda>_. I) (\<lambda>_. I) s"
  using assms
proof (induction xs arbitrary: s)
  case Nil
  then show ?case by (simp add: wp_rules)
next
  case (Cons x xs)
  have "wp c (f x) (\<lambda>_. I) (\<lambda>_. I) s"
    using Cons.prems by simp
  then have "wp c (f x) (\<lambda>_. wp c (forEach xs f) (\<lambda>_. I) (\<lambda>_. I)) (\<lambda>_. I) s"
    by (rule wp_mono) (use Cons.IH Cons.prems(2) in auto)
  then show ?case by (simp add: wp_rules)
qed

text \<open>A loop of pure checks stops at the first element that fails its check.\<close>

lemma wp_forEach_liftErr [wp_rules]:
  "wp c (forEach xs (\<lambda>x. liftErr (f x))) Q E s =
    (case find (\<lambda>x. f x \<noteq> None) xs of None \<Rightarrow> Q () s | Some x \<Rightarrow> E (the (f x)) s)"
  by (induction xs) (auto simp: wp_rules split: option.splits)

section \<open>Computations that keep a predicate\<close>

text \<open>
  \<open>keeps J m\<close>: from a state with \<open>J\<close> the computation does not panic and \<open>J\<close> holds afterwards, on a
  normal and on an error return. Handlers are composed of such calls; the collection \<open>keeps_rules\<close>
  takes a handler apart.
\<close>

named_theorems keeps_rules \<open>composition of computations that keep a predicate\<close>

definition keeps :: "('s \<Rightarrow> bool) \<Rightarrow> ('s, 'a) comp \<Rightarrow> bool" where
  "keeps J m \<longleftrightarrow> (\<forall>s. J s \<longrightarrow> wp False m (\<lambda>_. J) (\<lambda>_. J) s)"

lemma keepsD: "keeps J m \<Longrightarrow> J s \<Longrightarrow> wp False m (\<lambda>_. J) (\<lambda>_. J) s"
  by (simp add: keeps_def)

lemma keepsI: "(\<And>s. J s \<Longrightarrow> wp False m (\<lambda>_. J) (\<lambda>_. J) s) \<Longrightarrow> keeps J m"
  by (simp add: keeps_def)

lemma keeps_ret [keeps_rules]: "keeps J (ret x)"
  by (simp add: keeps_def wp_rules)

lemma keeps_fail [keeps_rules]: "keeps J (fail e)"
  by (simp add: keeps_def wp_rules)

lemma keeps_gets [keeps_rules]: "keeps J (gets f)"
  by (simp add: keeps_def wp_rules)

lemma keeps_liftE [keeps_rules]: "keeps J (liftE r)"
  by (simp add: keeps_def wp_rules split: sum.splits)

lemma keeps_liftErr [keeps_rules]: "keeps J (liftErr r)"
  by (simp add: keeps_def wp_rules split: option.splits)

lemma keeps_modify: "(\<And>s. J s \<Longrightarrow> J (f s)) \<Longrightarrow> keeps J (modify f)"
  by (simp add: keeps_def wp_rules)

lemma keeps_andThen [keeps_rules]:
  "keeps J m \<Longrightarrow> (\<And>x. keeps J (f x)) \<Longrightarrow> keeps J (andThen m f)"
  unfolding keeps_def wp_andThen by (blast intro: wp_mono)

lemma keeps_andSeq [keeps_rules]: "keeps J m \<Longrightarrow> keeps J k \<Longrightarrow> keeps J (andSeq m k)"
  by (simp add: andSeq_def keeps_andThen)

lemma keeps_attempt [keeps_rules]: "keeps J m \<Longrightarrow> keeps J (attempt m)"
  by (simp add: keeps_def wp_rules)

lemma keeps_wrapErr [keeps_rules]: "keeps J m \<Longrightarrow> keeps J (wrapErr w m)"
  by (simp add: keeps_def wp_rules)

lemma keeps_if [keeps_rules]:
  "(b \<Longrightarrow> keeps J m) \<Longrightarrow> (\<not> b \<Longrightarrow> keeps J k) \<Longrightarrow> keeps J (if b then m else k)"
  by simp

lemma keeps_case_option [keeps_rules]:
  "(x = None \<Longrightarrow> keeps J m) \<Longrightarrow> (\<And>y. x = Some y \<Longrightarrow> keeps J (f y)) \<Longrightarrow>
     keeps J (case x of None \<Rightarrow> m | Some y \<Rightarrow> f y)"
  by (simp split: option.splits)

lemma keeps_case_sum [keeps_rules]:
  "(\<And>e. x = Inl e \<Longrightarrow> keeps J (f e)) \<Longrightarrow> (\<And>y. x = Inr y \<Longrightarrow> keeps J (g y)) \<Longrightarrow>
     keeps J (case x of Inl e \<Rightarrow> f e | Inr y \<Rightarrow> g y)"
  by (simp split: sum.splits)

lemma keeps_forEach [keeps_rules]:
  "(\<And>x. x \<in> set xs \<Longrightarrow> keeps J (f x)) \<Longrightarrow> keeps J (forEach xs f)"
  by (induction xs) (simp_all add: keeps_ret keeps_andSeq)

text \<open>A call whose specification is known in a state, followed by code that keeps \<open>J\<close>.\<close>

lemma wp_then_keeps:
  assumes "wp False m (\<lambda>_. J) (\<lambda>_. J) s" and "\<And>x. keeps J (f x)"
  shows "wp False (andThen m f) (\<lambda>_. J) (\<lambda>_. J) s"
  unfolding wp_andThen by (rule wp_mono [OF assms(1)]) (use assms(2) in \<open>auto simp: keeps_def\<close>)

section \<open>From one predicate to a weaker one\<close>

text \<open>
  Code that starts under \<open>J\<close> and ends under a weaker \<open>K\<close>: calls that keep \<open>J\<close>, up to one that gives
  it up.
\<close>

definition leads :: "('s \<Rightarrow> bool) \<Rightarrow> ('s \<Rightarrow> bool) \<Rightarrow> ('s, 'a) comp \<Rightarrow> bool" where
  "leads J K m \<longleftrightarrow> (\<forall>s. J s \<longrightarrow> K s) \<and> (\<forall>s. J s \<longrightarrow> wp False m (\<lambda>_. K) (\<lambda>_. K) s)"

named_theorems leads_rules \<open>composition of computations that weaken a predicate\<close>

lemma leadsI: "(\<And>s. J s \<Longrightarrow> K s) \<Longrightarrow> (\<And>s. J s \<Longrightarrow> wp False m (\<lambda>_. K) (\<lambda>_. K) s) \<Longrightarrow> leads J K m"
  by (simp add: leads_def)

lemma leadsD: "leads J K m \<Longrightarrow> J s \<Longrightarrow> wp False m (\<lambda>_. K) (\<lambda>_. K) s"
  by (simp add: leads_def)

lemma leads_keeps: "(\<And>s. J s \<Longrightarrow> K s) \<Longrightarrow> keeps J m \<Longrightarrow> leads J K m"
  by (auto simp: leads_def keeps_def elim!: wp_mono)

lemma leads_ret [leads_rules]: "(\<And>s. J s \<Longrightarrow> K s) \<Longrightarrow> leads J K (ret x)"
  by (simp add: leads_def wp_ret)

lemma leads_fail [leads_rules]: "(\<And>s. J s \<Longrightarrow> K s) \<Longrightarrow> leads J K (fail e)"
  by (simp add: leads_def wp_fail)

lemma leads_andThen [leads_rules]:
  assumes "keeps J m" and "\<And>x. leads J K (f x)"
  shows "leads J K (andThen m f)"
  using assms unfolding leads_def keeps_def wp_andThen by (auto elim!: wp_mono)

lemma leads_andSeq [leads_rules]: "keeps J m \<Longrightarrow> leads J K k \<Longrightarrow> leads J K (andSeq m k)"
  unfolding andSeq_def by (rule leads_andThen)

lemma leads_if [leads_rules]: "(b \<Longrightarrow> leads J K m) \<Longrightarrow> (\<not> b \<Longrightarrow> leads J K k) \<Longrightarrow> leads J K (if b then m else k)"
  by simp

lemma leads_case_sum [leads_rules]:
  "(\<And>e. x = Inl e \<Longrightarrow> leads J K (f e)) \<Longrightarrow> (\<And>v. x = Inr v \<Longrightarrow> leads J K (g v)) \<Longrightarrow>
     leads J K (case x of Inl e \<Rightarrow> f e | Inr v \<Rightarrow> g v)"
  by (cases x) auto

lemma leads_case_option [leads_rules]:
  "(x = None \<Longrightarrow> leads J K m) \<Longrightarrow> (\<And>v. x = Some v \<Longrightarrow> leads J K (g v)) \<Longrightarrow>
     leads J K (case x of None \<Rightarrow> m | Some v \<Rightarrow> g v)"
  by (cases x) auto

section \<open>Successful runs\<close>

text \<open>Running through calls that are known to succeed.\<close>

lemma forEach_step: "f x s = (Ok u, s') \<Longrightarrow> forEach (x # xs) f s = forEach xs f s'"
  by (simp add: andSeq_def andThen_def)

lemma wrapErr_step: "m s = (Ok u, s') \<Longrightarrow> wrapErr w m s = (Ok u, s')"
  by (simp add: wrapErr_def)

lemma andSeq_step: "m s = (Ok u, s') \<Longrightarrow> andSeq m k s = k s'"
  by (simp add: andSeq_def andThen_def)

lemma andThen_step: "m s = (Ok x, s') \<Longrightarrow> andThen m f s = f x s'"
  by (simp add: andThen_def)

lemmas run_steps = forEach_step wrapErr_step andSeq_step andThen_step

text \<open>
  When a computation returns normally, every call on its path did: the collection \<open>run_Ok\<close> turns
  \<open>m s = (Ok x, t)\<close> into the chain of results that led there.
\<close>

named_theorems run_Ok \<open>characterisation of successful runs\<close>

lemma run_Ok_basic [run_Ok]:
  "ret y s = (Ok x, t) \<longleftrightarrow> y = x \<and> s = t"
  "fail e s = (Ok x, t) \<longleftrightarrow> False"
  "panic p s = (Ok x, t) \<longleftrightarrow> False"
  "gets f s = (Ok x, t) \<longleftrightarrow> f s = x \<and> s = t"
  "modify g s = (Ok u, t) \<longleftrightarrow> g s = t"
  by (auto simp: ret_def fail_def panic_def gets_def modify_def)

lemma run_Ok_andThen [run_Ok]:
  "andThen m f s = (Ok x, t) \<longleftrightarrow> (\<exists>y s'. m s = (Ok y, s') \<and> f y s' = (Ok x, t))"
  by (auto simp: andThen_def split: outcome.splits prod.splits)

lemma run_Ok_andSeq [run_Ok]:
  "andSeq m k s = (Ok x, t) \<longleftrightarrow> (\<exists>y s'. m s = (Ok y, s') \<and> k s' = (Ok x, t))"
  by (simp add: andSeq_def run_Ok_andThen)

lemma run_Ok_wrapErr [run_Ok]: "wrapErr msg m s = (Ok x, t) \<longleftrightarrow> m s = (Ok x, t)"
  by (auto simp: wrapErr_def split: outcome.splits prod.splits)

lemma run_Ok_lift [run_Ok]:
  "liftE r s = (Ok y, t) \<longleftrightarrow> r = Inr y \<and> s = t"
  "liftErr q s = (Ok u, t) \<longleftrightarrow> q = None \<and> s = t"
  "deref p s = (Ok y, t) \<longleftrightarrow> p = Some y \<and> s = t"
  by (auto simp: liftE_def liftErr_def deref_def ret_def fail_def panic_def
      split: sum.splits option.splits)

lemma run_Ok_liftOut [run_Ok]: "liftOut r s = (Ok x, t) \<longleftrightarrow> r = Ok x \<and> s = t"
  by (auto simp: liftOut_def)

lemma run_Ok_zoom [run_Ok]:
  "zoom field upd m s = (Ok x, t) \<longleftrightarrow> (\<exists>u. m (field s) = (Ok x, u) \<and> t = upd (\<lambda>_. u) s)"
  by (auto simp: zoom_def split: prod.splits)

lemma attempt_Ok: "attempt m s = (Ok r, t) \<longleftrightarrow> (\<exists>x. r = Inr x \<and> m s = (Ok x, t)) \<or> (\<exists>e. r = Inl e \<and> m s = (Fail e, t))"
  by (auto simp: attempt_def split: prod.splits outcome.splits)

lemma run_Ok_if [run_Ok]:
  "(if b then m else k) s = (Ok x, t) \<longleftrightarrow> (b \<and> m s = (Ok x, t)) \<or> (\<not> b \<and> k s = (Ok x, t))"
  by simp

lemma run_Ok_forEach_liftErr [run_Ok]:
  "forEach xs (\<lambda>x. liftErr (f x)) s = (Ok u, t) \<longleftrightarrow> s = t \<and> (\<forall>x\<in>set xs. f x = None)"
  by (induction xs) (auto simp: run_Ok)

section \<open>Fields that code leaves alone\<close>

definition leaves :: "('s \<Rightarrow> 'v) \<Rightarrow> ('s, 'a) comp \<Rightarrow> bool" where
  "leaves f m \<longleftrightarrow> (\<forall>s. wp True m (\<lambda>_ t. f t = f s) (\<lambda>_ t. f t = f s) s)"

named_theorems leaves_rules \<open>composition of code that leaves a field alone\<close>

lemma leavesD: "leaves f m \<Longrightarrow> m s = (Ok x, t) \<Longrightarrow> f t = f s"
  unfolding leaves_def by (rule wp_Ok) blast

lemma leaves_pure [leaves_rules]:
  "leaves f (ret x)" "leaves f (fail e)" "leaves f (gets g)" "leaves f (liftE r)" "leaves f (liftErr q)"
  "leaves f (deref p)" "leaves f (liftOut o')"
  by (auto simp: leaves_def wp_rules split: sum.splits option.splits outcome.splits)

lemma leaves_onLocal [leaves_rules]: "leaves f (onLocal m p)"
  by (auto simp: leaves_def wp_onLocal) (auto simp: wp_def split: prod.splits outcome.splits)

lemma leaves_modify: "(\<And>s. f (h s) = f s) \<Longrightarrow> leaves f (modify h)"
  by (simp add: leaves_def wp_modify)

lemma leaves_zoom: "(\<And>s x. f (put (\<lambda>_. x) s) = f s) \<Longrightarrow> leaves f (zoom get put m)"
  by (auto simp: leaves_def wp_zoom) (auto simp: wp_def split: prod.splits outcome.splits)

lemma leaves_andThen [leaves_rules]:
  assumes "leaves f m" and "\<And>x. leaves f (k x)"
  shows "leaves f (andThen m k)"
  unfolding leaves_def
proof
  fix s
  have rest: "wp True (k x) (\<lambda>_ u. f u = f s) (\<lambda>_ u. f u = f s) t" if "f t = f s" for x t
  proof -
    have "wp True (k x) (\<lambda>_ u. f u = f t) (\<lambda>_ u. f u = f t) t" using assms(2) by (simp add: leaves_def)
    then show ?thesis unfolding that .
  qed
  have "wp True m (\<lambda>_ t. f t = f s) (\<lambda>_ t. f t = f s) s" using assms(1) by (simp add: leaves_def)
  then show "wp True (andThen m k) (\<lambda>_ t. f t = f s) (\<lambda>_ t. f t = f s) s"
    unfolding wp_andThen by (rule wp_mono) (auto intro: rest)
qed

lemma leaves_andSeq [leaves_rules]: "leaves f m \<Longrightarrow> leaves f k \<Longrightarrow> leaves f (andSeq m k)"
  unfolding andSeq_def by (rule leaves_andThen)

lemma leaves_attempt [leaves_rules]: "leaves f m \<Longrightarrow> leaves f (attempt m)"
  by (simp add: leaves_def wp_attempt)

lemma leaves_wrapErr [leaves_rules]: "leaves f m \<Longrightarrow> leaves f (wrapErr w m)"
  by (simp add: leaves_def wp_wrapErr)

lemma leaves_if [leaves_rules]: "leaves f m \<Longrightarrow> leaves f k \<Longrightarrow> leaves f (if b then m else k)"
  by simp

lemma leaves_cases [leaves_rules]:
  "leaves f m \<Longrightarrow> (\<And>v. leaves f (g v)) \<Longrightarrow> leaves f (case p of None \<Rightarrow> m | Some v \<Rightarrow> g v)"
  "(\<And>e. leaves f (h e)) \<Longrightarrow> (\<And>w. leaves f (k w)) \<Longrightarrow> leaves f (case r of Inl e \<Rightarrow> h e | Inr w \<Rightarrow> k w)"
  "(\<And>a b. leaves f (l a b)) \<Longrightarrow> leaves f (case q of (a, b) \<Rightarrow> l a b)"
  "leaves f m' \<Longrightarrow> (\<And>x xs. leaves f (c x xs)) \<Longrightarrow> leaves f (case ys of [] \<Rightarrow> m' | x # xs \<Rightarrow> c x xs)"
  by (simp_all split: option.splits sum.splits prod.splits list.splits)

section \<open>Independence of a part of the state\<close>

text \<open>
  A computation that neither reads nor writes what \<open>f\<close> changes gives the same result before and
  after \<open>f\<close>.
\<close>

definition commutes :: "('s \<Rightarrow> 's) \<Rightarrow> ('s, 'a) comp \<Rightarrow> bool" where
  "commutes f m \<longleftrightarrow> (\<forall>s. m (f s) = map_prod id f (m s))"

named_theorems commutes_rules \<open>composition of computations that commute with an update\<close>

lemma commutesD: "commutes f m \<Longrightarrow> m (f s) = map_prod id f (m s)"
  by (simp add: commutes_def)

lemma commutes_basic [commutes_rules]:
  "commutes f (ret x)" "commutes f (fail e)" "commutes f (panic p)" "commutes f (liftE r)"
  "commutes f (liftErr q)" "commutes f (deref d)" "commutes f (liftOut u)"
  by (auto simp: commutes_def ret_def fail_def panic_def liftE_def liftErr_def deref_def liftOut_def
      split: sum.splits option.splits)

lemma commutes_gets [commutes_rules]: "(\<And>s. g (f s) = g s) \<Longrightarrow> commutes f (gets g)"
  by (simp add: commutes_def gets_def)

lemma commutes_modify [commutes_rules]: "(\<And>s. g (f s) = f (g s)) \<Longrightarrow> commutes f (modify g)"
  by (simp add: commutes_def modify_def)

lemma commutes_andThen [commutes_rules]:
  "commutes f m \<Longrightarrow> (\<And>x. commutes f (k x)) \<Longrightarrow> commutes f (andThen m k)"
  by (simp add: commutes_def andThen_def split: prod.splits outcome.splits)

lemma commutes_andSeq [commutes_rules]: "commutes f m \<Longrightarrow> commutes f k \<Longrightarrow> commutes f (andSeq m k)"
  unfolding andSeq_def by (rule commutes_andThen)

lemma commutes_attempt [commutes_rules]: "commutes f m \<Longrightarrow> commutes f (attempt m)"
  by (simp add: commutes_def attempt_def split: prod.splits outcome.splits)

lemma commutes_wrapErr [commutes_rules]: "commutes f m \<Longrightarrow> commutes f (wrapErr w m)"
  by (simp add: commutes_def wrapErr_def split: prod.splits outcome.splits)

lemma commutes_zoom:
  "(\<And>s. field (f s) = field s) \<Longrightarrow> (\<And>s u. upd u (f s) = f (upd u s)) \<Longrightarrow> commutes f (zoom field upd m)"
  by (simp add: commutes_def zoom_def split: prod.splits)

lemma commutes_if [commutes_rules]:
  "(b \<Longrightarrow> commutes f m) \<Longrightarrow> (\<not> b \<Longrightarrow> commutes f k) \<Longrightarrow> commutes f (if b then m else k)"
  by simp

lemma commutes_case_option [commutes_rules]:
  "commutes f m \<Longrightarrow> (\<And>y. commutes f (g y)) \<Longrightarrow> commutes f (case x of None \<Rightarrow> m | Some y \<Rightarrow> g y)"
  by (cases x) simp_all

lemma commutes_case_sum [commutes_rules]:
  "(\<And>e. commutes f (g e)) \<Longrightarrow> (\<And>y. commutes f (h y)) \<Longrightarrow> commutes f (case x of Inl e \<Rightarrow> g e | Inr y \<Rightarrow> h y)"
  by (cases x) simp_all

lemma commutes_case_list [commutes_rules]:
  "commutes f m \<Longrightarrow> (\<And>y ys. commutes f (g y ys)) \<Longrightarrow> commutes f (case xs of [] \<Rightarrow> m | y # ys \<Rightarrow> g y ys)"
  by (cases xs) simp_all

end
