(* ===== verification/GoStd.thy ===== *)
theory GoStd
  imports Prelude "HOL-Library.Multiset"
begin

text \<open>
  The parts of the Go standard library the sources call, as executable functions:
  \<open>encoding/hex\<close> (\<open>EncodeToString\<close>, \<open>DecodeString\<close>), \<open>strconv.ParseUint\<close> in base 10,
  \<open>encoding/binary\<close> (big-endian \<open>uint64\<close> and unsigned varints), \<open>math/big\<close> reading of a
  big-endian byte string, and \<open>math/rand.Shuffle\<close>. The lemmas are the round trips and
  characterisations the components rely on.
\<close>

section \<open>encoding/hex\<close>

definition hextable :: string where
  "hextable = ''0123456789abcdef''"

definition hexByte :: "byte \<Rightarrow> string" where
  "hexByte b = [hextable ! (unat b div 16), hextable ! (unat b mod 16)]"

definition hexEncodeToString :: "byte list \<Rightarrow> string" where
  "hexEncodeToString bs = concat (map hexByte bs)"

text \<open>\<open>fromHexChar\<close>: both letter cases are accepted.\<close>

definition fromHexChar :: "char \<Rightarrow> nat option" where
  "fromHexChar c = (let n = of_char c :: nat in
     if 48 \<le> n \<and> n \<le> 57 then Some (n - 48)
     else if 97 \<le> n \<and> n \<le> 102 then Some (n - 97 + 10)
     else if 65 \<le> n \<and> n \<le> 70 then Some (n - 65 + 10)
     else None)"

definition hexInvalidByteError :: goerror where
  "hexInvalidByteError = Errorf ''encoding/hex: invalid byte''"

definition hexErrLength :: goerror where
  "hexErrLength = Errorf ''encoding/hex: odd length hex string''"

fun hexDecodeString :: "string \<Rightarrow> goerror + byte list" where
  "hexDecodeString [] = Inr []"
| "hexDecodeString [c] =
     (case fromHexChar c of None \<Rightarrow> Inl hexInvalidByteError | Some _ \<Rightarrow> Inl hexErrLength)"
| "hexDecodeString (p # q # cs) =
     (case fromHexChar p of None \<Rightarrow> Inl hexInvalidByteError
      | Some a \<Rightarrow> (case fromHexChar q of None \<Rightarrow> Inl hexInvalidByteError
        | Some b \<Rightarrow> (case hexDecodeString cs of Inl e \<Rightarrow> Inl e
          | Inr bs \<Rightarrow> Inr (of_nat (16 * a + b) # bs))))"

section \<open>strconv.ParseUint(s, 10, 64)\<close>

definition errSyntax :: goerror where
  "errSyntax = Errorf ''invalid syntax''"

definition errRange :: goerror where
  "errRange = Errorf ''value out of range''"

definition digitVal :: "char \<Rightarrow> nat option" where
  "digitVal c = (let n = of_char c :: nat in if 48 \<le> n \<and> n \<le> 57 then Some (n - 48) else None)"

text \<open>
  The loop keeps \<open>n\<close> and stops with a range error before a multiplication (\<open>cutoff\<close>) or an
  addition would leave 64 bits, so no step wraps and the accumulator is a natural number.
\<close>

definition parseCutoff :: nat where
  "parseCutoff = (2 ^ 64 - 1) div 10 + 1"

fun parseUintLoop :: "nat \<Rightarrow> string \<Rightarrow> goerror + nat" where
  "parseUintLoop n [] = Inr n"
| "parseUintLoop n (c # cs) =
     (case digitVal c of None \<Rightarrow> Inl errSyntax
      | Some d \<Rightarrow>
          if n \<ge> parseCutoff then Inl errRange
          else if n * 10 + d \<ge> 2 ^ 64 then Inl errRange
          else parseUintLoop (n * 10 + d) cs)"

definition parseUint :: "string \<Rightarrow> goerror + uint64" where
  "parseUint s = (if s = [] then Inl errSyntax
     else case parseUintLoop 0 s of Inl e \<Rightarrow> Inl e | Inr n \<Rightarrow> Inr (of_nat n))"

text \<open>The number a digit string denotes.\<close>

fun decimalValue :: "nat \<Rightarrow> string \<Rightarrow> nat" where
  "decimalValue n [] = n"
| "decimalValue n (c # cs) =
     decimalValue (n * 10 + (case digitVal c of None \<Rightarrow> 0 | Some d \<Rightarrow> d)) cs"

definition allDigits :: "string \<Rightarrow> bool" where
  "allDigits s \<longleftrightarrow> list_all (\<lambda>c. digitVal c \<noteq> None) s"

section \<open>encoding/binary\<close>

text \<open>Big-endian digits of a number in base 256, most significant first.\<close>

fun natToBytes :: "nat \<Rightarrow> nat \<Rightarrow> byte list" where
  "natToBytes 0 n = []"
| "natToBytes (Suc k) n = natToBytes k (n div 256) @ [of_nat (n mod 256)]"

definition bytesToNat :: "byte list \<Rightarrow> nat" where
  "bytesToNat bs = foldl (\<lambda>n b. n * 256 + unat b) 0 bs"

definition putUint64BE :: "uint64 \<Rightarrow> byte list" where
  "putUint64BE v = natToBytes 8 (unat v)"

text \<open>\<open>binary.BigEndian.Uint64(b)\<close> reads \<open>b[0..7]\<close> and panics on a shorter slice.\<close>

definition uint64BE :: "byte list \<Rightarrow> uint64 outcome" where
  "uint64BE bs = (if length bs < 8 then Panics ''index out of range''
     else Ok (of_nat (bytesToNat (take 8 bs))))"

definition ioEOF :: goerror where
  "ioEOF = Errorf ''EOF''"

definition ioErrUnexpectedEOF :: goerror where
  "ioErrUnexpectedEOF = Errorf ''unexpected EOF''"

definition errVarintOverflow :: goerror where
  "errVarintOverflow = Errorf ''binary: varint overflows a 64-bit integer''"

fun putUvarint :: "nat \<Rightarrow> byte list" where
  "putUvarint x =
     (if x \<ge> 128 then of_nat (x mod 128 + 128) # putUvarint (x div 128) else [of_nat x])"

declare putUvarint.simps [simp del]

text \<open>
  \<open>binary.ReadUvarint\<close>, at byte \<open>i\<close> with the groups read so far in \<open>x\<close>: the groups occupy
  disjoint bits, so the \<open>|=\<close> of the source is an addition. The result carries the rest of the input;
  \<open>ende\<close> is the error the reader returns once its bytes are exhausted (\<open>io.EOF\<close> for a closed stream).
\<close>

fun readUvarintAt :: "goerror \<Rightarrow> nat \<Rightarrow> nat \<Rightarrow> byte list \<Rightarrow> goerror + (uint64 \<times> byte list)" where
  "readUvarintAt ende i x [] = Inl (if i > 0 \<and> ende = ioEOF then ioErrUnexpectedEOF else ende)"
| "readUvarintAt ende i x (b # bs) =
     (if i \<ge> 10 then Inl errVarintOverflow
      else if unat b < 128 then
        (if i = 9 \<and> unat b > 1 then Inl errVarintOverflow
         else Inr (of_nat (x + unat b * 2 ^ (7 * i)), bs))
      else if i = 9 then Inl errVarintOverflow
      else readUvarintAt ende (Suc i) (x + (unat b mod 128) * 2 ^ (7 * i)) bs)"

definition readUvarint :: "goerror \<Rightarrow> byte list \<Rightarrow> goerror + (uint64 \<times> byte list)" where
  "readUvarint ende bs = readUvarintAt ende 0 0 bs"

section \<open>math/rand.Shuffle\<close>

definition swapAt :: "nat \<Rightarrow> nat \<Rightarrow> 'a list \<Rightarrow> 'a list" where
  "swapAt i j xs = xs[i := xs ! j, j := xs ! i]"

text \<open>
  \<open>for i := n-1; i > 0; i-- \<lbrace> j := r.int31n(i+1); swap(i, j) \<rbrace>\<close>; the random source is a
  parameter, reduced to the range \<open>[0, i]\<close> that \<open>int31n(i+1)\<close> returns.
\<close>

fun shuffleFrom :: "(nat \<Rightarrow> nat) \<Rightarrow> nat \<Rightarrow> 'a list \<Rightarrow> 'a list" where
  "shuffleFrom rnd 0 xs = xs"
| "shuffleFrom rnd (Suc i) xs =
     shuffleFrom rnd i (swapAt (Suc i) (rnd (Suc i) mod Suc (Suc i)) xs)"

definition randShuffle :: "(nat \<Rightarrow> nat) \<Rightarrow> 'a list \<Rightarrow> 'a list" where
  "randShuffle rnd xs = shuffleFrom rnd (length xs - 1) xs"

section \<open>Lemmas\<close>

lemma hextable_fromHexChar: "n < 16 \<Longrightarrow> fromHexChar (hextable ! n) = Some n"
proof -
  assume "n < 16"
  then have "n \<in> set [0,1,2,3,4,5,6,7,8,9,10,11,12,13,14,15]" by (simp, arith)
  then show ?thesis by (auto simp: hextable_def fromHexChar_def)
qed

lemma byte_lt_256: "unat (b :: byte) < 256"
  using unsigned_less [of b, where ?'a = nat] by simp

lemma hexDecode_hexByte:
  "hexDecodeString (hexByte b @ cs) =
     (case hexDecodeString cs of Inl e \<Rightarrow> Inl e | Inr bs \<Rightarrow> Inr (b # bs))"
proof -
  have d: "unat b div 16 < 16" using byte_lt_256 [of b] by arith
  have m: "unat b mod 16 < 16" by simp
  have "16 * (unat b div 16) + unat b mod 16 = unat b" by simp
  then have "of_nat (16 * (unat b div 16) + unat b mod 16) = b"
    by (simp del: of_nat_add of_nat_mult)
  with d m show ?thesis
    by (simp add: hexByte_def hextable_fromHexChar del: of_nat_add of_nat_mult split: sum.splits)
qed

lemma hexDecode_hexEncode: "hexDecodeString (hexEncodeToString bs) = Inr bs"
proof (induction bs)
  case Nil
  then show ?case by (simp add: hexEncodeToString_def)
next
  case (Cons b bs)
  then show ?case by (simp add: hexEncodeToString_def hexDecode_hexByte)
qed

lemma hexEncode_inject: "hexEncodeToString as = hexEncodeToString bs \<longleftrightarrow> as = bs"
  by (metis hexDecode_hexEncode sum.inject(2))

text \<open>Encoding what was decoded gives the lower-case spelling back.\<close>

definition lowerHex :: "char \<Rightarrow> char" where
  "lowerHex c = (case fromHexChar c of None \<Rightarrow> c | Some n \<Rightarrow> hextable ! n)"

lemma fromHexChar_lt: "fromHexChar c = Some n \<Longrightarrow> n < 16"
  by (auto simp: fromHexChar_def Let_def split: if_splits)

lemma hexByte_of_digits:
  "a < 16 \<Longrightarrow> b < 16 \<Longrightarrow> hexByte (of_nat (16 * a + b)) = [hextable ! a, hextable ! b]"
  by (simp add: hexByte_def unat_of_nat del: of_nat_add of_nat_mult)

lemma hexEncode_hexDecode:
  "hexDecodeString s = Inr bs \<Longrightarrow> hexEncodeToString bs = map lowerHex s"
proof (induction s arbitrary: bs rule: hexDecodeString.induct)
  case 1
  then show ?case by (simp add: hexEncodeToString_def)
next
  case (2 c)
  then show ?case by (simp split: option.splits)
next
  case (3 p q cs)
  from "3.prems" obtain a b bs' where
    ab: "fromHexChar p = Some a" "fromHexChar q = Some b"
    and r: "hexDecodeString cs = Inr bs'" and bs: "bs = of_nat (16 * a + b) # bs'"
    by (auto split: option.splits sum.splits)
  have "hexEncodeToString bs' = map lowerHex cs"
    using "3.IH" ab r by simp
  with ab bs show ?case
    by (simp add: hexEncodeToString_def hexByte_of_digits fromHexChar_lt lowerHex_def
        del: of_nat_add of_nat_mult)
qed

lemma parseUintLoop_spec:
  "n < 2 ^ 64 \<Longrightarrow> parseUintLoop n s = Inr v \<longleftrightarrow>
     allDigits s \<and> decimalValue n s = v \<and> v < 2 ^ 64"
proof (induction s arbitrary: n)
  case Nil
  then show ?case by (auto simp: allDigits_def)
next
  case (Cons c cs)
  have mono: "m \<le> decimalValue m s" for m s
  proof (induction s arbitrary: m)
    case (Cons c s)
    show ?case
      using Cons.IH [of "m * 10 + (case digitVal c of None \<Rightarrow> 0 | Some d \<Rightarrow> d)"] by simp
  qed simp
  show ?case
  proof (cases "digitVal c")
    case None
    then show ?thesis by (simp add: allDigits_def)
  next
    case (Some d)
    show ?thesis
    proof (cases "n * 10 + d \<ge> 2 ^ 64")
      case True
      then have "\<not> decimalValue (n * 10 + d) cs < 2 ^ 64"
        using mono [of "n * 10 + d" cs] by linarith
      with True Some show ?thesis by auto
    next
      case False
      then have "n * 10 < 2 ^ 64" by linarith
      then have "\<not> n \<ge> parseCutoff" by (simp add: parseCutoff_def)
      with False Some Cons.IH [of "n * 10 + d"] show ?thesis
        by (simp add: allDigits_def)
    qed
  qed
qed

lemma parseUint_spec:
  "parseUint s = Inr v \<longleftrightarrow>
     s \<noteq> [] \<and> allDigits s \<and> decimalValue 0 s < 2 ^ 64 \<and> v = of_nat (decimalValue 0 s)"
proof (cases "parseUintLoop 0 s")
  case (Inl e)
  then have "\<not> (allDigits s \<and> decimalValue 0 s < 2 ^ 64)"
    using parseUintLoop_spec [of 0 s "decimalValue 0 s"] by auto
  with Inl show ?thesis by (auto simp: parseUint_def)
next
  case (Inr n)
  then have "allDigits s \<and> decimalValue 0 s = n \<and> n < 2 ^ 64"
    using parseUintLoop_spec [of 0 s n] by simp
  with Inr show ?thesis by (auto simp: parseUint_def)
qed

lemma length_natToBytes [simp]: "length (natToBytes k n) = k"
  by (induction k arbitrary: n) auto

lemma bytesToNat_snoc: "bytesToNat (bs @ [b]) = bytesToNat bs * 256 + unat b"
  by (simp add: bytesToNat_def)

lemma bytesToNat_natToBytes: "n < 256 ^ k \<Longrightarrow> bytesToNat (natToBytes k n) = n"
proof (induction k arbitrary: n)
  case 0
  then show ?case by (simp add: bytesToNat_def)
next
  case (Suc k)
  then have "n div 256 < 256 ^ k" by (simp add: less_mult_imp_div_less mult.commute)
  then have "bytesToNat (natToBytes k (n div 256)) = n div 256" by (rule Suc.IH)
  moreover have "unat (of_nat (n mod 256) :: byte) = n mod 256"
    by (simp add: unat_of_nat)
  ultimately show ?case by (simp add: bytesToNat_snoc)
qed

lemma uint64_lt: "unat (v :: uint64) < 2 ^ 64"
  using unsigned_less [of v, where ?'a = nat] by simp

lemma uint64_eq_of_nat: "unat (w :: uint64) = n \<Longrightarrow> w = of_nat n"
  by auto

lemma uint64BE_put: "uint64BE (putUint64BE v) = Ok v"
proof -
  have "bytesToNat (natToBytes 8 (unat v)) = unat v"
    using uint64_lt [of v] by (intro bytesToNat_natToBytes) simp
  then show ?thesis by (simp add: uint64BE_def putUint64BE_def)
qed

lemma putUint64BE_inject: "putUint64BE a = putUint64BE b \<longleftrightarrow> a = b"
  by (metis uint64BE_put outcome.inject(1))

lemma putUvarint_nonempty: "putUvarint n \<noteq> []"
  by (subst putUvarint.simps) simp

lemma readUvarintAt_put:
  "n * 2 ^ (7 * i) < 2 ^ 64 \<Longrightarrow> i \<le> 9 \<Longrightarrow>
     readUvarintAt ende i x (putUvarint n @ rest) = Inr (of_nat (x + n * 2 ^ (7 * i)), rest)"
proof (induction n arbitrary: i x rule: putUvarint.induct)
  case (1 n)
  show ?case
  proof (cases "n \<ge> 128")
    case False
    then have n: "unat (of_nat n :: byte) = n" by (simp add: unat_of_nat)
    have "\<not> (i = 9 \<and> n > 1)"
    proof
      assume "i = 9 \<and> n > 1"
      then have "2 * 2 ^ 63 \<le> n * 2 ^ (7 * i)" by (intro mult_le_mono) simp_all
      with "1.prems"(1) show False by simp
    qed
    with False n "1.prems"(2) show ?thesis
      by (auto simp: putUvarint.simps [of n])
  next
    case True
    have i: "i < 9"
    proof (rule ccontr)
      assume "\<not> i < 9"
      with "1.prems"(2) have "i = 9" by simp
      with True have "128 * 2 ^ 63 \<le> n * 2 ^ (7 * i)" by (intro mult_le_mono) simp_all
      with "1.prems"(1) show False by simp
    qed
    have b: "unat (of_nat (n mod 128 + 128) :: byte) = n mod 128 + 128"
      by (simp add: unat_of_nat del: of_nat_add)
    have split: "n mod 128 * 2 ^ (7 * i) + n div 128 * 2 ^ (7 * Suc i) = n * 2 ^ (7 * i)"
    proof -
      have "n div 128 * 2 ^ (7 * Suc i) = (n div 128 * 128) * 2 ^ (7 * i)"
        by (simp add: power_add)
      then have "n mod 128 * 2 ^ (7 * i) + n div 128 * 2 ^ (7 * Suc i)
          = (n mod 128 + n div 128 * 128) * 2 ^ (7 * i)"
        by (simp only: distrib_right)
      then show ?thesis by simp
    qed
    then have lt: "n div 128 * 2 ^ (7 * Suc i) < 2 ^ 64"
      using "1.prems"(1) by linarith
    have "readUvarintAt ende i x (putUvarint n @ rest)
        = readUvarintAt ende (Suc i) (x + n mod 128 * 2 ^ (7 * i)) (putUvarint (n div 128) @ rest)"
      using True i b by (simp add: putUvarint.simps [of n] del: of_nat_add)
    also have "\<dots> = Inr (of_nat (x + n mod 128 * 2 ^ (7 * i) + n div 128 * 2 ^ (7 * Suc i)), rest)"
      using True i lt by (intro "1.IH") simp_all
    finally show ?thesis using split by (simp only: add.assoc)
  qed
qed

lemma readUvarint_put: "readUvarint ende (putUvarint (unat v) @ rest) = Inr (v, rest)"
  using readUvarintAt_put [of "unat v" 0 ende 0 rest] uint64_lt [of v]
  by (simp add: readUvarint_def)

lemma readUvarintAt_shorter:
  "readUvarintAt ende i x bs = Inr (v, rest) \<Longrightarrow> length rest < length bs"
  by (induction ende i x bs rule: readUvarintAt.induct) (auto split: if_splits)

lemma readUvarint_shorter: "readUvarint ende bs = Inr (v, rest) \<Longrightarrow> length rest < length bs"
  by (auto simp: readUvarint_def dest: readUvarintAt_shorter)

lemma length_putUvarint: "n < 2 ^ (7 * k) \<Longrightarrow> 0 < k \<Longrightarrow> length (putUvarint n) \<le> k"
proof (induction k arbitrary: n)
  case 0
  then show ?case by simp
next
  case (Suc k)
  show ?case
  proof (cases "n \<ge> 128")
    case False
    then show ?thesis by (simp add: putUvarint.simps [of n])
  next
    case True
    then have "0 < k" using Suc.prems(1) by (cases k) auto
    moreover have "n div 128 < 2 ^ (7 * k)"
      using Suc.prems(1) by (simp add: power_add less_mult_imp_div_less mult.commute)
    ultimately have "length (putUvarint (n div 128)) \<le> k" by (intro Suc.IH)
    with True show ?thesis by (simp add: putUvarint.simps [of n])
  qed
qed

lemma mset_swapAt: "i < length xs \<Longrightarrow> j < length xs \<Longrightarrow> mset (swapAt i j xs) = mset xs"
  by (simp add: swapAt_def mset_swap)

lemma length_swapAt [simp]: "length (swapAt i j xs) = length xs"
  by (simp add: swapAt_def)

lemma mset_shuffleFrom: "i < length xs \<or> i = 0 \<Longrightarrow> mset (shuffleFrom rnd i xs) = mset xs"
proof (induction i arbitrary: xs)
  case (Suc i)
  let ?j = "rnd (Suc i) mod Suc (Suc i)"
  have "?j < Suc (Suc i)" by simp
  then have "?j < length xs" using Suc.prems by linarith
  with Suc.prems have "mset (swapAt (Suc i) ?j xs) = mset xs"
    by (intro mset_swapAt) auto
  moreover have "mset (shuffleFrom rnd i (swapAt (Suc i) ?j xs)) = mset (swapAt (Suc i) ?j xs)"
    using Suc.prems by (intro Suc.IH) auto
  ultimately show ?case by simp
qed simp

lemma mset_randShuffle [simp]: "mset (randShuffle rnd xs) = mset xs"
  unfolding randShuffle_def by (rule mset_shuffleFrom) (cases xs, auto)

lemma set_randShuffle [simp]: "set (randShuffle rnd xs) = set xs"
  by (metis mset_randShuffle set_mset_mset)

lemma length_randShuffle [simp]: "length (randShuffle rnd xs) = length xs"
  by (metis mset_randShuffle size_mset)

end
