(* ===== verification/BftTypes.thy ===== *)
theory BftTypes
  imports GoStd
begin

text \<open>
  The data of \<open>bft-go-base\<close> as far as the sources touch it, and the operations of
  \<open>bft-go-base\<close>, \<open>bft-core\<close> and \<open>libp2p\<close> the sources call. Those packages are not part of the
  repository: their operations are the fields of the parameter record \<open>ext\<close>, an argument of every
  definition that uses one of them, and what the program relies on is stated in the named
  predicates at the end (each is the documented behaviour of one operation). A method with a
  pointer receiver takes an \<open>option\<close>, because the sources call the getters on nil certificates.

  Identifiers (\<open>PartitionID\<close> and the like) are compared for equality and with zero only; shard
  identifiers are compared through \<open>ShardID.Equal\<close>. A \<open>peer.ID\<close> is a Go string.
\<close>

section \<open>Data\<close>

type_synonym idnum = uint64
type_synonym peerID = string

datatype shardID = ShardID "byte list"

record inputRecord =
  irVersion :: uint64
  irRoundNumber :: uint64
  irEpoch :: uint64
  irPreviousHash :: slice
  irHash :: slice
  irSummaryValue :: slice
  irTimestamp :: uint64
  irBlockHash :: slice
  irSumOfEarnedFees :: uint64
  irETHash :: slice

record unicityTreeCertificate =
  utcPartition :: idnum

record unicitySeal =
  sealEpoch :: uint64
  sealRootChainRoundNumber :: uint64
  sealTimestamp :: uint64
  sealHash :: slice

text \<open>\<open>ucProof\<close> stands for the hash chains and signatures no source file looks into.\<close>

record unicityCertificate =
  ucVersion :: uint64
  ucInputRecord :: "inputRecord option"
  ucTRHash :: slice
  ucShardConfHash :: slice
  ucUnicityTreeCertificate :: "unicityTreeCertificate option"
  ucUnicitySeal :: "unicitySeal option"
  ucProof :: "byte list"

record header =
  hdrVersion :: uint64
  hdrPartitionID :: idnum
  hdrShardID :: shardID
  hdrProposerID :: string
  hdrPreviousBlockHash :: slice

record block =
  blkHeader :: "header option"
  blkUnicityCertificate :: slice
  blkTransactions :: "slice list option"

record nodeInfo =
  niNodeID :: string
  niSigKey :: slice

text \<open>\<open>types.PartitionDescriptionRecord\<close>, called shard configuration in the sources.\<close>

record shardConfRecord =
  pdrNetworkID :: idnum
  pdrPartitionID :: idnum
  pdrPartitionTypeID :: idnum
  pdrShardID :: shardID
  pdrT2Timeout :: int
  pdrEpoch :: uint64
  pdrEpochStart :: uint64
  pdrValidators :: "nodeInfo list"
  pdrPartitionParams :: "string \<rightharpoonup> string"

record trustBase =
  tbEpoch :: uint64
  tbRootNodes :: "nodeInfo list"

text \<open>\<open>crypto.Hash\<close>; \<open>crypto.SHA256\<close> is the only algorithm the node is configured with.\<close>

type_synonym hashAlg = nat

definition SHA256 :: hashAlg where
  "SHA256 = 5"

type_synonym verifier = slice
type_synonym signer = slice

section \<open>Operations of the external packages\<close>

record ucOps =
  getRoundNumber :: "unicityCertificate option \<Rightarrow> uint64"
  getRootRoundNumber :: "unicityCertificate option \<Rightarrow> uint64"
  getRootEpoch :: "unicityCertificate option \<Rightarrow> uint64"
  getShardEpoch :: "unicityCertificate option \<Rightarrow> uint64"
  getStateHash :: "unicityCertificate option \<Rightarrow> slice"
  getPreviousStateHash :: "unicityCertificate option \<Rightarrow> slice"
  getBlockHash :: "unicityCertificate option \<Rightarrow> slice"
  getETHash :: "unicityCertificate option \<Rightarrow> slice"
  isDuplicate :: "unicityCertificate \<Rightarrow> unicityCertificate option \<Rightarrow> bool"
  isRepeat :: "unicityCertificate \<Rightarrow> unicityCertificate option \<Rightarrow> goerror + bool"
  isSuccessor :: "unicityCertificate \<Rightarrow> unicityCertificate option \<Rightarrow> bool"
  isInitial :: "unicityCertificate \<Rightarrow> bool"
  ucVerify :: "unicityCertificate option \<Rightarrow> trustBase \<Rightarrow> hashAlg \<Rightarrow> idnum \<Rightarrow> shardID \<Rightarrow> slice
    \<Rightarrow> goerror option"
  ucHash :: "unicityCertificate \<Rightarrow> hashAlg \<Rightarrow> goerror + slice"
  checkNonEquivocatingCertificates :: "unicityCertificate \<Rightarrow> unicityCertificate \<Rightarrow> goerror option"

record ext = ucOps +
  assertEqualIR :: "inputRecord option \<Rightarrow> inputRecord option \<Rightarrow> goerror option"
  irIsValid :: "inputRecord option \<Rightarrow> goerror option"
  blockInputRecord :: "block \<Rightarrow> goerror + inputRecord option"
  blockIsValid :: "block \<Rightarrow> hashAlg \<Rightarrow> slice \<Rightarrow> goerror option"
  calculateBlockHash :: "block \<Rightarrow> hashAlg \<Rightarrow> goerror + (inputRecord option \<times> block)"
  blockSize :: "block \<Rightarrow> goerror + uint64"
  marshalUC :: "unicityCertificate \<Rightarrow> goerror + slice"
  unmarshalUC :: "slice \<Rightarrow> goerror + unicityCertificate"
  pdrHash :: "shardConfRecord \<Rightarrow> hashAlg \<Rightarrow> goerror + slice"
  pdrVerify :: "shardConfRecord \<Rightarrow> shardConfRecord option \<Rightarrow> goerror option"
  findValidator :: "shardConfRecord \<Rightarrow> string \<Rightarrow> nodeInfo option"
  sigVerifier :: "nodeInfo \<Rightarrow> goerror + verifier option"
  verifyHash :: "verifier \<Rightarrow> slice \<Rightarrow> slice \<Rightarrow> goerror option"
  verifyBytes :: "verifier \<Rightarrow> slice \<Rightarrow> slice \<Rightarrow> goerror option"
  signHash :: "signer \<Rightarrow> slice \<Rightarrow> goerror + slice"
  signBytes :: "signer \<Rightarrow> slice \<Rightarrow> goerror + slice"
  shardEqual :: "shardID \<Rightarrow> shardID \<Rightarrow> bool"
  peerDecode :: "string \<Rightarrow> goerror + peerID"
  peerString :: "peerID \<Rightarrow> string"
  uint64ToBytes :: "uint64 \<Rightarrow> byte list"
  uint32ToBytes :: "32 word \<Rightarrow> byte list"
  bytesToUint64 :: "byte list \<Rightarrow> uint64"

section \<open>Documented behaviour\<close>

text \<open>The getters read the certificate's input record; on a nil certificate they return zero.\<close>

definition gettersLaw :: "'x ext_scheme \<Rightarrow> bool" where
  "gettersLaw X \<longleftrightarrow>
     getRoundNumber X None = 0 \<and>
     (\<forall>uc ir. ucInputRecord uc = Some ir \<longrightarrow>
        getRoundNumber X (Some uc) = irRoundNumber ir \<and>
        getShardEpoch X (Some uc) = irEpoch ir \<and>
        getStateHash X (Some uc) = irHash ir \<and>
        getPreviousStateHash X (Some uc) = irPreviousHash ir \<and>
        getBlockHash X (Some uc) = irBlockHash ir \<and>
        getETHash X (Some uc) = irETHash ir)"

text \<open>\<open>UnicityCertificate.Verify\<close> accepts complete certificates only.\<close>

definition verifyLaw :: "'x ext_scheme \<Rightarrow> bool" where
  "verifyLaw X \<longleftrightarrow>
     (\<forall>uc tb alg pid sid h. ucVerify X uc tb alg pid sid h = None \<longrightarrow>
        (\<exists>u. uc = Some u \<and> ucInputRecord u \<noteq> None \<and> ucUnicitySeal u \<noteq> None))"

text \<open>\<open>CheckNonEquivocatingCertificates\<close> rejects a certificate of an older root round.\<close>

definition nonEquivocationLaw :: "'x ext_scheme \<Rightarrow> bool" where
  "nonEquivocationLaw X \<longleftrightarrow>
     (\<forall>prev new. checkNonEquivocatingCertificates X prev new = None \<longrightarrow>
        getRootRoundNumber X (Some prev) \<le> getRootRoundNumber X (Some new))"

text \<open>\<open>IsSuccessor\<close>: the round is the next one and the certificate extends the certified state.\<close>

definition successorLaw :: "'x ext_scheme \<Rightarrow> bool" where
  "successorLaw X \<longleftrightarrow>
     (\<forall>uc prev. isSuccessor X uc prev \<longrightarrow>
        getRoundNumber X (Some uc) = getRoundNumber X prev + 1)"

text \<open>\<open>util.Uint64ToBytes\<close>, \<open>Uint32ToBytes\<close> and \<open>BytesToUint64\<close> are big-endian.\<close>

definition keyLaw :: "'x ext_scheme \<Rightarrow> bool" where
  "keyLaw X \<longleftrightarrow> (\<forall>r. uint64ToBytes X r = putUint64BE r) \<and>
     (\<forall>w. uint32ToBytes X w = natToBytes 4 (unat w)) \<and> (\<forall>r. bytesToUint64 X (putUint64BE r) = r)"

text \<open>\<open>Block.IsValid\<close> rejects a block without header; \<open>CalculateBlockHash\<close> returns an input record.\<close>

definition blockLaw :: "'x ext_scheme \<Rightarrow> bool" where
  "blockLaw X \<longleftrightarrow> (\<forall>b alg h. blockIsValid X b alg h = None \<longrightarrow> blkHeader b \<noteq> None) \<and>
     (\<forall>b alg ir b'. calculateBlockHash X b alg = Inr (ir, b') \<longrightarrow> ir \<noteq> None)"

text \<open>An encoded certificate is not nil and decodes to the certificate.\<close>

definition ucCodecLaw :: "'x ext_scheme \<Rightarrow> bool" where
  "ucCodecLaw X \<longleftrightarrow> (\<forall>u bs. marshalUC X u = Inr bs \<longrightarrow> bs \<noteq> None \<and> unmarshalUC X bs = Inr u)"

lemmas extLaws = keyLaw_def blockLaw_def ucCodecLaw_def gettersLaw_def verifyLaw_def nonEquivocationLaw_def successorLaw_def

lemma getters_nil [simp]: "gettersLaw X \<Longrightarrow> getRoundNumber X None = 0"
  by (simp add: gettersLaw_def)

lemma verifyLawD:
  "verifyLaw X \<Longrightarrow> ucVerify X (Some u) tb alg pid sid h = None \<Longrightarrow>
     (\<exists>ir. ucInputRecord u = Some ir) \<and> (\<exists>s. ucUnicitySeal u = Some s)"
  by (fastforce simp: verifyLaw_def)

lemma verifyLaw_nil: "verifyLaw X \<Longrightarrow> ucVerify X None tb alg pid sid h \<noteq> None"
  unfolding verifyLaw_def by (metis option.distinct(1))

lemma nonEquivocationLawD:
  "nonEquivocationLaw X \<Longrightarrow> checkNonEquivocatingCertificates X p n = None \<Longrightarrow>
     getRootRoundNumber X (Some p) \<le> getRootRoundNumber X (Some n)"
  by (auto simp: nonEquivocationLaw_def)

lemma successorLawD:
  "successorLaw X \<Longrightarrow> isSuccessor X uc prev \<Longrightarrow>
     getRoundNumber X (Some uc) = getRoundNumber X prev + 1"
  by (auto simp: successorLaw_def)

end
