(* ===== verification/StateSummary.thy ===== *)
theory StateSummary
  imports BftTypes
begin

text \<open>
  \<open>src/txsystem/state/summary.go\<close>: the aggregate hashes a transaction system reports, and their
  comparison with a certified input record. \<open>equalsIR\<close> returns nil exactly when the record
  carries the summary's values, up to the difference between nil and empty byte slices.
\<close>

record summary =
  rootHash :: slice
  summaryValue :: slice
  sumOfEarnedFees :: uint64
  etHash :: slice

definition ErrStateContainsUncommittedChanges :: goerror where
  "ErrStateContainsUncommittedChanges = Errorf ''state contains uncommitted changes''"

definition newStateSummary :: "slice \<Rightarrow> slice \<Rightarrow> uint64 \<Rightarrow> slice \<Rightarrow> summary" where
  "newStateSummary root sv fees et =
     \<lparr>rootHash = root, summaryValue = sv, sumOfEarnedFees = fees, etHash = et\<rparr>"

definition equalsIR :: "summary \<Rightarrow> inputRecord option \<Rightarrow> goerror option" where
  "equalsIR s ucIR = (case ucIR of
      None \<Rightarrow> Some (Errorf ''unicity certificate input record is nil'')
    | Some ir \<Rightarrow>
        if \<not> bytesEqual (irHash ir) (rootHash s) then
          Some (Errorf ''transaction system state %X is not equal to unicity certificate value %X'')
        else if \<not> bytesEqual (irSummaryValue ir) (summaryValue s) then
          Some (Errorf ''transaction system summary value %X not equal to unicity certificate value %X'')
        else if irSumOfEarnedFees ir \<noteq> sumOfEarnedFees s then
          Some (Errorf ''transaction system sum of earned fees %d not equal to unicity certificate value %d'')
        else if \<not> bytesEqual (irETHash ir) (etHash s) then
          Some (Errorf ''transaction system executed transactions buffer hash %X not equal to unicity certificate value %X'')
        else None)"

lemma newStateSummary_sel [simp]:
  "rootHash (newStateSummary r sv f e) = r" "summaryValue (newStateSummary r sv f e) = sv"
  "sumOfEarnedFees (newStateSummary r sv f e) = f" "etHash (newStateSummary r sv f e) = e"
  by (simp_all add: newStateSummary_def)

lemma equalsIR_None_iff:
  "equalsIR s ucIR = None \<longleftrightarrow>
     (\<exists>ir. ucIR = Some ir \<and> bytesEqual (irHash ir) (rootHash s) \<and>
        bytesEqual (irSummaryValue ir) (summaryValue s) \<and>
        irSumOfEarnedFees ir = sumOfEarnedFees s \<and> bytesEqual (irETHash ir) (etHash s))"
  by (auto simp: equalsIR_def split: option.splits)

end
