(* ===== verification/TransactionSystem.thy ===== *)
theory TransactionSystem
  imports StateSummary
begin

text \<open>
  The interface \<open>TransactionSystem\<close> of \<open>src/partition/node.go\<close> as a locale: the operations the
  node calls and the laws it relies on. \<open>certOf\<close> is \<open>CommittedUC\<close>, \<open>rootOf\<close> the root of the
  committed state, \<open>stateHashOf\<close> the state hash a certificate certifies. The node proofs use only
  the lemmas of this locale; theory \<open>FgpTxSystem\<close> interprets it on the finality gadget.
\<close>

locale transaction_system =
  fixes summaryOp :: "('s, summary) comp"
    and propose :: "'c \<Rightarrow> uint64 \<Rightarrow> ('s, summary) comp"
    and verify :: "'c \<Rightarrow> uint64 \<Rightarrow> slice \<Rightarrow> ('s, summary) comp"
    and commitOp :: "unicityCertificate \<Rightarrow> ('s, unit) comp"
    and revertOp :: "'s \<Rightarrow> 's"
    and certOf :: "'s \<Rightarrow> unicityCertificate option"
    and rootOf :: "'s \<Rightarrow> slice"
    and stateHashOf :: "unicityCertificate \<Rightarrow> slice"
  assumes summary_pure: "wp False summaryOp (\<lambda>sm t. t = s \<and> rootHash sm = rootOf s) (\<lambda>_ t. t = s) s"
    and summary_reverted: "\<exists>sm. summaryOp (revertOp s) = (Ok sm, revertOp s)"
    and revert_frame: "certOf (revertOp s) = certOf s" "rootOf (revertOp s) = rootOf s"
    and propose_frame: "wp False (propose c r)
      (\<lambda>_ t. certOf t = certOf s \<and> rootOf t = rootOf s) (\<lambda>_ t. t = s) s"
    and verify_frame: "wp False (verify c r p)
      (\<lambda>sm t. certOf t = certOf s \<and> rootOf t = rootOf s \<and> rootHash sm = p) (\<lambda>_ t. t = s) s"
    and commit_effect: "wp False (commitOp uc)
      (\<lambda>_ t. certOf t = Some uc \<and> bytesEqual (rootOf t) (stateHashOf uc) \<and>
        (\<exists>sm. summaryOp t = (Ok sm, t)))
      (\<lambda>_ t. t = s) s"
    and verify_commit: "verify c r p s = (Ok sm, t) \<Longrightarrow> bytesEqual (stateHashOf uc) p \<Longrightarrow>
      \<exists>u. commitOp uc t = (Ok (), u)"
    and propose_commit: "propose c r s = (Ok sm, t) \<Longrightarrow> bytesEqual (stateHashOf uc) (rootHash sm) \<Longrightarrow>
      \<exists>u. commitOp uc t = (Ok (), u)"
begin

text \<open>Verifying a proposal and committing the certificate of its root succeeds and installs it.\<close>

lemma verify_then_commit:
  assumes "verify c r p s = (Ok sm, t)" and "bytesEqual (stateHashOf uc) p"
  shows "\<exists>u. commitOp uc t = (Ok (), u) \<and> certOf u = Some uc \<and> bytesEqual (rootOf u) p"
proof -
  obtain u where u: "commitOp uc t = (Ok (), u)" using verify_commit [OF assms] by blast
  from wp_Ok [OF commit_effect u] assms(2) u show ?thesis
    by (auto intro: bytesEqual_trans)
qed

text \<open>A proposal that is verified and then given up leaves the committed state as it was.\<close>

lemma reject_restores:
  assumes "verify c r p s = (x, t)"
  shows "\<exists>sm. summaryOp (revertOp t) = (Ok sm, revertOp t) \<and> rootHash sm = rootOf s \<and>
     certOf (revertOp t) = certOf s"
proof -
  obtain sm where sm: "summaryOp (revertOp t) = (Ok sm, revertOp t)" using summary_reverted by blast
  have "rootHash sm = rootOf (revertOp t)" using wp_Ok [OF summary_pure sm] by simp
  moreover have "certOf t = certOf s \<and> rootOf t = rootOf s"
    using verify_frame [of c r p s] assms by (cases x) (auto simp: wp_def)
  ultimately show ?thesis using sm revert_frame by auto
qed

end

end
