(* ===== verification/PowTypes.thy ===== *)
theory PowTypes
  imports GoStd
begin

text \<open>
  \<open>src/pow/types/types.go\<close>: headers and chain tips as the PoW node reports them, and the client
  interface. A value of \<open>powClient\<close> holds the answers of one client during one operation of the
  transaction system, which calls each method at most once; nothing relates the answers of
  different methods to each other, so a reorganisation between two calls is included.
\<close>

text \<open>\<open>Difficulty\<close> is a \<open>float64\<close> the sources only print; its bit pattern is kept.\<close>

record blockHeader =
  bhHash :: string
  bhConfirmations :: int
  bhHeight :: uint64
  bhVersion :: int
  bhVersionHex :: string
  bhTime :: int
  bhMediantime :: int
  bhNonce :: uint64
  bhBits :: string
  bhDifficulty :: uint64
  bhChainwork :: string
  bhPreviousBlockHash :: string
  bhRxHash :: string

record chainTip =
  ctHeight :: uint64
  ctHash :: string
  ctBranchLen :: uint64
  ctStatus :: string

record powClient =
  getTip :: "goerror + blockHeader"
  getBlockHeaderByHash :: "string \<Rightarrow> goerror + blockHeader"
  getBlockHeaderByHeight :: "uint64 \<Rightarrow> goerror + blockHeader"
  getChainTips :: "goerror + chainTip list"

definition isActive :: "blockHeader \<Rightarrow> bool" where
  "isActive b \<longleftrightarrow> bhConfirmations b > 0"

end
