(* ===== verification/FgpTxSystem.thy ===== *)
theory FgpTxSystem
  imports TransactionSystem PowTypes
begin

text \<open>
  \<open>src/txsystem/fgp_txsystem.go\<close>: the transaction system of the finality gadget. Its state is the
  hash (and height) of the last certified PoW block, the pending one, and the certificate of the
  last commit. Every method holds the mutex for its whole body, so a method is one step of the
  state; the PoW client is an argument (\<open>powClient\<close>).
\<close>

section \<open>State and operations\<close>

record fgpTxSystem =
  fgpShardConf :: shardConfRecord
  dFG :: uint64
  committedStateHash :: slice
  committedStateHeight :: uint64
  pendingStateHash :: slice
  pendingStateHeight :: uint64
  committedUC :: "unicityCertificate option"
  fgpSummaryValue :: slice
  fgpSumOfEarnedFees :: uint64
  fgpEtHash :: slice

text \<open>The reading of \<open>dFG\<close> shared by the constructor and \<open>UpdateConfig\<close> (the same lines in both).\<close>

definition readDFG :: "shardConfRecord \<Rightarrow> goerror + uint64" where
  "readDFG conf = (case pdrPartitionParams conf ''dFG'' of
      None \<Rightarrow> Inl (Errorf ''dFG not defined in shard conf'')
    | Some str \<Rightarrow> (case parseUint str of
        Inl e \<Rightarrow> Inl (Wrapf ''non numeric dFG defined in shard conf'' e)
      | Inr d \<Rightarrow> if d = 0 then Inl (Errorf ''dFG must be greater than 0'') else Inr d))"

definition newFGPTxSystem :: "shardConfRecord \<Rightarrow> goerror + fgpTxSystem" where
  "newFGPTxSystem conf = (case readDFG conf of
      Inl e \<Rightarrow> Inl e
    | Inr d \<Rightarrow> Inr \<lparr>fgpShardConf = conf, dFG = d,
        committedStateHash = None, committedStateHeight = 0,
        pendingStateHash = None, pendingStateHeight = 0,
        committedUC = None,
        fgpSummaryValue = Some [], fgpSumOfEarnedFees = 0, fgpEtHash = None\<rparr>)"

text \<open>\<open>UpdateConfig\<close> reads through the pointer before anything else; a nil pointer panics.\<close>

definition updateConfig :: "shardConfRecord option \<Rightarrow> (fgpTxSystem, unit) comp" where
  "updateConfig shardConf =
     andThen (deref shardConf) (\<lambda>conf.
     andThen (liftE (readDFG conf)) (\<lambda>d.
     modify (\<lambda>s. s\<lparr>fgpShardConf := conf, dFG := d\<rparr>)))"

text \<open>\<open>state.NewStateSummary(h, s.summaryValue, s.sumOfEarnedFees, s.etHash)\<close>.\<close>

definition summaryOf :: "slice \<Rightarrow> fgpTxSystem \<Rightarrow> summary" where
  "summaryOf h s = newStateSummary h (fgpSummaryValue s) (fgpSumOfEarnedFees s) (fgpEtHash s)"

definition stateSummary :: "(fgpTxSystem, summary) comp" where
  "stateSummary =
     andThen (gets pendingStateHash) (\<lambda>pending.
     if pending \<noteq> None then fail ErrStateContainsUncommittedChanges
     else gets (\<lambda>s. summaryOf (committedStateHash s) s))"

text \<open>Step 2 of \<open>LeaderPropose\<close>: the height of the last certified block, 0 before the first.\<close>

definition certifiedHeight :: "powClient \<Rightarrow> fgpTxSystem \<Rightarrow> goerror + uint64" where
  "certifiedHeight c s = (case committedStateHash s of
      None \<Rightarrow> Inr 0
    | Some h \<Rightarrow> (case getBlockHeaderByHash c (hexEncodeToString h) of
        Inl e \<Rightarrow> Inl (Wrapf ''failed to find last certified block for hash %s'' e)
      | Inr b \<Rightarrow> Inr (bhHeight b)))"

text \<open>The body of the loop over the chain tips (step 6): \<open>None\<close> lets the loop continue.\<close>

definition checkForkTip :: "uint64 \<Rightarrow> chainTip \<Rightarrow> goerror option" where
  "checkForkTip candidateHeight t =
     (if ctStatus t = ''active'' then None
      else if ctBranchLen t > ctHeight t then
        Some (Errorf ''invalid chain tip: branch length %d exceeds height %d'')
      else let forkHeight = ctHeight t - ctBranchLen t in
        if ctHeight t \<ge> candidateHeight \<and> forkHeight < candidateHeight then
          Some (Errorf ''competing fork visible: branch at height %d diverged at %d'')
        else None)"

definition leaderPropose :: "powClient \<Rightarrow> uint64 \<Rightarrow> (fgpTxSystem, summary) comp" where
  "leaderPropose c round =
     andThen (wrapErr ''failed to get PoW chain tip'' (liftE (getTip c))) (\<lambda>tip.
     andThen (andThen (gets (certifiedHeight c)) liftE) (\<lambda>hFG.
     andThen (gets dFG) (\<lambda>d.
     if bhHeight tip \<le> hFG then
       fail (Errorf ''no new final enough PoW block: tip height %d, hFG %d'')
     else if bhHeight tip - hFG < d - 1 then
       fail (Errorf ''no new final enough PoW block: tip height %d, hFG %d, dFG %d (not enough confirmations)'')
     else let candidateHeight = bhHeight tip - (d - 1) in
     if candidateHeight \<le> hFG then
       fail (Errorf ''no new final enough PoW block: candidate height %d <= hFG %d (already finalized or older)'')
     else
     andThen (wrapErr ''failed to get candidate block at height %d''
       (liftE (getBlockHeaderByHeight c candidateHeight))) (\<lambda>candBlock.
     andThen (wrapErr ''failed to get chain tips for fork check'' (liftE (getChainTips c))) (\<lambda>tips.
     andSeq (forEach tips (\<lambda>t. liftErr (checkForkTip candidateHeight t)))
     (andThen (wrapErr ''failed to decode candidate block hash''
       (liftE (hexDecodeString (bhHash candBlock)))) (\<lambda>candHashBytes.
     andSeq (modify (\<lambda>s. s\<lparr>pendingStateHash := Some candHashBytes,
                          pendingStateHeight := bhHeight candBlock\<rparr>))
     (gets (\<lambda>s. summaryOf (pendingStateHash s) s)))))))))"

definition followerVerify :: "powClient \<Rightarrow> uint64 \<Rightarrow> slice \<Rightarrow> (fgpTxSystem, summary) comp" where
  "followerVerify c round proposedRoot =
     andThen (gets committedStateHash) (\<lambda>committed.
     if bytesEqual proposedRoot committed then
       andSeq (modify (\<lambda>s. s\<lparr>pendingStateHash := proposedRoot,
                            pendingStateHeight := committedStateHeight s\<rparr>))
       (gets (\<lambda>s. summaryOf (pendingStateHash s) s))
     else
     andThen (wrapErr ''failed to get block by hash %s''
       (liftE (getBlockHeaderByHash c (hexEncodeToString (sliceBytes proposedRoot))))) (\<lambda>block.
     if \<not> isActive block then fail (Errorf ''proposed block is not in the active chain'')
     else
     andThen (wrapErr ''failed to get PoW chain tip'' (liftE (getTip c))) (\<lambda>tip.
     andThen (gets dFG) (\<lambda>d.
     if bhHeight tip < bhHeight block then
       fail (Errorf ''proposed block height %d is ahead of tip height %d'')
     else if bhHeight tip - bhHeight block < d - 1 then
       fail (Errorf ''proposed block does not have sufficient confirmations (depth %d, required %d)'')
     else
     andSeq (modify (\<lambda>s. s\<lparr>pendingStateHash := proposedRoot,
                          pendingStateHeight := bhHeight block\<rparr>))
     (gets (\<lambda>s. summaryOf (pendingStateHash s) s))))))"

definition restoreState :: "'x ext_scheme \<Rightarrow> powClient \<Rightarrow> unicityCertificate \<Rightarrow> (fgpTxSystem, unit) comp" where
  "restoreState X c uc =
     (let stateHash = getStateHash X (Some uc) in
     andSeq
       (if sliceLen stateHash > 0 then
          andThen (wrapErr ''failed to get block by hash %s''
            (liftE (getBlockHeaderByHash c (hexEncodeToString (sliceBytes stateHash))))) (\<lambda>block.
          modify (\<lambda>s. s\<lparr>committedStateHeight := bhHeight block\<rparr>))
        else ret ())
       (modify (\<lambda>s. s\<lparr>committedStateHash := stateHash, committedUC := Some uc,
                     pendingStateHash := None, pendingStateHeight := 0\<rparr>)))"

definition revert :: "fgpTxSystem \<Rightarrow> fgpTxSystem" where
  "revert s = s\<lparr>pendingStateHash := None, pendingStateHeight := 0\<rparr>"

definition commit :: "'x ext_scheme \<Rightarrow> unicityCertificate \<Rightarrow> (fgpTxSystem, unit) comp" where
  "commit X uc =
     andThen (gets pendingStateHash) (\<lambda>pending.
     if \<not> bytesEqual pending (getStateHash X (Some uc)) then
       fail (Errorf ''state mismatch: pending %X, certified %X'')
     else
     modify (\<lambda>s. s\<lparr>committedStateHash := pendingStateHash s,
                  committedStateHeight := pendingStateHeight s,
                  committedUC := Some uc,
                  pendingStateHash := None, pendingStateHeight := 0\<rparr>))"

section \<open>Runs of operations\<close>

text \<open>The calls a client of the transaction system can make, and their effect in sequence.\<close>

datatype fgpOp =
    OpUpdateConfig shardConfRecord
  | OpStateSummary
  | OpLeaderPropose powClient uint64
  | OpFollowerVerify powClient uint64 slice
  | OpRestoreState powClient unicityCertificate
  | OpRevert
  | OpCommit unicityCertificate

fun fgpExec :: "'x ext_scheme \<Rightarrow> fgpOp \<Rightarrow> (fgpTxSystem, unit) comp" where
  "fgpExec X (OpUpdateConfig conf) = updateConfig (Some conf)"
| "fgpExec X OpStateSummary = andSeq stateSummary (ret ())"
| "fgpExec X (OpLeaderPropose c r) = andSeq (leaderPropose c r) (ret ())"
| "fgpExec X (OpFollowerVerify c r p) = andSeq (followerVerify c r p) (ret ())"
| "fgpExec X (OpRestoreState c uc) = restoreState X c uc"
| "fgpExec X OpRevert = modify revert"
| "fgpExec X (OpCommit uc) = commit X uc"

fun fgpRun :: "'x ext_scheme \<Rightarrow> fgpOp list \<Rightarrow> fgpTxSystem \<Rightarrow> fgpTxSystem" where
  "fgpRun X [] s = s"
| "fgpRun X (op # ops) s = fgpRun X ops (snd (fgpExec X op s))"

text \<open>
  The invariant: \<open>dFG\<close> is positive, the constant summary fields keep their values, and the
  committed hash is the state hash of the certificate of the last commit (nil before the first).
\<close>

definition fgpInv :: "'x ext_scheme \<Rightarrow> fgpTxSystem \<Rightarrow> bool" where
  "fgpInv X s \<longleftrightarrow> dFG s \<noteq> 0 \<and>
     fgpSummaryValue s = Some [] \<and> fgpSumOfEarnedFees s = 0 \<and> fgpEtHash s = None \<and>
     (case committedUC s of
        None \<Rightarrow> committedStateHash s = None
      | Some uc \<Rightarrow> bytesEqual (committedStateHash s) (getStateHash X (Some uc)))"

section \<open>Height checks\<close>

text \<open>A chain tip off the active chain that reaches the candidate height on its own branch.\<close>

definition forkBlocks :: "nat \<Rightarrow> chainTip \<Rightarrow> bool" where
  "forkBlocks candH t \<longleftrightarrow> ctStatus t \<noteq> ''active'' \<and>
     (unat (ctHeight t) < unat (ctBranchLen t) \<or>
      candH \<le> unat (ctHeight t) \<and> unat (ctHeight t) - unat (ctBranchLen t) < candH)"

lemma checkForkTip_None_iff:
  "checkForkTip h t = None \<longleftrightarrow> \<not> forkBlocks (unat h) t"
proof (cases "ctBranchLen t \<le> ctHeight t")
  case True
  then have "unat (ctHeight t - ctBranchLen t) = unat (ctHeight t) - unat (ctBranchLen t)"
    by (rule unat_sub)
  with True show ?thesis
    by (auto simp: checkForkTip_def forkBlocks_def Let_def word_le_nat_alt word_less_nat_alt)
next
  case False
  then show ?thesis
    by (auto simp: checkForkTip_def forkBlocks_def Let_def word_le_nat_alt word_less_nat_alt)
qed

text \<open>The three height checks of the leader amount to one inequality between naturals.\<close>

lemma leader_height_checks:
  fixes tip hFG d :: uint64
  assumes "d \<noteq> 0"
  shows "\<not> tip \<le> hFG \<and> \<not> tip - hFG < d - 1 \<and> \<not> tip - (d - 1) \<le> hFG \<longleftrightarrow>
    unat hFG + unat d \<le> unat tip"
    and "unat hFG + unat d \<le> unat tip \<Longrightarrow> unat (tip - (d - 1)) = unat tip + 1 - unat d"
proof -
  have d: "unat (d - 1) = unat d - 1" "0 < unat d"
    using assms unat_minus_one [of d] by (simp_all add: unat_gt_0)
  have sub: "b \<le> a \<Longrightarrow> unat (a - b) = unat a - unat b" for a b :: uint64
    by (rule unat_sub)
  show "unat (tip - (d - 1)) = unat tip + 1 - unat d" if "unat hFG + unat d \<le> unat tip"
    using that d by (subst sub) (auto simp: word_le_nat_alt)
  show "\<not> tip \<le> hFG \<and> \<not> tip - hFG < d - 1 \<and> \<not> tip - (d - 1) \<le> hFG \<longleftrightarrow>
    unat hFG + unat d \<le> unat tip"
  proof (cases "hFG < tip \<and> d - 1 \<le> tip - hFG")
    case True
    then have "unat (tip - hFG) = unat tip - unat hFG" by (intro sub) (auto simp: word_le_nat_alt word_less_nat_alt)
    with True d have le: "unat d - 1 \<le> unat tip - unat hFG" "unat hFG < unat tip"
      by (auto simp: word_le_nat_alt word_less_nat_alt)
    then have "unat (tip - (d - 1)) = unat tip - (unat d - 1)"
      using d by (subst sub) (auto simp: word_le_nat_alt)
    with True le d show ?thesis by (auto simp: word_le_nat_alt word_less_nat_alt)
  next
    case False
    have "\<not> unat hFG + unat d \<le> unat tip"
    proof
      assume a: "unat hFG + unat d \<le> unat tip"
      then have "hFG < tip" using d by (simp add: word_less_nat_alt)
      moreover from this have "unat (tip - hFG) = unat tip - unat hFG" by (intro sub) (auto simp: word_le_nat_alt word_less_nat_alt)
      ultimately show False using a d False by (auto simp: word_le_nat_alt)
    qed
    with False show ?thesis by auto
  qed
qed


lemma leaderPropose_run:
  assumes "dFG s \<noteq> 0"
  shows "leaderPropose c round s = (Ok sm, s') \<longleftrightarrow>
    (\<exists>tip hFG cand tips bs. getTip c = Inr tip \<and> certifiedHeight c s = Inr hFG \<and>
       unat hFG + unat (dFG s) \<le> unat (bhHeight tip) \<and>
       getBlockHeaderByHeight c (bhHeight tip - (dFG s - 1)) = Inr cand \<and>
       getChainTips c = Inr tips \<and>
       (\<forall>t\<in>set tips. \<not> forkBlocks (unat (bhHeight tip - (dFG s - 1))) t) \<and>
       hexDecodeString (bhHash cand) = Inr bs \<and>
       s' = s\<lparr>pendingStateHash := Some bs, pendingStateHeight := bhHeight cand\<rparr> \<and>
       sm = summaryOf (Some bs) s)"
  unfolding leaderPropose_def Let_def
  by (auto simp: run_Ok checkForkTip_None_iff leader_height_checks(1) [OF assms, symmetric]
      summaryOf_def)

lemma leaderPropose_frame: 
  "wp False (leaderPropose c round) (\<lambda>sm t. (\<exists>bs h. t = s\<lparr>pendingStateHash := Some bs, pendingStateHeight := h\<rparr> \<and> sm = summaryOf (Some bs) s)) (\<lambda>_ t. t = s) s"
    unfolding leaderPropose_def Let_def
    by (auto simp: wp_rules summaryOf_def split: sum.splits option.splits)

lemma followerVerify_frame:
  "wp False (followerVerify c round p) (\<lambda>sm t. (\<exists>h. t = s\<lparr>pendingStateHash := p, pendingStateHeight := h\<rparr>) \<and> sm = summaryOf p s) (\<lambda>_ t. t = s) s"
    unfolding followerVerify_def 
    by (auto simp: wp_rules summaryOf_def split: sum.splits option.splits)

lemma follower_height_checks:
  fixes tip h d :: uint64
  assumes "d \<noteq> 0"
  shows "\<not> tip < h \<and> \<not> tip - h < d - 1 \<longleftrightarrow> unat h + unat d \<le> Suc (unat tip)"
proof (cases "h \<le> tip")
  case True
  then have "unat (tip - h) = unat tip - unat h" by (rule unat_sub)
  with True assms unat_minus_one [of d] show ?thesis
    by (auto simp: word_le_nat_alt word_less_nat_alt)
next
  case False
  with assms unat_gt_0 [of d] show ?thesis
    by (auto simp: word_le_nat_alt word_less_nat_alt)
qed

lemma followerVerify_run:
  assumes "dFG s \<noteq> 0"
  shows "followerVerify c round p s = (Ok sm, s') \<longleftrightarrow>
    sm = summaryOf p s \<and>
    (bytesEqual p (committedStateHash s) \<and>
       s' = s\<lparr>pendingStateHash := p, pendingStateHeight := committedStateHeight s\<rparr> \<or>
     \<not> bytesEqual p (committedStateHash s) \<and>
     (\<exists>block tip. getBlockHeaderByHash c (hexEncodeToString (sliceBytes p)) = Inr block \<and>
        isActive block \<and> getTip c = Inr tip \<and>
        unat (bhHeight block) + unat (dFG s) \<le> Suc (unat (bhHeight tip)) \<and>
        s' = s\<lparr>pendingStateHash := p, pendingStateHeight := bhHeight block\<rparr>))"
  unfolding followerVerify_def
  by (auto simp: run_Ok follower_height_checks [OF assms, symmetric] summaryOf_def)


lemma stateSummary_run:
  "stateSummary s = (if pendingStateHash s = None then (Ok (summaryOf (committedStateHash s) s), s)
     else (Fail ErrStateContainsUncommittedChanges, s))"
  by (simp add: stateSummary_def comp_defs)

lemma commit_run:
  "commit X uc s = (if bytesEqual (pendingStateHash s) (getStateHash X (Some uc)) then
      (Ok (), s\<lparr>committedStateHash := pendingStateHash s,
                  committedStateHeight := pendingStateHeight s,
                  committedUC := Some uc,
                  pendingStateHash := None, pendingStateHeight := 0\<rparr>)
     else (Fail (Errorf ''state mismatch: pending %X, certified %X''), s))"
  by (simp add: commit_def comp_defs)

lemma updateConfig_run:
  "updateConfig (Some conf) s = (case readDFG conf of Inl e \<Rightarrow> (Fail e, s)
     | Inr d \<Rightarrow> (Ok (), s\<lparr>fgpShardConf := conf, dFG := d\<rparr>))"
  by (simp add: updateConfig_def comp_defs split: sum.splits)

lemma restoreState_frame:
  "wp False (restoreState X c uc)
     (\<lambda>_ t. \<exists>h. t = s\<lparr>committedStateHeight := h,
        committedStateHash := getStateHash X (Some uc), committedUC := Some uc,
        pendingStateHash := None, pendingStateHeight := 0\<rparr>)
     (\<lambda>_ t. t = s) s"
  unfolding restoreState_def Let_def
  by (auto simp: wp_rules split: sum.splits intro: exI [of _ "committedStateHeight s"])

lemma readDFG_pos: "readDFG conf = Inr d \<Longrightarrow> d \<noteq> 0"
  by (auto simp: readDFG_def split: option.splits sum.splits if_splits)

lemma newFGPTxSystem_inv: "newFGPTxSystem conf = Inr s \<Longrightarrow> fgpInv X s \<and> committedUC s = None"
  using readDFG_pos by (auto simp: newFGPTxSystem_def fgpInv_def split: sum.splits)

section \<open>Every operation keeps the invariant\<close>

lemma fgpInv_keeps:
  "keeps (fgpInv X) (updateConfig (Some sc))" "keeps (fgpInv X) stateSummary"
  "keeps (fgpInv X) (leaderPropose c r)" "keeps (fgpInv X) (followerVerify c r p)"
  "keeps (fgpInv X) (restoreState X c uc)" "keeps (fgpInv X) (modify revert)"
  "keeps (fgpInv X) (commit X uc)"
proof -
  show "keeps (fgpInv X) (updateConfig (Some sc))"
    using readDFG_pos by (auto simp: keeps_def wp_def updateConfig_run fgpInv_def split: sum.splits option.splits)
  show "keeps (fgpInv X) stateSummary" "keeps (fgpInv X) (commit X uc)" "keeps (fgpInv X) (modify revert)"
    by (auto simp: keeps_def wp_def stateSummary_run commit_run modify_def revert_def fgpInv_def split: option.splits)
  show "keeps (fgpInv X) (leaderPropose c r)"
    by (rule keepsI, rule wp_mono [OF leaderPropose_frame]) (auto simp: fgpInv_def split: option.splits)
  show "keeps (fgpInv X) (followerVerify c r p)"
    by (rule keepsI, rule wp_mono [OF followerVerify_frame]) (auto simp: fgpInv_def split: option.splits)
  show "keeps (fgpInv X) (restoreState X c uc)"
    by (rule keepsI, rule wp_mono [OF restoreState_frame]) (auto simp: fgpInv_def split: option.splits)
qed

section \<open>The interface of the node\<close>

interpretation fgp: transaction_system stateSummary leaderPropose followerVerify "commit X" revert
  committedUC committedStateHash "\<lambda>uc. getStateHash X (Some uc)" for X :: "'x ext_scheme"
proof unfold_locales
  fix s
  show "wp False stateSummary (\<lambda>sm t. t = s \<and> rootHash sm = committedStateHash s) (\<lambda>_ t. t = s) s"
    by (simp add: wp_def stateSummary_run summaryOf_def)
  show "\<exists>sm. stateSummary (revert s) = (Ok sm, revert s)"
    by (simp add: stateSummary_run revert_def)
  show "committedUC (revert s) = committedUC s" "committedStateHash (revert s) = committedStateHash s"
    by (simp_all add: revert_def)
next
  fix c r s
  show "wp False (leaderPropose c r)
      (\<lambda>_ t. committedUC t = committedUC s \<and> committedStateHash t = committedStateHash s) (\<lambda>_ t. t = s) s"
    by (rule wp_mono [OF leaderPropose_frame]) auto
next
  fix c r p s
  show "wp False (followerVerify c r p)
      (\<lambda>sm t. committedUC t = committedUC s \<and> committedStateHash t = committedStateHash s \<and> rootHash sm = p) (\<lambda>_ t. t = s) s"
    by (rule wp_mono [OF followerVerify_frame]) (auto simp: summaryOf_def)
next
  fix uc s
  show "wp False (commit X uc)
      (\<lambda>_ t. committedUC t = Some uc \<and> bytesEqual (committedStateHash t) (getStateHash X (Some uc)) \<and>
        (\<exists>sm. stateSummary t = (Ok sm, t)))
      (\<lambda>_ t. t = s) s"
    by (simp add: wp_def commit_run stateSummary_run)
next
  fix c r p s sm t uc
  assume "followerVerify c r p s = (Ok sm, t)" "bytesEqual (getStateHash X (Some uc)) p"
  with wp_Ok [OF followerVerify_frame] show "\<exists>u. commit X uc t = (Ok (), u)"
    by (fastforce simp: commit_run bytesEqual_sym)
next
  fix c r s sm t uc
  assume "leaderPropose c r s = (Ok sm, t)" "bytesEqual (getStateHash X (Some uc)) (rootHash sm)"
  with wp_Ok [OF leaderPropose_frame] show "\<exists>u. commit X uc t = (Ok (), u)"
    by (fastforce simp: commit_run bytesEqual_sym summaryOf_def)
qed

end
