(* ===== verification/Protocol.thy ===== *)
theory Protocol
  imports BftTypes
begin

text \<open>
  The messages of \<open>src/network/protocol\<close>: certification requests and responses, block proposals,
  ledger replication and handshake, each with its validity check and, where it is signed, its
  signing. The hash and the CBOR encoding of a message are computed by \<open>bft-go-base\<close>; they are
  the fields the record \<open>protoExt\<close> adds to the external operations. A pointer argument that the
  code compares with nil is an \<open>option\<close>.
\<close>

section \<open>Messages\<close>

record technicalRecord =
  trRound :: uint64
  trEpoch :: uint64
  trLeader :: string
  trStatHash :: slice
  trFeeHash :: slice

record statisticalRecord =
  srBlocks :: uint64
  srBlockFees :: uint64
  srBlockSize :: uint64
  srStateSize :: uint64
  srMaxFee :: uint64
  srMaxBlockSize :: uint64
  srMaxStateSize :: uint64

record certificationResponse =
  crPartition :: idnum
  crShard :: shardID
  crTechnical :: technicalRecord
  crUC :: unicityCertificate

record blockCertificationRequest =
  bcrPartitionID :: idnum
  bcrShardID :: shardID
  bcrNodeID :: string
  bcrInputRecord :: "inputRecord option"
  bcrBlockSize :: uint64
  bcrStateSize :: uint64
  bcrSignature :: slice

record blockProposal =
  bpPartitionID :: idnum
  bpShardID :: shardID
  bpNodeID :: peerID
  bpUnicityCertificate :: "unicityCertificate option"
  bpTechnical :: technicalRecord
  bpProposedRoot :: slice
  bpSignature :: slice

type_synonym uuid = "byte list"

text \<open>\<open>replication.Status\<close> is an integer on the wire; the named values are the constants of the package.\<close>

type_synonym replStatus = int

definition replOk :: replStatus where "replOk = 0"
definition replInvalidRequestParameters :: replStatus where "replInvalidRequestParameters = 1"
definition replWrongShard :: replStatus where "replWrongShard = 2"
definition replBlocksNotFound :: replStatus where "replBlocksNotFound = 3"
definition replUnknown :: replStatus where "replUnknown = 4"
definition replBusy :: replStatus where "replBusy = 5"

lemmas repl_defs = replOk_def replInvalidRequestParameters_def replWrongShard_def
  replBlocksNotFound_def replUnknown_def replBusy_def

record ledgerReplicationRequest =
  lrqUUID :: uuid
  lrqPartitionID :: idnum
  lrqShardID :: shardID
  lrqNodeID :: string
  lrqBeginBlockNumber :: uint64
  lrqEndBlockNumber :: uint64

text \<open>Elements of \<open>Blocks\<close> are pointers and may be nil; the slice itself may be nil.\<close>

record ledgerReplicationResponse =
  lrrUUID :: uuid
  lrrStatus :: replStatus
  lrrMessage :: string
  lrrBlocks :: "block option list option"
  lrrFirstBlockNumber :: uint64
  lrrLastBlockNumber :: uint64

record handshake =
  hsPartitionID :: idnum
  hsShardID :: shardID
  hsNodeID :: string

text \<open>Hashing and encoding of these messages (\<open>bft-go-base\<close>).\<close>

record protoExt = ext +
  hashTechnicalRecord :: "technicalRecord \<Rightarrow> goerror + slice"
  hashBlockProposal :: "blockProposal \<Rightarrow> hashAlg \<Rightarrow> goerror + slice"
  marshalBCR :: "blockCertificationRequest \<Rightarrow> goerror + slice"

section \<open>certification\<close>

definition trIsValid :: "technicalRecord \<Rightarrow> goerror option" where
  "trIsValid tr =
     (if trRound tr = 0 then Some (Errorf ''round is unassigned'')
      else if trLeader tr = '''' then Some (Errorf ''leader is unassigned'')
      else if sliceLen (trStatHash tr) = 0 then Some (Errorf ''stat hash is unassigned'')
      else if sliceLen (trFeeHash tr) = 0 then Some (Errorf ''fee hash is unassigned'')
      else None)"

definition trHash :: "'x protoExt_scheme \<Rightarrow> technicalRecord \<Rightarrow> goerror + slice" where
  "trHash X tr = hashTechnicalRecord X tr"

definition trHashMatches :: "'x protoExt_scheme \<Rightarrow> technicalRecord \<Rightarrow> slice \<Rightarrow> goerror option" where
  "trHashMatches X tr trh = (case trHash X tr of
      Inl e \<Rightarrow> Some (Wrapf ''calculating hash'' e)
    | Inr h \<Rightarrow> if \<not> bytesEqual trh h then Some (Errorf ''hash mismatch'') else None)"

definition errWrap :: "string \<Rightarrow> goerror option \<Rightarrow> goerror option" where
  "errWrap msg r = map_option (Wrapf msg) r"

definition crIsValid :: "'x protoExt_scheme \<Rightarrow> certificationResponse option \<Rightarrow> goerror option" where
  "crIsValid X c = (case c of None \<Rightarrow> Some (Errorf ''nil CertificationResponse'')
    | Some cr \<Rightarrow>
      if crPartition cr = 0 then Some (Errorf ''partition ID is unassigned'')
      else (case ucUnicityTreeCertificate (crUC cr) of
          None \<Rightarrow> Some (Errorf ''UnicityTreeCertificate is unassigned'')
        | Some utc \<Rightarrow>
          if utcPartition utc \<noteq> crPartition cr then
            Some (Errorf ''partition %s doesn't match UnicityTreeCertificate partition %s'')
          else (case trIsValid (crTechnical cr) of
              Some e \<Rightarrow> Some (Wrapf ''invalid TechnicalRecord'' e)
            | None \<Rightarrow> errWrap ''comparing TechnicalRecord hash to UC.TRHash''
                (trHashMatches X (crTechnical cr) (ucTRHash (crUC cr))))))"

definition setTechnicalRecord ::
  "'x protoExt_scheme \<Rightarrow> technicalRecord \<Rightarrow> (certificationResponse, unit) comp" where
  "setTechnicalRecord X tr =
     andThen (wrapErr ''calculating TR hash'' (liftE (trHash X tr))) (\<lambda>h.
     modify (\<lambda>cr. cr\<lparr>crUC := (crUC cr)\<lparr>ucTRHash := h\<rparr>, crTechnical := tr\<rparr>))"

definition irRound :: "blockCertificationRequest option \<Rightarrow> uint64" where
  "irRound x = (case x of None \<Rightarrow> 0
     | Some r \<Rightarrow> (case bcrInputRecord r of None \<Rightarrow> 0 | Some ir \<Rightarrow> irRoundNumber ir))"

definition irPrevHash :: "blockCertificationRequest option \<Rightarrow> slice" where
  "irPrevHash x = (case x of None \<Rightarrow> None
     | Some r \<Rightarrow> (case bcrInputRecord r of None \<Rightarrow> None | Some ir \<Rightarrow> irPreviousHash ir))"

text \<open>\<open>Bytes\<close> has a value receiver: the signature is cleared in a copy.\<close>

definition bcrBytes :: "'x protoExt_scheme \<Rightarrow> blockCertificationRequest \<Rightarrow> goerror + slice" where
  "bcrBytes X x = marshalBCR X (x\<lparr>bcrSignature := None\<rparr>)"

definition bcrIsValid ::
  "'x protoExt_scheme \<Rightarrow> blockCertificationRequest option \<Rightarrow> verifier option \<Rightarrow> goerror option" where
  "bcrIsValid X p v = (case p of None \<Rightarrow> Some (Errorf ''block certification request is nil'')
    | Some x \<Rightarrow> (case v of None \<Rightarrow> Some (Errorf ''verifier is nil'')
      | Some ver \<Rightarrow>
        if bcrPartitionID x = 0 then Some (Errorf ''invalid partition identifier'')
        else if bcrNodeID x = '''' then Some (Errorf ''node identifier is empty'')
        else (case irIsValid X (bcrInputRecord x) of
            Some e \<Rightarrow> Some (Wrapf ''invalid input record'' e)
          | None \<Rightarrow> (case bcrBytes X x of
              Inl e \<Rightarrow> Some (Wrapf ''failed to marshal block certification request'' e)
            | Inr bs \<Rightarrow> errWrap ''signature verification'' (verifyBytes X ver (bcrSignature x) bs)))))"

text \<open>A nil signer is \<open>None\<close>.\<close>

definition bcrSign ::
  "'x protoExt_scheme \<Rightarrow> signer \<Rightarrow> (blockCertificationRequest, unit) comp" where
  "bcrSign X sg =
     (if sg = None then fail (Errorf ''signer is nil'')
      else
        andThen (wrapErr ''failed to marshal block certification request''
          (andThen (gets (bcrBytes X)) liftE)) (\<lambda>bs.
        andThen (wrapErr ''sign error'' (liftE (signBytes X sg bs))) (\<lambda>signature.
        modify (\<lambda>x. x\<lparr>bcrSignature := signature\<rparr>))))"

section \<open>blockproposal\<close>

definition ErrBlockProposalIsNil :: goerror where
  "ErrBlockProposalIsNil = Errorf ''block proposal is nil''"

text \<open>\<open>Hash\<close> copies the proposal and clears the signature of the copy.\<close>

definition bpHash :: "'x protoExt_scheme \<Rightarrow> blockProposal \<Rightarrow> hashAlg \<Rightarrow> goerror + slice" where
  "bpHash X x alg = (case hashBlockProposal X (x\<lparr>bpSignature := None\<rparr>) alg of
      Inl e \<Rightarrow> Inl (Wrapf ''failed to calculate block proposal hash'' e)
    | Inr h \<Rightarrow> Inr h)"

text \<open>\<open>x.Signature, err = signer.SignHash(hash)\<close> assigns the (nil) signature also on an error.\<close>

definition bpSign :: "'x protoExt_scheme \<Rightarrow> hashAlg \<Rightarrow> signer \<Rightarrow> (blockProposal, unit) comp" where
  "bpSign X alg sg =
     (if sg = None then fail (Errorf ''signer is nil'')
      else
        andThen (andThen (gets (\<lambda>x. bpHash X x alg)) liftE) (\<lambda>hash.
        (case signHash X sg hash of
            Inl e \<Rightarrow> andSeq (modify (\<lambda>x. x\<lparr>bpSignature := None\<rparr>)) (fail e)
          | Inr sig \<Rightarrow> modify (\<lambda>x. x\<lparr>bpSignature := sig\<rparr>))))"

definition bpVerify :: "'x protoExt_scheme \<Rightarrow> blockProposal \<Rightarrow> hashAlg \<Rightarrow> verifier option \<Rightarrow> goerror option"
  where
  "bpVerify X x alg v = (case v of None \<Rightarrow> Some (Errorf ''node signature verifier is nil'')
    | Some ver \<Rightarrow> (case bpHash X x alg of
        Inl e \<Rightarrow> Some e
      | Inr hash \<Rightarrow> verifyHash X ver (bpSignature x) hash))"

definition bpIsValid ::
  "'x protoExt_scheme \<Rightarrow> blockProposal option \<Rightarrow> trustBase option \<Rightarrow> shardConfRecord option
     \<Rightarrow> hashAlg \<Rightarrow> ('s, unit) comp" where
  "bpIsValid X p tb conf alg =
     (case p of None \<Rightarrow> fail ErrBlockProposalIsNil | Some x \<Rightarrow>
     (case conf of None \<Rightarrow> fail (Errorf ''shard conf is nil'') | Some sc \<Rightarrow>
     (case tb of None \<Rightarrow> fail (Errorf ''trust base is nil'') | Some t \<Rightarrow>
     if pdrPartitionID sc \<noteq> bpPartitionID x then
       fail (Wrapf ''%w, expected %s, got %s'' (Errorf ''invalid partition identifier''))
     else if \<not> shardEqual X (pdrShardID sc) (bpShardID x) then
       fail (Wrapf ''%w, expected %s, got %s'' (Errorf ''invalid shard identifier''))
     else if bpNodeID x = '''' then fail (Errorf ''block proposer id is missing'')
     else
     (case findValidator X sc (peerString X (bpNodeID x)) of
       None \<Rightarrow> fail (Errorf ''block proposal from unknown validator %s'')
     | Some proposer \<Rightarrow>
       andThen (wrapErr ''failed to get block proposer signature verifier''
         (liftE (sigVerifier X proposer))) (\<lambda>ver.
       andSeq (liftErr (ucVerify X (bpUnicityCertificate x) t alg (pdrPartitionID sc) (pdrShardID sc) None))
       (andSeq (liftErr (errWrap ''invalid TechnicalRecord'' (trIsValid (bpTechnical x))))
       (andThen (deref (bpUnicityCertificate x)) (\<lambda>uc.
       andSeq (liftErr (errWrap ''comparing TechnicalRecord hash to UC.TRHash''
         (trHashMatches X (bpTechnical x) (ucTRHash uc))))
       (liftErr (bpVerify X x alg ver))))))))))"

section \<open>replication and handshake\<close>

definition lrrIsValid :: "ledgerReplicationResponse option \<Rightarrow> goerror option" where
  "lrrIsValid p = (case p of None \<Rightarrow> Some (Errorf ''ledger replication response is nil'')
    | Some r \<Rightarrow> if lrrStatus r = replOk \<and> lrrBlocks r = None
        then Some (Errorf ''ledger response blocks is nil'') else None)"

definition lrqIsValid :: "ledgerReplicationRequest option \<Rightarrow> goerror option" where
  "lrqIsValid p = (case p of None \<Rightarrow> Some (Errorf ''ledger replication requests is nil'')
    | Some r \<Rightarrow>
      if lrqPartitionID r = 0 then Some (Errorf ''invalid partition identifier'')
      else if lrqNodeID r = '''' then Some (Errorf ''node identifier is missing'')
      else if lrqEndBlockNumber r \<noteq> 0 \<and> lrqEndBlockNumber r < lrqBeginBlockNumber r then
        Some (Errorf ''invalid block request range from %v to %v'')
      else None)"

definition replStatusString :: "replStatus \<Rightarrow> string" where
  "replStatusString s =
     (if s = replOk then ''OK''
      else if s = replBlocksNotFound then ''Blocks Not Found''
      else if s = replInvalidRequestParameters then ''Invalid Request Parameters''
      else if s = replWrongShard then ''Wrong Partition or Shard Identifier''
      else if s = replUnknown then ''Unknown''
      else if s = replBusy then ''Busy''
      else ''Unknown Status Code'')"

definition hsIsValid :: "handshake option \<Rightarrow> goerror option" where
  "hsIsValid p = (case p of None \<Rightarrow> Some (Errorf ''handshake is nil'')
    | Some h \<Rightarrow>
      if hsPartitionID h = 0 then Some (Errorf ''invalid partition identifier'')
      else if hsNodeID h = '''' then Some (Errorf ''missing node identifier'')
      else None)"

section \<open>Lemmas\<close>

lemma errWrap_None [simp]: "errWrap m r = None \<longleftrightarrow> r = None"
  by (simp add: errWrap_def)

lemma trIsValid_iff:
  "trIsValid tr = None \<longleftrightarrow>
     trRound tr \<noteq> 0 \<and> trLeader tr \<noteq> '''' \<and> sliceBytes (trStatHash tr) \<noteq> [] \<and> sliceBytes (trFeeHash tr) \<noteq> []"
  by (auto simp: trIsValid_def sliceLen_def)

lemma trHashMatches_iff:
  "trHashMatches X tr h = None \<longleftrightarrow> (\<exists>h'. hashTechnicalRecord X tr = Inr h' \<and> bytesEqual h h')"
  by (auto simp: trHashMatches_def trHash_def split: sum.splits)

lemma crIsValid_iff:
  "crIsValid X (Some cr) = None \<longleftrightarrow>
     crPartition cr \<noteq> 0 \<and>
     (\<exists>utc. ucUnicityTreeCertificate (crUC cr) = Some utc \<and> utcPartition utc = crPartition cr) \<and>
     trIsValid (crTechnical cr) = None \<and> trHashMatches X (crTechnical cr) (ucTRHash (crUC cr)) = None"
  by (auto simp: crIsValid_def split: option.splits)

lemma bpHash_signature [simp]: "bpHash X (x\<lparr>bpSignature := s\<rparr>) alg = bpHash X x alg"
  by (simp add: bpHash_def)

lemma bcrBytes_signature [simp]: "bcrBytes X (x\<lparr>bcrSignature := s\<rparr>) = bcrBytes X x"
  by (simp add: bcrBytes_def)

lemma lrqIsValid_iff:
  "lrqIsValid (Some r) = None \<longleftrightarrow>
     lrqPartitionID r \<noteq> 0 \<and> lrqNodeID r \<noteq> '''' \<and>
     (lrqEndBlockNumber r = 0 \<or> lrqBeginBlockNumber r \<le> lrqEndBlockNumber r)"
  by (auto simp: lrqIsValid_def)

text \<open>
  A proposal is accepted exactly when it belongs to the shard, its author is a validator of the
  configuration, its certificate verifies, its technical record is complete and the one the
  certificate commits to, and the author's signature is right.
\<close>

definition proposalAcceptable ::
  "'x protoExt_scheme \<Rightarrow> blockProposal \<Rightarrow> trustBase \<Rightarrow> shardConfRecord \<Rightarrow> hashAlg \<Rightarrow> bool" where
  "proposalAcceptable X x t sc alg \<longleftrightarrow>
     pdrPartitionID sc = bpPartitionID x \<and> shardEqual X (pdrShardID sc) (bpShardID x) \<and>
     bpNodeID x \<noteq> '''' \<and>
     (\<exists>proposer ver uc. findValidator X sc (peerString X (bpNodeID x)) = Some proposer \<and>
        sigVerifier X proposer = Inr ver \<and>
        bpUnicityCertificate x = Some uc \<and>
        ucVerify X (Some uc) t alg (pdrPartitionID sc) (pdrShardID sc) None = None \<and>
        trIsValid (bpTechnical x) = None \<and> trHashMatches X (bpTechnical x) (ucTRHash uc) = None \<and>
        bpVerify X x alg ver = None)"

lemma bpIsValid_run:
  assumes "verifyLaw X"
  shows "bpIsValid X (Some x) (Some t) (Some sc) alg s = (Ok (), s) \<longleftrightarrow> proposalAcceptable X x t sc alg"
  by (cases "bpUnicityCertificate x")
    (auto simp: bpIsValid_def proposalAcceptable_def run_Ok split: option.splits)

text \<open>Validation changes nothing and does not panic, because \<open>Verify\<close> rejects a nil certificate.\<close>

lemma bpIsValid_pure:
  assumes "verifyLaw X"
  shows "wp False (bpIsValid X p tb conf alg) (\<lambda>_ t. t = s) (\<lambda>_ t. t = s) s"
  by (cases p; cases conf; cases tb)
    (auto simp: bpIsValid_def wp_rules verifyLaw_nil [OF assms] split: option.splits sum.splits)

end
