(* ===== verification/MsgCodec.thy ===== *)
theory MsgCodec
  imports Protocol
begin

text \<open>
  \<open>src/network/cbor.go\<close>: a message on a stream is its CBOR encoding preceded by the length of the
  encoding as an unsigned varint. The CBOR codec of \<open>bft-go-base\<close> is a parameter (\<open>netExt\<close>); the
  law \<open>codecLaw\<close> states that it decodes what it encoded and consumes exactly that. The locale
  \<open>length_prefix\<close> is the contract of the length prefix, from which frames are uniquely decodable.

  A Go value of type \<open>any\<close> that holds a message is a message passed by value or by pointer; the
  two have different dynamic types.
\<close>

datatype netMsg =
    HandshakeMsg handshake
  | BlockProposalMsg blockProposal
  | CertificationRequestMsg blockCertificationRequest
  | CertificationResponseMsg certificationResponse
  | ReplicationRequestMsg ledgerReplicationRequest
  | ReplicationResponseMsg ledgerReplicationResponse

datatype goType = StructT string | PointerT goType | BasicT string

definition msgStruct :: "netMsg \<Rightarrow> goType" where
  "msgStruct m = StructT (case m of
      HandshakeMsg _ \<Rightarrow> ''handshake.Handshake''
    | BlockProposalMsg _ \<Rightarrow> ''blockproposal.BlockProposal''
    | CertificationRequestMsg _ \<Rightarrow> ''certification.BlockCertificationRequest''
    | CertificationResponseMsg _ \<Rightarrow> ''certification.CertificationResponse''
    | ReplicationRequestMsg _ \<Rightarrow> ''replication.LedgerReplicationRequest''
    | ReplicationResponseMsg _ \<Rightarrow> ''replication.LedgerReplicationResponse'')"

datatype anyMsg = ByValue netMsg | ByPointer netMsg

fun theMsg :: "anyMsg \<Rightarrow> netMsg" where
  "theMsg (ByValue m) = m"
| "theMsg (ByPointer m) = m"

fun reflectTypeOf :: "anyMsg \<Rightarrow> goType" where
  "reflectTypeOf (ByValue m) = msgStruct m"
| "reflectTypeOf (ByPointer m) = PointerT (msgStruct m)"

text \<open>
  \<open>types.Cbor.Marshal\<close> and \<open>types.Cbor.Decode\<close>. The decoder is given the struct type to fill, the
  bytes the limited reader can deliver and the error the reader ends with; it returns the outcome
  and how many bytes it has taken.
\<close>

record netExt = protoExt +
  cborMarshal :: "netMsg \<Rightarrow> goerror + byte list"
  cborDecode :: "goType \<Rightarrow> byte list \<Rightarrow> goerror \<Rightarrow> (goerror + netMsg) \<times> nat"

definition codecLaw :: "'x netExt_scheme \<Rightarrow> bool" where
  "codecLaw X \<longleftrightarrow> (\<forall>m bs ende. cborMarshal X m = Inr bs \<longrightarrow>
      bs \<noteq> [] \<and> cborDecode X (msgStruct m) bs ende = (Inr m, length bs))"

section \<open>cbor.go\<close>

text \<open>
  \<open>binary.PutUvarint\<close> writes into a buffer of 8 bytes and panics when the length needs more, that
  is from \<open>2^56\<close> on.
\<close>

definition serializeMsg :: "'x netExt_scheme \<Rightarrow> anyMsg \<Rightarrow> byte list outcome" where
  "serializeMsg X msg = (case cborMarshal X (theMsg msg) of
      Inl e \<Rightarrow> Fail (Wrapf ''marshaling %T as CBOR'' e)
    | Inr bs \<Rightarrow>
        let lengthBytes = putUvarint (length bs) in
        if length lengthBytes > 8 then Panics ''index out of range'' else Ok (lengthBytes @ bs))"

definition maxMsgSize :: nat where
  "maxMsgSize = 16 * 1024 * 1024"

text \<open>
  The reader is its remaining bytes and the error it ends with; the rest of the bytes is returned.
  \<open>binary.ReadUvarint\<close> fails at the end of the bytes or at the tenth one (\<open>binary.MaxVarintLen64\<close>), so
  that many are gone then.
\<close>

definition maxVarintLen64 :: nat where
  "maxVarintLen64 = 10"

definition deserializeMsg ::
  "'x netExt_scheme \<Rightarrow> goType \<Rightarrow> goerror \<Rightarrow> byte list \<Rightarrow> (goerror + netMsg) \<times> byte list" where
  "deserializeMsg X typ ende bs = (case readUvarint ende bs of
      Inl e \<Rightarrow> (Inl (Wrapf ''reading data length'' e), drop maxVarintLen64 bs)
    | Inr (length64, src) \<Rightarrow>
        if length64 = 0 then (Inl (Errorf ''unexpected data length zero''), src)
        else if unat length64 > maxMsgSize then
          (Inl (Errorf ''message size %d exceeds maximum %d''), src)
        else
          let limited = take (unat length64) src;
              limitEnd = (if unat length64 \<le> length src then ioEOF else ende)
          in (case cborDecode X typ limited limitEnd of
              (Inl e, n) \<Rightarrow> (Inl (Wrapf ''decoding message data'' e), drop n limited @ drop (unat length64) src)
            | (Inr m, n) \<Rightarrow> (Inr m, drop n limited @ drop (unat length64) src)))"

section \<open>Unique decoding\<close>

locale length_prefix =
  fixes encLen :: "nat \<Rightarrow> byte list"
    and decLen :: "byte list \<Rightarrow> goerror + (nat \<times> byte list)"
    and bound :: nat
  assumes dec_enc: "n < bound \<Longrightarrow> decLen (encLen n @ rest) = Inr (n, rest)"
    and enc_nonempty: "encLen n \<noteq> []"
begin

lemma frame_inject:
  assumes "length xs < bound" and "length ys < bound"
    and "encLen (length xs) @ xs @ r = encLen (length ys) @ ys @ r'"
  shows "xs = ys \<and> r = r'"
proof -
  have "Inr (length xs, xs @ r) = decLen (encLen (length xs) @ xs @ r)"
    by (rule sym) (rule dec_enc [OF assms(1)])
  also have "\<dots> = decLen (encLen (length ys) @ ys @ r')" by (simp only: assms(3))
  also have "\<dots> = Inr (length ys, ys @ r')" by (rule dec_enc [OF assms(2)])
  finally have "length xs = length ys" "xs @ r = ys @ r'" by blast+
  then show ?thesis by simp
qed

text \<open>A stream of frames determines the payloads, whatever lengths they have.\<close>

lemma frames_inject:
  assumes "\<forall>x\<in>set xs \<union> set ys. length x < bound"
    and "concat (map (\<lambda>x. encLen (length x) @ x) xs) = concat (map (\<lambda>x. encLen (length x) @ x) ys)"
  shows "xs = ys"
  using assms
proof (induction xs arbitrary: ys)
  case Nil
  then show ?case using enc_nonempty by (cases ys) auto
next
  case (Cons x xs)
  show ?case
  proof (cases ys)
    case Nil
    then show ?thesis using Cons.prems enc_nonempty by simp
  next
    case (Cons y ys')
    from Cons Cons.prems have "x = y \<and>
        concat (map (\<lambda>x. encLen (length x) @ x) xs) = concat (map (\<lambda>x. encLen (length x) @ x) ys')"
      by (intro frame_inject) auto
    moreover have "\<forall>x\<in>set xs \<union> set ys'. length x < bound"
      using Cons.prems(1) Cons by auto
    ultimately have "xs = ys'" by (intro Cons.IH) auto
    with \<open>x = y \<and> _\<close> Cons show ?thesis by simp
  qed
qed

end

interpretation uvarint: length_prefix putUvarint "\<lambda>bs. map_sum id (map_prod unat id) (readUvarint ioEOF bs)" "2 ^ 64"
proof unfold_locales
  fix n :: nat and rest
  assume "n < 2 ^ 64"
  then have "unat (of_nat n :: uint64) = n" by (simp add: unat_of_nat)
  then show "map_sum id (map_prod unat id) (readUvarint ioEOF (putUvarint n @ rest)) = Inr (n, rest)"
    using readUvarint_put [of ioEOF "of_nat n" rest] by simp
qed (rule putUvarint_nonempty)

section \<open>Round trip and limits\<close>

lemma serializeMsg_Ok_iff:
  "serializeMsg X msg = Ok fr \<longleftrightarrow>
     (\<exists>bs. cborMarshal X (theMsg msg) = Inr bs \<and> length (putUvarint (length bs)) \<le> 8 \<and>
       fr = putUvarint (length bs) @ bs)"
  by (auto simp: serializeMsg_def Let_def split: sum.splits)

lemma serializeMsg_fits:
  assumes "cborMarshal X (theMsg msg) = Inr bs" and "length bs < 2 ^ 56"
  shows "serializeMsg X msg = Ok (putUvarint (length bs) @ bs)"
  using assms length_putUvarint [of "length bs" 8] by (simp add: serializeMsg_Ok_iff)

lemma deserialize_serialize:
  assumes "codecLaw X" and "serializeMsg X msg = Ok fr"
    and "cborMarshal X (theMsg msg) = Inr bs" and "length bs \<le> maxMsgSize"
  shows "deserializeMsg X (msgStruct (theMsg msg)) ende (fr @ rest) = (Inr (theMsg msg), rest)"
proof -
  let ?n = "of_nat (length bs) :: uint64"
  have n: "unat ?n = length bs" using assms(4) by (simp add: unat_of_nat maxMsgSize_def)
  have ne: "bs \<noteq> []" and dec: "cborDecode X (msgStruct (theMsg msg)) bs ioEOF = (Inr (theMsg msg), length bs)"
    using assms(1,3) by (auto simp: codecLaw_def)
  have "fr = putUvarint (unat ?n) @ bs" using assms(2,3) n by (auto simp: serializeMsg_Ok_iff)
  then have rd: "readUvarint ende (fr @ rest) = Inr (?n, bs @ rest)"
    by (simp add: readUvarint_put)
  have "?n \<noteq> 0" using n ne by (metis length_0_conv unsigned_0)
  then show ?thesis
    unfolding deserializeMsg_def using rd n dec assms(4) by simp
qed

lemma deserialize_shorter:
  "deserializeMsg X typ ende bs = (Inr m, rest) \<Longrightarrow> length rest < length bs"
proof -
  assume a: "deserializeMsg X typ ende bs = (Inr m, rest)"
  then obtain l src where r: "readUvarint ende bs = Inr (l, src)"
    by (auto simp: deserializeMsg_def split: sum.splits)
  then have "length src < length bs" by (rule readUvarint_shorter)
  moreover have "length rest \<le> length src"
    using a r by (auto simp: deserializeMsg_def Let_def split: sum.splits if_splits prod.splits)
  ultimately show ?thesis by simp
qed

end
