(* ===== verification/Samples.thy ===== *)
theory Samples
  imports FgpTxSystem MsgCodec
begin

text \<open>
  Concrete values at which the witnesses apply the theorems: a PoW node with a short chain, a
  shard configuration, certificates of consecutive rounds, and an instance of the external
  operations that satisfies their documented behaviour. Nothing here models a source file.
\<close>

section \<open>PoW node and transaction system\<close>

definition sampleHeader :: "string \<Rightarrow> int \<Rightarrow> uint64 \<Rightarrow> blockHeader" where
  "sampleHeader h conf height =
     \<lparr>bhHash = h, bhConfirmations = conf, bhHeight = height, bhVersion = 1, bhVersionHex = '''',
      bhTime = 0, bhMediantime = 0, bhNonce = 0, bhBits = '''', bhDifficulty = 0,
      bhChainwork = '''', bhPreviousBlockHash = '''', bhRxHash = ''''\<rparr>"

text \<open>A client whose active chain has tip 10 and block \<open>0a05\<close> at height 5, with one harmless fork.\<close>

definition sampleClient :: powClient where
  "sampleClient =
     \<lparr>getTip = Inr (sampleHeader ''0a0a'' 1 10),
      getBlockHeaderByHash = (\<lambda>h. if h = ''0a05'' then Inr (sampleHeader ''0a05'' 6 5)
         else if h = ''0a09'' then Inr (sampleHeader ''0a09'' 2 9) else Inl (Errorf ''not found'')),
      getBlockHeaderByHeight = (\<lambda>n. if n = 5 then Inr (sampleHeader ''0a05'' 6 5) else Inl (Errorf ''not found'')),
      getChainTips = Inr [\<lparr>ctHeight = 10, ctHash = ''0a0a'', ctBranchLen = 0, ctStatus = ''active''\<rparr>,
                          \<lparr>ctHeight = 8, ctHash = ''0b08'', ctBranchLen = 2, ctStatus = ''valid-fork''\<rparr>]\<rparr>"

definition sampleConf :: shardConfRecord where
  "sampleConf = \<lparr>pdrNetworkID = 3, pdrPartitionID = 3, pdrPartitionTypeID = 3,
     pdrShardID = ShardID [], pdrT2Timeout = 2500000000, pdrEpoch = 0, pdrEpochStart = 1,
     pdrValidators = [], pdrPartitionParams = [''dFG'' \<mapsto> ''6'']\<rparr>"

definition sampleFgp :: fgpTxSystem where
  "sampleFgp = \<lparr>fgpShardConf = sampleConf, dFG = 6, committedStateHash = None,
     committedStateHeight = 0, pendingStateHash = None, pendingStateHeight = 0,
     committedUC = None, fgpSummaryValue = Some [], fgpSumOfEarnedFees = 0, fgpEtHash = None\<rparr>"

lemmas sample_defs = sampleHeader_def sampleClient_def sampleConf_def sampleFgp_def

section \<open>Certificates and external operations\<close>

definition sampleIR :: "uint64 \<Rightarrow> slice \<Rightarrow> slice \<Rightarrow> inputRecord" where
  "sampleIR r prev h = \<lparr>irVersion = 1, irRoundNumber = r, irEpoch = 0, irPreviousHash = prev,
     irHash = h, irSummaryValue = Some [], irTimestamp = 7, irBlockHash = Some [9, ucast r],
     irSumOfEarnedFees = 0, irETHash = None\<rparr>"

text \<open>The certificate of round \<open>r\<close> in root round \<open>rr\<close>, moving the state from \<open>prev\<close> to \<open>h\<close>.\<close>

definition sampleUC :: "uint64 \<Rightarrow> uint64 \<Rightarrow> slice \<Rightarrow> slice \<Rightarrow> unicityCertificate" where
  "sampleUC r rr prev h = \<lparr>ucVersion = 1, ucInputRecord = Some (sampleIR r prev h),
     ucTRHash = Some [1], ucShardConfHash = None,
     ucUnicityTreeCertificate = Some \<lparr>utcPartition = 3\<rparr>,
     ucUnicitySeal = Some \<lparr>sealEpoch = 1, sealRootChainRoundNumber = rr, sealTimestamp = 7, sealHash = None\<rparr>,
     ucProof = []\<rparr>"

definition irField :: "(inputRecord \<Rightarrow> 'a) \<Rightarrow> 'a \<Rightarrow> unicityCertificate option \<Rightarrow> 'a" where
  "irField f z uc = (case uc of None \<Rightarrow> z
     | Some u \<Rightarrow> (case ucInputRecord u of None \<Rightarrow> z | Some ir \<Rightarrow> f ir))"

definition sealField :: "(unicitySeal \<Rightarrow> uint64) \<Rightarrow> unicityCertificate option \<Rightarrow> uint64" where
  "sealField f uc = (case uc of None \<Rightarrow> 0
     | Some u \<Rightarrow> (case ucUnicitySeal u of None \<Rightarrow> 0 | Some sl \<Rightarrow> f sl))"

text \<open>A byte form of these certificates, so that blocks can carry them.\<close>

definition sampleEncodeUC :: "unicityCertificate \<Rightarrow> byte list" where
  "sampleEncodeUC u =
     (let prev = sliceBytes (irField irPreviousHash None (Some u)) in
      [ucast (irField irRoundNumber 0 (Some u)), ucast (sealField sealRootChainRoundNumber (Some u)),
       of_nat (length prev)] @ prev @ sliceBytes (irField irHash None (Some u)))"

fun sampleDecodeUC :: "slice \<Rightarrow> goerror + unicityCertificate" where
  "sampleDecodeUC (Some (r # rr # n # bs)) =
     (let u = sampleUC (ucast r) (ucast rr) (Some (take (unat n) bs)) (Some (drop (unat n) bs))
      in Inr (if rr = 0 then u\<lparr>ucUnicitySeal := None\<rparr> else u))"
| "sampleDecodeUC _ = Inl ioEOF"

definition sampleExt :: ext where
  "sampleExt =
     \<lparr>getRoundNumber = irField irRoundNumber 0,
      getRootRoundNumber = sealField sealRootChainRoundNumber,
      getRootEpoch = sealField sealEpoch,
      getShardEpoch = irField irEpoch 0,
      getStateHash = irField irHash None,
      getPreviousStateHash = irField irPreviousHash None,
      getBlockHash = irField irBlockHash None,
      getETHash = irField irETHash None,
      isDuplicate = (\<lambda>u p. sealField sealRootChainRoundNumber (Some u) = sealField sealRootChainRoundNumber p),
      isRepeat = (\<lambda>u p. Inr (p \<noteq> None \<and> irField irRoundNumber 0 (Some u) = irField irRoundNumber 0 p)),
      isSuccessor = (\<lambda>u p. irField irRoundNumber 0 (Some u) = irField irRoundNumber 0 p + 1 \<and>
         bytesEqual (irField irPreviousHash None (Some u)) (irField irHash None p)),
      isInitial = (\<lambda>u. irField irRoundNumber 0 (Some u) = 0),
      ucVerify = (\<lambda>u tb alg pid sid h. (case u of None \<Rightarrow> Some (Errorf ''UC is nil'')
         | Some v \<Rightarrow> if ucInputRecord v = None \<or> ucUnicitySeal v = None
             then Some (Errorf ''incomplete UC'') else None)),
      ucHash = (\<lambda>u alg. Inr (Some [ucast (sealField sealRootChainRoundNumber (Some u))])),
      checkNonEquivocatingCertificates = (\<lambda>p n.
         if sealField sealRootChainRoundNumber (Some n) < sealField sealRootChainRoundNumber (Some p)
         then Some (Errorf ''older root round'') else None),
      assertEqualIR = (\<lambda>a b. if a = b then None else Some (Errorf ''records differ'')),
      irIsValid = (\<lambda>ir. if ir = None then Some (Errorf ''input record is nil'') else None),
      blockInputRecord = (\<lambda>b. map_sum id ucInputRecord (sampleDecodeUC (blkUnicityCertificate b))),
      blockIsValid = (\<lambda>b alg h. if blkHeader b = None then Some (Errorf ''header is nil'') else None),
      calculateBlockHash = (\<lambda>b alg. (case sampleDecodeUC (blkUnicityCertificate b) of
         Inr u \<Rightarrow> if ucInputRecord u = None then Inl (Errorf ''no input record'') else Inr (ucInputRecord u, b)
       | Inl e \<Rightarrow> Inl e)),
      blockSize = (\<lambda>b. Inr 1),
      marshalUC = (\<lambda>u. if sampleDecodeUC (Some (sampleEncodeUC u)) = Inr u
         then Inr (Some (sampleEncodeUC u)) else Inl (Errorf ''unsupported'')),
      unmarshalUC = sampleDecodeUC,
      pdrHash = (\<lambda>c alg. Inr (Some [3])),
      pdrVerify = (\<lambda>c prev. None),
      findValidator = (\<lambda>c n. find (\<lambda>v. niNodeID v = n) (pdrValidators c)),
      sigVerifier = (\<lambda>v. Inr (Some (niSigKey v))),
      verifyHash = (\<lambda>v sig h. if sig = h then None else Some (Errorf ''invalid signature'')),
      verifyBytes = (\<lambda>v sig bs. if sig = bs then None else Some (Errorf ''invalid signature'')),
      signHash = (\<lambda>sg h. Inr h),
      signBytes = (\<lambda>sg bs. Inr bs),
      shardEqual = (=),
      peerDecode = Inr,
      peerString = (\<lambda>x. x),
      uint64ToBytes = putUint64BE,
      uint32ToBytes = (\<lambda>w. natToBytes 4 (unat w)),
      bytesToUint64 = (\<lambda>bs. of_nat (bytesToNat bs))\<rparr>"

lemma sampleExt_laws:
  "gettersLaw sampleExt" "verifyLaw sampleExt" "nonEquivocationLaw sampleExt" "successorLaw sampleExt"
  "blockLaw sampleExt" "ucCodecLaw sampleExt"
  by (auto simp: extLaws sampleExt_def irField_def sealField_def word_gt_0 split: option.splits if_splits sum.splits)

lemma sampleExt_keys: "keyLaw sampleExt"
  using uint64BE_put by (auto simp: keyLaw_def sampleExt_def uint64BE_def putUint64BE_def)

section \<open>Messages\<close>

definition sampleTR :: "uint64 \<Rightarrow> string \<Rightarrow> technicalRecord" where
  "sampleTR r l = \<lparr>trRound = r, trEpoch = 0, trLeader = l, trStatHash = Some [1], trFeeHash = Some [2]\<rparr>"

text \<open>The messages the sample codec can encode: handshakes of a numbered partition.\<close>

definition sampleHandshake :: "byte \<Rightarrow> netMsg" where
  "sampleHandshake b = HandshakeMsg \<lparr>hsPartitionID = ucast b, hsShardID = ShardID [], hsNodeID = ''n''\<rparr>"

fun samplePid :: "netMsg \<Rightarrow> byte" where
  "samplePid (HandshakeMsg h) = ucast (hsPartitionID h)"
| "samplePid _ = 0"

fun sampleDecodeMsg :: "goType \<Rightarrow> byte list \<Rightarrow> goerror \<Rightarrow> (goerror + netMsg) \<times> nat" where
  "sampleDecodeMsg t [a, b] ende = (if a = 1 \<and> t = msgStruct (sampleHandshake b)
     then (Inr (sampleHandshake b), 2) else (Inl (Errorf ''wrong type''), 2))"
| "sampleDecodeMsg t bs ende = (Inl ende, length bs)"

definition sampleNetExt :: netExt where
  "sampleNetExt = ext.extend sampleExt
     (protoExt_ext (\<lambda>tr. Inr (Some [1])) (\<lambda>p alg. Inr (Some [5])) (\<lambda>r. Inr (Some [6]))
       (netExt_ext
         (\<lambda>m. if m = sampleHandshake (samplePid m) then Inr [1, samplePid m] else Inl (Errorf ''unsupported''))
         sampleDecodeMsg ()))"

lemma sampleNetExt_codec: "codecLaw sampleNetExt"
  by (auto simp: codecLaw_def sampleNetExt_def ext.defs sampleExt_def split: if_splits)

end
