(* ===== verification/FgpProperties.thy ===== *)
theory FgpProperties
  imports Samples
begin

text \<open>
  The properties of the transaction system: exactly when a leader proposes and a follower accepts,
  their agreement, the invariant of every run of operations, atomicity of errors, and what a
  commit installs.
\<close>

section \<open>Proposing and verifying\<close>

text \<open>
  C1. \<open>LeaderPropose\<close> succeeds exactly when the tip is at least \<open>dFG\<close> blocks above the last
  certified block (as natural numbers: no subtraction of the source wraps), the block at height
  \<open>tip - dFG + 1\<close> is known, no chain tip off the active chain competes at that height, and its hash
  decodes; the proposed block then becomes the pending state and nothing else changes.
\<close>

theorem leaderPropose_Ok_iff:
  assumes "dFG s \<noteq> 0"
  shows "leaderPropose c round s = (Ok sm, s') \<longleftrightarrow>
    (\<exists>tip hFG cand tips bs. getTip c = Inr tip \<and> certifiedHeight c s = Inr hFG \<and>
       unat hFG + unat (dFG s) \<le> unat (bhHeight tip) \<and>
       getBlockHeaderByHeight c (of_nat (unat (bhHeight tip) + 1 - unat (dFG s))) = Inr cand \<and>
       getChainTips c = Inr tips \<and>
       (\<forall>t\<in>set tips. \<not> forkBlocks (unat (bhHeight tip) + 1 - unat (dFG s)) t) \<and>
       hexDecodeString (bhHash cand) = Inr bs \<and>
       s' = s\<lparr>pendingStateHash := Some bs, pendingStateHeight := bhHeight cand\<rparr> \<and>
       sm = summaryOf (Some bs) s)"
proof -
  have cand: "unat (tip - (dFG s - 1)) = unat tip + 1 - unat (dFG s)"
    "tip - (dFG s - 1) = of_nat (unat tip + 1 - unat (dFG s))"
    if "unat hFG + unat (dFG s) \<le> unat tip" for tip hFG :: uint64
    using leader_height_checks(2) [OF assms that] uint64_eq_of_nat by blast+
  show ?thesis
    unfolding leaderPropose_run [OF assms] using cand by (intro ex_cong1 conj_cong refl) metis+
qed

theorem leaderPropose_Ok_iff_witness:
  "\<exists>sm s'. dFG sampleFgp \<noteq> 0 \<and> leaderPropose sampleClient 1 sampleFgp = (Ok sm, s') \<and>
     pendingStateHash s' = Some [10, 5]"
proof -
  have d: "dFG sampleFgp \<noteq> 0" by (simp add: sample_defs)
  have "leaderPropose sampleClient 1 sampleFgp =
      (Ok (summaryOf (Some [10, 5]) sampleFgp),
       sampleFgp\<lparr>pendingStateHash := Some [10, 5], pendingStateHeight := 5\<rparr>)"
    unfolding leaderPropose_Ok_iff [OF d]
    by (simp add: sample_defs certifiedHeight_def forkBlocks_def fromHexChar_def)
  with d show ?thesis by simp
qed

text \<open>
  C2. \<open>FollowerVerify\<close> accepts a root exactly when it repeats the committed hash, or the PoW node
  knows the block, reports it on the active chain, and the tip gives it at least \<open>dFG\<close>
  confirmations (the block itself counts as one); acceptance makes it the pending state.
\<close>

theorem followerVerify_Ok_iff:
  assumes "dFG s \<noteq> 0"
  shows "followerVerify c round p s = (Ok sm, s') \<longleftrightarrow>
    sm = summaryOf p s \<and>
    (if bytesEqual p (committedStateHash s) then
       s' = s\<lparr>pendingStateHash := p, pendingStateHeight := committedStateHeight s\<rparr>
     else
       (\<exists>block tip. getBlockHeaderByHash c (hexEncodeToString (sliceBytes p)) = Inr block \<and>
          isActive block \<and> getTip c = Inr tip \<and>
          unat (bhHeight block) + unat (dFG s) \<le> unat (bhHeight tip) + 1 \<and>
          s' = s\<lparr>pendingStateHash := p, pendingStateHeight := bhHeight block\<rparr>))"
  unfolding followerVerify_run [OF assms] by auto

theorem followerVerify_Ok_iff_witness:
  "\<exists>sm s'. dFG sampleFgp \<noteq> 0 \<and> followerVerify sampleClient 1 (Some [10, 5]) sampleFgp = (Ok sm, s') \<and>
     pendingStateHeight s' = 5"
proof -
  have d: "dFG sampleFgp \<noteq> 0" by (simp add: sample_defs)
  have "followerVerify sampleClient 1 (Some [10, 5]) sampleFgp =
      (Ok (summaryOf (Some [10, 5]) sampleFgp),
       sampleFgp\<lparr>pendingStateHash := Some [10, 5], pendingStateHeight := 5\<rparr>)"
    unfolding followerVerify_Ok_iff [OF d]
    by (simp add: sample_defs isActive_def hexEncodeToString_def hexByte_def hextable_def)
  with d show ?thesis by simp
qed

text \<open>
  C3. Agreement of leader and follower: what an honest leader proposes, a follower accepts, provided
  the follower runs with the same \<open>dFG\<close>, its PoW node reports the proposed block on the active chain
  at the height the leader took it from, and its tip is not behind the leader's. Both then report
  the same root.
\<close>

theorem leader_follower_agreement:
  assumes "dFG l \<noteq> 0" and "dFG f = dFG l"
    and "leaderPropose c round l = (Ok sm, l')"
    and "getTip c = Inr tip" and "getTip c' = Inr tip'" and "bhHeight tip \<le> bhHeight tip'"
    and "getBlockHeaderByHash c' (hexEncodeToString (sliceBytes (rootHash sm))) = Inr b"
    and "isActive b" and "unat (bhHeight b) = unat (bhHeight tip) + 1 - unat (dFG l)"
  shows "\<exists>sm' f'. followerVerify c' round (rootHash sm) f = (Ok sm', f') \<and> rootHash sm' = rootHash sm"
proof -
  have le: "unat (dFG l) \<le> unat (bhHeight tip)"
    using assms(3,4) by (auto simp: leaderPropose_run [OF assms(1)])
  then have "unat (bhHeight b) + unat (dFG f) \<le> Suc (unat (bhHeight tip'))"
    using assms by (simp add: word_le_nat_alt)
  then show ?thesis
    using assms by (auto simp: followerVerify_run summaryOf_def)
qed

theorem leader_follower_agreement_witness:
  "\<exists>sm l' sm' f'. leaderPropose sampleClient 1 sampleFgp = (Ok sm, l') \<and>
     followerVerify sampleClient 1 (rootHash sm) sampleFgp = (Ok sm', f') \<and> rootHash sm' = rootHash sm"
proof -
  have d: "dFG sampleFgp \<noteq> 0" by (simp add: sample_defs)
  let ?sm = "summaryOf (Some [10, 5]) sampleFgp"
  have p: "leaderPropose sampleClient 1 sampleFgp =
      (Ok ?sm, sampleFgp\<lparr>pendingStateHash := Some [10, 5], pendingStateHeight := 5\<rparr>)"
    unfolding leaderPropose_run [OF d]
    by (simp add: sample_defs certifiedHeight_def forkBlocks_def fromHexChar_def)
  have "\<exists>sm' f'. followerVerify sampleClient 1 (rootHash ?sm) sampleFgp = (Ok sm', f') \<and>
      rootHash sm' = rootHash ?sm"
    by (rule leader_follower_agreement [OF d refl p, where tip = "sampleHeader ''0a0a'' 1 10"
          and tip' = "sampleHeader ''0a0a'' 1 10" and b = "sampleHeader ''0a05'' 6 5"])
      (simp_all add: sample_defs isActive_def summaryOf_def hexEncodeToString_def hexByte_def hextable_def)
  with p show ?thesis by blast
qed

section \<open>Runs, errors, commits\<close>

lemma readDFG_iff:
  "readDFG conf = Inr d \<longleftrightarrow>
     (\<exists>str. pdrPartitionParams conf ''dFG'' = Some str \<and> str \<noteq> [] \<and> allDigits str \<and>
        0 < decimalValue 0 str \<and> decimalValue 0 str < 2 ^ 64 \<and> d = of_nat (decimalValue 0 str))"
proof (cases "pdrPartitionParams conf ''dFG''")
  case None
  then show ?thesis by (simp add: readDFG_def)
next
  case (Some str)
  have "of_nat (decimalValue 0 str) \<noteq> (0 :: uint64) \<longleftrightarrow> 0 < decimalValue 0 str"
    if "decimalValue 0 str < 2 ^ 64"
  proof -
    have "unat (of_nat (decimalValue 0 str) :: uint64) = decimalValue 0 str"
      using that by (simp add: unat_of_nat)
    then show ?thesis by (metis unat_0 unat_eq_zero neq0_conv)
  qed
  moreover have "readDFG conf = Inr d \<longleftrightarrow> parseUint str = Inr d \<and> d \<noteq> 0"
    using Some by (auto simp: readDFG_def split: sum.splits if_splits)
  ultimately show ?thesis using Some by (auto simp: parseUint_spec)
qed

text \<open>
  C30. The constructor accepts a shard configuration exactly when its parameter \<open>dFG\<close> is a decimal
  numeral of a positive 64-bit number, and then starts from the uncertified genesis state.
\<close>

theorem newFGPTxSystem_iff:
  "newFGPTxSystem conf = Inr s \<longleftrightarrow>
     (\<exists>str. pdrPartitionParams conf ''dFG'' = Some str \<and> str \<noteq> [] \<and> allDigits str \<and>
        0 < decimalValue 0 str \<and> decimalValue 0 str < 2 ^ 64 \<and>
        s = \<lparr>fgpShardConf = conf, dFG = of_nat (decimalValue 0 str),
             committedStateHash = None, committedStateHeight = 0,
             pendingStateHash = None, pendingStateHeight = 0, committedUC = None,
             fgpSummaryValue = Some [], fgpSumOfEarnedFees = 0, fgpEtHash = None\<rparr>)"
proof -
  have "newFGPTxSystem conf = Inr s \<longleftrightarrow> (\<exists>d. readDFG conf = Inr d \<and>
      s = \<lparr>fgpShardConf = conf, dFG = d, committedStateHash = None, committedStateHeight = 0,
           pendingStateHash = None, pendingStateHeight = 0, committedUC = None,
           fgpSummaryValue = Some [], fgpSumOfEarnedFees = 0, fgpEtHash = None\<rparr>)"
    by (auto simp: newFGPTxSystem_def split: sum.splits)
  then show ?thesis unfolding readDFG_iff by blast
qed


lemma fgpInv_step: "fgpInv X s \<Longrightarrow> fgpInv X (snd (fgpExec X op s))"
  by (rule wp_snd, rule keepsD) (cases op, auto intro!: fgpInv_keeps keeps_andSeq keeps_ret)

lemma fgpRun_inv: "fgpInv X s \<Longrightarrow> fgpInv X (fgpRun X ops s)"
  by (induction ops arbitrary: s) (auto dest: fgpInv_step)

text \<open>
  C16. In every state a client can reach from the constructor, by any sequence of operations and any
  answers of the PoW node, \<open>dFG\<close> is positive (so \<open>dFG - 1\<close> never wraps), the constant summary fields
  keep their values, and the finalised hash is the state hash of the last committed certificate.
\<close>

theorem fgp_run_invariant:
  assumes "newFGPTxSystem conf = Inr s"
  shows "fgpInv X (fgpRun X ops s)"
  by (rule fgpRun_inv) (rule newFGPTxSystem_inv [OF assms, THEN conjunct1])

lemma sampleFgp_new: "newFGPTxSystem sampleConf = Inr sampleFgp"
  by (simp add: newFGPTxSystem_def readDFG_def sample_defs parseUint_def digitVal_def parseCutoff_def)

theorem fgp_run_invariant_witness:
  "newFGPTxSystem sampleConf = Inr sampleFgp \<and>
   fgpInv sampleExt (fgpRun sampleExt [OpFollowerVerify sampleClient 1 (Some [10, 5]),
     OpCommit (sampleUC 1 1 None (Some [10, 5]))] sampleFgp)"
  using sampleFgp_new fgp_run_invariant [OF sampleFgp_new] by blast

text \<open>
  C14. Verification followed by certification finalises exactly the verified block: once a follower
  has verified root \<open>p\<close>, committing any certificate whose state hash is \<open>p\<close> succeeds, records that
  certificate, makes \<open>p\<close> the committed state, and leaves no uncommitted change.
\<close>

theorem verified_block_commits:
  assumes "followerVerify c r p s = (Ok sm, t)" and "bytesEqual (getStateHash X (Some uc)) p"
  shows "\<exists>u sm'. commit X uc t = (Ok (), u) \<and> committedUC u = Some uc \<and>
    bytesEqual (committedStateHash u) p \<and> stateSummary u = (Ok sm', u) \<and> bytesEqual (rootHash sm') p"
proof -
  obtain u where u: "commit X uc t = (Ok (), u)" "committedUC u = Some uc"
    "bytesEqual (committedStateHash u) p"
    using fgp.verify_then_commit [OF assms] by blast
  obtain sm' where sm: "stateSummary u = (Ok sm', u)"
    using wp_Ok [OF fgp.commit_effect u(1)] by blast
  have "rootHash sm' = committedStateHash u" using wp_Ok [OF fgp.summary_pure sm] by simp
  with u sm show ?thesis by auto
qed

theorem verified_block_commits_witness:
  "\<exists>sm t u. followerVerify sampleClient 1 (Some [10, 5]) sampleFgp = (Ok sm, t) \<and>
     commit sampleExt (sampleUC 1 1 None (Some [10, 5])) t = (Ok (), u) \<and>
     bytesEqual (committedStateHash u) (Some [10, 5])"
proof -
  have d: "dFG sampleFgp \<noteq> 0" by (simp add: sample_defs)
  have v: "followerVerify sampleClient 1 (Some [10, 5]) sampleFgp =
      (Ok (summaryOf (Some [10, 5]) sampleFgp),
       sampleFgp\<lparr>pendingStateHash := Some [10, 5], pendingStateHeight := 5\<rparr>)"
    unfolding followerVerify_run [OF d]
    by (simp add: sample_defs isActive_def hexEncodeToString_def hexByte_def hextable_def)
  have h: "bytesEqual (getStateHash sampleExt (Some (sampleUC 1 1 None (Some [10, 5])))) (Some [10, 5])"
    by (simp add: sampleExt_def irField_def sampleUC_def sampleIR_def)
  from v verified_block_commits [OF v h] show ?thesis by blast
qed

text \<open>
  C15. The follower has no check that a proposed block lies above the last finalised one, as the leader
  has: in every state that operations lead to, as long as the last finalised block has its confirmations,
  any block of the active chain below it is accepted, and once certified it becomes the finalised block, so the finalised height, which
  the next leader starts from, decreases.
\<close>

theorem follower_accepts_older_block:
  assumes "newFGPTxSystem conf = Inr s0" and "s = fgpRun X ops s0" and "committedStateHash s = Some h"
    and "getBlockHeaderByHash c (hexEncodeToString h) = Inr certified"
    and "getBlockHeaderByHash c (hexEncodeToString p) = Inr older" and "isActive older" and "bhHeight older < bhHeight certified"
    and "getTip c = Inr tip" and "unat (bhHeight certified) + unat (dFG s) \<le> unat (bhHeight tip) + 1"
    and "bytesEqual (getStateHash X (Some uc)) (Some p)"
  shows "certifiedHeight c s = Inr (bhHeight certified) \<and>
    (\<exists>sm t u. followerVerify c r (Some p) s = (Ok sm, t) \<and> commit X uc t = (Ok (), u) \<and> committedStateHash u = Some p \<and>
       certifiedHeight c u = Inr (bhHeight older) \<and> committedStateHeight u = bhHeight older)"
proof -
  have inv: "fgpInv X s" unfolding assms(2) by (rule fgpRun_inv) (rule newFGPTxSystem_inv [OF assms(1), THEN conjunct1])
  then have d: "dFG s \<noteq> 0" by (simp add: fgpInv_def)
  have "p \<noteq> h" using assms(4,5,7) by auto
  then have new: "\<not> bytesEqual (Some p) (committedStateHash s)" using assms(3) by (simp add: bytesEqual_def)
  have "unat (bhHeight older) + unat (dFG s) \<le> Suc (unat (bhHeight tip))"
    using assms(7,9) by (simp add: word_less_nat_alt)
  then have "followerVerify c r (Some p) s =
      (Ok (summaryOf (Some p) s), s\<lparr>pendingStateHash := Some p, pendingStateHeight := bhHeight older\<rparr>)"
    unfolding followerVerify_run [OF d] using new assms(5,6,8) by simp
  moreover have "bytesEqual (Some p) (getStateHash X (Some uc))" using assms(10) by (simp add: bytesEqual_sym)
  ultimately show ?thesis
    using assms(3,4,5) by (simp add: commit_run certifiedHeight_def)
qed

text \<open>The chain has grown, and block \<open>0a09\<close> was certified.\<close>

definition sampleLater :: powClient where
  "sampleLater = sampleClient\<lparr>getTip := Inr (sampleHeader ''0a14'' 1 20)\<rparr>"

definition sampleOps :: "fgpOp list" where
  "sampleOps = [OpFollowerVerify sampleLater 1 (Some [10, 9]), OpCommit (sampleUC 1 1 None (Some [10, 9]))]"

lemma sample_run_ops:
  "committedStateHash (fgpRun sampleExt sampleOps sampleFgp) = Some [10, 9] \<and> dFG (fgpRun sampleExt sampleOps sampleFgp) = 6"
  by code_simp

theorem follower_accepts_older_block_witness:
  "certifiedHeight sampleLater (fgpRun sampleExt sampleOps sampleFgp) = Inr 9 \<and>
   (\<exists>sm t u. followerVerify sampleLater 2 (Some [10, 5]) (fgpRun sampleExt sampleOps sampleFgp) = (Ok sm, t) \<and>
      commit sampleExt (sampleUC 2 2 (Some [10, 9]) (Some [10, 5])) t = (Ok (), u) \<and> certifiedHeight sampleLater u = Inr 5)"
proof -
  have c: "getBlockHeaderByHash sampleLater (hexEncodeToString [10, 9]) = Inr (sampleHeader ''0a09'' 2 9)"
    "getBlockHeaderByHash sampleLater (hexEncodeToString [10, 5]) = Inr (sampleHeader ''0a05'' 6 5)"
    "isActive (sampleHeader ''0a05'' 6 5)" "bhHeight (sampleHeader ''0a05'' 6 5) < bhHeight (sampleHeader ''0a09'' 2 9)"
    "getTip sampleLater = Inr (sampleHeader ''0a14'' 1 20)"
    "bytesEqual (getStateHash sampleExt (Some (sampleUC 2 2 (Some [10, 9]) (Some [10, 5])))) (Some [10, 5])"
    by code_simp+
  have deep: "unat (bhHeight (sampleHeader ''0a09'' 2 9)) + unat (dFG (fgpRun sampleExt sampleOps sampleFgp))
      \<le> unat (bhHeight (sampleHeader ''0a14'' 1 20)) + 1"
    using sample_run_ops by (simp add: sampleHeader_def)
  show ?thesis
    using follower_accepts_older_block [OF sampleFgp_new refl conjunct1 [OF sample_run_ops] c(1-5) deep c(6), of 2]
    by (auto simp: sampleHeader_def)
qed

end
