(* ===== verification/LibP2P.thy ===== *)
theory LibP2P
  imports MsgCodec
begin

text \<open>
  \<open>src/network/libp2p_network.go\<close> and \<open>src/network/validator_network.go\<close>: the registry of send
  and receive protocols, sending, and the receiving side of a stream. The libp2p host is outside
  the repository: its protocol switch is the list \<open>muxHandlers\<close> (what \<open>SetStreamHandler\<close> stored),
  a stream is the bytes it delivers and the error it ends with, and the result of the calls on an
  outgoing stream is a parameter (\<open>streamEnv\<close>). A goroutine started by \<open>sendAsync\<close> is an entry of
  \<open>spawned\<close>; running it is \<open>sendMsg\<close>.
\<close>

section \<open>State\<close>

record sendProtocolData =
  spProtocolID :: string
  spTimeout :: int

record sendProtocolDescription =
  spdProtocolID :: string
  spdMsgType :: "goType option"
  spdTimeout :: int

text \<open>
  What a constructor of a receive protocol returns: \<open>None\<close> is the nil interface, \<open>Some (t, b)\<close> a
  value of dynamic type \<open>t\<close> that is a nil pointer when \<open>b\<close>.
\<close>

type_synonym goAny = "(goType \<times> bool) option"

datatype protocolHandler = CustomHandler nat | MsgHandler string goType

record receiveProtocolDescription =
  rpdProtocolID :: string
  rpdTypeFn :: "goAny option"
  rpdHandler :: "nat option"

record libP2PNetwork =
  netSelf :: peerID
  sendProtocols :: "goType \<Rightarrow> sendProtocolData option"
  receivedMsgs :: "anyMsg list"
  receivedCap :: nat
  muxHandlers :: "(string \<times> protocolHandler) list"
  spawned :: "(sendProtocolData \<times> byte list \<times> peerID) list"

definition newLibP2PNetwork ::
  "peerID option \<Rightarrow> nat \<Rightarrow> (string \<times> protocolHandler) list \<Rightarrow> goerror + libP2PNetwork" where
  "newLibP2PNetwork self capacity mux = (case self of
      None \<Rightarrow> Inl (Errorf ''peer is nil'')
    | Some p \<Rightarrow> Inr \<lparr>netSelf = p, sendProtocols = (\<lambda>_. None), receivedMsgs = [],
        receivedCap = capacity, muxHandlers = mux, spawned = []\<rparr>)"

section \<open>Receiving\<close>

text \<open>The non-blocking send on the buffered channel: a full buffer drops the message.\<close>

definition receivedMsg :: "anyMsg \<Rightarrow> (libP2PNetwork, unit) comp" where
  "receivedMsg msg = (\<lambda>n.
     if length (receivedMsgs n) < receivedCap n
     then (Ok (), n\<lparr>receivedMsgs := receivedMsgs n @ [msg]\<rparr>)
     else (Fail (Errorf ''dropping %s message from %s because of slow consumer''), n))"

text \<open>
  The read loop of the stream handler: the result tells whether the stream is closed (\<open>success\<close>)
  or reset.
\<close>

function readLoop ::
  "'x netExt_scheme \<Rightarrow> goType \<Rightarrow> goerror \<Rightarrow> byte list \<Rightarrow> (libP2PNetwork, bool) comp" where
  "readLoop X typ ende bs n = (case deserializeMsg X typ ende bs of
      (Inl e, rest) \<Rightarrow> (Ok (errorsIs e ioEOF), n)
    | (Inr m, rest) \<Rightarrow> (case receivedMsg (ByPointer m) n of
        (Ok _, n') \<Rightarrow> readLoop X typ ende rest n'
      | (Fail e, n') \<Rightarrow> (Ok False, n')
      | (Panics p, n') \<Rightarrow> (Panics p, n')))"
  by pat_completeness auto

termination readLoop
  by (relation "measure (\<lambda>(X, typ, ende, bs, n). length bs)")
    (auto dest: deserialize_shorter [OF sym])

declare readLoop.simps [simp del]

text \<open>\<open>streamHandlerForProtocol\<close>: \<open>deadlineErr\<close> is the result of \<open>SetReadDeadline\<close>.\<close>

definition streamHandler ::
  "'x netExt_scheme \<Rightarrow> goType \<Rightarrow> goerror option \<Rightarrow> goerror \<Rightarrow> byte list
     \<Rightarrow> (libP2PNetwork, bool) comp" where
  "streamHandler X typ deadlineErr ende bs n =
     (if deadlineErr \<noteq> None then (Ok False, n) else readLoop X typ ende bs n)"

section \<open>Sending\<close>

definition sendAsync ::
  "'x netExt_scheme \<Rightarrow> sendProtocolData \<Rightarrow> anyMsg \<Rightarrow> peerID list \<Rightarrow> (libP2PNetwork, unit) comp" where
  "sendAsync X p msg receivers =
     andThen (wrapErr ''serializing message'' (liftOut (serializeMsg X msg))) (\<lambda>bs.
     forEach receivers (\<lambda>receiver.
       andThen (gets netSelf) (\<lambda>self.
       if receiver = self then andSeq (attempt (receivedMsg msg)) (ret ())
       else modify (\<lambda>n. n\<lparr>spawned := spawned n @ [(p, bs, receiver)]\<rparr>))))"

definition netSend :: "'x netExt_scheme \<Rightarrow> anyMsg \<Rightarrow> peerID list \<Rightarrow> (libP2PNetwork, unit) comp" where
  "netSend X msg receivers =
     (if receivers = [] then ret ()
      else andThen (gets (\<lambda>n. sendProtocols n (reflectTypeOf msg))) (\<lambda>found.
        (case found of
          None \<Rightarrow> fail (Errorf ''no protocol registered for messages of type %T'')
        | Some p \<Rightarrow> wrapErr ''sending message'' (sendAsync X p msg receivers))))"

text \<open>The calls on outgoing streams, as the host answers them.\<close>

record streamEnv =
  seCreate :: "peerID \<Rightarrow> string \<Rightarrow> goerror option"
  seSetWriteDeadline :: "goerror option"
  seWrite :: "byte list \<Rightarrow> goerror option"
  seClose :: "goerror option"

definition errorsJoin :: "goerror option \<Rightarrow> goerror \<Rightarrow> goerror" where
  "errorsJoin a b = (case a of None \<Rightarrow> b | Some x \<Rightarrow> JoinErr x b)"

text \<open>
  The body of a goroutine: the error of the deferred \<open>Close\<close> is joined to the result. The second
  component is what the receiver is sent.
\<close>

definition sendMsg ::
  "streamEnv \<Rightarrow> bool \<Rightarrow> string \<Rightarrow> byte list \<Rightarrow> peerID \<Rightarrow> goerror option \<times> byte list option" where
  "sendMsg E hasDeadline protocolID bs receiverID = (case seCreate E receiverID protocolID of
      Some e \<Rightarrow> (Some (Wrapf ''open p2p stream'' e), None)
    | None \<Rightarrow>
        let (err, sent) =
          (case (if hasDeadline then seSetWriteDeadline E else None) of
             Some e \<Rightarrow> (Some (Wrapf ''error setting write deadline'' e), None)
           | None \<Rightarrow> (case seWrite E bs of
               Some e \<Rightarrow> (Some (Wrapf ''writing data to p2p stream'' e), None)
             | None \<Rightarrow> (None, Some bs)))
        in (case seClose E of
             None \<Rightarrow> (err, sent)
           | Some ce \<Rightarrow> (Some (errorsJoin err (Wrapf ''closing p2p stream'' ce)), sent)))"

text \<open>
  \<open>SendMsgs\<close> on a queue: the stream is opened with the first message, a message that cannot be
  encoded is skipped, a write error ends the loop. The result is the error (if any), the frames
  written and the messages left in the queue.
\<close>

fun sendMsgsLoop ::
  "'x netExt_scheme \<Rightarrow> streamEnv \<Rightarrow> libP2PNetwork \<Rightarrow> peerID \<Rightarrow> bool \<Rightarrow> goerror option \<Rightarrow> byte list list
     \<Rightarrow> anyMsg list \<Rightarrow> (goerror option \<times> byte list list \<times> anyMsg list) outcome" where
  "sendMsgsLoop X E n receiver opened resErr written [] = Ok (resErr, written, [])"
| "sendMsgsLoop X E n receiver opened resErr written (msg # queue) =
     (let openErr = (if opened then None else
            (case sendProtocols n (reflectTypeOf msg) of
               None \<Rightarrow> Some (Errorf ''no protocol registered for messages of type %T'')
             | Some p \<Rightarrow> map_option (Wrapf ''opening p2p stream'') (seCreate E receiver (spProtocolID p))))
      in (case openErr of
            Some e \<Rightarrow> Ok (Some e, written, queue)
          | None \<Rightarrow> (case serializeMsg X msg of
              Panics p \<Rightarrow> Panics p
            | Fail e \<Rightarrow> sendMsgsLoop X E n receiver True
                (Some (errorsJoin resErr (Wrapf ''serializing message'' e))) written queue
            | Ok bs \<Rightarrow> (case seWrite E bs of
                Some e \<Rightarrow> Ok (Some (errorsJoin resErr (Wrapf ''stream write error'' e)), written, queue)
              | None \<Rightarrow> sendMsgsLoop X E n receiver True resErr (written @ [bs]) queue))))"

definition sendMsgs ::
  "'x netExt_scheme \<Rightarrow> streamEnv \<Rightarrow> libP2PNetwork \<Rightarrow> peerID \<Rightarrow> anyMsg list
     \<Rightarrow> (goerror option \<times> byte list list \<times> anyMsg list) outcome" where
  "sendMsgs X E n receiver messages = sendMsgsLoop X E n receiver False None [] messages"

section \<open>Registration\<close>

fun isStruct :: "goType \<Rightarrow> bool" where
  "isStruct (StructT _) \<longleftrightarrow> True"
| "isStruct _ \<longleftrightarrow> False"

definition registerSendProtocol :: "sendProtocolDescription \<Rightarrow> (libP2PNetwork, unit) comp" where
  "registerSendProtocol d =
     (if spdProtocolID d = '''' then fail (Errorf ''protocol ID must be assigned'')
      else if spdTimeout d < 0 then
        fail (Errorf ''negative duration is not allowed for timeout, got %s for %s'')
      else (case spdMsgType d of
          None \<Rightarrow> fail (Errorf ''message data type must be assigned'')
        | Some typ \<Rightarrow>
          if \<not> isStruct typ then fail (Errorf ''message data type must be struct, got %T'')
          else andThen (gets (\<lambda>n. sendProtocols n typ)) (\<lambda>registered.
            if registered \<noteq> None then
              fail (Errorf ''data type %s has been already registered for protocol %s'')
            else
              let spx = \<lparr>spProtocolID = spdProtocolID d, spTimeout = spdTimeout d\<rparr> in
              modify (\<lambda>n. n\<lparr>sendProtocols := (sendProtocols n)(typ \<mapsto> spx, PointerT typ \<mapsto> spx)\<rparr>))))"

definition registerSendProtocols :: "sendProtocolDescription list \<Rightarrow> (libP2PNetwork, unit) comp" where
  "registerSendProtocols ds =
     (if ds = [] then fail (Errorf ''at least one protocol description must be given'')
      else forEach ds (\<lambda>d. wrapErr ''registering protocol %q'' (registerSendProtocol d)))"

text \<open>\<open>host.SetStreamHandler\<close> replaces the handler of a protocol or adds one.\<close>

definition registerProtocolHandler :: "string \<Rightarrow> protocolHandler \<Rightarrow> libP2PNetwork \<Rightarrow> libP2PNetwork" where
  "registerProtocolHandler pid h n =
     n\<lparr>muxHandlers := filter (\<lambda>e. fst e \<noteq> pid) (muxHandlers n) @ [(pid, h)]\<rparr>"

text \<open>\<open>host.RemoveStreamHandler\<close>.\<close>

definition removeProtocolHandler :: "string \<Rightarrow> libP2PNetwork \<Rightarrow> libP2PNetwork" where
  "removeProtocolHandler pid n = n\<lparr>muxHandlers := filter (\<lambda>e. fst e \<noteq> pid) (muxHandlers n)\<rparr>"

definition registerReceiveProtocol :: "receiveProtocolDescription \<Rightarrow> (libP2PNetwork, unit) comp" where
  "registerReceiveProtocol d =
     (if rpdProtocolID d = '''' then fail (Errorf ''protocol ID must be assigned'')
      else andThen (gets (\<lambda>n. rpdProtocolID d \<in> fst ` set (muxHandlers n))) (\<lambda>registered.
        if registered then fail (Errorf ''protocol %q is already registered'')
        else (case rpdHandler d of
            Some h \<Rightarrow> modify (registerProtocolHandler (rpdProtocolID d) (CustomHandler h))
          | None \<Rightarrow> (case rpdTypeFn d of
              None \<Rightarrow> fail (Errorf ''data struct constructor or handler must be assigned'')
            | Some None \<Rightarrow> fail (Errorf ''data struct constructor returns nil'')
            | Some (Some (PointerT t, isNil)) \<Rightarrow>
                if \<not> isStruct t then
                  fail (Errorf ''data struct constructor must return pointer to struct but returns %s'')
                else if isNil then
                  fail (Errorf ''data struct constructor returns uninitialized pointer'')
                else modify (registerProtocolHandler (rpdProtocolID d) (MsgHandler (rpdProtocolID d) t))
            | Some (Some _) \<Rightarrow>
                fail (Errorf ''data struct constructor must return pointer to struct but returns %s'')))))"

definition registerReceiveProtocols :: "receiveProtocolDescription list \<Rightarrow> (libP2PNetwork, unit) comp" where
  "registerReceiveProtocols ds =
     (if ds = [] then fail (Errorf ''at least one protocol description must be given'')
      else forEach ds (\<lambda>d. wrapErr ''registering protocol %q'' (registerReceiveProtocol d)))"

section \<open>validator_network.go\<close>

definition ProtocolBlockProposal :: string where
  "ProtocolBlockProposal = ''/ab/block-proposal/0.0.1''"
definition ProtocolLedgerReplicationReq :: string where
  "ProtocolLedgerReplicationReq = ''/ab/replication-req/0.0.1''"
definition ProtocolLedgerReplicationResp :: string where
  "ProtocolLedgerReplicationResp = ''/ab/replication-resp/0.0.1''"
definition ProtocolHandshake :: string where
  "ProtocolHandshake = ''/ab/handshake/0.0.1''"
definition ProtocolBlockCertification :: string where
  "ProtocolBlockCertification = ''/ab/block-certification/0.0.1''"
definition ProtocolUnicityCertificates :: string where
  "ProtocolUnicityCertificates = ''/ab/certificates/0.0.1''"

lemmas protocol_defs = ProtocolBlockProposal_def ProtocolLedgerReplicationReq_def
  ProtocolLedgerReplicationResp_def ProtocolHandshake_def ProtocolBlockCertification_def
  ProtocolUnicityCertificates_def

text \<open>Durations are in nanoseconds.\<close>

record validatorNetworkOptions =
  ReceivedChannelCapacity :: nat
  BlockCertificationTimeout :: int
  BlockProposalTimeout :: int
  LedgerReplicationRequestTimeout :: int
  LedgerReplicationResponseTimeout :: int
  HandshakeTimeout :: int

definition DefaultValidatorNetworkOptions :: validatorNetworkOptions where
  "DefaultValidatorNetworkOptions = \<lparr>ReceivedChannelCapacity = 1000,
     BlockCertificationTimeout = 300000000, BlockProposalTimeout = 300000000,
     LedgerReplicationRequestTimeout = 300000000, LedgerReplicationResponseTimeout = 300000000,
     HandshakeTimeout = 300000000\<rparr>"

definition sendDescriptions :: "validatorNetworkOptions \<Rightarrow> sendProtocolDescription list" where
  "sendDescriptions opts =
     [\<lparr>spdProtocolID = ProtocolLedgerReplicationReq, spdMsgType = Some (StructT ''replication.LedgerReplicationRequest''),
       spdTimeout = LedgerReplicationRequestTimeout opts\<rparr>,
      \<lparr>spdProtocolID = ProtocolLedgerReplicationResp, spdMsgType = Some (StructT ''replication.LedgerReplicationResponse''),
       spdTimeout = LedgerReplicationResponseTimeout opts\<rparr>,
      \<lparr>spdProtocolID = ProtocolBlockProposal, spdMsgType = Some (StructT ''blockproposal.BlockProposal''),
       spdTimeout = BlockProposalTimeout opts\<rparr>,
      \<lparr>spdProtocolID = ProtocolBlockCertification, spdMsgType = Some (StructT ''certification.BlockCertificationRequest''),
       spdTimeout = BlockCertificationTimeout opts\<rparr>,
      \<lparr>spdProtocolID = ProtocolHandshake, spdMsgType = Some (StructT ''handshake.Handshake''),
       spdTimeout = HandshakeTimeout opts\<rparr>]"

definition receiveDescription :: "string \<Rightarrow> string \<Rightarrow> receiveProtocolDescription" where
  "receiveDescription pid typ = \<lparr>rpdProtocolID = pid,
     rpdTypeFn = Some (Some (PointerT (StructT typ), False)), rpdHandler = None\<rparr>"

definition newLibP2PValidatorNetwork ::
  "peerID option \<Rightarrow> validatorNetworkOptions \<Rightarrow> (string \<times> protocolHandler) list \<Rightarrow> libP2PNetwork outcome" where
  "newLibP2PValidatorNetwork self opts mux =
     (case newLibP2PNetwork self (ReceivedChannelCapacity opts) mux of
        Inl e \<Rightarrow> Fail e
      | Inr base \<Rightarrow>
          (case andSeq (wrapErr ''registering send protocols''
                    (registerSendProtocols (sendDescriptions opts)))
                  (wrapErr ''registering receive protocols'' (registerReceiveProtocols
                    [receiveDescription ProtocolLedgerReplicationReq ''replication.LedgerReplicationRequest'',
                     receiveDescription ProtocolLedgerReplicationResp ''replication.LedgerReplicationResponse''])) base of
             (Ok _, n) \<Rightarrow> Ok n
           | (Fail e, n) \<Rightarrow> Fail e
           | (Panics p, n) \<Rightarrow> Panics p))"

definition registerValidatorProtocols :: "(libP2PNetwork, unit) comp" where
  "registerValidatorProtocols = registerReceiveProtocols
     [receiveDescription ProtocolBlockProposal ''blockproposal.BlockProposal'',
      receiveDescription ProtocolUnicityCertificates ''certification.CertificationResponse'']"

section \<open>What a send does\<close>

text \<open>The effect of the loop of \<open>sendAsync\<close>.\<close>

definition sendEffect :: "sendProtocolData \<Rightarrow> byte list \<Rightarrow> anyMsg \<Rightarrow> peerID list \<Rightarrow> libP2PNetwork \<Rightarrow> libP2PNetwork"
  where
  "sendEffect p bs msg receivers n = n
     \<lparr>spawned := spawned n @ map (\<lambda>r. (p, bs, r)) (filter (\<lambda>r. r \<noteq> netSelf n) receivers),
      receivedMsgs := receivedMsgs n @
        take (receivedCap n - length (receivedMsgs n)) (map (\<lambda>_. msg) (filter (\<lambda>r. r = netSelf n) receivers))\<rparr>"

lemma sendLoop_effect:
  "length (receivedMsgs n) \<le> receivedCap n \<Longrightarrow>
   forEach receivers (\<lambda>receiver.
       andThen (gets netSelf) (\<lambda>self.
       if receiver = self then andSeq (attempt (receivedMsg msg)) (ret ())
       else modify (\<lambda>n. n\<lparr>spawned := spawned n @ [(p, bs, receiver)]\<rparr>))) n
   = (Ok (), sendEffect p bs msg receivers n)"
proof (induction receivers arbitrary: n)
  case Nil
  then show ?case by (simp add: ret_def sendEffect_def)
next
  case (Cons r rs)
  consider (other) "r \<noteq> netSelf n" | (room) "r = netSelf n" "length (receivedMsgs n) < receivedCap n"
    | (full) "r = netSelf n" "length (receivedMsgs n) = receivedCap n"
    using Cons.prems by linarith
  then show ?case
  proof cases
    case other
    then show ?thesis using Cons by (simp add: comp_defs sendEffect_def)
  next
    case room
    have diff: "receivedCap n - length (receivedMsgs n) = Suc (receivedCap n - Suc (length (receivedMsgs n)))"
      using room by simp
    show ?thesis using room Cons by (simp add: comp_defs receivedMsg_def sendEffect_def diff)
  next
    case full
    then show ?thesis using Cons by (simp add: comp_defs receivedMsg_def sendEffect_def)
  qed
qed

lemma receivedMsg_append:
  "length (receivedMsgs n) < receivedCap n \<Longrightarrow>
     receivedMsg m n = (Ok (), n\<lparr>receivedMsgs := receivedMsgs n @ [m]\<rparr>)"
  by (simp add: receivedMsg_def)

text \<open>Whatever arrives, a handler only appends complete messages, and never beyond the capacity.\<close>

lemma readLoop_frame:
  "length (receivedMsgs n) \<le> receivedCap n \<Longrightarrow>
     \<exists>ms. snd (readLoop X ty ende bs n) = n\<lparr>receivedMsgs := receivedMsgs n @ map ByPointer ms\<rparr> \<and>
       length (receivedMsgs n) + length ms \<le> receivedCap n"
proof (induction X ty ende bs n rule: readLoop.induct)
  case (1 X ty ende bs n)
  show ?case
  proof (cases "\<exists>m rest. deserializeMsg X ty ende bs = (Inr m, rest) \<and>
      length (receivedMsgs n) < receivedCap n")
    case False
    then show ?thesis using "1.prems"
      by (subst readLoop.simps)
        (auto simp: receivedMsg_def split: sum.splits prod.splits intro!: exI [of _ "[]"])
  next
    case True
    then obtain m rest where d: "deserializeMsg X ty ende bs = (Inr m, rest)"
      and lt: "length (receivedMsgs n) < receivedCap n" by blast
    let ?n' = "n\<lparr>receivedMsgs := receivedMsgs n @ [ByPointer m]\<rparr>"
    obtain ms where "snd (readLoop X ty ende rest ?n') =
        ?n'\<lparr>receivedMsgs := receivedMsgs ?n' @ map ByPointer ms\<rparr>"
      and "length (receivedMsgs ?n') + length ms \<le> receivedCap ?n'"
      using "1.IH" [OF d [symmetric] refl receivedMsg_append [OF lt, symmetric] refl] lt by auto
    moreover have "readLoop X ty ende bs n = readLoop X ty ende rest ?n'"
      by (subst readLoop.simps) (simp only: d receivedMsg_append [OF lt], simp)
    ultimately show ?thesis by (intro exI [of _ "m # ms"]) simp
  qed
qed

text \<open>Whatever is sent, the receive buffer stays within its capacity and the node keeps its identity.\<close>

definition netInv :: "peerID \<Rightarrow> libP2PNetwork \<Rightarrow> bool" where
  "netInv self n \<longleftrightarrow> netSelf n = self \<and> length (receivedMsgs n) \<le> receivedCap n"

lemma keeps_netSend:
  assumes "\<forall>m bs. cborMarshal X m = Inr bs \<longrightarrow> length bs < 2 ^ 56"
  shows "keeps (netInv self) (netSend X msg receivers)"
proof -
  have ser: "keeps (netInv self) (liftOut (serializeMsg X msg))"
  proof (rule keepsI)
    fix s :: libP2PNetwork
    assume "netInv self s"
    then show "wp False (liftOut (serializeMsg X msg)) (\<lambda>_. netInv self) (\<lambda>_. netInv self) s"
      using assms serializeMsg_fits [of X msg]
      by (cases "cborMarshal X (theMsg msg)") (auto simp: wp_rules serializeMsg_def)
  qed
  have recv: "keeps (netInv self) (receivedMsg msg)"
    by (auto simp: keeps_def wp_def receivedMsg_def netInv_def)
  show ?thesis
    unfolding netSend_def sendAsync_def
    by (intro keeps_rules ser recv keeps_modify) (auto simp: netInv_def)
qed

lemma keeps_registerSendProtocols: "keeps (netInv self) (registerSendProtocols ds)"
proof -
  have reg: "keeps (netInv self) (modify (\<lambda>n. n\<lparr>sendProtocols := h n\<rparr>))" for h
    by (rule keeps_modify) (simp add: netInv_def)
  have "keeps (netInv self) (registerSendProtocol d)" for d
    unfolding registerSendProtocol_def Let_def by (intro keeps_rules reg)
  then show ?thesis unfolding registerSendProtocols_def by (intro keeps_rules)
qed

lemma keeps_registerReceiveProtocols: "keeps (netInv self) (registerReceiveProtocols ds)"
proof -
  have reg: "keeps (netInv self) (modify (registerProtocolHandler pid h))" for pid h
    by (rule keeps_modify) (simp add: netInv_def registerProtocolHandler_def)
  have "keeps (netInv self) (registerReceiveProtocol d)" for d
    unfolding registerReceiveProtocol_def
    by (intro keeps_rules reg) (auto split: option.splits goType.splits intro!: keeps_rules reg)
  then show ?thesis unfolding registerReceiveProtocols_def by (intro keeps_rules)
qed

text \<open>Removing a handler undoes its registration and leaves the other protocols alone.\<close>

lemma map_of_filter_key: "map_of (filter (\<lambda>e. fst e \<noteq> k) xs) = (map_of xs)(k := None)"
  by (induction xs) auto

lemma remove_registered:
  "map_of (muxHandlers (removeProtocolHandler pid (registerProtocolHandler pid h n))) = (map_of (muxHandlers n))(pid := None)"
  by (simp add: removeProtocolHandler_def registerProtocolHandler_def map_of_filter_key)

end
