(* ===== verification/NetworkProperties.thy ===== *)
theory NetworkProperties
  imports LibP2P Samples
begin

text \<open>
  Properties of the message layer: what a stream of frames delivers, which frames are refused, what
  a send does for each receiver, and which message types the validator network can send.
\<close>

section \<open>Lemmas\<close>

text \<open>The frame of a message, as \<open>serializeMsg\<close> writes it for a message sent by pointer.\<close>

definition sendable :: "'x netExt_scheme \<Rightarrow> goType \<Rightarrow> netMsg \<Rightarrow> bool" where
  "sendable X ty m \<longleftrightarrow> msgStruct m = ty \<and>
     (case cborMarshal X m of Inl _ \<Rightarrow> False | Inr bs \<Rightarrow> length bs \<le> maxMsgSize)"

definition frameOf :: "'x netExt_scheme \<Rightarrow> netMsg \<Rightarrow> byte list" where
  "frameOf X m = (case serializeMsg X (ByPointer m) of Ok f \<Rightarrow> f | _ \<Rightarrow> [])"

lemma sendable_serialize:
  assumes "sendable X ty m"
  shows "serializeMsg X (ByPointer m) = Ok (frameOf X m)"
proof -
  obtain bs where bs: "cborMarshal X m = Inr bs" "length bs \<le> maxMsgSize"
    using assms by (auto simp: sendable_def split: sum.splits)
  then have "serializeMsg X (ByPointer m) = Ok (putUvarint (length bs) @ bs)"
    by (intro serializeMsg_fits) (auto simp: maxMsgSize_def)
  then show ?thesis by (simp add: frameOf_def)
qed

lemma deserialize_frame:
  assumes "codecLaw X" and "sendable X ty m"
  shows "deserializeMsg X ty ende (frameOf X m @ rest) = (Inr m, rest)"
  using deserialize_serialize [OF assms(1) sendable_serialize [OF assms(2)], of _ ende rest] assms(2)
  by (auto simp: sendable_def split: sum.splits)

lemma deserialize_end: "deserializeMsg X ty ende [] = (Inl (Wrapf ''reading data length'' ende), [])"
  by (simp add: deserializeMsg_def readUvarint_def)

lemma readLoop_frames:
  assumes "codecLaw X" and "\<forall>m\<in>set ms. sendable X ty m"
    and "length (receivedMsgs n) \<le> receivedCap n"
  shows "readLoop X ty ioEOF (concat (map (frameOf X) ms)) n =
     (Ok (length (receivedMsgs n) + length ms \<le> receivedCap n),
      n\<lparr>receivedMsgs := receivedMsgs n @ map ByPointer (take (receivedCap n - length (receivedMsgs n)) ms)\<rparr>)"
  using assms(2,3)
proof (induction ms arbitrary: n)
  case Nil
  then show ?case by (subst readLoop.simps) (simp add: deserialize_end)
next
  case (Cons m ms)
  have d: "deserializeMsg X ty ioEOF (concat (map (frameOf X) (m # ms)))
      = (Inr m, concat (map (frameOf X) ms))"
    using deserialize_frame [OF assms(1)] Cons.prems(1) by simp
  show ?case
  proof (cases "length (receivedMsgs n) < receivedCap n")
    case True
    let ?n' = "n\<lparr>receivedMsgs := receivedMsgs n @ [ByPointer m]\<rparr>"
    have diff: "receivedCap n - length (receivedMsgs n) = Suc (receivedCap n - Suc (length (receivedMsgs n)))"
      using True by simp
    have "readLoop X ty ioEOF (concat (map (frameOf X) (m # ms))) n
        = readLoop X ty ioEOF (concat (map (frameOf X) ms)) ?n'"
      by (subst readLoop.simps) (simp only: d receivedMsg_append [OF True], simp)
    also have "\<dots> = (Ok (length (receivedMsgs ?n') + length ms \<le> receivedCap ?n'),
        ?n'\<lparr>receivedMsgs := receivedMsgs ?n' @ map ByPointer (take (receivedCap ?n' - length (receivedMsgs ?n')) ms)\<rparr>)"
      using Cons.prems True by (intro Cons.IH) auto
    finally show ?thesis by (simp add: diff)
  next
    case False
    then show ?thesis
      using Cons.prems by (subst readLoop.simps, simp only: d) (simp add: receivedMsg_def)
  qed
qed

text \<open>Registration of the protocols of the validator network.\<close>

definition nodeProtocols :: "string list" where
  "nodeProtocols = [ProtocolLedgerReplicationReq, ProtocolLedgerReplicationResp, ProtocolBlockProposal,
     ProtocolUnicityCertificates]"

lemma receive_register:
  assumes "pid \<noteq> ''''" and "pid \<notin> fst ` set (muxHandlers n)"
  shows "registerReceiveProtocol (receiveDescription pid t) n =
    (Ok (), n\<lparr>muxHandlers := muxHandlers n @ [(pid, MsgHandler pid (StructT t))]\<rparr>)"
proof -
  have "filter (\<lambda>e. fst e \<noteq> pid) (muxHandlers n) = muxHandlers n"
    using assms(2) by (auto intro!: filter_True)
  then show ?thesis using assms
    by (simp add: registerReceiveProtocol_def receiveDescription_def registerProtocolHandler_def comp_defs)
qed

lemma receive_registered:
  assumes "pid \<in> fst ` set (muxHandlers n)" "pid \<noteq> ''''"
  shows "registerReceiveProtocol (receiveDescription pid t) n = (Fail (Errorf ''protocol %q is already registered''), n)"
  using assms by (simp add: registerReceiveProtocol_def receiveDescription_def comp_defs)

lemma send_register:
  assumes "pid \<noteq> ''''" and "0 \<le> tm" and "sendProtocols n (StructT t) = None"
  shows "registerSendProtocol \<lparr>spdProtocolID = pid, spdMsgType = Some (StructT t), spdTimeout = tm\<rparr> n =
    (Ok (), n\<lparr>sendProtocols := (sendProtocols n)
       (StructT t \<mapsto> \<lparr>spProtocolID = pid, spTimeout = tm\<rparr>, PointerT (StructT t) \<mapsto> \<lparr>spProtocolID = pid, spTimeout = tm\<rparr>)\<rparr>)"
  using assms by (simp add: registerSendProtocol_def comp_defs Let_def)

lemma protocol_ids: "ProtocolBlockProposal \<noteq> ''''" "ProtocolLedgerReplicationReq \<noteq> ''''" "ProtocolLedgerReplicationResp \<noteq> ''''"
  "ProtocolUnicityCertificates \<noteq> ''''" "ProtocolHandshake \<noteq> ''''" "ProtocolBlockCertification \<noteq> ''''" "distinct nodeProtocols"
  "distinct (rev nodeProtocols)"
  by (simp_all add: protocol_defs nodeProtocols_def)

lemma send_register_all: "\<exists>n'. registerSendProtocols (sendDescriptions DefaultValidatorNetworkOptions)
     \<lparr>netSelf = p, sendProtocols = (\<lambda>_. None), receivedMsgs = [], receivedCap = c, muxHandlers = mux, spawned = []\<rparr>
       = (Ok (), n') \<and> muxHandlers n' = mux \<and>
     (\<forall>msg. (sendProtocols n' (reflectTypeOf msg) \<noteq> None) =
        (case theMsg msg of CertificationResponseMsg _ \<Rightarrow> False | _ \<Rightarrow> True)) \<and>
     (\<forall>m. sendProtocols n' (reflectTypeOf (ByValue m)) = sendProtocols n' (reflectTypeOf (ByPointer m)))"
  (is "\<exists>n'. ?reg n' \<and> ?mux n' \<and> ?types n' \<and> ?same n'")
proof -
  note sr = send_register [OF protocol_ids(1)] send_register [OF protocol_ids(2)] send_register [OF protocol_ids(3)]
    send_register [OF protocol_ids(5)] send_register [OF protocol_ids(6)]
  obtain n' d1 d2 d3 d4 d5 where n': "?reg n'" "?mux n'" and sp: "sendProtocols n' = (\<lambda>_. None)
      (StructT ''replication.LedgerReplicationRequest'' \<mapsto> d1, PointerT (StructT ''replication.LedgerReplicationRequest'') \<mapsto> d1,
       StructT ''replication.LedgerReplicationResponse'' \<mapsto> d2, PointerT (StructT ''replication.LedgerReplicationResponse'') \<mapsto> d2,
       StructT ''blockproposal.BlockProposal'' \<mapsto> d3, PointerT (StructT ''blockproposal.BlockProposal'') \<mapsto> d3,
       StructT ''certification.BlockCertificationRequest'' \<mapsto> d4, PointerT (StructT ''certification.BlockCertificationRequest'') \<mapsto> d4,
       StructT ''handshake.Handshake'' \<mapsto> d5, PointerT (StructT ''handshake.Handshake'') \<mapsto> d5)"
    by (simp add: registerSendProtocols_def sendDescriptions_def DefaultValidatorNetworkOptions_def
        sr forEach_step wrapErr_step ret_def del: forEach.simps(2))
  have "?types n'"
  proof
    fix msg
    show "(sendProtocols n' (reflectTypeOf msg) \<noteq> None) =
        (case theMsg msg of CertificationResponseMsg _ \<Rightarrow> False | _ \<Rightarrow> True)"
      by (cases msg; cases "theMsg msg") (auto simp: sp msgStruct_def)
  qed
  moreover have "?same n'" by (auto simp: sp msgStruct_def split: netMsg.splits)
  ultimately show ?thesis using n' by blast
qed

section \<open>Properties\<close>

text \<open>
  C27: Frames written one after the other by the sender are read back by the stream handler of the
  receiver as the same messages in the same order, as many as the receive buffer has room for; the
  stream is closed normally exactly when none had to be dropped.
\<close>

theorem stream_delivers_frames:
  assumes "codecLaw X" and "\<forall>m\<in>set ms. sendable X ty m"
    and "length (receivedMsgs n) \<le> receivedCap n"
  shows "streamHandler X ty None ioEOF (concat (map (frameOf X) ms)) n =
     (Ok (length (receivedMsgs n) + length ms \<le> receivedCap n),
      n\<lparr>receivedMsgs := receivedMsgs n @ map ByPointer (take (receivedCap n - length (receivedMsgs n)) ms)\<rparr>)"
  using readLoop_frames [OF assms] by (simp add: streamHandler_def)






text \<open>
  C29: A send with a registered message type starts exactly one goroutine per receiver other than
  the node itself, each with the same frame, loops the message back once for every mention of the
  node itself as long as the receive buffer has room, and reports no error; with no receivers
  nothing happens; an unregistered type is an error without effect.
\<close>

theorem netSend_effect:
  assumes "length (receivedMsgs n) \<le> receivedCap n"
  shows "netSend X msg receivers n =
    (if receivers = [] then (Ok (), n)
     else case sendProtocols n (reflectTypeOf msg) of
        None \<Rightarrow> (Fail (Errorf ''no protocol registered for messages of type %T''), n)
      | Some p \<Rightarrow> (case serializeMsg X msg of
            Ok bs \<Rightarrow> (Ok (), sendEffect p bs msg receivers n)
          | Fail e \<Rightarrow> (Fail (Wrapf ''sending message'' (Wrapf ''serializing message'' e)), n)
          | Panics m \<Rightarrow> (Panics m, n)))"
  using sendLoop_effect [OF assms]
  by (auto simp: netSend_def sendAsync_def andThen_def wrapErr_def liftOut_def gets_def ret_def fail_def
      split: option.splits outcome.splits)

text \<open>
  The validator network starts with no message type registered twice and can send exactly five
  of the six message types, by value and by pointer, each over its own protocol; only a
  certification response, which root nodes send, has none. Registering the validator protocols
  succeeds the first time and fails the second time.
\<close>

lemma validator_network_protocols:
  assumes "\<forall>p\<in>set nodeProtocols. p \<notin> fst ` set mux"
  shows "\<exists>n n' e. newLibP2PValidatorNetwork (Some self) DefaultValidatorNetworkOptions mux = Ok n \<and>
     (\<forall>msg. (sendProtocols n (reflectTypeOf msg) \<noteq> None) =
        (case theMsg msg of CertificationResponseMsg _ \<Rightarrow> False | _ \<Rightarrow> True)) \<and>
     (\<forall>m. sendProtocols n (reflectTypeOf (ByValue m)) = sendProtocols n (reflectTypeOf (ByPointer m))) \<and>
     registerValidatorProtocols n = (Ok (), n') \<and>
     map fst (muxHandlers n') = map fst mux @ nodeProtocols \<and>
     registerValidatorProtocols n' = (Fail e, n')"
proof -
  let ?base = "\<lparr>netSelf = self, sendProtocols = (\<lambda>_. None), receivedMsgs = [],
    receivedCap = ReceivedChannelCapacity DefaultValidatorNetworkOptions, muxHandlers = mux, spawned = []\<rparr>"
  obtain n1 where n1: "registerSendProtocols (sendDescriptions DefaultValidatorNetworkOptions) ?base = (Ok (), n1)"
    "muxHandlers n1 = mux" and reg: "\<forall>msg. (sendProtocols n1 (reflectTypeOf msg) \<noteq> None) =
        (case theMsg msg of CertificationResponseMsg _ \<Rightarrow> False | _ \<Rightarrow> True)"
     "\<forall>m. sendProtocols n1 (reflectTypeOf (ByValue m)) = sendProtocols n1 (reflectTypeOf (ByPointer m))"
    using send_register_all by blast
  from assms have fresh: "ProtocolLedgerReplicationReq \<notin> fst ` set mux" "ProtocolLedgerReplicationResp \<notin> fst ` set mux"
    "ProtocolBlockProposal \<notin> fst ` set mux" "ProtocolUnicityCertificates \<notin> fst ` set mux"
    by (simp_all add: nodeProtocols_def)
  note rr = receive_register [OF protocol_ids(1)] receive_register [OF protocol_ids(2)] receive_register [OF protocol_ids(3)] receive_register [OF protocol_ids(4)]
  note simps = registerReceiveProtocols_def forEach_step wrapErr_step andSeq_step ret_def
  let ?h = "\<lambda>pid t. (pid, MsgHandler pid (StructT t))"
  let ?n = "n1\<lparr>muxHandlers := mux @ [?h ProtocolLedgerReplicationReq ''replication.LedgerReplicationRequest'',
      ?h ProtocolLedgerReplicationResp ''replication.LedgerReplicationResponse'']\<rparr>"
  let ?n' = "?n\<lparr>muxHandlers := muxHandlers ?n @ [?h ProtocolBlockProposal ''blockproposal.BlockProposal'',
      ?h ProtocolUnicityCertificates ''certification.CertificationResponse'']\<rparr>"
  have "registerReceiveProtocols [receiveDescription ProtocolLedgerReplicationReq ''replication.LedgerReplicationRequest'',
      receiveDescription ProtocolLedgerReplicationResp ''replication.LedgerReplicationResponse''] n1 = (Ok (), ?n)"
    using protocol_ids(7,8) fresh n1(2) by (simp add: simps rr nodeProtocols_def del: forEach.simps(2))
  then have "newLibP2PValidatorNetwork (Some self) DefaultValidatorNetworkOptions mux = Ok ?n"
    using n1 by (simp add: newLibP2PValidatorNetwork_def newLibP2PNetwork_def simps)
  moreover have "registerValidatorProtocols ?n = (Ok (), ?n')"
    using protocol_ids(7,8) fresh by (simp add: registerValidatorProtocols_def simps rr nodeProtocols_def del: forEach.simps(2))
  moreover obtain e where "registerValidatorProtocols ?n' = (Fail e, ?n')"
    using protocol_ids(1) by (simp add: registerValidatorProtocols_def registerReceiveProtocols_def receive_registered comp_defs)
  moreover have "map fst (muxHandlers ?n') = map fst mux @ nodeProtocols"
    by (simp add: nodeProtocols_def)
  ultimately show ?thesis using reg by (intro exI [of _ ?n] exI [of _ ?n'] exI [of _ e]) simp
qed

section \<open>Instances\<close>

definition sampleNetwork :: "nat \<Rightarrow> libP2PNetwork" where
  "sampleNetwork cap = \<lparr>netSelf = ''me'', sendProtocols = [StructT ''handshake.Handshake'' \<mapsto>
       \<lparr>spProtocolID = ProtocolHandshake, spTimeout = 300000000\<rparr>],
     receivedMsgs = [], receivedCap = cap, muxHandlers = [], spawned = []\<rparr>"

lemma sample_codec:
  "cborMarshal sampleNetExt (sampleHandshake 7) = Inr [1, 7]"
  "cborMarshal sampleNetExt (sampleHandshake 9) = Inr [1, 9]"
  by (simp_all add: sampleNetExt_def ext.defs sampleExt_def sampleHandshake_def)

theorem stream_delivers_frames_witness:
  "streamHandler sampleNetExt (StructT ''handshake.Handshake'') None ioEOF
      (concat (map (frameOf sampleNetExt) [sampleHandshake 7, sampleHandshake 9])) (sampleNetwork 1)
    = (Ok False, (sampleNetwork 1)\<lparr>receivedMsgs := [ByPointer (sampleHandshake 7)]\<rparr>)"
proof -
  have "\<forall>m\<in>set [sampleHandshake 7, sampleHandshake 9].
      sendable sampleNetExt (StructT ''handshake.Handshake'') m"
    by (simp add: sendable_def sample_codec maxMsgSize_def) (simp add: sampleHandshake_def msgStruct_def)
  from stream_delivers_frames [OF sampleNetExt_codec this, of "sampleNetwork 1"]
  show ?thesis by (simp add: sampleNetwork_def)
qed


theorem netSend_effect_witness:
  "netSend sampleNetExt (ByValue (sampleHandshake 7)) [''a'', ''me'', ''b''] (sampleNetwork 1) =
    (Ok (), (sampleNetwork 1)\<lparr>receivedMsgs := [ByValue (sampleHandshake 7)],
       spawned := map (\<lambda>r. (\<lparr>spProtocolID = ProtocolHandshake, spTimeout = 300000000\<rparr>, [2, 1, 7], r)) [''a'', ''b'']\<rparr>)"
proof -
  have "serializeMsg sampleNetExt (ByValue (sampleHandshake 7)) = Ok [2, 1, 7]"
    by (simp add: serializeMsg_def sample_codec putUvarint.simps)
  moreover have "reflectTypeOf (ByValue (sampleHandshake 7)) = StructT ''handshake.Handshake''"
    by (simp add: sampleHandshake_def msgStruct_def)
  ultimately show ?thesis
    using netSend_effect [of "sampleNetwork 1" sampleNetExt "ByValue (sampleHandshake 7)" "[''a'', ''me'', ''b'']"]
    by (simp add: sampleNetwork_def sendEffect_def)
qed

end
