(* ===== verification/NodeSelector.thy ===== *)
theory NodeSelector
  imports BftTypes
begin

text \<open>
  \<open>src/partition/root_node_selector.go\<close>: which root nodes a certification request is sent to
  (\<open>rootNodesSelector\<close>, deterministic in the last certificate) and which validators a recovering
  node asks first (\<open>randomNodeSelector\<close>). Both implement one contract, the locale
  \<open>node_selector\<close>: as many nodes as asked for, taken from the list, none of them twice.
\<close>

definition defaultHandshakeNodes :: int where
  "defaultHandshakeNodes = 3"

definition defaultNofRootNodes :: int where
  "defaultNofRootNodes = 2"

text \<open>
  The random source is the parameter of \<open>randShuffle\<close>. A negative \<open>upToNodes\<close> reaches the slice
  expression \<open>rNodes[:upToNodes]\<close>, which panics.
\<close>

definition randomNodeSelector :: "(nat \<Rightarrow> nat) \<Rightarrow> peerID list \<Rightarrow> int \<Rightarrow> peerID list outcome" where
  "randomNodeSelector rnd nodes upToNodes =
     (let nodeCnt = int (length nodes) in
      if nodeCnt < 1 then Fail (Errorf ''node list is empty'')
      else if upToNodes = 0 then
        Fail (Errorf ''invalid parameter, number of nodes to select is 0'')
      else if upToNodes \<ge> nodeCnt then Ok nodes
      else if upToNodes < 0 then Panics ''slice bounds out of range''
      else Ok (take (nat upToNodes) (randShuffle rnd nodes)))"

text \<open>
  The \<open>for\<close> loop of \<open>rootNodesSelector\<close>. It is entered with \<open>idx = index\<close>, so an index outside
  the list panics at the first access.
\<close>

function chooseLoop :: "peerID list \<Rightarrow> nat \<Rightarrow> int \<Rightarrow> nat \<Rightarrow> peerID list \<Rightarrow> peerID list outcome" where
  "chooseLoop nodes index upToNodes idx chosen =
     (if index \<ge> length nodes \<or> idx \<ge> length nodes then Panics ''index out of range''
      else
        let chosen' = chosen @ [nodes ! idx];
            idx' = (if idx + 1 \<ge> length nodes then 0 else idx + 1)
        in if idx' = index \<or> int (length chosen') = upToNodes then Ok chosen'
           else chooseLoop nodes index upToNodes idx' chosen')"
  by pat_completeness auto

termination chooseLoop
  by (relation "measure (\<lambda>(nodes, index, _, idx, _).
      if idx < index then index - idx else index + length nodes - idx)")
    (auto split: if_splits)

declare chooseLoop.simps [simp del]

definition rootNodesSelector ::
  "'x ext_scheme \<Rightarrow> unicityCertificate option \<Rightarrow> peerID list \<Rightarrow> int \<Rightarrow> peerID list outcome" where
  "rootNodesSelector X luc nodes upToNodes =
     (case luc of None \<Rightarrow> Fail (Errorf ''UC is nil'')
      | Some uc \<Rightarrow>
        let nodeCnt = int (length nodes) in
        if nodeCnt < 1 then Fail (Errorf ''root node list is empty'')
        else if upToNodes = 0 then
          Fail (Errorf ''invalid parameter, number of nodes to select is 0'')
        else if upToNodes \<ge> nodeCnt then Ok nodes
        else if upToNodes < 0 then Panics ''makeslice: cap out of range''
        else (case ucHash X uc SHA256 of
            Inl e \<Rightarrow> Fail (Wrapf ''failed to hash UC'' e)
          | Inr lucHash \<Rightarrow>
              let index = bytesToNat (sliceBytes lucHash) mod length nodes
              in chooseLoop nodes index upToNodes index []))"

section \<open>The loop chooses a window of the rotated list\<close>

lemma chooseLoop_window:
  assumes "index < length nodes" and "int j < upToNodes" and "j < length nodes"
    and "upToNodes \<le> int (length nodes)"
  shows "chooseLoop nodes index upToNodes ((index + j) mod length nodes) (take j (rotate index nodes))
    = Ok (take (nat upToNodes) (rotate index nodes))"
  using assms
proof (induction "length nodes - j" arbitrary: j)
  case 0
  then show ?case by simp
next
  case (Suc k)
  let ?r = "rotate index nodes" and ?idx = "(index + j) mod length nodes"
  have nz: "0 < length nodes" using Suc.prems(1) by linarith
  have idx: "\<not> length nodes \<le> ?idx" using nz mod_less_divisor [OF nz, of "index + j"] by linarith
  have step: "take j ?r @ [nodes ! ?idx] = take (Suc j) ?r"
    using Suc.prems(3) by (simp add: take_Suc_conv_app_nth nth_rotate)
  have next_idx: "(if ?idx + 1 \<ge> length nodes then 0 else ?idx + 1) = (index + Suc j) mod length nodes"
  proof -
    have "?idx + 1 \<ge> length nodes \<longleftrightarrow> Suc ?idx = length nodes" using idx by linarith
    then show ?thesis by (simp add: mod_Suc)
  qed
  have len: "int (length (take (Suc j) ?r)) = int (Suc j)" using Suc.prems(3) by simp
  have unfold: "chooseLoop nodes index upToNodes ?idx (take j ?r) =
    (if (index + Suc j) mod length nodes = index \<or> int (Suc j) = upToNodes then Ok (take (Suc j) ?r)
     else chooseLoop nodes index upToNodes ((index + Suc j) mod length nodes) (take (Suc j) ?r))"
    using Suc.prems(1) idx by (subst chooseLoop.simps) (simp only: step next_idx Let_def len, simp)
  show ?case
  proof (cases "int (Suc j) = upToNodes")
    case True
    then have "nat upToNodes = Suc j" by simp
    with True show ?thesis by (simp add: unfold)
  next
    case False
    then have j: "int (Suc j) < upToNodes" "Suc j < length nodes" using Suc.prems by linarith+
    have "(index + Suc j) mod length nodes \<noteq> index"
    proof
      assume "(index + Suc j) mod length nodes = index"
      then have "(index + Suc j) mod length nodes = index mod length nodes"
        using Suc.prems(1) by simp
      then have "Suc j mod length nodes = 0"
        by (metis add.right_neutral mod_add_left_eq mod_mod_trivial nat_mod_eq_iff
            add_left_cancel mod_eq_dvd_iff_nat mod_0_imp_dvd dvd_imp_mod_0 diff_add_inverse le_add1)
      then show False using j(2) by simp
    qed
    moreover have "chooseLoop nodes index upToNodes ((index + Suc j) mod length nodes) (take (Suc j) ?r)
        = Ok (take (nat upToNodes) ?r)"
      using Suc.prems Suc.hyps(2) j by (intro Suc.hyps(1)) auto
    ultimately show ?thesis using False by (simp add: unfold)
  qed
qed

lemma rootNodesSelector_window:
  assumes "ucHash X uc SHA256 = Inr h" and "0 < n" and "n < int (length nodes)"
  shows "rootNodesSelector X (Some uc) nodes n =
    Ok (take (nat n) (rotate (bytesToNat (sliceBytes h) mod length nodes) nodes))"
proof -
  have nz: "0 < length nodes" using assms by (cases nodes) auto
  then have "bytesToNat (sliceBytes h) mod length nodes < length nodes" by simp
  with chooseLoop_window [of "bytesToNat (sliceBytes h) mod length nodes" nodes 0 n] assms nz
  show ?thesis by (simp add: rootNodesSelector_def Let_def)
qed

lemma mset_eq_rotate: "mset (rotate k xs) = mset xs"
  by (metis mset_append append_take_drop_id rotate_drop_take union_commute)

section \<open>The contract of a selector\<close>

locale node_selector =
  fixes select :: "peerID list \<Rightarrow> int \<Rightarrow> peerID list outcome"
  assumes select_empty: "\<exists>e. select [] n = Fail e"
    and select_none: "\<exists>e. select nodes 0 = Fail e"
    and select_all: "nodes \<noteq> [] \<Longrightarrow> int (length nodes) \<le> n \<Longrightarrow> select nodes n = Ok nodes"
    and select_some: "0 < n \<Longrightarrow> n < int (length nodes) \<Longrightarrow>
      (\<exists>e. select nodes n = Fail e) \<or>
      (\<exists>ys. mset ys = mset nodes \<and> select nodes n = Ok (take (nat n) ys))"
    and select_negative: "nodes \<noteq> [] \<Longrightarrow> n < 0 \<Longrightarrow> \<exists>p. select nodes n = Panics p"
begin

lemma select_Ok:
  assumes "select nodes n = Ok ys"
  shows "int (length ys) = min n (int (length nodes))" and "set ys \<subseteq> set nodes"
    and "distinct nodes \<Longrightarrow> distinct ys" and "ys \<noteq> []"
proof -
  consider "nodes = []" | "n = 0" | "nodes \<noteq> []" "n < 0" | "nodes \<noteq> []" "int (length nodes) \<le> n"
    | "0 < n" "n < int (length nodes)" by linarith
  then have "\<exists>zs. mset zs = mset nodes \<and> ys = take (nat n) zs \<and> 0 < n \<and> nodes \<noteq> []"
  proof cases
    case 1
    then show ?thesis using assms select_empty [of n] by auto
  next
    case 2
    then show ?thesis using assms select_none [of nodes] by auto
  next
    case 3
    then show ?thesis using assms select_negative [of nodes n] by auto
  next
    case 4
    then have "ys = nodes" using assms select_all by auto
    with 4 show ?thesis by (intro exI [of _ nodes]) (cases nodes, auto)
  next
    case 5
    then show ?thesis using assms select_some [of n nodes] by auto
  qed
  then obtain zs where zs: "mset zs = mset nodes" "ys = take (nat n) zs" "0 < n" "nodes \<noteq> []"
    by blast
  have len: "length zs = length nodes" using zs(1) by (metis size_mset)
  have st: "set zs = set nodes" using zs(1) by (metis set_mset_mset)
  show "int (length ys) = min n (int (length nodes))" using zs len by auto
  show "set ys \<subseteq> set nodes" using zs(2) st by (auto dest: in_set_takeD)
  show "distinct nodes \<Longrightarrow> distinct ys"
    using zs(1,2) by (metis distinct_take mset_eq_imp_distinct_iff)
  show "ys \<noteq> []" using zs len by (cases zs) auto
qed

text \<open>A selector panics only on a negative count, which no caller of this program passes.\<close>

lemma select_no_panic:
  assumes "0 \<le> n"
  shows "select nodes n \<noteq> Panics p"
  using assms select_empty [of n] select_none [of nodes] select_all [of nodes n]
    select_some [of n nodes] by (cases "nodes = []"; cases "n = 0"; cases "int (length nodes) \<le> n") auto

end

interpretation random_selector: node_selector "randomNodeSelector rnd" for rnd
proof (unfold_locales, goal_cases)
  case (4 n nodes)
  then show ?case
    by (intro disjI2 exI [of _ "randShuffle rnd nodes"]) (auto simp: randomNodeSelector_def Let_def)
qed (auto simp: randomNodeSelector_def Let_def)

interpretation root_selector: node_selector "rootNodesSelector X (Some uc)" for X uc
proof (unfold_locales, goal_cases)
  case (4 n nodes)
  show ?case
  proof (cases "ucHash X uc SHA256")
    case (Inl e)
    then show ?thesis using 4 by (auto simp: rootNodesSelector_def Let_def)
  next
    case (Inr h)
    then show ?thesis using rootNodesSelector_window [OF Inr 4]
      by (intro disjI2 exI [of _ "rotate (bytesToNat (sliceBytes h) mod length nodes) nodes"])
        (simp add: mset_eq_rotate)
  qed
qed (auto simp: rootNodesSelector_def Let_def)

end
