(* ===== verification/KeyValueDb.thy ===== *)
theory KeyValueDb
  imports GoStd
begin

text \<open>
  The interface \<open>keyvaluedb.KeyValueDB\<close> of \<open>bft-core\<close>, used for the block store and the shard
  configuration store. The package is outside the repository: a database is a state of any type
  \<open>'d\<close> and the record \<open>kvdb\<close> holds the operations on it. An iterator is the list of the entries
  it visits from its position on (empty when \<open>Valid()\<close> is false); the value of an entry may fail
  to decode. Closing an iterator only logs its error.

  What the program relies on is the predicate \<open>kvLaw\<close>: reads return the last write, an error
  leaves the database as it was, and iterators visit the stored keys in ascending byte order.
\<close>

type_synonym dbkey = "byte list"
type_synonym 'v iterator = "(dbkey \<times> (goerror + 'v)) list"

record ('d, 'v) kvdb =
  kvRead :: "'d \<Rightarrow> dbkey \<Rightarrow> goerror + 'v option"
  kvWrite :: "dbkey \<Rightarrow> 'v \<Rightarrow> ('d, unit) comp"
  kvDelete :: "dbkey \<Rightarrow> ('d, unit) comp"
  kvFirst :: "'d \<Rightarrow> 'v iterator"
  kvLast :: "'d \<Rightarrow> 'v iterator"
  kvFind :: "'d \<Rightarrow> dbkey \<Rightarrow> 'v iterator"

text \<open>\<open>bytes.Compare\<close> on keys: lexicographic, a proper prefix is smaller.\<close>

fun keyLess :: "dbkey \<Rightarrow> dbkey \<Rightarrow> bool" where
  "keyLess _ [] \<longleftrightarrow> False"
| "keyLess [] (_ # _) \<longleftrightarrow> True"
| "keyLess (a # as) (b # bs) \<longleftrightarrow> a < b \<or> a = b \<and> keyLess as bs"

definition kvWriteLaw :: "('d, 'v) kvdb \<Rightarrow> bool" where
  "kvWriteLaw D \<longleftrightarrow> (\<forall>k v d. wp False (kvWrite D k v)
     (\<lambda>_ d'. \<forall>k'. kvRead D d' k' = (if k' = k then Inr (Some v) else kvRead D d k'))
     (\<lambda>_ d'. d' = d) d)"

definition kvDeleteLaw :: "('d, 'v) kvdb \<Rightarrow> bool" where
  "kvDeleteLaw D \<longleftrightarrow> (\<forall>k d. wp False (kvDelete D k)
     (\<lambda>_ d'. \<forall>k'. kvRead D d' k' = (if k' = k then Inr None else kvRead D d k'))
     (\<lambda>_ d'. d' = d) d)"

text \<open>
  A readable entry is visited by \<open>First\<close>; \<open>Find\<close> starts at the first key that is not smaller;
  \<open>Last\<close> stands on the last entry.
\<close>

definition kvIterLaw :: "('d, 'v) kvdb \<Rightarrow> bool" where
  "kvIterLaw D \<longleftrightarrow> (\<forall>d.
     sorted_wrt (\<lambda>a b. keyLess (fst a) (fst b)) (kvFirst D d) \<and>
     (\<forall>k r. (k, r) \<in> set (kvFirst D d) \<longleftrightarrow> map_sum id Some r = kvRead D d k) \<and>
     kvLast D d = (if kvFirst D d = [] then [] else [last (kvFirst D d)]) \<and>
     (\<forall>k. kvFind D d k = filter (\<lambda>e. \<not> keyLess (fst e) k) (kvFirst D d)))"

definition kvLaw :: "('d, 'v) kvdb \<Rightarrow> bool" where
  "kvLaw D \<longleftrightarrow> kvWriteLaw D \<and> kvDeleteLaw D \<and> kvIterLaw D"

lemma kvWriteLawD:
  "kvWriteLaw D \<Longrightarrow> wp False (kvWrite D k v)
     (\<lambda>_ d'. \<forall>k'. kvRead D d' k' = (if k' = k then Inr (Some v) else kvRead D d k'))
     (\<lambda>_ d'. d' = d) d"
  by (simp add: kvWriteLaw_def)

lemma kvDeleteLawD:
  "kvDeleteLaw D \<Longrightarrow> wp False (kvDelete D k)
     (\<lambda>_ d'. \<forall>k'. kvRead D d' k' = (if k' = k then Inr None else kvRead D d k'))
     (\<lambda>_ d'. d' = d) d"
  by (simp add: kvDeleteLaw_def)

lemma keyLess_irrefl [simp]: "\<not> keyLess k k"
  by (induction k) auto

lemma keyLess_trans: "keyLess a b \<Longrightarrow> keyLess b c \<Longrightarrow> keyLess a c"
proof (induction a b arbitrary: c rule: keyLess.induct)
  case (3 a as b bs)
  then show ?case by (cases c) auto
next
  case (2 b bs)
  then show ?case by (cases c) auto
qed simp

lemma keyLess_linear: "keyLess a b \<or> a = b \<or> keyLess b a"
proof (induction a b rule: keyLess.induct)
  case (1 a)
  then show ?case by (cases a) auto
qed auto

text \<open>Among keys of one length the order is that of the big-endian numbers they spell.\<close>

lemma bytesToNat_lt: "bytesToNat bs < 256 ^ length bs"
proof (induction bs rule: rev_induct)
  case (snoc b bs)
  then show ?case using byte_lt_256 [of b] by (simp add: bytesToNat_snoc)
qed (simp add: bytesToNat_def)

lemma bytesToNat_Cons: "bytesToNat (b # bs) = unat b * 256 ^ length bs + bytesToNat bs"
proof (induction bs rule: rev_induct)
  case (snoc c bs)
  have "bytesToNat (b # bs @ [c]) = bytesToNat ((b # bs) @ [c])" by simp
  also have "\<dots> = (unat b * 256 ^ length bs + bytesToNat bs) * 256 + unat c"
    by (simp only: bytesToNat_snoc snoc)
  finally show ?case by (simp add: bytesToNat_snoc algebra_simps)
qed (simp add: bytesToNat_def)

lemma keyLess_number:
  "length as = length bs \<Longrightarrow> keyLess as bs \<longleftrightarrow> bytesToNat as < bytesToNat bs"
proof (induction as bs rule: list_induct2)
  case (Cons a as b bs)
  let ?B = "256 ^ length bs"
  have lt: "bytesToNat as < ?B" "bytesToNat bs < ?B"
    using bytesToNat_lt [of as] bytesToNat_lt [of bs] Cons.hyps by auto
  consider "unat a < unat b" | "unat a = unat b" | "unat b < unat a" by linarith
  then show ?case
  proof cases
    case 1
    then have "unat a * ?B + ?B \<le> unat b * ?B" by (metis Suc_leI mult_Suc add.commute mult_le_mono1)
    with 1 lt show ?thesis
      using Cons.hyps by (simp add: bytesToNat_Cons word_less_nat_alt)
  next
    case 2
    then have "a = b" by (rule unsigned_word_eqI)
    then show ?thesis using Cons by (simp add: bytesToNat_Cons)
  next
    case 3
    then have "unat b * ?B + ?B \<le> unat a * ?B" by (metis Suc_leI mult_Suc add.commute mult_le_mono1)
    with 3 lt show ?thesis
      using Cons.hyps by (auto simp: bytesToNat_Cons word_less_nat_alt)
  qed
qed (simp add: bytesToNat_def)

end
