(* ===== verification/ShardConfStore.thy ===== *)
theory ShardConfStore
  imports BftTypes KeyValueDb
begin

text \<open>
  \<open>src/partition/shard_conf_store.go\<close>: the store of shard configurations by epoch, a database
  with a read cache in front of it. The cache is filled by \<open>Get\<close> under the mutex, which makes
  \<open>Get\<close> one step (the entry found under the read lock is the one of the step). The theory defines
  the operations and shows that a configuration read twice is the same both times (locale
  \<open>conf_source\<close>), when the cache agrees with the database, and what the start-up check accepts.
\<close>

section \<open>State and operations\<close>

record 'd shardConfStore =
  scDb :: 'd
  scCache :: "uint64 \<Rightarrow> shardConfRecord option"

definition epochToKey :: "uint64 \<Rightarrow> dbkey" where
  "epochToKey epoch = putUint64BE epoch"

text \<open>
  The loop of \<open>verifyDb\<close> over the iterator. \<open>prev\<close> is set by the first entry and never again, so
  every entry is compared with the first one. A key shorter than 8 bytes panics in
  \<open>binary.BigEndian.Uint64\<close>.
\<close>

fun verifyDbLoop :: "'x ext_scheme \<Rightarrow> shardConfRecord option \<Rightarrow> shardConfRecord iterator \<Rightarrow> unit outcome"
  where
  "verifyDbLoop X prev [] = Ok ()"
| "verifyDbLoop X prev ((k, v) # it) =
     (case uint64BE k of Panics p \<Rightarrow> Panics p | Fail e \<Rightarrow> Fail e | Ok epoch \<Rightarrow>
     (case v of Inl e \<Rightarrow> Fail (Wrapf ''failed to read shard conf for epoch %d'' e) | Inr conf \<Rightarrow>
       let first = (case prev of None \<Rightarrow> conf | Some p \<Rightarrow> p) in
       if pdrNetworkID first \<noteq> pdrNetworkID conf then
         Fail (Errorf ''inconsistent network id in shard conf for epoch %d'')
       else if pdrPartitionTypeID first \<noteq> pdrPartitionTypeID conf then
         Fail (Errorf ''inconsistent partition type id in shard conf for epoch %d'')
       else if pdrPartitionID first \<noteq> pdrPartitionID conf then
         Fail (Errorf ''inconsistent partition id in shard conf for epoch %d'')
       else if \<not> shardEqual X (pdrShardID first) (pdrShardID conf) then
         Fail (Errorf ''inconsistent shard id in shard conf for epoch %d'')
       else verifyDbLoop X (Some first) it))"

definition verifyDb :: "'x ext_scheme \<Rightarrow> ('d, shardConfRecord) kvdb \<Rightarrow> 'd \<Rightarrow> unit outcome" where
  "verifyDb X D db = verifyDbLoop X None (kvFirst D db)"

definition newShardConfStore ::
  "'x ext_scheme \<Rightarrow> ('d, shardConfRecord) kvdb \<Rightarrow> 'd \<Rightarrow> 'd shardConfStore outcome" where
  "newShardConfStore X D db = (case verifyDb X D db of
      Fail e \<Rightarrow> Fail (Wrapf ''failed to verify shard conf store'' e)
    | Panics p \<Rightarrow> Panics p
    | Ok _ \<Rightarrow> Ok \<lparr>scDb = db, scCache = (\<lambda>_. None)\<rparr>)"

definition loadConf ::
  "('d, shardConfRecord) kvdb \<Rightarrow> uint64 \<Rightarrow> ('d shardConfStore, shardConfRecord) comp" where
  "loadConf D epoch =
     andThen (wrapErr ''reading shard conf''
       (andThen (gets (\<lambda>s. kvRead D (scDb s) (epochToKey epoch))) liftE)) (\<lambda>found.
     (case found of None \<Rightarrow> fail (Errorf ''shard conf not found'') | Some v \<Rightarrow> ret v))"

definition getConf ::
  "('d, shardConfRecord) kvdb \<Rightarrow> uint64 \<Rightarrow> ('d shardConfStore, shardConfRecord) comp" where
  "getConf D epoch =
     andThen (gets (\<lambda>s. scCache s epoch)) (\<lambda>cached.
     (case cached of Some conf \<Rightarrow> ret conf
      | None \<Rightarrow>
        andThen (loadConf D epoch) (\<lambda>conf.
        andSeq (modify (\<lambda>s. s\<lparr>scCache := (scCache s)(epoch \<mapsto> conf)\<rparr>))
        (ret conf))))"

definition getFirst :: "('d, shardConfRecord) kvdb \<Rightarrow> ('d shardConfStore, shardConfRecord) comp" where
  "getFirst D =
     andThen (gets (\<lambda>s. kvFirst D (scDb s))) (\<lambda>it.
     (case it of [] \<Rightarrow> fail (Errorf ''empty shard conf db'')
      | e # _ \<Rightarrow> andThen (liftOut (uint64BE (fst e))) (getConf D)))"

text \<open>The write goes to the database only; the cache is not updated.\<close>

definition storeConf ::
  "'x ext_scheme \<Rightarrow> ('d, shardConfRecord) kvdb \<Rightarrow> shardConfRecord \<Rightarrow> ('d shardConfStore, unit) comp" where
  "storeConf X D conf =
     andThen
       (if pdrEpoch conf > 0 then
          andThen (wrapErr ''failed to load shard conf for previous epoch %d''
            (loadConf D (pdrEpoch conf - 1))) (\<lambda>p. ret (Some p))
        else ret None) (\<lambda>prevShardConf.
     andSeq (wrapErr ''failed to verify shard conf for epoch %d''
       (liftErr (pdrVerify X conf prevShardConf)))
     (wrapErr ''saving shard conf for epoch %d''
       (zoom scDb scDb_update (kvWrite D (epochToKey (pdrEpoch conf)) conf))))"

section \<open>The contract of a configuration source\<close>

text \<open>What \<open>Get\<close> answers for an epoch in a given state, if anything.\<close>

definition confAt :: "('d, shardConfRecord) kvdb \<Rightarrow> 'd shardConfStore \<Rightarrow> uint64 \<Rightarrow> shardConfRecord option" where
  "confAt D s epoch = (case scCache s epoch of Some conf \<Rightarrow> Some conf
     | None \<Rightarrow> (case kvRead D (scDb s) (epochToKey epoch) of Inr (Some conf) \<Rightarrow> Some conf | _ \<Rightarrow> None))"

locale conf_source =
  fixes get :: "uint64 \<Rightarrow> ('s, shardConfRecord) comp"
    and view :: "'s \<Rightarrow> uint64 \<Rightarrow> shardConfRecord option"
  assumes get_spec: "wp False (get e)
      (\<lambda>c t. view s e = Some c \<and> view t = view s) (\<lambda>_ t. view s e = None \<and> t = s) s"
begin

lemma get_Ok: "get e s = (Ok c, t) \<Longrightarrow> view s e = Some c \<and> view t = view s"
  by (rule wp_Ok [OF get_spec])

lemma get_defined: "view s e = Some c \<Longrightarrow> \<exists>t. get e s = (Ok c, t)"
  using get_spec [of e s] by (auto simp: wp_def split: prod.splits outcome.splits)

text \<open>Reading is stable: whatever was read in between, the same epoch gives the same answer.\<close>

lemma gets_stable:
  assumes "get e s = (Ok c, t)"
  shows "\<exists>u'. get e (snd (forEach es (\<lambda>e'. andSeq (attempt (get e')) (ret ())) t)) = (Ok c, u')"
proof -
  let ?body = "\<lambda>e'. andSeq (attempt (get e')) (ret ())"
  have step: "wp False (?body e') (\<lambda>_ u. view u = view s) (\<lambda>_ u. view u = view s) u"
    if "view u = view s" for e' u
    unfolding wp_andSeq wp_attempt wp_ret
    by (rule wp_mono [OF get_spec]) (use that in auto)
  have "wp False (forEach es ?body) (\<lambda>_ u. view u = view s) (\<lambda>_ u. view u = view s) t"
    using get_Ok [OF assms] by (intro wp_forEach_inv step) auto
  then have "view (snd (forEach es ?body t)) = view s" by (rule wp_snd)
  then show ?thesis using get_Ok [OF assms] by (intro get_defined) simp
qed

end

lemma confAt_cache:
  "confAt D s e = Some c \<Longrightarrow> confAt D (s\<lparr>scCache := (scCache s)(e \<mapsto> c)\<rparr>) = confAt D s"
  by (rule ext) (auto simp: confAt_def split: option.splits sum.splits)

interpretation store_source: conf_source "getConf D" "confAt D" for D
proof unfold_locales
  fix e and s :: "'a shardConfStore"
  show "wp False (getConf D e) (\<lambda>c t. confAt D s e = Some c \<and> confAt D t = confAt D s)
      (\<lambda>_ t. confAt D s e = None \<and> t = s) s"
  proof (cases "scCache s e")
    case None
    then have view: "confAt D s e = (case kvRead D (scDb s) (epochToKey e) of
        Inr (Some conf) \<Rightarrow> Some conf | _ \<Rightarrow> None)"
      by (simp add: confAt_def)
    then show ?thesis
      using None by (auto simp: getConf_def loadConf_def wp_rules intro!: confAt_cache
          split: option.splits sum.splits)
  next
    case (Some c)
    then show ?thesis by (auto simp: getConf_def wp_rules confAt_def)
  qed
qed

section \<open>Cache coherence\<close>

definition cacheCoherent :: "('d, shardConfRecord) kvdb \<Rightarrow> 'd shardConfStore \<Rightarrow> bool" where
  "cacheCoherent D s \<longleftrightarrow>
     (\<forall>e c. scCache s e = Some c \<longrightarrow> kvRead D (scDb s) (epochToKey e) = Inr (Some c))"

lemma getConf_coherent:
  "cacheCoherent D s \<Longrightarrow>
     wp False (getConf D e) (\<lambda>_. cacheCoherent D) (\<lambda>_. cacheCoherent D) s"
  by (auto simp: getConf_def loadConf_def wp_rules cacheCoherent_def split: option.splits sum.splits)

lemma confAt_coherent:
  "cacheCoherent D s \<Longrightarrow> confAt D s e = Some c \<longleftrightarrow> kvRead D (scDb s) (epochToKey e) = Inr (Some c)"
  by (auto simp: confAt_def cacheCoherent_def split: option.splits sum.splits)

text \<open>Storing a configuration whose epoch has not been read yet keeps the cache coherent.\<close>

lemma storeConf_wp:
  assumes "kvWriteLaw D"
  shows "wp False (storeConf X D conf)
     (\<lambda>_ t. scCache t = scCache s \<and>
        (\<forall>e. kvRead D (scDb t) (epochToKey e) =
           (if e = pdrEpoch conf then Inr (Some conf) else kvRead D (scDb s) (epochToKey e))))
     (\<lambda>_ t. t = s) s"
proof -
  let ?w = "kvWrite D (epochToKey (pdrEpoch conf)) conf"
  have inj: "epochToKey e = epochToKey e' \<longleftrightarrow> e = e'" for e e'
    by (simp add: epochToKey_def putUint64BE_inject)
  have w: "wp False ?w
     (\<lambda>_ d. \<forall>e. kvRead D d (epochToKey e) =
        (if e = pdrEpoch conf then Inr (Some conf) else kvRead D (scDb s) (epochToKey e)))
     (\<lambda>_ d. s\<lparr>scDb := d\<rparr> = s) (scDb s)"
    by (rule wp_mono [OF kvWriteLawD [OF assms]]) (simp_all add: inj)
  show ?thesis
    by (auto simp: storeConf_def loadConf_def wp_rules split: option.splits sum.splits
        intro!: wp_mono [OF w])
qed

end
