(* ===== verification/RoundTimer.thy ===== *)
theory RoundTimer
  imports Prelude
begin

text \<open>
  The T1 timer of \<open>src/partition/round.go\<close> (\<open>roundTimer\<close> of \<open>node.go\<close>): the flag, the cancel
  function of the current context, the event channel of capacity one, and the goroutines started
  so far that have not ended. A context is a number; cancelling it puts it into \<open>cancelled\<close>. The
  goroutines run between any two steps of the node, so their steps are an inductive relation.
\<close>

datatype timerPhase = Waiting | Sending

record roundTimer =
  isRunning :: bool
  cancelFn :: "nat option"
  timerEvent :: bool
  nextCtx :: nat
  cancelled :: "nat set"
  goroutines :: "(nat \<times> timerPhase) set"

definition newRoundTimer :: roundTimer where
  "newRoundTimer = \<lparr>isRunning = False, cancelFn = None, timerEvent = False, nextCtx = 0,
     cancelled = {}, goroutines = {}\<rparr>"

definition stopT1Timer :: "roundTimer \<Rightarrow> roundTimer" where
  "stopT1Timer t =
     (case cancelFn t of None \<Rightarrow> t
      | Some c \<Rightarrow> t\<lparr>cancelled := insert c (cancelled t), cancelFn := None\<rparr>)\<lparr>isRunning := False\<rparr>"

definition startT1Timer :: "roundTimer \<Rightarrow> roundTimer" where
  "startT1Timer t = (let t' = stopT1Timer t; c = nextCtx t' in
     t'\<lparr>cancelFn := Some c, isRunning := True, nextCtx := c + 1,
        goroutines := insert (c, Waiting) (goroutines t')\<rparr>)"

text \<open>\<open>ensureT1TimerState\<close>, given whether the timer should be running.\<close>

definition ensureT1Timer :: "bool \<Rightarrow> roundTimer \<Rightarrow> roundTimer" where
  "ensureT1Timer shouldBeRunning t =
     (if shouldBeRunning \<and> \<not> isRunning t then startT1Timer t
      else if \<not> shouldBeRunning \<and> isRunning t then stopT1Timer t
      else t)"

text \<open>
  The goroutine of a timer. \<open>fire\<close>: \<open>time.After\<close> delivers; a \<open>select\<close> with several ready cases
  may take any of them, so this is possible for a cancelled context too. \<open>deliver\<close>: the event is put
  into the channel, which needs room. \<open>quit\<close>: the context is cancelled.
\<close>

inductive timerStep :: "roundTimer \<Rightarrow> roundTimer \<Rightarrow> bool" where
  fire: "(c, Waiting) \<in> goroutines t \<Longrightarrow>
     timerStep t (t\<lparr>isRunning := False,
       goroutines := insert (c, Sending) (goroutines t - {(c, Waiting)})\<rparr>)"
| deliver: "(c, Sending) \<in> goroutines t \<Longrightarrow> \<not> timerEvent t \<Longrightarrow>
     timerStep t (t\<lparr>timerEvent := True, goroutines := goroutines t - {(c, Sending)}\<rparr>)"
| quit: "(c, ph) \<in> goroutines t \<Longrightarrow> c \<in> cancelled t \<Longrightarrow>
     timerStep t (t\<lparr>goroutines := goroutines t - {(c, ph)}\<rparr>)"

inductive_cases timerStepE: "timerStep t u"

text \<open>The receive of the main loop takes the event out of the channel.\<close>

definition takeTimerEvent :: "roundTimer \<Rightarrow> roundTimer" where
  "takeTimerEvent t = t\<lparr>timerEvent := False\<rparr>"

text \<open>Steps of the node on its timer, interleaved with the goroutines.\<close>

inductive timerReach :: "roundTimer \<Rightarrow> bool" where
  init: "timerReach newRoundTimer"
| goroutine: "timerReach t \<Longrightarrow> timerStep t u \<Longrightarrow> timerReach u"
| ensure: "timerReach t \<Longrightarrow> timerReach (ensureT1Timer b t)"
| receive: "timerReach t \<Longrightarrow> timerEvent t \<Longrightarrow> timerReach (takeTimerEvent t)"

section \<open>Invariant\<close>

text \<open>
  Contexts are used once; a goroutine that is not cancelled belongs to the current context; when the
  flag says the timer runs, the goroutine of the current context is still waiting.
\<close>

definition timerInv :: "roundTimer \<Rightarrow> bool" where
  "timerInv t \<longleftrightarrow>
     (\<forall>c ph. (c, ph) \<in> goroutines t \<longrightarrow> c < nextCtx t) \<and>
     (\<forall>c\<in>cancelled t. c < nextCtx t) \<and>
     (\<forall>c. cancelFn t = Some c \<longrightarrow> c < nextCtx t \<and> c \<notin> cancelled t) \<and>
     (\<forall>c ph. (c, ph) \<in> goroutines t \<longrightarrow> c \<notin> cancelled t \<longrightarrow> cancelFn t = Some c) \<and>
     (\<forall>c ph ph'. (c, ph) \<in> goroutines t \<longrightarrow> (c, ph') \<in> goroutines t \<longrightarrow> ph = ph') \<and>
     (isRunning t \<longrightarrow> (\<exists>c. cancelFn t = Some c \<and> (c, Waiting) \<in> goroutines t))"

lemmas timer_defs = stopT1Timer_def startT1Timer_def ensureT1Timer_def takeTimerEvent_def

lemma timerInv_new: "timerInv newRoundTimer"
  by (simp add: timerInv_def newRoundTimer_def)

lemma timerInv_stop: "timerInv t \<Longrightarrow> timerInv (stopT1Timer t)"
  by (auto simp: timerInv_def stopT1Timer_def split: option.splits)

lemma stop_cancelFn: "cancelFn (stopT1Timer t) = None"
  by (simp add: stopT1Timer_def split: option.splits)

lemma stop_isRunning: "\<not> isRunning (stopT1Timer t)"
  by (simp add: stopT1Timer_def)

lemma timerInv_start:
  assumes "timerInv t"
  shows "timerInv (startT1Timer t)"
proof -
  let ?s = "stopT1Timer t"
  have inv: "timerInv ?s" using assms by (rule timerInv_stop)
  then have old: "c < nextCtx ?s \<and> c \<in> cancelled ?s" if "(c, ph) \<in> goroutines ?s" for c ph
    using that stop_cancelFn [of t] unfolding timerInv_def by (metis option.distinct(1))
  have fresh: "(nextCtx ?s, ph) \<notin> goroutines ?s" "nextCtx ?s \<notin> cancelled ?s" for ph
    using inv unfolding timerInv_def by blast+
  have one: "ph = ph'" if "(c, ph) \<in> goroutines ?s" "(c, ph') \<in> goroutines ?s" for c ph ph'
    using inv that unfolding timerInv_def by blast
  have canc: "c < nextCtx ?s" if "c \<in> cancelled ?s" for c
    using inv that unfolding timerInv_def by blast
  have eqs: "cancelled (startT1Timer t) = cancelled ?s" "nextCtx (startT1Timer t) = Suc (nextCtx ?s)"
    "cancelFn (startT1Timer t) = Some (nextCtx ?s)"
    "goroutines (startT1Timer t) = insert (nextCtx ?s, Waiting) (goroutines ?s)"
    by (simp_all add: startT1Timer_def Let_def)
  show ?thesis
    unfolding timerInv_def eqs
  proof (intro conjI allI ballI impI)
    fix c ph
    assume g: "(c, ph) \<in> insert (nextCtx ?s, Waiting) (goroutines ?s)"
    then show "c < Suc (nextCtx ?s)" using old by (auto simp: less_Suc_eq)
    assume "c \<notin> cancelled ?s"
    with g show "Some (nextCtx ?s) = Some c" using old by auto
  next
    fix c ph ph'
    assume "(c, ph) \<in> insert (nextCtx ?s, Waiting) (goroutines ?s)"
      "(c, ph') \<in> insert (nextCtx ?s, Waiting) (goroutines ?s)"
    then show "ph = ph'" using fresh one by blast
  next
    fix c assume "c \<in> cancelled ?s"
    then show "c < Suc (nextCtx ?s)" using canc by (simp add: less_Suc_eq)
  qed (use fresh in auto)
qed

lemma timerInv_ensure: "timerInv t \<Longrightarrow> timerInv (ensureT1Timer b t)"
  by (simp add: ensureT1Timer_def timerInv_start timerInv_stop)

lemma timerInv_quit:
  assumes inv: "timerInv t" and g: "c \<in> cancelled t"
  shows "timerInv (t\<lparr>goroutines := goroutines t - {(c, ph)}\<rparr>)"
proof -
  have "isRunning t \<longrightarrow> (\<exists>c'. cancelFn t = Some c' \<and> (c', Waiting) \<in> goroutines t - {(c, ph)})"
    using inv g unfolding timerInv_def by blast
  then show ?thesis using inv unfolding timerInv_def by (simp, blast)
qed

lemma timerInv_fire:
  assumes "timerInv t" and "(c, Waiting) \<in> goroutines t"
  shows "timerInv (t\<lparr>isRunning := False,
    goroutines := insert (c, Sending) (goroutines t - {(c, Waiting)})\<rparr>)"
  using assms unfolding timerInv_def by (simp, blast)

lemma timerInv_deliver:
  assumes "timerInv t" and "(c, Sending) \<in> goroutines t"
  shows "timerInv (t\<lparr>timerEvent := True, goroutines := goroutines t - {(c, Sending)}\<rparr>)"
  using assms unfolding timerInv_def by (simp, blast)

lemma timerInv_step: "timerStep t u \<Longrightarrow> timerInv t \<Longrightarrow> timerInv u"
proof (induction rule: timerStep.induct)
  case (fire c t)
  then show ?case by (intro timerInv_fire)
next
  case (deliver c t)
  then show ?case by (intro timerInv_deliver)
next
  case (quit c ph t)
  then show ?case by (intro timerInv_quit)
qed

lemma timerInv_event: "timerInv (t\<lparr>timerEvent := b\<rparr>) = timerInv t"
  by (simp add: timerInv_def)

lemma timerReach_inv: "timerReach t \<Longrightarrow> timerInv t"
proof (induction rule: timerReach.induct)
  case init
  then show ?case by (rule timerInv_new)
next
  case (goroutine t u)
  from goroutine.hyps(2) goroutine.IH show ?case by (rule timerInv_step)
next
  case (ensure t b)
  from ensure.IH show ?case by (rule timerInv_ensure)
next
  case (receive t)
  then show ?case by (simp add: timerInv_event takeTimerEvent_def)
qed

text \<open>Two live goroutines, or phases of one, are the same.\<close>

lemma live_unique:
  "timerInv t \<Longrightarrow> g \<in> goroutines t \<Longrightarrow> h \<in> goroutines t \<Longrightarrow>
     fst g \<notin> cancelled t \<Longrightarrow> fst h \<notin> cancelled t \<Longrightarrow> g = h"
  unfolding timerInv_def by (metis option.inject prod.collapse)

lemma ensure_isRunning: "isRunning (ensureT1Timer b t) = b"
  by (simp add: ensureT1Timer_def startT1Timer_def stop_isRunning Let_def)

end
