(* ===== verification/NodeState.thy ===== *)
theory NodeState
  imports FgpTxSystem LibP2P NodeSelector ShardConfStore RoundTimer
begin

text \<open>
  The state of a partition node (\<open>Node\<close> and \<open>ConsensusState\<close> of \<open>src/partition\<close>) and the small
  methods its handlers share: \<open>state_helpers.go\<close>, \<open>store_helpers.go\<close>, \<open>validators.go\<close>, the
  accessors at the end of \<open>node.go\<close>.

  The node is made of the components modelled in the other theories: the transaction system, the
  shard configuration store, the network and the T1 timer. What it calls outside the repository is
  the parameter \<open>nodeEnv\<close>: the \<open>bft-go-base\<close> operations, the databases, the trust base store, the
  PoW client and the sources of randomness, identifiers and time. Those whose answers vary from call
  to call are functions of a call counter that the node state carries (\<open>calls\<close>), so that nothing is
  assumed about how the answers of different calls are related.
\<close>

section \<open>Environment, configuration and state\<close>

record ledgerReplicationConfig =
  maxFetchBlocks :: uint64
  maxReturnBlocks :: uint64
  maxWorkers :: uint64
  replTimeout :: int

record nodeConf =
  signerOf :: signer
  hashAlgorithm :: hashAlg
  t1Timeout :: int
  replicationConfig :: ledgerReplicationConfig

record ('b, 'c) nodeEnv =
  extOps :: netExt
  blockDb :: "('b, block) kvdb"
  confDb :: "('c, shardConfRecord) kvdb"
  trustBaseByEpoch :: "uint64 \<Rightarrow> goerror + trustBase"
  powAt :: "nat \<Rightarrow> powClient"
  shuffleAt :: "nat \<Rightarrow> peerID list \<Rightarrow> peerID list"
  randAt :: "nat \<Rightarrow> nat \<Rightarrow> nat"
  uuidAt :: "nat \<Rightarrow> uuid"
  nowAt :: "nat \<Rightarrow> int"
  ctxDoneAt :: "nat \<Rightarrow> bool"

datatype nodeStatus = initializing | normal | recovering

definition statusString :: "nodeStatus \<Rightarrow> string" where
  "statusString s = (case s of initializing \<Rightarrow> ''initializing'' | normal \<Rightarrow> ''normal''
     | recovering \<Rightarrow> ''recovering'')"

record consensusState =
  status :: nodeStatus
  fuc :: "unicityCertificate option"
  luc :: "unicityCertificate option"
  ltr :: "technicalRecord option"
  leader :: peerID
  pendingBlockProposal :: "block option"
  recoveryLastProp :: "blockProposal option"

text \<open>Times are nanoseconds since 1970; the zero \<open>time.Time\<close> is the first of January of the year 1.\<close>

definition zeroTime :: int where
  "zeroTime = - 62135596800000000000"

record ('b, 'c) node = consensusState +
  conf :: nodeConf
  transactionSystem :: fgpTxSystem
  lastLedgerReqTime :: int
  replicationCh :: "ledgerReplicationRequest list"
  blockStore :: 'b
  shardConfStore :: "'c shardConfStore"
  network :: libP2PNetwork
  timer :: roundTimer
  epochChangeEvent :: bool
  shardConf :: shardConfRecord
  calls :: nat

section \<open>Calls on the components\<close>

text \<open>An answer of the environment for the next call.\<close>

definition draw :: "(nat \<Rightarrow> 'a) \<Rightarrow> (('b, 'c) node, 'a) comp" where
  "draw f = (\<lambda>s. (Ok (f (calls s)), s\<lparr>calls := calls s + 1\<rparr>))"

definition onTx :: "(fgpTxSystem, 'a) comp \<Rightarrow> (('b, 'c) node, 'a) comp" where
  "onTx m = zoom transactionSystem transactionSystem_update m"

definition onNet :: "(libP2PNetwork, 'a) comp \<Rightarrow> (('b, 'c) node, 'a) comp" where
  "onNet m = zoom network network_update m"

definition onBlocks :: "('b, 'a) comp \<Rightarrow> (('b, 'c) node, 'a) comp" where
  "onBlocks m = zoom blockStore blockStore_update m"

definition onConf :: "('c shardConfStore, 'a) comp \<Rightarrow> (('b, 'c) node, 'a) comp" where
  "onConf m = zoom shardConfStore shardConfStore_update m"

definition send :: "('b, 'c) nodeEnv \<Rightarrow> anyMsg \<Rightarrow> peerID list \<Rightarrow> (('b, 'c) node, unit) comp" where
  "send E msg receivers = onNet (netSend (extOps E) msg receivers)"

definition revertState :: "(('b, 'c) node, unit) comp" where
  "revertState = modify (\<lambda>s. s\<lparr>transactionSystem := revert (transactionSystem s)\<rparr>)"

section \<open>state_helpers.go\<close>

definition nodeCommittedUC :: "('b, 'c) node \<Rightarrow> unicityCertificate option" where
  "nodeCommittedUC s = committedUC (transactionSystem s)"

text \<open>\<open>luc.InputRecord.Epoch\<close> dereferences the input record.\<close>

definition currentEpoch :: "(('b, 'c) node, uint64) comp" where
  "currentEpoch =
     andThen (gets ltr) (\<lambda>tr. (case tr of
       Some t \<Rightarrow> ret (trEpoch t)
     | None \<Rightarrow> andThen (gets luc) (\<lambda>l. (case l of
         None \<Rightarrow> ret 0
       | Some u \<Rightarrow> andThen (deref (ucInputRecord u)) (\<lambda>ir. ret (irEpoch ir))))))"

definition currentRoundNumber :: "('b, 'c) nodeEnv \<Rightarrow> ('b, 'c) node \<Rightarrow> uint64" where
  "currentRoundNumber E s = (case ltr s of Some t \<Rightarrow> trRound t
     | None \<Rightarrow> getRoundNumber (extOps E) (luc s) + 1)"

section \<open>store_helpers.go\<close>

definition proposalKey :: "32 word" where
  "proposalKey = 0"

definition storeBlock :: "('b, 'c) nodeEnv \<Rightarrow> dbkey \<Rightarrow> block \<Rightarrow> (('b, 'c) node, unit) comp" where
  "storeBlock E roundNo b = onBlocks (kvWrite (blockDb E) roundNo b)"

definition deleteBlock :: "('b, 'c) nodeEnv \<Rightarrow> dbkey \<Rightarrow> (('b, 'c) node, unit) comp" where
  "deleteBlock E roundNo = onBlocks (kvDelete (blockDb E) roundNo)"

definition storePendingProposal :: "('b, 'c) nodeEnv \<Rightarrow> block \<Rightarrow> (('b, 'c) node, unit) comp" where
  "storePendingProposal E pr = wrapErr ''persist error''
     (onBlocks (kvWrite (blockDb E) (uint32ToBytes (extOps E) proposalKey) pr))"

definition deletePendingProposal :: "('b, 'c) nodeEnv \<Rightarrow> (('b, 'c) node, unit) comp" where
  "deletePendingProposal E = andSeq
     (attempt (onBlocks (kvDelete (blockDb E) (uint32ToBytes (extOps E) proposalKey)))) (ret ())"

definition resetProposal :: "(('b, 'c) node, unit) comp" where
  "resetProposal = modify (\<lambda>s. s\<lparr>pendingBlockProposal := None\<rparr>)"

definition loadPendingProposal :: "('b, 'c) nodeEnv \<Rightarrow> (('b, 'c) node, block option) comp" where
  "loadPendingProposal E = andThen
     (gets (\<lambda>s. kvRead (blockDb E) (blockStore s) (uint32ToBytes (extOps E) proposalKey))) liftE"

section \<open>validators.go and block_processor.go, getUCv1\<close>

definition ucValidate ::
  "'x protoExt_scheme \<Rightarrow> hashAlg \<Rightarrow> unicityCertificate option \<Rightarrow> shardConfRecord option \<Rightarrow> trustBase
     \<Rightarrow> goerror option" where
  "ucValidate X alg uc sc tb = (case sc of None \<Rightarrow> Some (Errorf ''shard conf is nil'')
    | Some c \<Rightarrow>
      if uc \<noteq> None \<and> getShardEpoch X uc = pdrEpoch c then
        (case pdrHash X c alg of
           Inl e \<Rightarrow> Some (Wrapf ''failed to calculate shard conf hash'' e)
         | Inr h \<Rightarrow> ucVerify X uc tb alg (pdrPartitionID c) (pdrShardID c) h)
      else ucVerify X uc tb alg (pdrPartitionID c) (pdrShardID c) None)"

definition bpValidate ::
  "'x protoExt_scheme \<Rightarrow> hashAlg \<Rightarrow> blockProposal option \<Rightarrow> shardConfRecord option \<Rightarrow> trustBase option
     \<Rightarrow> ('s, unit) comp" where
  "bpValidate X alg bp sc tb = bpIsValid X bp tb sc alg"

definition getUCv1 :: "'x ext_scheme \<Rightarrow> block option \<Rightarrow> goerror + unicityCertificate" where
  "getUCv1 X b = (case b of None \<Rightarrow> Inl (Errorf ''block is nil'')
     | Some bl \<Rightarrow> if blkUnicityCertificate bl = None
         then Inl (Errorf ''block unicity certificate is nil'')
         else unmarshalUC X (blkUnicityCertificate bl))"

section \<open>node.go, accessors\<close>

definition selfID :: "('b, 'c) node \<Rightarrow> peerID" where
  "selfID s = netSelf (network s)"

definition partitionID :: "('b, 'c) node \<Rightarrow> idnum" where
  "partitionID s = pdrPartitionID (shardConf s)"

definition shardIDOf :: "('b, 'c) node \<Rightarrow> shardID" where
  "shardIDOf s = pdrShardID (shardConf s)"

text \<open>A validator whose identifier cannot be decoded leaves the zero value of its slot, the empty ID.\<close>

definition validators :: "('b, 'c) nodeEnv \<Rightarrow> ('b, 'c) node \<Rightarrow> peerID list" where
  "validators E s = map (\<lambda>v. case peerDecode (extOps E) (niNodeID v) of Inl _ \<Rightarrow> '''' | Inr p \<Rightarrow> p)
     (pdrValidators (shardConf s))"

fun decodeRootNodes :: "'x ext_scheme \<Rightarrow> nodeInfo list \<Rightarrow> goerror + peerID list" where
  "decodeRootNodes X [] = Inr []"
| "decodeRootNodes X (v # vs) = (case peerDecode X (niNodeID v) of
      Inl e \<Rightarrow> Inl (Wrapf ''failed to decode root validator ID %s'' e)
    | Inr p \<Rightarrow> (case decodeRootNodes X vs of Inl e \<Rightarrow> Inl e | Inr ps \<Rightarrow> Inr (p # ps)))"

definition rootValidators :: "('b, 'c) nodeEnv \<Rightarrow> ('b, 'c) node \<Rightarrow> goerror + peerID list" where
  "rootValidators E s = (case trustBaseByEpoch E (getRootEpoch (extOps E) (luc s)) of
      Inl e \<Rightarrow> Inl (Wrapf ''failed to load trust base for epoch %d'' e)
    | Inr tb \<Rightarrow> decodeRootNodes (extOps E) (tbRootNodes tb))"

definition filterValidatorNodes :: "('b, 'c) nodeEnv \<Rightarrow> peerID \<Rightarrow> ('b, 'c) node \<Rightarrow> peerID list" where
  "filterValidatorNodes E exclude s = filter (\<lambda>v. v \<noteq> exclude) (validators E s)"

text \<open>\<open>printUC\<close> builds a log string from the input record and dereferences it.\<close>

definition printUC :: "unicityCertificate option \<Rightarrow> ('s, unit) comp" where
  "printUC uc = (case uc of None \<Rightarrow> ret ()
     | Some u \<Rightarrow> andSeq (deref (ucInputRecord u)) (ret ()))"

section \<open>Rules\<close>

lemma wp_draw [wp_rules]: "wp c (draw f) Q E s = Q (f (calls s)) (s\<lparr>calls := calls s + 1\<rparr>)"
  by (simp add: wp_def draw_def)

lemmas on_defs = onTx_def onNet_def onBlocks_def onConf_def

end
