(* ===== verification/NodeSending.thy ===== *)
theory NodeSending
  imports NodeState
begin

text \<open>
  What a node sends: the handshake (\<open>consensus_helpers.go\<close>), block proposals and certification
  requests (\<open>proposal_producer.go\<close>), ledger replication requests and responses (\<open>recovery.go\<close>),
  and the start of rounds and of recovery (\<open>round.go\<close>, \<open>recovery.go\<close>).
\<close>

section \<open>consensus_helpers.go\<close>

definition sendHandshake :: "('b, 'c) nodeEnv \<Rightarrow> (('b, 'c) node, unit) comp" where
  "sendHandshake E =
     andThen (gets (rootValidators E)) (\<lambda>roots. (case roots of
       Inl e \<Rightarrow> ret ()
     | Inr vs \<Rightarrow>
       andThen (draw (randAt E)) (\<lambda>rnd.
       andThen (attempt (liftOut (randomNodeSelector rnd vs defaultHandshakeNodes))) (\<lambda>sel. (case sel of
         Inl e \<Rightarrow> ret ()
       | Inr rootIDs \<Rightarrow>
         andThen (gets (\<lambda>s. \<lparr>hsPartitionID = partitionID s, hsShardID = shardIDOf s,
           hsNodeID = peerString (extOps E) (selfID s)\<rparr>)) (\<lambda>h.
         andSeq (attempt (send E (ByValue (HandshakeMsg h)) rootIDs)) (ret ())))))))"

definition joinDelete :: "goerror \<Rightarrow> goerror + unit \<Rightarrow> goerror" where
  "joinDelete err r = (case r of Inr _ \<Rightarrow> err
     | Inl err2 \<Rightarrow> JoinErr err (Wrapf ''unable to delete block %d from store'' err2))"

definition finalizeBlock ::
  "('b, 'c) nodeEnv \<Rightarrow> block \<Rightarrow> unicityCertificate \<Rightarrow> (('b, 'c) node, unit) comp" where
  "finalizeBlock E b uc =
     (let roundNoInBytes = uint64ToBytes (extOps E) (getRoundNumber (extOps E) (Some uc)) in
     andThen (gets (\<lambda>s. status s = initializing)) (\<lambda>isInitializing.
     andSeq (if \<not> isInitializing then wrapErr ''db write failed'' (storeBlock E roundNoInBytes b) else ret ())
     (andThen (attempt (onTx (commit (extOps E) uc))) (\<lambda>r. (case r of
         Inr _ \<Rightarrow> ret ()
       | Inl e \<Rightarrow>
         let err = Wrapf ''unable to finalize block %d'' e in
         if \<not> isInitializing then
           andThen (attempt (deleteBlock E roundNoInBytes)) (\<lambda>r2. fail (joinDelete err r2))
         else fail err)))))"

section \<open>round.go and recovery.go\<close>

definition startNewRound :: "('b, 'c) nodeEnv \<Rightarrow> (('b, 'c) node, unit) comp" where
  "startNewRound E = andSeq resetProposal (andSeq (deletePendingProposal E) (ret ()))"

definition isRecoveryComplete :: "('b, 'c) nodeEnv \<Rightarrow> ('b, 'c) node \<Rightarrow> bool" where
  "isRecoveryComplete E s \<longleftrightarrow>
     getRoundNumber (extOps E) (nodeCommittedUC s) = getRoundNumber (extOps E) (luc s)"

definition stopRecovery :: "(('b, 'c) node, unit) comp" where
  "stopRecovery = modify (\<lambda>s. s\<lparr>status := normal\<rparr>)"

text \<open>The loop over the shuffled validators ends at the first send that reports no error.\<close>

fun trySendLoop ::
  "('b, 'c) nodeEnv \<Rightarrow> ledgerReplicationRequest \<Rightarrow> peerID list \<Rightarrow> (('b, 'c) node, unit) comp" where
  "trySendLoop E req [] = ret ()"
| "trySendLoop E req (p # ps) =
     andThen (gets selfID) (\<lambda>self.
     if self = p then trySendLoop E req ps
     else andThen (attempt (send E (ByPointer (ReplicationRequestMsg req)) [p])) (\<lambda>r. (case r of
         Inl e \<Rightarrow> trySendLoop E req ps
       | Inr _ \<Rightarrow> andThen (draw (nowAt E)) (\<lambda>now. modify (\<lambda>s. s\<lparr>lastLedgerReqTime := now\<rparr>)))))"

definition replicationRequest :: "('b, 'c) nodeEnv \<Rightarrow> uuid \<Rightarrow> ('b, 'c) node \<Rightarrow> ledgerReplicationRequest" where
  "replicationRequest E u s =
     (let startingBlockNr = getRoundNumber (extOps E) (nodeCommittedUC s) + 1 in
      \<lparr>lrqUUID = u, lrqPartitionID = partitionID s, lrqShardID = shardIDOf s,
       lrqNodeID = peerString (extOps E) (selfID s), lrqBeginBlockNumber = startingBlockNr,
       lrqEndBlockNumber = startingBlockNr + maxFetchBlocks (replicationConfig (conf s))\<rparr>)"

definition sendLedgerReplicationRequest :: "('b, 'c) nodeEnv \<Rightarrow> (('b, 'c) node, unit) comp" where
  "sendLedgerReplicationRequest E =
     andThen (draw (uuidAt E)) (\<lambda>u.
     andThen (gets (replicationRequest E u)) (\<lambda>req.
     andThen (gets (validators E)) (\<lambda>peers.
     if peers = [] then ret ()
     else andThen (draw (shuffleAt E)) (\<lambda>shuffle. trySendLoop E req (shuffle peers)))))"

definition startRecovery :: "('b, 'c) nodeEnv \<Rightarrow> (('b, 'c) node, unit) comp" where
  "startRecovery E =
     andThen (gets status) (\<lambda>st.
     if st = recovering then ret ()
     else
       andSeq (modify (\<lambda>s. s\<lparr>status := recovering\<rparr>))
       (andSeq revertState
       (andSeq resetProposal
       (sendLedgerReplicationRequest E))))"

definition sendLedgerReplicationResponse ::
  "('b, 'c) nodeEnv \<Rightarrow> ledgerReplicationResponse \<Rightarrow> string \<Rightarrow> (('b, 'c) node, unit) comp" where
  "sendLedgerReplicationResponse E msg toId =
     andThen (wrapErr ''decoding peer id %q'' (liftE (peerDecode (extOps E) toId))) (\<lambda>recoveringNodeID.
     wrapErr ''sending replication response''
       (send E (ByPointer (ReplicationResponseMsg msg)) [recoveringNodeID]))"

section \<open>proposal_producer.go\<close>

definition sendBlockProposal :: "('b, 'c) nodeEnv \<Rightarrow> slice \<Rightarrow> (('b, 'c) node, unit) comp" where
  "sendBlockProposal E proposedRoot =
     andThen (gets ltr) (\<lambda>tr. (case tr of
       None \<Rightarrow> fail (Errorf ''missing LTR'')
     | Some t \<Rightarrow>
       andThen (gets (\<lambda>s. \<lparr>bpPartitionID = partitionID s, bpShardID = shardIDOf s, bpNodeID = selfID s,
         bpUnicityCertificate = luc s, bpTechnical = t, bpProposedRoot = proposedRoot, bpSignature = None\<rparr>)) (\<lambda>p.
       andThen (gets conf) (\<lambda>cf.
       andThen (wrapErr ''block proposal sign failed''
         (onLocal (bpSign (extOps E) (hashAlgorithm cf) (signerOf cf)) p)) (\<lambda>prop.
       andThen (gets (\<lambda>s. filterValidatorNodes E (selfID s) s)) (\<lambda>receivers.
       send E (ByPointer (BlockProposalMsg prop)) receivers))))))"

text \<open>The input record of the pending proposal; \<open>luc.UnicitySeal.Timestamp\<close> dereferences both.\<close>

definition proposedInputRecord ::
  "('b, 'c) nodeEnv \<Rightarrow> summary \<Rightarrow> (('b, 'c) node, inputRecord) comp" where
  "proposedInputRecord E st =
     andThen (gets (currentRoundNumber E)) (\<lambda>round.
     andThen currentEpoch (\<lambda>epoch.
     andThen (gets luc) (\<lambda>l.
     andThen (deref l) (\<lambda>lu.
     andThen (deref (ucUnicitySeal lu)) (\<lambda>sl.
     ret \<lparr>irVersion = 1, irRoundNumber = round, irEpoch = epoch,
          irPreviousHash = getStateHash (extOps E) (Some lu), irHash = rootHash st,
          irSummaryValue = summaryValue st, irTimestamp = sealTimestamp sl, irBlockHash = None,
          irSumOfEarnedFees = sumOfEarnedFees st, irETHash = etHash st\<rparr>)))))"

definition pendingProposalOf ::
  "('b, 'c) nodeEnv \<Rightarrow> string \<Rightarrow> slice \<Rightarrow> ('b, 'c) node \<Rightarrow> block" where
  "pendingProposalOf E blockAuthor ucBytes s =
     \<lparr>blkHeader = Some \<lparr>hdrVersion = 1, hdrPartitionID = partitionID s, hdrShardID = shardIDOf s,
        hdrProposerID = blockAuthor, hdrPreviousBlockHash = getBlockHash (extOps E) (nodeCommittedUC s)\<rparr>,
      blkUnicityCertificate = ucBytes, blkTransactions = Some []\<rparr>"

text \<open>The part of \<open>sendCertificationRequest\<close> after the block hash is known: store, sign and send.\<close>

definition submitProposal ::
  "('b, 'c) nodeEnv \<Rightarrow> unicityCertificate option \<Rightarrow> inputRecord option \<Rightarrow> block \<Rightarrow> (('b, 'c) node, unit) comp" where
  "submitProposal E l ir pendingProposal =
     andThen (attempt (storePendingProposal E pendingProposal)) (\<lambda>stored. (case stored of
       Inl e \<Rightarrow> andSeq revertState (fail (Wrapf ''failed to store pending block proposal'' e))
     | Inr _ \<Rightarrow>
       andSeq (modify (\<lambda>s. s\<lparr>pendingBlockProposal := Some pendingProposal\<rparr>))
       (andThen (wrapErr ''calculating block size'' (liftE (blockSize (extOps E) pendingProposal))) (\<lambda>size.
       andThen (gets (\<lambda>s. \<lparr>bcrPartitionID = partitionID s, bcrShardID = shardIDOf s,
         bcrNodeID = peerString (extOps E) (selfID s), bcrInputRecord = ir, bcrBlockSize = size,
         bcrStateSize = 0, bcrSignature = None\<rparr>)) (\<lambda>req0.
       andThen (gets conf) (\<lambda>cf.
       andThen (wrapErr ''failed to sign certification request''
         (onLocal (bcrSign (extOps E) (signerOf cf)) req0)) (\<lambda>req.
       andSeq (deref ir)
       (andThen (wrapErr ''failed to get current root validators''
         (andThen (gets (rootValidators E)) liftE)) (\<lambda>roots.
       andThen (wrapErr ''selecting root nodes''
         (liftOut (rootNodesSelector (extOps E) l roots defaultNofRootNodes))) (\<lambda>rootIDs.
       send E (ByPointer (CertificationRequestMsg req)) rootIDs))))))))))"

definition sendCertificationRequest ::
  "('b, 'c) nodeEnv \<Rightarrow> string \<Rightarrow> summary \<Rightarrow> (('b, 'c) node, unit) comp" where
  "sendCertificationRequest E blockAuthor st =
     andThen (gets luc) (\<lambda>l.
     andThen (proposedInputRecord E st) (\<lambda>ir0.
     andThen (wrapErr ''failed to marshal unicity certificate''
       (liftE (marshalUC (extOps E) \<lparr>ucVersion = 1, ucInputRecord = Some ir0, ucTRHash = None,
          ucShardConfHash = None, ucUnicityTreeCertificate = None, ucUnicitySeal = None, ucProof = []\<rparr>))) (\<lambda>ucBytes.
     andThen (gets conf) (\<lambda>cf.
     andThen (gets (pendingProposalOf E blockAuthor ucBytes)) (\<lambda>pending0.
     (case calculateBlockHash (extOps E) pending0 (hashAlgorithm cf) of
        Inl e \<Rightarrow> fail (Wrapf ''calculating block hash'' e)
      | Inr (ir, pendingProposal) \<Rightarrow> submitProposal E l ir pendingProposal))))))"

section \<open>round.go, T1 timeout\<close>

definition handleT1TimeoutEvent :: "('b, 'c) nodeEnv \<Rightarrow> (('b, 'c) node, unit) comp" where
  "handleT1TimeoutEvent E =
     andThen (gets status) (\<lambda>st.
     if st = recovering then ret ()
     else andThen (gets (\<lambda>s. leader s = selfID s)) (\<lambda>isLeader.
     if \<not> isLeader then ret ()
     else andThen (gets (currentRoundNumber E)) (\<lambda>round.
     andThen (draw (powAt E)) (\<lambda>pow.
     andThen (attempt (onTx (leaderPropose pow round))) (\<lambda>r. (case r of
       Inl e \<Rightarrow> revertState
     | Inr sm \<Rightarrow>
       andThen (attempt (sendBlockProposal E (rootHash sm))) (\<lambda>r. (case r of
         Inl e \<Rightarrow> revertState
       | Inr _ \<Rightarrow>
         andThen (gets (\<lambda>s. peerString (extOps E) (selfID s))) (\<lambda>author.
         andThen (attempt (sendCertificationRequest E author sm)) (\<lambda>r. (case r of
           Inl e \<Rightarrow> revertState
         | Inr _ \<Rightarrow> ret ()))))))))))) "

end
