(* ===== verification/NodeHandlers.thy ===== *)
theory NodeHandlers
  imports NodeSending
begin

text \<open>
  The message handlers of a node: certificates (\<open>certificate_handler.go\<close>), blocks
  (\<open>block_processor.go\<close>), proposals (\<open>proposal_handler.go\<close>), ledger replication
  (\<open>recovery.go\<close>), the dispatch, epoch changes and monitoring (\<open>node.go\<close>), and the
  initialisation (\<open>node_init.go\<close>).
\<close>

definition ErrNodeDoesNotHaveLatestBlock :: goerror where
  "ErrNodeDoesNotHaveLatestBlock = Errorf ''recovery needed, node does not have the latest block''"

section \<open>certificate_handler.go\<close>

text \<open>The send on \<open>epochChangeEvent\<close> (capacity one) does not block: a full channel stays full.\<close>

definition signalEpochChange :: "(('b, 'c) node, unit) comp" where
  "signalEpochChange = modify (\<lambda>s. s\<lparr>epochChangeEvent := True\<rparr>)"

text \<open>The part of \<open>updateLUC\<close> that installs the certificate, after all checks.\<close>

definition installLUC ::
  "('b, 'c) nodeEnv \<Rightarrow> unicityCertificate \<Rightarrow> technicalRecord option \<Rightarrow> (('b, 'c) node, unit) comp" where
  "installLUC E u tr =
     andThen currentEpoch (\<lambda>prevEpoch.
     andSeq
       (case tr of
          Some t \<Rightarrow>
            andThen (wrapErr ''decoding leader peerID from %q''
              (liftE (peerDecode (extOps E) (trLeader t)))) (\<lambda>leaderPeerID.
            modify (\<lambda>s. s\<lparr>leader := leaderPeerID, ltr := Some t\<rparr>))
        | None \<Rightarrow> modify (\<lambda>s. s\<lparr>leader := '''', ltr := None\<rparr>))
     (andSeq (modify (\<lambda>s. s\<lparr>luc := Some u\<rparr>))
     (andThen currentEpoch (\<lambda>newEpoch.
     andThen (gets (\<lambda>s. pdrEpoch (shardConf s))) (\<lambda>confEpoch.
     if prevEpoch \<noteq> newEpoch \<or> confEpoch \<noteq> newEpoch then signalEpochChange else ret ())))))"

definition checkEquivocation ::
  "('b, 'c) nodeEnv \<Rightarrow> unicityCertificate option \<Rightarrow> unicityCertificate \<Rightarrow> ('s, unit) comp" where
  "checkEquivocation E l u = (case l of None \<Rightarrow> ret ()
     | Some lu \<Rightarrow> (case checkNonEquivocatingCertificates (extOps E) lu u of
         None \<Rightarrow> ret ()
       | Some e \<Rightarrow> andSeq (deref (ucInputRecord u)) (fail (Wrapf ''equivocating certificate'' e))))"

definition updateLUC ::
  "('b, 'c) nodeEnv \<Rightarrow> unicityCertificate option \<Rightarrow> technicalRecord option \<Rightarrow> (('b, 'c) node, unit) comp" where
  "updateLUC E uc tr = (case uc of
      None \<Rightarrow> fail (Errorf ''unicity certificate is nil'')
    | Some u \<Rightarrow>
      andThen (wrapErr ''failed to load trust base for UC validation''
        (liftE (trustBaseByEpoch E (getRootEpoch (extOps E) (Some u))))) (\<lambda>trustBase.
      andThen (gets conf) (\<lambda>cf.
      andThen (gets shardConf) (\<lambda>sc.
      andSeq (wrapErr ''certificate invalid''
        (liftErr (ucValidate (extOps E) (hashAlgorithm cf) (Some u) (Some sc) trustBase)))
      (andThen (gets luc) (\<lambda>l.
      andThen (gets status) (\<lambda>st.
      if st = recovering \<and> getRootRoundNumber (extOps E) l > getRootRoundNumber (extOps E) (Some u)
      then ret ()
      else
        andSeq (if st \<noteq> initializing then andSeq (printUC l) (printUC (Some u)) else ret ())
        (andSeq (checkEquivocation E l u)
        (andThen (gets ltr) (\<lambda>lt.
        if isDuplicate (extOps E) u l \<and> lt \<noteq> None then ret ()
        else installLUC E u tr))))))))))"

text \<open>The case of \<open>handleUnicityCertificate\<close> without a pending block proposal.\<close>

definition handleWithoutProposal ::
  "('b, 'c) nodeEnv \<Rightarrow> unicityCertificate \<Rightarrow> (('b, 'c) node, unit) comp" where
  "handleWithoutProposal E u =
     (if isInitial (extOps E) u then startNewRound E
      else andThen (attempt (onTx FgpTxSystem.stateSummary)) (\<lambda>r. (case r of
        Inl e \<Rightarrow> andSeq (startRecovery E)
          (fail (Wrapf ''recovery needed, failed to get transaction system state'' e))
      | Inr st \<Rightarrow>
        if \<not> bytesEqual (getStateHash (extOps E) (Some u)) (rootHash st) then
          andSeq (startRecovery E) (fail ErrNodeDoesNotHaveLatestBlock)
        else if \<not> bytesEqual (getETHash (extOps E) (Some u)) (etHash st) then
          andSeq (startRecovery E) (fail ErrNodeDoesNotHaveLatestBlock)
        else startNewRound E)))"

text \<open>
  The case with a pending proposal. Replacing the certificate inside the pending block changes the
  block the state points to, also when the encoding fails (the slice is then nil).
\<close>

definition handleWithProposal ::
  "('b, 'c) nodeEnv \<Rightarrow> unicityCertificate \<Rightarrow> block \<Rightarrow> (('b, 'c) node, unit) comp" where
  "handleWithProposal E u pending =
     (case blockInputRecord (extOps E) pending of
        Inl e \<Rightarrow> andSeq (startRecovery E) (fail ErrNodeDoesNotHaveLatestBlock)
      | Inr proposedIR \<Rightarrow>
        (case assertEqualIR (extOps E) proposedIR (ucInputRecord u) of
           Some e \<Rightarrow> andSeq (startRecovery E) (fail ErrNodeDoesNotHaveLatestBlock)
         | None \<Rightarrow>
           (case marshalUC (extOps E) u of
              Inl e \<Rightarrow>
                andSeq (modify (\<lambda>s. s\<lparr>pendingBlockProposal := Some (pending\<lparr>blkUnicityCertificate := None\<rparr>)\<rparr>))
                (fail (Wrapf ''failed to marshal unicity certificate'' e))
            | Inr ucBytes \<Rightarrow>
                let certified = pending\<lparr>blkUnicityCertificate := ucBytes\<rparr> in
                andSeq (modify (\<lambda>s. s\<lparr>pendingBlockProposal := Some certified\<rparr>))
                (andThen (attempt (finalizeBlock E certified u)) (\<lambda>r. (case r of
                   Inl e \<Rightarrow> andSeq (startRecovery E) (fail (Wrapf ''block %v finalize failed'' e))
                 | Inr _ \<Rightarrow> startNewRound E))))))"

definition handleUnicityCertificate ::
  "('b, 'c) nodeEnv \<Rightarrow> unicityCertificate option \<Rightarrow> technicalRecord option \<Rightarrow> (('b, 'c) node, unit) comp" where
  "handleUnicityCertificate E uc tr =
     andThen (gets luc) (\<lambda>prevLUC.
     andSeq (wrapErr ''failed to update LUC'' (updateLUC E uc tr))
     (andThen (deref uc) (\<lambda>u.
     andThen (gets status) (\<lambda>st.
     if st = recovering then ret ()
     else
       andSeq (if st = initializing then modify (\<lambda>s. s\<lparr>status := normal\<rparr>) else ret ())
       (if isDuplicate (extOps E) u prevLUC then
          (if st = initializing then startNewRound E else ret ())
        else (case isRepeat (extOps E) u prevLUC of
            Inl e \<Rightarrow> fail (Wrapf ''failed to check for repeat UC'' e)
          | Inr True \<Rightarrow> andSeq revertState (startNewRound E)
          | Inr False \<Rightarrow>
            andThen (gets nodeCommittedUC) (\<lambda>committed.
            if \<not> isSuccessor (extOps E) u committed then
              andSeq (startRecovery E) (fail ErrNodeDoesNotHaveLatestBlock)
            else andThen (gets pendingBlockProposal) (\<lambda>pending. (case pending of
                None \<Rightarrow> handleWithoutProposal E u
              | Some b \<Rightarrow> handleWithProposal E u b))))))))) "

definition handleCertificationResponse ::
  "('b, 'c) nodeEnv \<Rightarrow> certificationResponse option \<Rightarrow> (('b, 'c) node, unit) comp" where
  "handleCertificationResponse E p =
     andSeq (wrapErr ''invalid CertificationResponse'' (liftErr (crIsValid (extOps E) p)))
     (andThen (deref p) (\<lambda>cr.
     andThen (gets (\<lambda>s. crPartition cr \<noteq> partitionID s \<or> \<not> shardEqual (extOps E) (crShard cr) (shardIDOf s))) (\<lambda>wrong.
     if wrong then fail (Errorf ''got CertificationResponse for a wrong shard %s - %s'')
     else handleUnicityCertificate E (Some (crUC cr)) (Some (crTechnical cr)))))"

section \<open>block_processor.go\<close>

text \<open>The checks and the execution of a block that extends the committed one.\<close>

definition applyBlock ::
  "('b, 'c) nodeEnv \<Rightarrow> unicityCertificate option \<Rightarrow> block \<Rightarrow> unicityCertificate \<Rightarrow> (('b, 'c) node, unit) comp" where
  "applyBlock E committed b blockUC =
     andThen (deref (blkHeader b)) (\<lambda>hdr.
     if \<not> bytesEqual (hdrPreviousBlockHash hdr) (getBlockHash (extOps E) committed) then
       fail (Errorf ''invalid block %v (expected previous block hash='%X', actual previous block hash='%X', )'')
     else
     andThen (wrapErr ''error reading current state'' (onTx FgpTxSystem.stateSummary)) (\<lambda>st.
     andSeq
       (if committed \<noteq> None then
          andThen (deref (ucInputRecord blockUC)) (\<lambda>ir.
          if \<not> bytesEqual (irPreviousHash ir) (rootHash st) then
            fail (Errorf ''block does not extend current state, expected state hash: %X, actual state hash: %X'')
          else ret ())
        else ret ())
     (andThen (deref (ucInputRecord blockUC)) (\<lambda>ir.
     andThen (draw (powAt E)) (\<lambda>pow.
     andThen (attempt (onTx (followerVerify pow (getRoundNumber (extOps E) (Some blockUC)) (irHash ir)))) (\<lambda>r. (case r of
       Inl e \<Rightarrow> andSeq revertState (fail (Wrapf ''failed to verify block %v'' e))
     | Inr newState \<Rightarrow> (case equalsIR newState (Some ir) of
         Some e \<Rightarrow> andSeq revertState (fail (Wrapf ''failed to verify block %v state'' e))
       | None \<Rightarrow>
         andThen (attempt (finalizeBlock E b blockUC)) (\<lambda>r. (case r of
           Inl e \<Rightarrow> andSeq revertState (fail (Wrapf ''failed to finalize block %v'' e))
         | Inr _ \<Rightarrow> ret ()))))))))))"

definition handleBlock :: "('b, 'c) nodeEnv \<Rightarrow> block option \<Rightarrow> (('b, 'c) node, unit) comp" where
  "handleBlock E p =
     andThen (gets nodeCommittedUC) (\<lambda>committed.
     andThen (wrapErr ''failed to extract UC from block'' (liftE (getUCv1 (extOps E) p))) (\<lambda>blockUC.
     andThen (deref p) (\<lambda>b.
     andThen (gets conf) (\<lambda>cf.
     andSeq (wrapErr ''invalid block for round %v'' (liftErr (blockIsValid (extOps E) b (hashAlgorithm cf) None)))
     (andSeq (wrapErr ''failed to update LUC'' (updateLUC E (Some blockUC) None))
     (if getRoundNumber (extOps E) (Some blockUC) \<le> getRoundNumber (extOps E) committed then ret ()
      else if \<not> isSuccessor (extOps E) blockUC committed then
        andThen (gets status) (\<lambda>st.
        andSeq (if st \<noteq> initializing then startRecovery E else ret ())
        (fail (Errorf ''missing blocks between rounds %v and %v'')))
      else applyBlock E committed b blockUC))))))"

section \<open>proposal_handler.go\<close>

text \<open>The second half of \<open>handleBlockProposal\<close>, when the certificate of the proposal is the latest one.\<close>

definition followProposal ::
  "('b, 'c) nodeEnv \<Rightarrow> blockProposal \<Rightarrow> unicityCertificate \<Rightarrow> (('b, 'c) node, unit) comp" where
  "followProposal E prop uc =
     andThen (gets leader) (\<lambda>expectedLeader.
     if expectedLeader = '''' \<or> bpNodeID prop \<noteq> expectedLeader then
       fail (Errorf ''expecting leader %v, leader in proposal: %v'')
     else
     andThen (wrapErr ''transaction system state error'' (onTx FgpTxSystem.stateSummary)) (\<lambda>txState.
     if \<not> isInitial (extOps E) uc \<and> \<not> bytesEqual (getStateHash (extOps E) (Some uc)) (rootHash txState) then
       fail (Errorf ''transaction system start state mismatch error, expected: %X, got: %X'')
     else
     andThen (gets (currentRoundNumber E)) (\<lambda>round.
     andThen (draw (powAt E)) (\<lambda>pow.
     andThen (attempt (onTx (followerVerify pow round (bpProposedRoot prop)))) (\<lambda>r. (case r of
       Inl e \<Rightarrow> andSeq revertState (fail (Wrapf ''follower failed to verify proposed block'' e))
     | Inr sm \<Rightarrow> wrapErr ''certification request send failed''
         (sendCertificationRequest E (peerString (extOps E) (bpNodeID prop)) sm)))))))"

definition handleBlockProposal ::
  "('b, 'c) nodeEnv \<Rightarrow> blockProposal option \<Rightarrow> (('b, 'c) node, unit) comp" where
  "handleBlockProposal E p =
     andThen (gets status) (\<lambda>st.
     if st = recovering then
       andSeq (modify (\<lambda>s. s\<lparr>recoveryLastProp := p\<rparr>)) (fail (Errorf ''node is in recovery status''))
     else (case p of None \<Rightarrow> fail ErrBlockProposalIsNil
       | Some prop \<Rightarrow>
         andThen (wrapErr ''failed to load trust base for block proposal validation''
           (liftE (trustBaseByEpoch E (getRootEpoch (extOps E) (bpUnicityCertificate prop))))) (\<lambda>trustBase.
         andThen (gets conf) (\<lambda>cf.
         andThen (gets shardConf) (\<lambda>sc.
         andSeq (wrapErr ''block proposal validation failed''
           (bpValidate (extOps E) (hashAlgorithm cf) (Some prop) (Some sc) (Some trustBase)))
         (andThen (deref (bpUnicityCertificate prop)) (\<lambda>uc.
         andSeq (deref (ucInputRecord uc))
         (andThen (gets luc) (\<lambda>l.
         if getRootRoundNumber (extOps E) (Some uc) < getRootRoundNumber (extOps E) l then
           fail (Errorf ''stale block proposal with UC from root round %v, LUC root round %v'')
         else
           andSeq
             (if getRootRoundNumber (extOps E) (Some uc) > getRootRoundNumber (extOps E) l then
                wrapErr ''block proposal UC handling failed''
                  (handleUnicityCertificate E (Some uc) (Some (bpTechnical prop)))
              else ret ())
           (followProposal E prop uc))))))))))"

end
