(* ===== verification/NodeLoop.thy ===== *)
theory NodeLoop
  imports NodeHandlers
begin

text \<open>
  Ledger replication (\<open>recovery.go\<close>), the dispatch of messages, epoch changes, monitoring and the
  main loop (\<open>node.go\<close>), and the start of a node (\<open>node_init.go\<close>). One iteration of the loop is
  \<open>loopStep\<close>; the relation \<open>nodeStep\<close> interleaves the iterations with the replication workers, the
  goroutine of the T1 timer and the stream handlers of the network, which run concurrently with the
  loop. A replication worker reads the block store and sends; it is one step of the relation.
\<close>

section \<open>recovery.go\<close>

definition replyError ::
  "('b, 'c) nodeEnv \<Rightarrow> ledgerReplicationRequest \<Rightarrow> replStatus \<Rightarrow> string \<Rightarrow> (('b, 'c) node, unit) comp" where
  "replyError E lr st msg = sendLedgerReplicationResponse E
     \<lparr>lrrUUID = lrqUUID lr, lrrStatus = st, lrrMessage = msg, lrrBlocks = None,
      lrrFirstBlockNumber = 0, lrrLastBlockNumber = 0\<rparr> (lrqNodeID lr)"

text \<open>The channel \<open>replicationCh\<close> has the capacity \<open>maxWorkers\<close>; a full channel answers \<open>Busy\<close>.\<close>

definition handleLedgerReplicationRequest ::
  "('b, 'c) nodeEnv \<Rightarrow> ledgerReplicationRequest option \<Rightarrow> (('b, 'c) node, unit) comp" where
  "handleLedgerReplicationRequest E p =
     andThen (deref p) (\<lambda>lr.
     andSeq (wrapErr ''invalid request'' (liftErr (lrqIsValid (Some lr))))
     (andThen (gets (\<lambda>s. lrqPartitionID lr \<noteq> partitionID s \<or>
         \<not> shardEqual (extOps E) (lrqShardID lr) (shardIDOf s))) (\<lambda>wrong.
     if wrong then
       replyError E lr replWrongShard ''Wrong partition/shard: requested %s-%s, I'm %s-%s''
     else andThen (gets (\<lambda>s. getRoundNumber (extOps E) (fuc s))) (\<lambda>first.
     if lrqBeginBlockNumber lr \<le> first then
       replyError E lr replBlocksNotFound ''Node does not have block: %v, first block: %v''
     else andThen (gets (\<lambda>s. getRoundNumber (extOps E) (nodeCommittedUC s))) (\<lambda>latestBlock.
     if latestBlock < lrqBeginBlockNumber lr then
       replyError E lr replBlocksNotFound ''Node does not have block: %v, latest block: %v''
     else andThen (gets (\<lambda>s. length (replicationCh s) < unat (maxWorkers (replicationConfig (conf s))))) (\<lambda>room.
     if room then modify (\<lambda>s. s\<lparr>replicationCh := replicationCh s @ [lr]\<rparr>)
     else replyError E lr replBusy ''Too many concurrent replication requests''))))))"

text \<open>
  The loop of \<open>processReplicationRequest\<close> over the iterator. \<open>None\<close>: the context is cancelled and no
  response is sent; otherwise the blocks with the numbers of the first and the last one. Both
  \<open>break\<close> statements leave the loop.
\<close>

fun fetchLoop ::
  "('b, 'c) nodeEnv \<Rightarrow> uint64 \<Rightarrow> uint64 \<Rightarrow> block list \<Rightarrow> uint64 \<Rightarrow> uint64 \<Rightarrow> uint64 \<Rightarrow> block iterator
     \<Rightarrow> (('b, 'c) node, (block list \<times> uint64 \<times> uint64) option) comp" where
  "fetchLoop E maxReturn endNr blocks blockCnt first lst [] = ret (Some (blocks, first, lst))"
| "fetchLoop E maxReturn endNr blocks blockCnt first lst ((k, v) # it) =
     andThen (draw (ctxDoneAt E)) (\<lambda>stop.
     if stop then ret None
     else let roundNo = bytesToUint64 (extOps E) k in
       (case v of
          Inl e \<Rightarrow> ret (Some (blocks, first, lst))
        | Inr bl \<Rightarrow>
          let first' = (if first = 0 then roundNo else first); blockCnt' = blockCnt + 1 in
          if blockCnt' \<ge> maxReturn \<or> (roundNo \<ge> endNr \<and> endNr > 0)
          then ret (Some (blocks @ [bl], first', roundNo))
          else fetchLoop E maxReturn endNr (blocks @ [bl]) blockCnt' first' roundNo it))"

text \<open>
  \<open>make([]*types.Block, 0, maxReturnBlocks)\<close> panics when the capacity needs more memory than the
  address space of the runtime allows (\<open>2^48\<close> bytes on 64-bit platforms, 8 bytes per pointer).
\<close>

definition maxSliceCap :: nat where
  "maxSliceCap = 2 ^ 45"

definition processReplicationRequest ::
  "('b, 'c) nodeEnv \<Rightarrow> ledgerReplicationRequest \<Rightarrow> (('b, 'c) node, unit) comp" where
  "processReplicationRequest E lr =
     andThen (gets (\<lambda>s. maxReturnBlocks (replicationConfig (conf s)))) (\<lambda>maxReturn.
     if unat maxReturn > maxSliceCap then panic ''makeslice: cap out of range''
     else
     andThen (gets (\<lambda>s. kvFind (blockDb E) (blockStore s)
       (uint64ToBytes (extOps E) (lrqBeginBlockNumber lr)))) (\<lambda>it.
     andThen (fetchLoop E maxReturn (lrqEndBlockNumber lr) [] 0 0 0 it) (\<lambda>fetched. (case fetched of
       None \<Rightarrow> ret ()
     | Some (blocks, first, lst) \<Rightarrow>
       andSeq (attempt (sendLedgerReplicationResponse E
         \<lparr>lrrUUID = lrqUUID lr, lrrStatus = replOk, lrrMessage = '''', lrrBlocks = Some (map Some blocks),
          lrrFirstBlockNumber = first, lrrLastBlockNumber = lst\<rparr> (lrqNodeID lr)))
       (ret ())))))"

text \<open>After recovery the last proposal received meanwhile is tried and forgotten.\<close>

definition retryLastProposal :: "('b, 'c) nodeEnv \<Rightarrow> (('b, 'c) node, unit) comp" where
  "retryLastProposal E =
     andThen (gets recoveryLastProp) (\<lambda>prop.
     if prop \<noteq> None then
       andSeq (attempt (handleBlockProposal E prop))
       (modify (\<lambda>s. s\<lparr>recoveryLastProp := None\<rparr>))
     else ret ())"

definition handleLedgerReplicationResponse ::
  "('b, 'c) nodeEnv \<Rightarrow> ledgerReplicationResponse option \<Rightarrow> (('b, 'c) node, unit) comp" where
  "handleLedgerReplicationResponse E p =
     andSeq (wrapErr ''invalid ledger replication response'' (liftErr (lrrIsValid p)))
     (andThen (deref p) (\<lambda>lr.
     andThen (gets status) (\<lambda>st.
     if st \<noteq> recovering then ret ()
     else if lrrStatus lr \<noteq> replOk then
       andThen (gets (isRecoveryComplete E)) (\<lambda>complete.
       andSeq (if complete then stopRecovery else ret ())
       (fail (Errorf ''received error response, status=%s, message=%s'')))
     else andThen (gets (\<lambda>s. getRoundNumber (extOps E) (nodeCommittedUC s))) (\<lambda>lastCommitted.
     if lrrFirstBlockNumber lr \<le> lastCommitted then ret ()
     else
       andSeq (forEach (case lrrBlocks lr of None \<Rightarrow> [] | Some bs \<Rightarrow> bs) (handleBlock E))
       (andThen (gets (isRecoveryComplete E)) (\<lambda>complete.
       if \<not> complete then sendLedgerReplicationRequest E
       else
         andSeq stopRecovery
         (andSeq (startNewRound E)
         (retryLastProposal E))))))))"

section \<open>node.go\<close>

definition handleMessage :: "('b, 'c) nodeEnv \<Rightarrow> anyMsg \<Rightarrow> (('b, 'c) node, unit) comp" where
  "handleMessage E msg = (case msg of
      ByPointer (CertificationResponseMsg cr) \<Rightarrow> handleCertificationResponse E (Some cr)
    | ByPointer (BlockProposalMsg prop) \<Rightarrow> handleBlockProposal E (Some prop)
    | ByPointer (ReplicationRequestMsg lr) \<Rightarrow> handleLedgerReplicationRequest E (Some lr)
    | ByPointer (ReplicationResponseMsg lr) \<Rightarrow> handleLedgerReplicationResponse E (Some lr)
    | _ \<Rightarrow> fail (Errorf ''unknown message: %T''))"

definition handleEpochChangeEvent :: "('b, 'c) nodeEnv \<Rightarrow> (('b, 'c) node, unit) comp" where
  "handleEpochChangeEvent E =
     andThen currentEpoch (\<lambda>newEpoch.
     andThen (attempt (onConf (getConf (confDb E) newEpoch))) (\<lambda>r. (case r of
       Inl e \<Rightarrow> ret ()
     | Inr sc \<Rightarrow>
       andSeq (modify (\<lambda>s. s\<lparr>shardConf := sc\<rparr>))
       (andSeq (attempt (onTx (updateConfig (Some sc)))) (ret ())))))"

text \<open>Addition of durations (\<open>int64\<close>) wraps around.\<close>

definition addDuration :: "int \<Rightarrow> int \<Rightarrow> int" where
  "addDuration a b = (a + b + 2 ^ 63) mod 2 ^ 64 - 2 ^ 63"

text \<open>\<open>Sub\<close> of two times saturates at the ends of \<open>Duration\<close>; \<open>time.Since t\<close> is \<open>timeSub now t\<close>.\<close>

definition timeSub :: "int \<Rightarrow> int \<Rightarrow> int" where
  "timeSub a b = max (- (2 ^ 63)) (min (2 ^ 63 - 1) (a - b))"

definition second :: int where
  "second = 1000000000"

definition handleMonitoring :: "('b, 'c) nodeEnv \<Rightarrow> int \<Rightarrow> (('b, 'c) node, unit) comp" where
  "handleMonitoring E lastUC =
     andThen (gets status) (\<lambda>st.
     andThen (draw (nowAt E)) (\<lambda>now.
     andThen (gets (\<lambda>s. pdrT2Timeout (shardConf s))) (\<lambda>t2.
     andSeq
       (if st = initializing then (if timeSub now lastUC > 5 * second then sendHandshake E else ret ())
        else (if timeSub now lastUC > addDuration t2 second then sendHandshake E else ret ()))
     (andThen (gets status) (\<lambda>st'.
     if st' = recovering then
       andThen (draw (nowAt E)) (\<lambda>now'.
       andThen (gets (\<lambda>s. timeSub now' (lastLedgerReqTime s) > replTimeout (replicationConfig (conf s)))) (\<lambda>expired.
       if expired then sendLedgerReplicationRequest E else ret ()))
     else ret ())))))"

definition ensureT1TimerState :: "('b, 'c) node \<Rightarrow> ('b, 'c) node" where
  "ensureT1TimerState s =
     s\<lparr>timer := ensureT1Timer (leader s = selfID s \<and> status s \<noteq> recovering) (timer s)\<rparr>"

text \<open>The local variables of \<open>loop\<close>. No handled message is a block, so \<open>lastBlockReceived\<close> never changes.\<close>

record ('b, 'c) loopState =
  theNode :: "('b, 'c) node"
  lastUCReceived :: int
  lastBlockReceived :: int

datatype loopEvent = MessageEvent | TimerEvent | EpochChangeEvent | TickEvent

definition onNode :: "(('b, 'c) node, 'a) comp \<Rightarrow> (('b, 'c) loopState, 'a) comp" where
  "onNode m = zoom theNode theNode_update m"

definition isCertificationResponse :: "anyMsg \<Rightarrow> bool" where
  "isCertificationResponse m = (case m of ByPointer (CertificationResponseMsg _) \<Rightarrow> True | _ \<Rightarrow> False)"

definition takeMessage :: "('b, 'c) node \<Rightarrow> ('b, 'c) node" where
  "takeMessage s = s\<lparr>network := (network s)\<lparr>receivedMsgs := tl (receivedMsgs (network s))\<rparr>\<rparr>"

text \<open>Which cases of the \<open>select\<close> are ready.\<close>

definition ready :: "loopEvent \<Rightarrow> ('b, 'c) loopState \<Rightarrow> bool" where
  "ready ev s = (case ev of
      MessageEvent \<Rightarrow> receivedMsgs (network (theNode s)) \<noteq> []
    | TimerEvent \<Rightarrow> timerEvent (timer (theNode s))
    | EpochChangeEvent \<Rightarrow> epochChangeEvent (theNode s)
    | TickEvent \<Rightarrow> True)"

definition loopStep :: "('b, 'c) nodeEnv \<Rightarrow> loopEvent \<Rightarrow> (('b, 'c) loopState, unit) comp" where
  "loopStep E ev = andSeq
     (case ev of
        MessageEvent \<Rightarrow>
          andThen (gets (\<lambda>s. hd (receivedMsgs (network (theNode s))))) (\<lambda>m.
          andSeq (onNode (modify takeMessage))
          (andThen (attempt (onNode (handleMessage E m))) (\<lambda>r.
          if r = Inr () \<and> isCertificationResponse m then
            andThen (onNode (draw (nowAt E))) (\<lambda>now. modify (\<lambda>s. s\<lparr>lastUCReceived := now\<rparr>))
          else ret ())))
      | TimerEvent \<Rightarrow>
          andSeq (onNode (modify (\<lambda>n. n\<lparr>timer := takeTimerEvent (timer n)\<rparr>)))
          (onNode (handleT1TimeoutEvent E))
      | EpochChangeEvent \<Rightarrow>
          andSeq (onNode (modify (\<lambda>n. n\<lparr>epochChangeEvent := False\<rparr>)))
          (onNode (handleEpochChangeEvent E))
      | TickEvent \<Rightarrow>
          andThen (gets lastUCReceived) (\<lambda>lu. onNode (handleMonitoring E lu)))
     (onNode (modify ensureT1TimerState))"

inductive nodeStep :: "('b, 'c) nodeEnv \<Rightarrow> ('b, 'c) loopState \<Rightarrow> ('b, 'c) loopState \<Rightarrow> bool"
  for E :: "('b, 'c) nodeEnv" where
  loop: "ready ev s \<Longrightarrow> loopStep E ev s = (Ok (), t) \<Longrightarrow> nodeStep E s t"
| worker: "replicationCh (theNode s) = lr # rest \<Longrightarrow>
     onNode (andSeq (modify (\<lambda>n. n\<lparr>replicationCh := rest\<rparr>)) (processReplicationRequest E lr)) s = (Ok (), t) \<Longrightarrow>
     nodeStep E s t"
| timerGoroutine: "timerStep (timer (theNode s)) tm \<Longrightarrow>
     nodeStep E s (s\<lparr>theNode := (theNode s)\<lparr>timer := tm\<rparr>\<rparr>)"
| stream: "streamHandler (extOps E) ty dl ende bs (network (theNode s)) = (Ok closed, nw) \<Longrightarrow>
     nodeStep E s (s\<lparr>theNode := (theNode s)\<lparr>network := nw\<rparr>\<rparr>)"

text \<open>
  The beginning of \<open>Run\<close>, before the goroutines of the main loop and of the \<open>maxWorkers\<close> replication
  workers start; from then on the node moves by \<open>nodeStep\<close>.
\<close>

definition nodeRun :: "('b, 'c) nodeEnv \<Rightarrow> (('b, 'c) node, unit) comp" where
  "nodeRun E =
     andSeq (wrapErr ''failed to register validator protocols'' (onNet registerValidatorProtocols))
     (sendHandshake E)"

section \<open>node_init.go\<close>

text \<open>The second half of \<open>restoreBlockProposal\<close>: the proposal is verified again.\<close>

definition verifyPending ::
  "('b, 'c) nodeEnv \<Rightarrow> block \<Rightarrow> unicityCertificate \<Rightarrow> (('b, 'c) node, unit) comp" where
  "verifyPending E pr uc =
     andThen (gets nodeCommittedUC) (\<lambda>committed.
     if \<not> bytesEqual (getStateHash (extOps E) committed) (getPreviousStateHash (extOps E) (Some uc))
     then ret ()
     else
     andThen (deref (ucInputRecord uc)) (\<lambda>ir.
     andThen (draw (powAt E)) (\<lambda>pow.
     andThen (attempt (onTx (followerVerify pow (getRoundNumber (extOps E) (Some uc)) (irHash ir)))) (\<lambda>r. (case r of
       Inl e \<Rightarrow> revertState
     | Inr st \<Rightarrow> (case equalsIR st (Some ir) of
         Some e \<Rightarrow> revertState
       | None \<Rightarrow> modify (\<lambda>s. s\<lparr>pendingBlockProposal := Some pr\<rparr>)))))))"

definition restoreBlockProposal :: "('b, 'c) nodeEnv \<Rightarrow> (('b, 'c) node, unit) comp" where
  "restoreBlockProposal E =
     andThen (attempt (loadPendingProposal E)) (\<lambda>r. (case r of
       Inl e \<Rightarrow> ret ()
     | Inr None \<Rightarrow> ret ()
     | Inr (Some pr) \<Rightarrow> (case getUCv1 (extOps E) (Some pr) of
         Inl e \<Rightarrow> ret ()
       | Inr uc \<Rightarrow> verifyPending E pr uc)))"

definition initState :: "('b, 'c) nodeEnv \<Rightarrow> (('b, 'c) node, unit) comp" where
  "initState E =
     andThen (gets (\<lambda>s. kvLast (blockDb E) (blockStore s))) (\<lambda>it.
     andSeq (case it of
         [] \<Rightarrow> ret ()
       | e # _ \<Rightarrow>
         andThen (wrapErr ''failed to read latest block from db'' (liftE (snd e))) (\<lambda>b.
         andThen (wrapErr ''failed to extract UC from latest block'' (liftE (getUCv1 (extOps E) (Some b)))) (\<lambda>uc.
         andThen (wrapErr ''failed to load shard conf for epoch %d''
           (onConf (getConf (confDb E) (getShardEpoch (extOps E) (Some uc))))) (\<lambda>sc.
         andSeq (modify (\<lambda>s. s\<lparr>shardConf := sc\<rparr>))
         (andSeq (wrapErr ''failed to update transaction system config'' (onTx (updateConfig (Some sc))))
         (andThen (draw (powAt E)) (\<lambda>pow.
         wrapErr ''failed to restore transaction system state''
           (onTx (restoreState (extOps E) pow uc)))))))))
     (andSeq (modify (\<lambda>s. s\<lparr>fuc := nodeCommittedUC s\<rparr>))
     (andSeq (modify (\<lambda>s. s\<lparr>luc := fuc s\<rparr>))
     (restoreBlockProposal E))))"

text \<open>
  \<open>NewNode\<close>: \<open>nw\<close> is the network \<open>initNetwork\<close> sets up last; the state is initialised without it.
\<close>

definition newNode ::
  "('b, 'c) nodeEnv \<Rightarrow> nodeConf \<Rightarrow> fgpTxSystem \<Rightarrow> 'b \<Rightarrow> 'c shardConfStore \<Rightarrow> libP2PNetwork
     \<Rightarrow> ('b, 'c) node outcome" where
  "newNode E cf txs db cs nw =
     (case getFirst (confDb E) cs of
        (Fail e, _) \<Rightarrow> Fail (Wrapf ''failed to load initial shard conf'' e)
      | (Panics p, _) \<Rightarrow> Panics p
      | (Ok sc, cs') \<Rightarrow>
        (case initState E \<lparr>status = initializing, fuc = None, luc = None, ltr = None, leader = '''',
                pendingBlockProposal = None, recoveryLastProp = None, conf = cf,
                transactionSystem = txs, lastLedgerReqTime = zeroTime, replicationCh = [], blockStore = db,
                shardConfStore = cs', network = nw, timer = newRoundTimer, epochChangeEvent = False,
                shardConf = sc, calls = 0\<rparr> of
           (Fail e, _) \<Rightarrow> Fail (Wrapf ''node state initialization failed'' e)
         | (Panics p, _) \<Rightarrow> Panics p
         | (Ok _, n) \<Rightarrow> Ok n))"

end
