(* ===== verification/NodeInvariant.thy ===== *)
theory NodeInvariant
  imports NodeLoop
begin

text \<open>
  The invariant of a node and what every handler guarantees. \<open>nodeInv\<close> is the state invariant,
  \<open>nodeRel\<close> relates the state a handler starts from to any state it leaves behind: the certified
  chain is only extended, by validated successor certificates, and the latest certificate does not
  go back in root rounds. \<open>guarded E s0 F c\<close> puts both together, with facts about the technical
  record and the committed certificate (\<open>F\<close>) that the calls in between preserve. For every
  operation there is one lemma that it keeps \<open>guarded\<close>; none of them panics.
\<close>

section \<open>Assumptions on the environment\<close>

definition sizeLaw :: "'x netExt_scheme \<Rightarrow> bool" where
  "sizeLaw X \<longleftrightarrow> (\<forall>m bs. cborMarshal X m = Inr bs \<longrightarrow> length bs < 2 ^ 56)"

definition envLaws :: "('b, 'c) nodeEnv \<Rightarrow> bool" where
  "envLaws E \<longleftrightarrow> gettersLaw (extOps E) \<and> verifyLaw (extOps E) \<and> nonEquivocationLaw (extOps E) \<and>
     successorLaw (extOps E) \<and> keyLaw (extOps E) \<and> blockLaw (extOps E) \<and> ucCodecLaw (extOps E) \<and>
     sizeLaw (extOps E) \<and> kvWriteLaw (blockDb E) \<and> kvDeleteLaw (blockDb E)"

lemma envLawsD:
  assumes "envLaws E"
  shows "gettersLaw (extOps E)" "verifyLaw (extOps E)" "nonEquivocationLaw (extOps E)"
    "successorLaw (extOps E)" "keyLaw (extOps E)" "blockLaw (extOps E)" "ucCodecLaw (extOps E)"
    "sizeLaw (extOps E)" "kvWriteLaw (blockDb E)" "kvDeleteLaw (blockDb E)"
  using assms by (simp_all add: envLaws_def)

section \<open>Invariant\<close>

text \<open>The block of a round is in the store and carries a certificate of that round.\<close>

definition storedAt :: "('b, 'c) nodeEnv \<Rightarrow> 'b \<Rightarrow> uint64 \<Rightarrow> bool" where
  "storedAt E db r \<longleftrightarrow> (\<exists>b u. kvRead (blockDb E) db (uint64ToBytes (extOps E) r) = Inr (Some b) \<and>
     getUCv1 (extOps E) (Some b) = Inr u \<and> getRoundNumber (extOps E) (Some u) = r)"

text \<open>The comment on \<open>fuc\<close> in \<open>state.go\<close>: the node has the blocks from \<open>fuc+1\<close> on.\<close>

definition chainStored ::
  "('b, 'c) nodeEnv \<Rightarrow> 'b \<Rightarrow> unicityCertificate option \<Rightarrow> unicityCertificate option \<Rightarrow> bool" where
  "chainStored E db f committed \<longleftrightarrow>
     (\<forall>r. getRoundNumber (extOps E) f < r \<and> r \<le> getRoundNumber (extOps E) committed \<longrightarrow> storedAt E db r)"

definition nodeInv :: "('b, 'c) nodeEnv \<Rightarrow> ('b, 'c) node \<Rightarrow> bool" where
  "nodeInv E s \<longleftrightarrow>
     selfID s \<noteq> '''' \<and>
     (leader s \<noteq> '''' \<longrightarrow> ltr s \<noteq> None) \<and>
     (ltr s \<noteq> None \<longrightarrow> (\<exists>u. luc s = Some u \<and> ucUnicitySeal u \<noteq> None)) \<and>
     (\<forall>u. luc s = Some u \<longrightarrow> ucInputRecord u \<noteq> None) \<and>
     fgpInv (extOps E) (transactionSystem s) \<and>
     length (replicationCh s) \<le> unat (maxWorkers (replicationConfig (conf s))) \<and>
     netInv (selfID s) (network s) \<and>
     unat (maxReturnBlocks (replicationConfig (conf s))) \<le> maxSliceCap \<and>
     chainStored E (blockStore s) (fuc s) (nodeCommittedUC s) \<and>
     timerInv (timer s)"

section \<open>What a handler may change\<close>

definition certOk ::
  "('b, 'c) nodeEnv \<Rightarrow> nodeConf \<Rightarrow> shardConfRecord \<Rightarrow> unicityCertificate \<Rightarrow> bool" where
  "certOk E cf sc u \<longleftrightarrow> (\<exists>tb. trustBaseByEpoch E (getRootEpoch (extOps E) (Some u)) = Inr tb \<and>
     ucValidate (extOps E) (hashAlgorithm cf) (Some u) (Some sc) tb = None)"

definition commitStep ::
  "('b, 'c) nodeEnv \<Rightarrow> nodeConf \<Rightarrow> shardConfRecord \<Rightarrow> unicityCertificate option
     \<Rightarrow> unicityCertificate option \<Rightarrow> bool" where
  "commitStep E cf sc a b \<longleftrightarrow> (\<exists>u. b = Some u \<and> certOk E cf sc u \<and> isSuccessor (extOps E) u a)"

definition lucMono ::
  "('b, 'c) nodeEnv \<Rightarrow> unicityCertificate option \<Rightarrow> unicityCertificate option \<Rightarrow> bool" where
  "lucMono E a b \<longleftrightarrow> (a = None \<or> (\<exists>v. b = Some v \<and>
     getRootRoundNumber (extOps E) a \<le> getRootRoundNumber (extOps E) b))"

definition nodeRel :: "('b, 'c) nodeEnv \<Rightarrow> ('b, 'c) node \<Rightarrow> ('b, 'c) node \<Rightarrow> bool" where
  "nodeRel E s t \<longleftrightarrow> conf t = conf s \<and> shardConf t = shardConf s \<and> selfID t = selfID s \<and>
     fuc t = fuc s \<and> timer t = timer s \<and>
     (commitStep E (conf s) (shardConf s))\<^sup>*\<^sup>* (nodeCommittedUC s) (nodeCommittedUC t) \<and>
     lucMono E (luc s) (luc t)"

type_synonym nodeFact = "technicalRecord option \<Rightarrow> unicityCertificate option \<Rightarrow> bool"

definition guarded ::
  "('b, 'c) nodeEnv \<Rightarrow> ('b, 'c) node \<Rightarrow> nodeFact \<Rightarrow> bool \<Rightarrow> ('b, 'c) node \<Rightarrow> bool" where
  "guarded E s0 F c t \<longleftrightarrow> nodeInv E t \<and> nodeRel E s0 t \<and> F (ltr t) (nodeCommittedUC t) \<and>
     (c \<longrightarrow> status t \<noteq> initializing)"

abbreviation anyFact :: nodeFact where
  "anyFact \<equiv> \<lambda>_ _. True"

lemmas guard_defs = guarded_def nodeInv_def nodeRel_def selfID_def nodeCommittedUC_def

lemma lucMono_refl [simp]: "lucMono E a a"
  by (cases a) (auto simp: lucMono_def)

lemma lucMono_trans: "lucMono E a b \<Longrightarrow> lucMono E b c \<Longrightarrow> lucMono E a c"
  by (auto simp: lucMono_def intro: order_trans)

lemma guarded_start:
  "nodeInv E s \<Longrightarrow> F (ltr s) (nodeCommittedUC s) \<Longrightarrow> (c \<longrightarrow> status s \<noteq> initializing) \<Longrightarrow>
     guarded E s F c s"
  by (simp add: guarded_def nodeRel_def)

lemma guarded_weaken:
  "guarded E s0 F c t \<Longrightarrow> (\<And>l m. F l m \<Longrightarrow> G l m) \<Longrightarrow> (d \<longrightarrow> c) \<Longrightarrow> guarded E s0 G d t"
  by (auto simp: guarded_def)

section \<open>Updates that matter to no clause\<close>

lemma guarded_frame [simp]:
  "guarded E s0 F c (s\<lparr>calls := n\<rparr>) = guarded E s0 F c s"
  "guarded E s0 F c (s\<lparr>pendingBlockProposal := p\<rparr>) = guarded E s0 F c s"
  "guarded E s0 F c (s\<lparr>recoveryLastProp := q\<rparr>) = guarded E s0 F c s"
  "guarded E s0 F c (s\<lparr>lastLedgerReqTime := i\<rparr>) = guarded E s0 F c s"
  "guarded E s0 F c (s\<lparr>epochChangeEvent := b\<rparr>) = guarded E s0 F c s"
  by (simp_all add: guard_defs)

lemma guarded_status: "guarded E s0 F c s \<Longrightarrow> st \<noteq> initializing \<Longrightarrow> guarded E s0 F d (s\<lparr>status := st\<rparr>)"
  by (clarsimp simp: guard_defs)

lemma guarded_tx:
  "guarded E s0 F c s \<Longrightarrow> fgpInv (extOps E) x \<Longrightarrow> committedUC x = nodeCommittedUC s \<Longrightarrow>
     guarded E s0 F c (s\<lparr>transactionSystem := x\<rparr>)"
  by (clarsimp simp: guard_defs)

lemma guarded_net:
  "guarded E s0 F c s \<Longrightarrow> netInv (selfID s) n \<Longrightarrow> guarded E s0 F c (s\<lparr>network := n\<rparr>)"
  by (clarsimp simp: guard_defs netInv_def)

lemma guarded_blocks:
  "guarded E s0 F c s \<Longrightarrow> chainStored E d (fuc s) (nodeCommittedUC s) \<Longrightarrow>
     guarded E s0 F c (s\<lparr>blockStore := d\<rparr>)"
  by (clarsimp simp: guard_defs)

lemma guarded_tx_inv: "guarded E s0 F c s \<Longrightarrow> fgpInv (extOps E) (transactionSystem s)"
  by (simp add: guarded_def nodeInv_def)

end
