(* ===== verification/NodeSafety.thy ===== *)
theory NodeSafety
  imports NodeInvariant
begin

text \<open>
  Every operation of the node keeps \<open>guarded\<close>: no panic, the invariant, and only legal changes of
  the certified chain. One lemma per operation, in the order of the definitions; the collection
  \<open>node_keeps\<close> lets the lemma of a handler follow from those of the calls it makes.
\<close>

named_theorems node_keeps \<open>operations of the node that keep the guard\<close>

section \<open>Calls on the components\<close>

lemma keeps_draw [node_keeps]: "keeps (guarded E s0 F c) (draw f)"
  by (simp add: keeps_def wp_rules)

lemma keeps_deref_Some [node_keeps]: "keeps J (deref (Some x))"
  by (simp add: keeps_def wp_rules)

lemma keeps_onTx:
  assumes "\<And>x. fgpInv (extOps E) x \<Longrightarrow> wp False m
      (\<lambda>_ y. fgpInv (extOps E) y \<and> committedUC y = committedUC x)
      (\<lambda>_ y. fgpInv (extOps E) y \<and> committedUC y = committedUC x) x"
  shows "keeps (guarded E s0 F c) (onTx m)"
proof (rule keepsI)
  fix s
  assume g: "guarded E s0 F c s"
  show "wp False (onTx m) (\<lambda>_. guarded E s0 F c) (\<lambda>_. guarded E s0 F c) s"
    unfolding onTx_def wp_zoom
    by (rule wp_mono [OF assms [OF guarded_tx_inv [OF g]]])
      (auto intro: guarded_tx [OF g] simp: nodeCommittedUC_def)
qed

text \<open>The transaction system keeps its certificate except in \<open>Commit\<close> and \<open>RestoreState\<close>.\<close>

lemma keeps_tx_ops [node_keeps]:
  "keeps (guarded E s0 F c) (onTx (leaderPropose pow r))"
  "keeps (guarded E s0 F c) (onTx (followerVerify pow r p))"
  "keeps (guarded E s0 F c) (onTx FgpTxSystem.stateSummary)"
  "keeps (guarded E s0 F c) (onTx (updateConfig (Some sc)))"
proof -
  note conj = wp_conj [OF keepsD [OF fgpInv_keeps(1)]] wp_conj [OF keepsD [OF fgpInv_keeps(2)]]
    wp_conj [OF keepsD [OF fgpInv_keeps(3)]] wp_conj [OF keepsD [OF fgpInv_keeps(4)]]
  show "keeps (guarded E s0 F c) (onTx (leaderPropose pow r))"
    by (rule keeps_onTx, rule wp_mono [OF conj(3) [OF _ fgp.propose_frame]]) auto
  show "keeps (guarded E s0 F c) (onTx (followerVerify pow r p))"
    by (rule keeps_onTx, rule wp_mono [OF conj(4) [OF _ fgp.verify_frame]]) auto
  show "keeps (guarded E s0 F c) (onTx FgpTxSystem.stateSummary)"
    by (rule keeps_onTx, rule wp_mono [OF conj(2) [OF _ fgp.summary_pure]]) auto
  show "keeps (guarded E s0 F c) (onTx (updateConfig (Some sc)))"
    by (rule keeps_onTx, rule wp_mono [OF conj(1), where Q' = "\<lambda>_ y. _ y \<and> _ y"])
      (auto simp: wp_def updateConfig_run split: sum.splits)
qed

lemma keeps_revertState [node_keeps]: "keeps (guarded E s0 F c) revertState"
proof -
  have "guarded E s0 F c (s\<lparr>transactionSystem := revert (transactionSystem s)\<rparr>)"
    if g: "guarded E s0 F c s" for s
    using keepsD [OF fgpInv_keeps(6) guarded_tx_inv [OF g]]
    by (intro guarded_tx [OF g]) (simp_all add: wp_rules revert_def nodeCommittedUC_def)
  then show ?thesis unfolding revertState_def by (intro keeps_modify)
qed

lemma keeps_onNet:
  assumes "\<And>self. keeps (netInv self) m"
  shows "keeps (guarded E s0 F c) (onNet m)"
proof (rule keepsI)
  fix s
  assume g: "guarded E s0 F c s"
  then have n: "netInv (selfID s) (network s)" by (simp add: guarded_def nodeInv_def)
  show "wp False (onNet m) (\<lambda>_. guarded E s0 F c) (\<lambda>_. guarded E s0 F c) s"
    unfolding onNet_def wp_zoom
    by (rule wp_mono [OF keepsD [OF assms n]]) (auto intro: guarded_net [OF g])
qed

lemma keeps_send [node_keeps]:
  "envLaws E \<Longrightarrow> keeps (guarded E s0 F c) (send E msg receivers)"
  unfolding send_def
  by (intro keeps_onNet keeps_netSend) (use envLawsD(8) in \<open>auto simp: sizeLaw_def\<close>)

section \<open>The block store\<close>

lemma uint64ToBytes_inject: "keyLaw X \<Longrightarrow> uint64ToBytes X a = uint64ToBytes X b \<longleftrightarrow> a = b"
  by (simp add: keyLaw_def putUint64BE_inject)

lemma proposalKey_fresh: "keyLaw X \<Longrightarrow> uint64ToBytes X a \<noteq> uint32ToBytes X w"
proof
  assume "keyLaw X" "uint64ToBytes X a = uint32ToBytes X w"
  then have "length (natToBytes 8 (unat a)) = length (natToBytes 4 (unat w))"
    by (metis keyLaw_def putUint64BE_def)
  then show False by simp
qed

text \<open>Changing entries outside the stored range, or only the pending proposal, keeps the chain.\<close>

lemma chainStored_other:
  assumes "chainStored E d f cm"
    and "\<And>r. getRoundNumber (extOps E) f < r \<Longrightarrow> r \<le> getRoundNumber (extOps E) cm \<Longrightarrow>
      kvRead (blockDb E) d' (uint64ToBytes (extOps E) r) = kvRead (blockDb E) d (uint64ToBytes (extOps E) r)"
  shows "chainStored E d' f cm"
  using assms by (auto simp: chainStored_def storedAt_def)

lemma keeps_proposalKey [node_keeps]:
  assumes "envLaws E"
  shows "keeps (guarded E s0 F c) (onBlocks (kvWrite (blockDb E) (uint32ToBytes (extOps E) w) b))"
    and "keeps (guarded E s0 F c) (onBlocks (kvDelete (blockDb E) (uint32ToBytes (extOps E) w)))"
proof -
  note fresh = proposalKey_fresh [OF envLawsD(5) [OF assms]]
  have chain: "chainStored E (blockStore s) (fuc s) (nodeCommittedUC s)" if "guarded E s0 F c s" for s
    using that by (simp add: guarded_def nodeInv_def)
  have upd: "guarded E s0 F c (s\<lparr>blockStore := d\<rparr>)"
    if "guarded E s0 F c s" "\<And>k. k \<noteq> uint32ToBytes (extOps E) w \<Longrightarrow>
      kvRead (blockDb E) d k = kvRead (blockDb E) (blockStore s) k" for s d
    using that fresh by (intro guarded_blocks [OF that(1)] chainStored_other [OF chain [OF that(1)]]) simp
  show "keeps (guarded E s0 F c) (onBlocks (kvWrite (blockDb E) (uint32ToBytes (extOps E) w) b))"
    unfolding onBlocks_def
    by (rule keepsI, unfold wp_zoom, rule wp_mono [OF kvWriteLawD [OF envLawsD(9) [OF assms]]])
      (auto intro: upd)
  show "keeps (guarded E s0 F c) (onBlocks (kvDelete (blockDb E) (uint32ToBytes (extOps E) w)))"
    unfolding onBlocks_def
    by (rule keepsI, unfold wp_zoom, rule wp_mono [OF kvDeleteLawD [OF envLawsD(10) [OF assms]]])
      (auto intro: upd)
qed

section \<open>Sending\<close>

lemma keeps_pending [node_keeps]:
  "keeps (guarded E s0 F c) (modify (\<lambda>s. s\<lparr>pendingBlockProposal := p\<rparr>))"
  "keeps (guarded E s0 F c) (modify (\<lambda>s. s\<lparr>lastLedgerReqTime := i\<rparr>))"
  "keeps (guarded E s0 F c) (modify (\<lambda>s. s\<lparr>recoveryLastProp := q\<rparr>))"
  "keeps (guarded E s0 F c) signalEpochChange"
  "keeps (guarded E s0 F c) resetProposal"
  by (auto intro!: keeps_modify simp: signalEpochChange_def resetProposal_def)

lemma keeps_status:
  "st \<noteq> initializing \<Longrightarrow> keeps (guarded E s0 F c) (modify (\<lambda>s. s\<lparr>status := st\<rparr>))"
  by (auto intro!: keeps_modify guarded_status)

lemma keeps_stopRecovery [node_keeps]: "keeps (guarded E s0 F c) stopRecovery"
  unfolding stopRecovery_def by (rule keeps_status) simp

lemma keeps_startNewRound [node_keeps]:
  "envLaws E \<Longrightarrow> keeps (guarded E s0 F c) (startNewRound E)"
  unfolding startNewRound_def deletePendingProposal_def by (intro keeps_rules node_keeps)

lemma keeps_trySendLoop: "envLaws E \<Longrightarrow> keeps (guarded E s0 F c) (trySendLoop E req ps)"
proof (induction ps)
  case Nil
  then show ?case by (simp add: keeps_ret)
next
  case (Cons p ps)
  then show ?case unfolding trySendLoop.simps by (intro keeps_rules node_keeps)
qed

lemma keeps_sendLedgerReplicationRequest [node_keeps]:
  "envLaws E \<Longrightarrow> keeps (guarded E s0 F c) (sendLedgerReplicationRequest E)"
  unfolding sendLedgerReplicationRequest_def by (intro keeps_rules node_keeps keeps_trySendLoop)

lemma keeps_startRecovery [node_keeps]:
  "envLaws E \<Longrightarrow> keeps (guarded E s0 F c) (startRecovery E)"
  unfolding startRecovery_def by (intro keeps_rules node_keeps keeps_status) simp

lemma keeps_sendLedgerReplicationResponse [node_keeps]:
  "envLaws E \<Longrightarrow> keeps (guarded E s0 F c) (sendLedgerReplicationResponse E msg toId)"
  unfolding sendLedgerReplicationResponse_def by (intro keeps_rules node_keeps)

lemma keeps_liftOut: "(\<And>p. r \<noteq> Panics p) \<Longrightarrow> keeps J (liftOut r)"
  by (auto simp: keeps_def wp_rules split: outcome.splits)

lemma keeps_selectors [node_keeps]:
  "keeps J (liftOut (randomNodeSelector rnd vs defaultHandshakeNodes))"
  "keeps J (liftOut (rootNodesSelector X l vs defaultNofRootNodes))"
proof -
  show "keeps J (liftOut (randomNodeSelector rnd vs defaultHandshakeNodes))"
    by (rule keeps_liftOut) (simp add: random_selector.select_no_panic defaultHandshakeNodes_def)
  show "keeps J (liftOut (rootNodesSelector X l vs defaultNofRootNodes))"
  proof (cases l)
    case None
    then show ?thesis by (intro keeps_liftOut) (simp add: rootNodesSelector_def)
  next
    case (Some u)
    show ?thesis
      unfolding Some
      by (rule keeps_liftOut, rule root_selector.select_no_panic) (simp add: defaultNofRootNodes_def)
  qed
qed

lemma keeps_sendHandshake [node_keeps]:
  "envLaws E \<Longrightarrow> keeps (guarded E s0 F c) (sendHandshake E)"
  unfolding sendHandshake_def by (intro keeps_rules node_keeps)

lemma keeps_sign [node_keeps]:
  "keeps J (onLocal (bpSign X alg sg) p)" "keeps J (onLocal (bcrSign X sg) q)"
  by (auto simp: keeps_def wp_rules bpSign_def bcrSign_def split: sum.splits)

lemma keeps_sendBlockProposal [node_keeps]:
  "envLaws E \<Longrightarrow> keeps (guarded E s0 F c) (sendBlockProposal E root)"
  unfolding sendBlockProposal_def by (intro keeps_rules node_keeps)

text \<open>With a technical record, the latest certificate has been verified: the record can be built.\<close>

lemma proposedInputRecord_wp:
  assumes "nodeInv E s" and "ltr s \<noteq> None"
  shows "wp False (proposedInputRecord E st) (\<lambda>_ t. t = s) (\<lambda>_ t. t = s) s"
proof -
  obtain u where "luc s = Some u" "ucUnicitySeal u \<noteq> None" "ucInputRecord u \<noteq> None"
    using assms by (auto simp: nodeInv_def)
  then show ?thesis using assms(2)
    by (auto simp: proposedInputRecord_def currentEpoch_def wp_rules split: option.splits)
qed

lemma keeps_submitProposal:
  "envLaws E \<Longrightarrow> ir \<noteq> None \<Longrightarrow> keeps (guarded E s0 F c) (submitProposal E l ir b)"
  unfolding submitProposal_def storePendingProposal_def
  by (elim exE [OF not_None_eq [THEN iffD1]], hypsubst) (intro keeps_rules node_keeps)

lemma sendCertificationRequest_wp:
  assumes "envLaws E" and g: "guarded E s0 F c s" and "ltr s \<noteq> None"
  shows "wp False (sendCertificationRequest E author st)
    (\<lambda>_. guarded E s0 F c) (\<lambda>_. guarded E s0 F c) s"
proof -
  have inv: "nodeInv E s" using g by (simp add: guarded_def)
  have ir: "ir \<noteq> None" if "calculateBlockHash (extOps E) b alg = Inr (ir, b')" for ir b alg b'
    using that envLawsD(6) [OF assms(1)] unfolding blockLaw_def by blast
  have calc: "keeps (guarded E s0 F c) (case calculateBlockHash (extOps E) b alg of
      Inl e \<Rightarrow> fail (Wrapf w e) | Inr (ir, b') \<Rightarrow> submitProposal E l ir b')" for b alg w l
    by (auto split: sum.splits intro!: keeps_fail keeps_submitProposal assms dest: ir)
  show ?thesis
    unfolding sendCertificationRequest_def
    by (subst wp_andThen, subst wp_gets, subst wp_andThen,
        rule wp_mono [OF proposedInputRecord_wp [OF inv assms(3)]])
      (auto intro!: keepsD [where J = "guarded E s0 F c"] keeps_rules calc g)
qed

section \<open>Certificates\<close>

lemma currentEpoch_wp:
  "nodeInv E s \<Longrightarrow> wp False currentEpoch (\<lambda>_ t. t = s) (\<lambda>_ t. t = s) s"
  by (auto simp: currentEpoch_def wp_rules nodeInv_def split: option.splits)

lemma keeps_currentEpoch [node_keeps]: "keeps (guarded E s0 F c) currentEpoch"
  by (rule keepsI, rule wp_mono [OF currentEpoch_wp]) (auto simp: guarded_def)

lemma keeps_handleT1TimeoutEvent:
  assumes "envLaws E"
  shows "keeps (guarded E s0 F c) (handleT1TimeoutEvent E)"
proof -
  have cert: "keeps (guarded E s0 G c) (andThen (attempt (sendCertificationRequest E author sm)) (\<lambda>r. (case r of
      Inl e \<Rightarrow> revertState | Inr _ \<Rightarrow> ret ())))" (is "keeps _ ?m")
    if "\<And>l m. G l m \<Longrightarrow> l \<noteq> None" for G author sm
  proof (rule keepsI)
    fix s
    assume g: "guarded E s0 G c s"
    then have "ltr s \<noteq> None" using that by (auto simp: guarded_def)
    with assms g show "wp False ?m (\<lambda>_. guarded E s0 G c) (\<lambda>_. guarded E s0 G c) s"
      by (intro wp_then_keeps) (auto simp: wp_attempt intro: sendCertificationRequest_wp intro!: keeps_rules node_keeps)
  qed
  have leader: "keeps (guarded E s0 (\<lambda>l m. F l m \<and> l \<noteq> None) c)
     (andThen (gets (currentRoundNumber E)) (\<lambda>round.
     andThen (draw (powAt E)) (\<lambda>pow.
     andThen (attempt (onTx (leaderPropose pow round))) (\<lambda>r. (case r of
       Inl e \<Rightarrow> revertState
     | Inr sm \<Rightarrow>
       andThen (attempt (sendBlockProposal E (rootHash sm))) (\<lambda>r. (case r of
         Inl e \<Rightarrow> revertState
       | Inr _ \<Rightarrow>
         andThen (gets (\<lambda>s. peerString (extOps E) (selfID s))) (\<lambda>author.
         andThen (attempt (sendCertificationRequest E author sm)) (\<lambda>r. (case r of
           Inl e \<Rightarrow> revertState
         | Inr _ \<Rightarrow> ret ()))))))))))" (is "keeps _ ?m")
    using assms by (intro keeps_andThen keeps_case_sum keeps_gets keeps_attempt node_keeps cert) auto
  show ?thesis
  proof (rule keepsI)
    fix s
    assume g: "guarded E s0 F c s"
    have "wp False ?m (\<lambda>_. guarded E s0 F c) (\<lambda>_. guarded E s0 F c) s" if "leader s = selfID s"
    proof -
      have "guarded E s0 (\<lambda>l m. F l m \<and> l \<noteq> None) c s"
        using g that by (auto simp: guarded_def nodeInv_def)
      from keepsD [OF leader this] show ?thesis
        by (rule wp_mono) (auto elim: guarded_weaken)
    qed
    with g show "wp False (handleT1TimeoutEvent E) (\<lambda>_. guarded E s0 F c) (\<lambda>_. guarded E s0 F c) s"
      unfolding handleT1TimeoutEvent_def by (simp add: wp_rules)
  qed
qed

lemma guarded_luc:
  assumes "guarded E s0 (\<lambda>_. G) c s" and "ucInputRecord u \<noteq> None" and "ucUnicitySeal u \<noteq> None"
    and "lucMono E (luc s) (Some u)" and "l \<noteq> '''' \<longrightarrow> t \<noteq> None"
  shows "guarded E s0 (\<lambda>_. G) c (s\<lparr>leader := l, ltr := t, luc := Some u\<rparr>)"
proof -
  have "lucMono E (luc s0) (Some u)"
    using assms(1,4) by (auto simp: guarded_def nodeRel_def intro: lucMono_trans)
  with assms show ?thesis by (clarsimp simp: guard_defs)
qed

lemma installLUC_wp:
  assumes "guarded E s0 (\<lambda>_. G) c s" and "ucInputRecord u \<noteq> None" and "ucUnicitySeal u \<noteq> None"
    and "lucMono E (luc s) (Some u)"
  shows "wp False (installLUC E u tr) (\<lambda>_. guarded E s0 (\<lambda>_. G) c) (\<lambda>_. guarded E s0 (\<lambda>_. G) c) s"
proof -
  let ?g = "guarded E s0 (\<lambda>_. G) c"
  have inv: "nodeInv E s" using assms(1) by (simp add: guarded_def)
  have upd: "?g (s\<lparr>leader := l, ltr := t, luc := Some u\<rparr>)" if "l \<noteq> '''' \<longrightarrow> t \<noteq> None" for l t
    using that by (intro guarded_luc assms)
  show ?thesis
    unfolding installLUC_def wp_andThen
    by (rule wp_mono [OF currentEpoch_wp [OF inv]])
      (auto simp: wp_andSeq wp_case_option wp_andThen [of _ "wrapErr _ _"] wp_wrapErr wp_liftE wp_modify assms(1)
        split: option.splits sum.splits intro!: keepsD [where J = ?g] keeps_rules node_keeps upd)
qed

lemma ucValidate_complete:
  assumes "verifyLaw X" and "ucValidate X alg (Some u) (Some sc) tb = None"
  shows "ucInputRecord u \<noteq> None" and "ucUnicitySeal u \<noteq> None"
proof -
  obtain h where "ucVerify X (Some u) tb alg (pdrPartitionID sc) (pdrShardID sc) h = None"
    using assms(2) by (auto simp: ucValidate_def split: if_splits sum.splits)
  from verifyLawD [OF assms(1) this]
  show "ucInputRecord u \<noteq> None" and "ucUnicitySeal u \<noteq> None" by auto
qed

end
