(* ===== verification/HandlerSafety.thy ===== *)
theory HandlerSafety
  imports NodeSafety
begin

text \<open>
  The guard through the handlers that change the certified chain: the update of the latest
  certificate, the finalisation of a block, certificates, blocks and proposals, and ledger
  replication.
\<close>

section \<open>Updating the latest certificate\<close>

lemma updateLUC_wp:
  assumes laws: "envLaws E" and g: "guarded E s0 (\<lambda>_. G) c s"
  shows "wp False (updateLUC E uc tr)
    (\<lambda>_ t. guarded E s0 (\<lambda>_. G) c t \<and> (\<exists>u. uc = Some u \<and> certOk E (conf s0) (shardConf s0) u))
    (\<lambda>_. guarded E s0 (\<lambda>_. G) c) s"
proof (cases uc)
  case None
  then show ?thesis using g by (simp add: updateLUC_def wp_rules)
next
  case (Some u)
  let ?g = "guarded E s0 (\<lambda>_. G) c"
  have cf: "conf s = conf s0" "shardConf s = shardConf s0" using g by (simp_all add: guarded_def nodeRel_def)
  have irl: "ucInputRecord l \<noteq> None" if "luc s = Some l" for l
    using g that by (simp add: guarded_def nodeInv_def)
  show ?thesis
  proof (cases "certOk E (conf s0) (shardConf s0) u")
    case False
    then show ?thesis
      using g unfolding Some updateLUC_def
      by (auto simp: wp_andThen wp_andSeq wp_wrapErr wp_liftE wp_liftErr wp_gets certOk_def cf
          split: sum.splits option.splits)
  next
    case True
    then obtain tb where tb: "trustBaseByEpoch E (getRootEpoch (extOps E) (Some u)) = Inr tb"
      and valid: "ucValidate (extOps E) (hashAlgorithm (conf s0)) (Some u) (Some (shardConf s0)) tb = None"
      by (auto simp: certOk_def)
    note complete = ucValidate_complete [OF envLawsD(2) [OF laws] valid]
    have mono: "lucMono E (luc s) (Some u)"
      if "\<forall>l. luc s = Some l \<longrightarrow> checkNonEquivocatingCertificates (extOps E) l u = None"
      using that nonEquivocationLawD [OF envLawsD(3) [OF laws]] by (cases "luc s") (auto simp: lucMono_def)
    have install: "wp False (installLUC E u tr)
        (\<lambda>_ t. ?g t \<and> (\<exists>u'. Some u = Some u' \<and> certOk E (conf s0) (shardConf s0) u')) (\<lambda>_. ?g) s"
      if "\<forall>l. luc s = Some l \<longrightarrow> checkNonEquivocatingCertificates (extOps E) l u = None"
      by (rule wp_mono [OF installLUC_wp [OF g complete mono [OF that]]]) (use True in auto)
    show ?thesis
      unfolding Some updateLUC_def
      using g complete irl install True
      by (auto simp: wp_andThen wp_andSeq wp_wrapErr wp_liftE wp_liftErr wp_gets wp_if wp_ret wp_deref wp_fail
          wp_case_option cf tb valid printUC_def checkEquivocation_def split: option.splits)
  qed
qed

section \<open>Finalising a block\<close>

lemma word_le_inc: "(x :: uint64) \<le> c + 1 \<Longrightarrow> x = c + 1 \<or> x \<le> c"
  using inc_le [of c x] by (metis antisym linorder_le_less_linear)

lemma word_inc_le: "(c :: uint64) + 1 \<le> c \<Longrightarrow> c + 1 = 0"
proof -
  assume le: "c + 1 \<le> c"
  have "unat (c + 1) = (unat c + 1) mod 2 ^ 64" by (simp add: unat_word_ariths)
  moreover have "unat c + 1 = 2 ^ 64 \<or> unat c + 1 < 2 ^ 64" using uint64_lt [of c] by auto
  ultimately have "unat (c + 1) = 0" using le by (auto simp: word_le_nat_alt)
  then show ?thesis by (simp add: unat_eq_0)
qed

text \<open>The round of a successor lies outside the stored range, and extends it by one.\<close>

lemma chainStored_extend:
  assumes "chainStored E d f cm" and "storedAt E d (getRoundNumber (extOps E) (Some u))"
    and "getRoundNumber (extOps E) (Some u) = getRoundNumber (extOps E) cm + 1"
  shows "chainStored E d f (Some u)"
  using assms by (auto simp: chainStored_def dest!: word_le_inc)

lemma chainStored_next:
  assumes "chainStored E d f cm" and "keyLaw (extOps E)"
    and "getRoundNumber (extOps E) (Some u) = getRoundNumber (extOps E) cm + 1"
    and "\<And>k. k \<noteq> uint64ToBytes (extOps E) (getRoundNumber (extOps E) (Some u)) \<Longrightarrow>
      kvRead (blockDb E) d' k = kvRead (blockDb E) d k"
  shows "chainStored E d' f cm"
proof (rule chainStored_other [OF assms(1)])
  fix r
  assume "getRoundNumber (extOps E) f < r" "r \<le> getRoundNumber (extOps E) cm"
  then have "r \<noteq> getRoundNumber (extOps E) (Some u)" using assms(3) by (auto dest: word_inc_le)
  then show "kvRead (blockDb E) d' (uint64ToBytes (extOps E) r) = kvRead (blockDb E) d (uint64ToBytes (extOps E) r)"
    using assms(2) by (intro assms(4)) (simp add: uint64ToBytes_inject)
qed

lemma guarded_commit:
  assumes g: "guarded E s0 F c s" and "certOk E (conf s0) (shardConf s0) u"
    and "isSuccessor (extOps E) u (nodeCommittedUC s)"
    and "fgpInv (extOps E) x" and "committedUC x = Some u"
    and "chainStored E (blockStore s) (fuc s) (Some u)"
  shows "guarded E s0 (\<lambda>_ _. True) c (s\<lparr>transactionSystem := x\<rparr>)"
proof -
  have "commitStep E (conf s0) (shardConf s0) (nodeCommittedUC s) (Some u)"
    using assms(2,3) by (simp add: commitStep_def)
  moreover have "(commitStep E (conf s0) (shardConf s0))\<^sup>*\<^sup>* (nodeCommittedUC s0) (nodeCommittedUC s)"
    using g by (simp add: guarded_def nodeRel_def)
  ultimately have "(commitStep E (conf s0) (shardConf s0))\<^sup>*\<^sup>* (nodeCommittedUC s0) (Some u)"
    by (meson rtranclp.rtrancl_into_rtrancl)
  with assms show ?thesis by (clarsimp simp: guard_defs)
qed

lemma storeBlock_wp:
  assumes laws: "envLaws E" and g: "guarded E s0 F c s"
    and succ: "isSuccessor (extOps E) u (nodeCommittedUC s)"
    and uc: "getUCv1 (extOps E) (Some b) = Inr u"
  shows "wp False (storeBlock E (uint64ToBytes (extOps E) (getRoundNumber (extOps E) (Some u))) b)
    (\<lambda>_ t. guarded E s0 F c t \<and> transactionSystem t = transactionSystem s \<and> fuc t = fuc s \<and>
       chainStored E (blockStore t) (fuc s) (Some u))
    (\<lambda>_. guarded E s0 F c) s"
proof -
  note rn = successorLawD [OF envLawsD(4) [OF laws] succ]
  have chain: "chainStored E (blockStore s) (fuc s) (nodeCommittedUC s)"
    using g by (simp add: guarded_def nodeInv_def)
  have ok: "chainStored E d (fuc s) (nodeCommittedUC s) \<and> chainStored E d (fuc s) (Some u)"
    if d: "\<forall>k. kvRead (blockDb E) d k =
      (if k = uint64ToBytes (extOps E) (getRoundNumber (extOps E) (Some u)) then Inr (Some b)
       else kvRead (blockDb E) (blockStore s) k)" for d
  proof
    show "chainStored E d (fuc s) (nodeCommittedUC s)"
      by (rule chainStored_next [OF chain envLawsD(5) [OF laws] rn]) (simp add: d)
    moreover have "storedAt E d (getRoundNumber (extOps E) (Some u))"
      using d uc by (auto simp: storedAt_def)
    ultimately show "chainStored E d (fuc s) (Some u)" using rn by (rule chainStored_extend)
  qed
  show ?thesis
    unfolding storeBlock_def onBlocks_def wp_zoom
    by (rule wp_mono [OF kvWriteLawD [OF envLawsD(9) [OF laws]]])
      (use g in \<open>auto dest: ok intro: guarded_blocks\<close>)
qed

lemma deleteBlock_wp:
  assumes laws: "envLaws E" and g: "guarded E s0 F c s"
    and succ: "isSuccessor (extOps E) u (nodeCommittedUC s)"
  shows "wp False (deleteBlock E (uint64ToBytes (extOps E) (getRoundNumber (extOps E) (Some u))))
    (\<lambda>_. guarded E s0 F c) (\<lambda>_. guarded E s0 F c) s"
proof -
  have chain: "chainStored E (blockStore s) (fuc s) (nodeCommittedUC s)"
    using g by (simp add: guarded_def nodeInv_def)
  note other = chainStored_next [OF chain envLawsD(5) [OF laws] successorLawD [OF envLawsD(4) [OF laws] succ]]
  show ?thesis
    unfolding deleteBlock_def onBlocks_def wp_zoom
    by (rule wp_mono [OF kvDeleteLawD [OF envLawsD(10) [OF laws]]])
      (use g in \<open>auto intro!: guarded_blocks other\<close>)
qed

text \<open>A stored and committed block extends the certified chain by one link.\<close>

lemma finalizeBlock_wp:
  assumes laws: "envLaws E" and g: "guarded E s0 F True s"
    and cert: "certOk E (conf s0) (shardConf s0) u"
    and succ: "isSuccessor (extOps E) u (nodeCommittedUC s)"
    and uc: "getUCv1 (extOps E) (Some b) = Inr u"
  shows "wp False (finalizeBlock E b u)
    (\<lambda>_ t. guarded E s0 (\<lambda>_ _. True) True t \<and> nodeCommittedUC t = Some u) (\<lambda>_. guarded E s0 F True) s"
proof -
  have st: "status s \<noteq> initializing" using g by (simp add: guarded_def)
  have commit: "wp False (onTx (commit (extOps E) u))
      (\<lambda>_ t'. guarded E s0 (\<lambda>_ _. True) True t' \<and> nodeCommittedUC t' = Some u) (\<lambda>_ t'. t' = t) t"
    if t: "guarded E s0 F True t" "transactionSystem t = transactionSystem s" "fuc t = fuc s"
      "chainStored E (blockStore t) (fuc s) (Some u)" for t
  proof -
    have "isSuccessor (extOps E) u (nodeCommittedUC t)" using succ t(2) by (simp add: nodeCommittedUC_def)
    note upd = guarded_commit [OF t(1) cert this]
    have "wp False (commit (extOps E) u)
        (\<lambda>_ x. guarded E s0 (\<lambda>_ _. True) True (t\<lparr>transactionSystem := x\<rparr>) \<and> committedUC x = Some u)
        (\<lambda>_ x. x = transactionSystem t) (transactionSystem t)"
      by (rule wp_mono [OF wp_conj [OF keepsD [OF fgpInv_keeps(7) guarded_tx_inv [OF t(1)]] fgp.commit_effect]])
        (use t in \<open>auto intro!: upd\<close>)
    then show ?thesis
      unfolding onTx_def wp_zoom by (rule wp_mono) (auto simp: nodeCommittedUC_def)
  qed
  have finish: "wp False (andThen (attempt (onTx (commit (extOps E) u))) (\<lambda>r. (case r of
        Inr _ \<Rightarrow> ret ()
      | Inl e \<Rightarrow> andThen (attempt (deleteBlock E (uint64ToBytes (extOps E) (getRoundNumber (extOps E) (Some u)))))
          (\<lambda>r2. fail (joinDelete (Wrapf ''unable to finalize block %d'' e) r2)))))
      (\<lambda>_ t'. guarded E s0 (\<lambda>_ _. True) True t' \<and> nodeCommittedUC t' = Some u) (\<lambda>_. guarded E s0 F True) t"
    if t: "guarded E s0 F True t" "transactionSystem t = transactionSystem s" "fuc t = fuc s"
      "chainStored E (blockStore t) (fuc s) (Some u)" for t
  proof -
    have "isSuccessor (extOps E) u (nodeCommittedUC t)" using succ t(2) by (simp add: nodeCommittedUC_def)
    note delete = deleteBlock_wp [OF laws t(1) this]
    show ?thesis
      unfolding wp_andThen wp_attempt
      by (rule wp_mono [OF commit [OF t]])
        (auto simp: wp_andThen wp_attempt wp_ret wp_fail intro: wp_mono [OF delete])
  qed
  show ?thesis
    unfolding finalizeBlock_def Let_def wp_andThen [of _ "gets _"] wp_gets wp_andSeq
    by (simp only: st not_False_eq_True if_True if_False wp_wrapErr,
        rule wp_mono [OF storeBlock_wp [OF laws g succ uc]], elim conjE, rule finish)
qed

section \<open>Certificates\<close>

lemma keeps_handleWithoutProposal [node_keeps]:
  "envLaws E \<Longrightarrow> keeps (guarded E s0 F c) (handleWithoutProposal E u)"
  unfolding handleWithoutProposal_def by (intro keeps_rules node_keeps)

lemma handleWithProposal_wp:
  assumes laws: "envLaws E" and g: "guarded E s0 (\<lambda>_ _. True) True s"
    and cert: "certOk E (conf s0) (shardConf s0) u"
    and succ: "isSuccessor (extOps E) u (nodeCommittedUC s)"
  shows "wp False (handleWithProposal E u b)
    (\<lambda>_. guarded E s0 (\<lambda>_ _. True) True) (\<lambda>_. guarded E s0 (\<lambda>_ _. True) True) s"
proof -
  let ?g = "guarded E s0 (\<lambda>_ _. True) True"
  have final: "wp False (andSeq (modify (\<lambda>s. s\<lparr>pendingBlockProposal := Some (b\<lparr>blkUnicityCertificate := bs\<rparr>)\<rparr>))
      (andThen (attempt (finalizeBlock E (b\<lparr>blkUnicityCertificate := bs\<rparr>) u)) (\<lambda>r. (case r of
         Inl e \<Rightarrow> andSeq (startRecovery E) (fail (Wrapf ''block %v finalize failed'' e))
       | Inr _ \<Rightarrow> startNewRound E)))) (\<lambda>_. ?g) (\<lambda>_. ?g) s" if bs: "marshalUC (extOps E) u = Inr bs" for bs
  proof -
    have uc: "getUCv1 (extOps E) (Some (b\<lparr>blkUnicityCertificate := bs\<rparr>)) = Inr u"
      using bs envLawsD(7) [OF laws] by (auto simp: ucCodecLaw_def getUCv1_def)
    show ?thesis
      unfolding wp_andSeq wp_modify
      by (rule wp_then_keeps, unfold wp_attempt,
          rule wp_mono [OF finalizeBlock_wp [OF laws _ cert _ uc]])
        (use laws g succ in \<open>auto simp: nodeCommittedUC_def intro!: keeps_rules node_keeps\<close>)
  qed
  have keep: "keeps ?g (andSeq (startRecovery E) (fail e))"
    "keeps ?g (andSeq (modify (\<lambda>s. s\<lparr>pendingBlockProposal := p\<rparr>)) (fail e))" for e p
    by (intro keeps_andSeq keeps_fail keeps_startRecovery laws, rule keeps_andSeq [OF keeps_pending(1) keeps_fail])
  show ?thesis
    unfolding handleWithProposal_def Let_def
    using final keepsD [OF keep(1) g] keepsD [OF keep(2) g]
    by (auto split: sum.splits option.splits)
qed


lemma handleUnicityCertificate_wp:
  assumes laws: "envLaws E" and g: "guarded E s0 (\<lambda>_ _. True) c s"
  shows "wp False (handleUnicityCertificate E uc tr)
    (\<lambda>_. guarded E s0 (\<lambda>_ _. True) c) (\<lambda>_. guarded E s0 (\<lambda>_ _. True) c) s"
proof -
  let ?g = "\<lambda>c. guarded E s0 (\<lambda>_ _. True) c"
  let ?rest = "\<lambda>u prevLUC st. if isDuplicate (extOps E) u prevLUC then
      (if st = initializing then startNewRound E else ret ())
    else (case isRepeat (extOps E) u prevLUC of
        Inl e \<Rightarrow> fail (Wrapf ''failed to check for repeat UC'' e)
      | Inr True \<Rightarrow> andSeq revertState (startNewRound E)
      | Inr False \<Rightarrow>
        andThen (gets nodeCommittedUC) (\<lambda>committed.
        if \<not> isSuccessor (extOps E) u committed then
          andSeq (startRecovery E) (fail ErrNodeDoesNotHaveLatestBlock)
        else andThen (gets pendingBlockProposal) (\<lambda>pending. (case pending of
            None \<Rightarrow> handleWithoutProposal E u
          | Some b \<Rightarrow> handleWithProposal E u b))))"
  have rest: "wp False (?rest u prevLUC st) (\<lambda>_. ?g True) (\<lambda>_. ?g True) t"
    if t: "?g True t" and u: "certOk E (conf s0) (shardConf s0) u" for u prevLUC st t
  proof -
    have keep: "keeps (?g True) (startNewRound E)" "keeps (?g True) (andSeq revertState (startNewRound E))"
      "keeps (?g True) (andSeq (startRecovery E) (fail ErrNodeDoesNotHaveLatestBlock))"
      "keeps (?g True) (handleWithoutProposal E u)"
      by (intro keeps_rules node_keeps laws)+
    note keep_t = keep [THEN keepsD, OF t]
    show ?thesis
      using t keep_t handleWithProposal_wp [OF laws t u]
      by (auto simp: wp_ret wp_fail wp_andThen [of _ "gets _"] wp_gets
          split: sum.splits bool.splits option.splits)
  qed
  have running: "wp False (andSeq (if st = initializing then modify (\<lambda>s. s\<lparr>status := normal\<rparr>) else ret ()) (?rest u prevLUC st))
      (\<lambda>_. ?g c) (\<lambda>_. ?g c) t"
    if t: "?g c t" "status t = st" and u: "certOk E (conf s0) (shardConf s0) u" for u prevLUC st t
  proof -
    have start: "wp False (if st = initializing then modify (\<lambda>s. s\<lparr>status := normal\<rparr>) else ret ())
        (\<lambda>_. ?g True) (\<lambda>_. ?g c) t"
      using t guarded_status [OF t(1), of normal True] by (auto simp: wp_rules guarded_def)
    show ?thesis
      unfolding wp_andSeq
      by (rule wp_mono [OF start], rule wp_mono [OF rest [OF _ u]], assumption)
        (simp_all add: guarded_def)
  qed
  have tail: "wp False (andThen (gets status) (\<lambda>st. if st = recovering then ret () else
      andSeq (if st = initializing then modify (\<lambda>s. s\<lparr>status := normal\<rparr>) else ret ()) (?rest u prevLUC st)))
      (\<lambda>_. ?g c) (\<lambda>_. ?g c) t"
    if t: "?g c t" and u: "certOk E (conf s0) (shardConf s0) u" for u prevLUC t
    unfolding wp_andThen [of _ "gets _"] wp_gets
    by (cases "status t = recovering"; simp only: simp_thms if_True if_False wp_ret t running [OF t refl u])
  show ?thesis
    unfolding handleUnicityCertificate_def wp_andThen [of _ "gets luc"] wp_gets wp_andSeq [of _ "wrapErr _ _"] wp_wrapErr
    by (rule wp_mono [OF updateLUC_wp [OF laws g]])
      (auto simp only: wp_andThen [of _ "deref _"] wp_deref option.case intro: tail)
qed

lemma keeps_handleUnicityCertificate [node_keeps]:
  "envLaws E \<Longrightarrow> keeps (guarded E s0 (\<lambda>_ _. True) c) (handleUnicityCertificate E uc tr)"
  by (rule keepsI, rule handleUnicityCertificate_wp)

lemma wp_liftErr_then:
  "J s \<Longrightarrow> (r = None \<Longrightarrow> wp False k (\<lambda>_. J) (\<lambda>_. J) s) \<Longrightarrow>
     wp False (andSeq (wrapErr w (liftErr r)) k) (\<lambda>_. J) (\<lambda>_. J) s"
  by (auto simp: wp_rules split: option.splits)

lemma crIsValid_Some: "crIsValid X p = None \<Longrightarrow> \<exists>cr. p = Some cr"
  by (cases p) (auto simp: crIsValid_def)

lemma keeps_deref_valid: "(r = None \<Longrightarrow> \<exists>x. p = Some x) \<Longrightarrow> (\<And>x. keeps J (f x)) \<Longrightarrow>
    keeps J (andSeq (wrapErr w (liftErr r)) (andThen (deref p) f))"
  by (rule keepsI, rule wp_liftErr_then) (auto simp: wp_andThen wp_deref keeps_def)

lemma keeps_handleCertificationResponse [node_keeps]:
  assumes "envLaws E"
  shows "keeps (guarded E s0 (\<lambda>_ _. True) c) (handleCertificationResponse E p)"
  unfolding handleCertificationResponse_def
  by (rule keeps_deref_valid, erule crIsValid_Some) (intro keeps_rules node_keeps assms)

section \<open>Blocks\<close>

lemma applyBlock_wp:
  assumes laws: "envLaws E" and g: "guarded E s0 (\<lambda>_ m. m = cm) True s"
    and cert: "certOk E (conf s0) (shardConf s0) u"
    and succ: "isSuccessor (extOps E) u cm"
    and uc: "getUCv1 (extOps E) (Some b) = Inr u" and hdr: "blkHeader b \<noteq> None"
  shows "wp False (applyBlock E cm b u)
    (\<lambda>_. guarded E s0 (\<lambda>_ _. True) True) (\<lambda>_. guarded E s0 (\<lambda>_ _. True) True) s"
proof -
  let ?g = "guarded E s0 (\<lambda>_ m. m = cm) True"
  let ?any = "guarded E s0 (\<lambda>_ _. True) True"
  have weak: "?any t" if "?g t" for t using that by (rule guarded_weaken) auto
  obtain tb where "ucValidate (extOps E) (hashAlgorithm (conf s0)) (Some u) (Some (shardConf s0)) tb = None"
    using cert by (auto simp: certOk_def)
  from ucValidate_complete [OF envLawsD(2) [OF laws] this]
  obtain ir where ir: "ucInputRecord u = Some ir" by auto
  obtain h where h: "blkHeader b = Some h" using hdr by auto
  have final: "wp False (andThen (attempt (finalizeBlock E b u)) (\<lambda>r. (case r of
      Inl e \<Rightarrow> andSeq revertState (fail (Wrapf ''failed to finalize block %v'' e)) | Inr _ \<Rightarrow> ret ())))
      (\<lambda>_. ?any) (\<lambda>_. ?any) t" if t: "?g t" for t
  proof -
    have "isSuccessor (extOps E) u (nodeCommittedUC t)" using succ t by (simp add: guarded_def)
    from finalizeBlock_wp [OF laws t cert this uc] show ?thesis
      by (intro wp_then_keeps, unfold wp_attempt)
        (auto elim!: wp_mono intro: weak intro!: keeps_rules node_keeps)
  qed
  then have final': "leads ?g ?any (andThen (attempt (finalizeBlock E b u)) (\<lambda>r. (case r of
      Inl e \<Rightarrow> andSeq revertState (fail (Wrapf ''failed to finalize block %v'' e)) | Inr _ \<Rightarrow> ret ())))"
    by (intro leadsI weak)
  have "leads ?g ?any (applyBlock E cm b u)"
    unfolding applyBlock_def ir h
    by ((rule final' | rule leads_rules | rule keeps_rules | rule node_keeps | rule weak, assumption)+)
  then show ?thesis using g by (rule leadsD)
qed

lemma keeps_handleBlock:
  assumes laws: "envLaws E"
  shows "keeps (guarded E s0 (\<lambda>_ _. True) True) (handleBlock E p)"
proof (rule keepsI)
  fix s
  assume any: "guarded E s0 (\<lambda>_ _. True) True s"
  let ?any = "guarded E s0 (\<lambda>_ _. True) True"
  let ?g = "guarded E s0 (\<lambda>_ m. m = nodeCommittedUC s) True"
  have g: "?g s" using any by (simp add: guarded_def)
  have weak: "?any t" if "?g t" for t using that by (rule guarded_weaken) auto
  have extend: "wp False (applyBlock E (nodeCommittedUC s) b u) (\<lambda>_. ?any) (\<lambda>_. ?any) t"
    if "?g t" "certOk E (conf s0) (shardConf s0) u" "isSuccessor (extOps E) u (nodeCommittedUC s)"
      "getUCv1 (extOps E) (Some b) = Inr u" "blkHeader b \<noteq> None" for t u b
    using laws that by (rule applyBlock_wp)
  have gap: "keeps ?any (andThen (gets status) (\<lambda>st.
      andSeq (if st \<noteq> initializing then startRecovery E else ret ()) (fail e)))" for e
    by (intro keeps_rules node_keeps laws)
  have valid: "blkHeader b \<noteq> None" if "blockIsValid (extOps E) b alg h = None" for b alg h
    using that envLawsD(6) [OF laws] unfolding blockLaw_def by blast
  have body: "wp False (andSeq (wrapErr ''failed to update LUC'' (updateLUC E (Some u) None))
     (if getRoundNumber (extOps E) (Some u) \<le> getRoundNumber (extOps E) (nodeCommittedUC s) then ret ()
      else if \<not> isSuccessor (extOps E) u (nodeCommittedUC s) then
        andThen (gets status) (\<lambda>st.
        andSeq (if st \<noteq> initializing then startRecovery E else ret ())
        (fail (Errorf ''missing blocks between rounds %v and %v'')))
      else applyBlock E (nodeCommittedUC s) b u)) (\<lambda>_. ?any) (\<lambda>_. ?any) s"
    if "getUCv1 (extOps E) (Some b) = Inr u" "blkHeader b \<noteq> None" for b u
    unfolding wp_andSeq [of _ "wrapErr _ _"] wp_wrapErr
    by (rule wp_mono [OF updateLUC_wp [OF laws g]])
      (use that in \<open>auto simp: wp_ret intro: weak extend keepsD [OF gap]\<close>)
  note calls = wp_andThen [of _ "gets _"] wp_gets wp_andThen [of _ "wrapErr _ _"] wp_wrapErr wp_liftE
    wp_andThen [of _ "deref _"] wp_deref
  show "wp False (handleBlock E p) (\<lambda>_. ?any) (\<lambda>_. ?any) s"
  proof (cases "getUCv1 (extOps E) p")
    case (Inl e)
    then show ?thesis using any by (simp add: handleBlock_def calls)
  next
    case (Inr u)
    then obtain b where b: "p = Some b" by (cases p) (auto simp: getUCv1_def)
    note uc = Inr [unfolded b]
    show ?thesis
      unfolding b handleBlock_def calls uc sum.case option.case
      by (rule wp_liftErr_then, rule any, rule body [OF uc valid])
  qed
qed

section \<open>Block proposals\<close>

lemma keeps_sendCertificationRequest:
  assumes "envLaws E" and "\<And>l m. F l m \<Longrightarrow> l \<noteq> None"
  shows "keeps (guarded E s0 F c) (sendCertificationRequest E author st)"
  by (rule keepsI, rule sendCertificationRequest_wp [OF assms(1)]) (use assms(2) in \<open>auto simp: guarded_def\<close>)

lemma keeps_followProposal [node_keeps]:
  assumes laws: "envLaws E"
  shows "keeps (guarded E s0 (\<lambda>_ _. True) c) (followProposal E prop uc)"
proof (rule keepsI)
  fix s
  assume any: "guarded E s0 (\<lambda>_ _. True) c s"
  let ?any = "guarded E s0 (\<lambda>_ _. True) c"
  let ?g = "guarded E s0 (\<lambda>l _. l \<noteq> None) c"
  have weak: "?any t" if "?g t" for t using that by (rule guarded_weaken) auto
  have cert: "keeps ?g (sendCertificationRequest E author st)" for author st
    by (rule keeps_sendCertificationRequest [OF laws])
  have verify: "leads ?g ?any
     (andThen (wrapErr ''transaction system state error'' (onTx FgpTxSystem.stateSummary)) (\<lambda>txState.
     if \<not> isInitial (extOps E) uc \<and> \<not> bytesEqual (getStateHash (extOps E) (Some uc)) (rootHash txState) then
       fail (Errorf ''transaction system start state mismatch error, expected: %X, got: %X'')
     else
     andThen (gets (currentRoundNumber E)) (\<lambda>round.
     andThen (draw (powAt E)) (\<lambda>pow.
     andThen (attempt (onTx (followerVerify pow round (bpProposedRoot prop)))) (\<lambda>r. (case r of
       Inl e \<Rightarrow> andSeq revertState (fail (Wrapf ''follower failed to verify proposed block'' e))
     | Inr sm \<Rightarrow> wrapErr ''certification request send failed''
         (sendCertificationRequest E (peerString (extOps E) (bpNodeID prop)) sm)))))))"
    by (rule leads_keeps, erule weak) (intro keeps_rules node_keeps cert)
  have "?g s" if "leader s \<noteq> ''''"
    using any that by (auto simp: guarded_def nodeInv_def)
  with any show "wp False (followProposal E prop uc) (\<lambda>_. ?any) (\<lambda>_. ?any) s"
    unfolding followProposal_def wp_andThen [of _ "gets leader"] wp_gets
    by (cases "leader s = ''''"; cases "bpNodeID prop = leader s")
      (simp_all add: wp_fail leadsD [OF verify])
qed

lemma bpValidate_wp:
  assumes laws: "envLaws E" and "J s"
    and k: "\<And>u ir. bpUnicityCertificate prop = Some u \<Longrightarrow> ucInputRecord u = Some ir \<Longrightarrow>
      wp False k (\<lambda>_. J) (\<lambda>_. J) s"
  shows "wp False (andSeq (wrapErr w (bpValidate (extOps E) alg (Some prop) (Some sc) (Some tb))) k)
    (\<lambda>_. J) (\<lambda>_. J) s"
proof -
  have "wp False (bpValidate (extOps E) alg (Some prop) (Some sc) (Some tb))
      (\<lambda>_ t. t = s \<and> (\<exists>u. bpUnicityCertificate prop = Some u \<and> ucInputRecord u \<noteq> None)) (\<lambda>_ t. t = s) s"
  proof (cases "bpValidate (extOps E) alg (Some prop) (Some sc) (Some tb) s = (Ok (), s)")
    case True
    then have "proposalAcceptable (extOps E) prop tb sc alg"
      by (simp add: bpValidate_def bpIsValid_run [OF envLawsD(2) [OF laws]])
    then obtain u where u: "bpUnicityCertificate prop = Some u"
      "ucVerify (extOps E) (Some u) tb alg (pdrPartitionID sc) (pdrShardID sc) None = None"
      by (auto simp: proposalAcceptable_def)
    from verifyLawD [OF envLawsD(2) [OF laws] u(2)] u(1) True show ?thesis by (auto simp: wp_def)
  next
    case False
    with bpIsValid_pure [OF envLawsD(2) [OF laws], of "Some prop" "Some tb" "Some sc" alg s]
    show ?thesis unfolding bpValidate_def wp_def by (auto split: prod.splits outcome.splits)
  qed
  then show ?thesis
    unfolding wp_andSeq wp_wrapErr by (rule wp_mono) (use assms(2) k in auto)
qed

lemma keeps_handleBlockProposal [node_keeps]:
  assumes laws: "envLaws E"
  shows "keeps (guarded E s0 (\<lambda>_ _. True) c) (handleBlockProposal E p)"
proof -
  let ?g = "guarded E s0 (\<lambda>_ _. True) c"
  have valid: "keeps ?g (andSeq (wrapErr w (bpValidate (extOps E) alg (Some pr) (Some sc) (Some tb)))
      (andThen (deref (bpUnicityCertificate pr)) (\<lambda>uc. andSeq (deref (ucInputRecord uc)) (k uc))))"
    if k: "\<And>uc. keeps ?g (k uc)" for w alg pr tb sc and k
    by (rule keepsI, rule bpValidate_wp [OF laws])
      (simp_all add: wp_andThen wp_andSeq wp_deref keepsD [OF k])
  show ?thesis
    unfolding handleBlockProposal_def
    by ((rule valid | rule keeps_rules | rule node_keeps | rule laws)+)
qed

end
