(* ===== verification/LoopSafety.thy ===== *)
theory LoopSafety
  imports HandlerSafety
begin

text \<open>
  The guard through ledger replication, the message dispatch and the main loop, and from there the
  invariant of the running node: every iteration of the loop completes without a panic and without
  an error, every step of the concurrent goroutines keeps the invariant, and so does the start.
\<close>

section \<open>Ledger replication\<close>

lemma guarded_channel:
  "guarded E s0 F c s \<Longrightarrow> length ch \<le> unat (maxWorkers (replicationConfig (conf s))) \<Longrightarrow>
     guarded E s0 F c (s\<lparr>replicationCh := ch\<rparr>)"
  by (clarsimp simp: guard_defs)

lemma keeps_replyError [node_keeps]:
  "envLaws E \<Longrightarrow> keeps (guarded E s0 F c) (replyError E lr st msg)"
  unfolding replyError_def by (rule keeps_sendLedgerReplicationResponse)

lemma keeps_handleLedgerReplicationRequest [node_keeps]:
  assumes "envLaws E"
  shows "keeps (guarded E s0 F c) (handleLedgerReplicationRequest E (Some lr))"
proof -
  have enqueue: "keeps (guarded E s0 F c)
      (andThen (gets (\<lambda>s. length (replicationCh s) < unat (maxWorkers (replicationConfig (conf s))))) (\<lambda>room.
        if room then modify (\<lambda>s. s\<lparr>replicationCh := replicationCh s @ [lr]\<rparr>)
        else replyError E lr replBusy ''Too many concurrent replication requests''))" for lr
    by (rule keepsI) (auto simp: wp_andThen wp_gets wp_modify intro!: guarded_channel keepsD [OF keeps_replyError] assms)
  show ?thesis
    unfolding handleLedgerReplicationRequest_def
    by ((rule enqueue | rule keeps_rules | rule node_keeps | rule assms)+)
qed

lemma keeps_fetchLoop [node_keeps]:
  "keeps (guarded E s0 F c) (fetchLoop E maxReturn endNr bs cnt first lst it)"
proof (induction it arbitrary: bs cnt first lst)
  case Nil
  show ?case by (simp add: keeps_ret)
next
  case (Cons e it)
  show ?case
    by (cases e, simp only: fetchLoop.simps Let_def) (intro keeps_rules node_keeps Cons.IH)
qed

lemma keeps_processReplicationRequest [node_keeps]:
  assumes "envLaws E"
  shows "keeps (guarded E s0 F c) (processReplicationRequest E lr)"
proof (rule keepsI)
  fix s
  assume g: "guarded E s0 F c s"
  then have "unat (maxReturnBlocks (replicationConfig (conf s))) \<le> maxSliceCap"
    by (simp add: guarded_def nodeInv_def)
  then have room: "\<not> unat (maxReturnBlocks (replicationConfig (conf s))) > maxSliceCap" by simp
  show "wp False (processReplicationRequest E lr) (\<lambda>_. guarded E s0 F c) (\<lambda>_. guarded E s0 F c) s"
    unfolding processReplicationRequest_def wp_andThen [of _ "gets (\<lambda>s. maxReturnBlocks (replicationConfig (conf s)))"] wp_gets if_not_P [OF room]
    by (rule keepsD [where J = "guarded E s0 F c", OF _ g])
      (auto intro!: keeps_rules node_keeps assms split: option.splits prod.splits)
qed

lemma keeps_retryLastProposal [node_keeps]:
  "envLaws E \<Longrightarrow> keeps (guarded E s0 (\<lambda>_ _. True) c) (retryLastProposal E)"
  unfolding retryLastProposal_def by (intro keeps_rules node_keeps)

lemma lrrIsValid_Some: "lrrIsValid p = None \<Longrightarrow> \<exists>lr. p = Some lr"
  by (cases p) (auto simp: lrrIsValid_def)

lemma keeps_handleLedgerReplicationResponse [node_keeps]:
  assumes laws: "envLaws E"
  shows "keeps (guarded E s0 (\<lambda>_ _. True) c) (handleLedgerReplicationResponse E p)"
proof -
  let ?g = "\<lambda>c. guarded E s0 (\<lambda>_ _. True) c"
  have recover: "keeps (?g True) (if lrrStatus lr \<noteq> replOk then
       andThen (gets (isRecoveryComplete E)) (\<lambda>complete.
       andSeq (if complete then stopRecovery else ret ())
       (fail (Errorf ''received error response, status=%s, message=%s'')))
     else andThen (gets (\<lambda>s. getRoundNumber (extOps E) (nodeCommittedUC s))) (\<lambda>lastCommitted.
     if lrrFirstBlockNumber lr \<le> lastCommitted then ret ()
     else
       andSeq (forEach (case lrrBlocks lr of None \<Rightarrow> [] | Some bs \<Rightarrow> bs) (handleBlock E))
       (andThen (gets (isRecoveryComplete E)) (\<lambda>complete.
       if \<not> complete then sendLedgerReplicationRequest E
       else andSeq stopRecovery (andSeq (startNewRound E) (retryLastProposal E))))))" (is "keeps _ (?m lr)") for lr
    by (intro keeps_rules node_keeps keeps_handleBlock laws)
  have resp: "keeps (?g c) (andThen (gets status) (\<lambda>st. if st \<noteq> recovering then ret () else ?m lr))" for lr
  proof (rule keepsI)
    fix s
    assume g: "?g c s"
    have "wp False (?m lr) (\<lambda>_. ?g c) (\<lambda>_. ?g c) s" if "status s = recovering"
      by (rule wp_mono [OF keepsD [OF recover, of s]]) (use g that in \<open>auto simp: guarded_def\<close>)
    with g show "wp False (andThen (gets status) (\<lambda>st. if st \<noteq> recovering then ret () else ?m lr))
        (\<lambda>_. ?g c) (\<lambda>_. ?g c) s"
      unfolding wp_andThen [of _ "gets status"] wp_gets
      by (cases "status s = recovering"; simp only: simp_thms if_True if_False wp_ret)
  qed
  show ?thesis
    unfolding handleLedgerReplicationResponse_def
    by (rule keeps_deref_valid, erule lrrIsValid_Some, rule resp)
qed

section \<open>Dispatch and periodic work\<close>

lemma keeps_handleMessage:
  "envLaws E \<Longrightarrow> keeps (guarded E s0 (\<lambda>_ _. True) c) (handleMessage E msg)"
  unfolding handleMessage_def
  by (cases msg; rename_tac m; case_tac m; simp) (intro keeps_rules node_keeps; assumption)+

lemma keeps_handleMonitoring:
  "envLaws E \<Longrightarrow> keeps (guarded E s0 F c) (handleMonitoring E lastUC)"
  unfolding handleMonitoring_def by (intro keeps_rules node_keeps)

section \<open>Code without an error return\<close>

text \<open>
  The handlers of the timer, of an epoch change and of the ticker have no error result in the code:
  they log and continue.
\<close>

definition noFail :: "('s, 'a) comp \<Rightarrow> bool" where
  "noFail m \<longleftrightarrow> (\<forall>s e t. m s \<noteq> (Fail e, t))"

named_theorems noFail_rules \<open>composition of code without an error return\<close>

lemma noFail_basic [noFail_rules]:
  "noFail (ret x)" "noFail (gets f)" "noFail (modify h)" "noFail (deref p)" "noFail (attempt m)" "noFail (draw g)"
  by (auto simp: noFail_def comp_defs draw_def split: option.splits prod.splits outcome.splits)

lemma noFail_andThen [noFail_rules]: "noFail m \<Longrightarrow> (\<And>x. noFail (f x)) \<Longrightarrow> noFail (andThen m f)"
  by (auto simp: noFail_def andThen_def split: prod.splits outcome.splits)

lemma noFail_andSeq [noFail_rules]: "noFail m \<Longrightarrow> noFail k \<Longrightarrow> noFail (andSeq m k)"
  unfolding andSeq_def by (rule noFail_andThen)

lemma noFail_if [noFail_rules]: "noFail m \<Longrightarrow> noFail k \<Longrightarrow> noFail (if b then m else k)"
  by simp

lemma noFail_cases [noFail_rules]:
  "noFail m \<Longrightarrow> (\<And>v. noFail (g v)) \<Longrightarrow> noFail (case p of None \<Rightarrow> m | Some v \<Rightarrow> g v)"
  "(\<And>e. noFail (f e)) \<Longrightarrow> (\<And>v. noFail (h v)) \<Longrightarrow> noFail (case r of Inl e \<Rightarrow> f e | Inr v \<Rightarrow> h v)"
  by (simp_all split: option.splits sum.splits)

lemma noFail_onNode [noFail_rules]: "noFail m \<Longrightarrow> noFail (onNode m)"
  by (auto simp: noFail_def onNode_def zoom_def split: prod.splits)

lemma noFail_wp: "noFail m \<Longrightarrow> wp False m Q E s \<Longrightarrow> \<exists>x t. m s = (Ok x, t) \<and> Q x t"
  unfolding noFail_def wp_def by (cases "m s"; cases "fst (m s)") auto

lemma noFail_trySendLoop [noFail_rules]: "noFail (trySendLoop E req ps)"
  by (induction ps) (simp_all only: trySendLoop.simps, (intro noFail_rules; assumption)+)

lemma noFail_revertState [noFail_rules]: "noFail revertState"
  unfolding revertState_def by (intro noFail_rules)

lemma noFail_currentEpoch [noFail_rules]: "noFail currentEpoch"
  unfolding currentEpoch_def by (intro noFail_rules)

lemma noFail_sending [noFail_rules]:
  "noFail (sendLedgerReplicationRequest E)" "noFail (sendHandshake E)"
  unfolding sendLedgerReplicationRequest_def sendHandshake_def by (intro noFail_rules)+

lemma noFail_handlers [noFail_rules]:
  "noFail (handleT1TimeoutEvent E)" "noFail (handleEpochChangeEvent E)" "noFail (handleMonitoring E lu)"
  unfolding handleT1TimeoutEvent_def handleEpochChangeEvent_def handleMonitoring_def
  by (intro noFail_rules)+

lemma noFail_loopStep: "noFail (loopStep E ev)"
  unfolding loopStep_def by (cases ev; simp only: loopEvent.case) (intro noFail_rules)+

section \<open>The running node\<close>

text \<open>What every step of the node guarantees, an epoch change included.\<close>

definition chainRel :: "('b, 'c) nodeEnv \<Rightarrow> ('b, 'c) node \<Rightarrow> ('b, 'c) node \<Rightarrow> bool" where
  "chainRel E s t \<longleftrightarrow> conf t = conf s \<and> selfID t = selfID s \<and> fuc t = fuc s \<and>
     (status s \<noteq> initializing \<longrightarrow> status t \<noteq> initializing) \<and>
     (commitStep E (conf s) (shardConf s))\<^sup>*\<^sup>* (nodeCommittedUC s) (nodeCommittedUC t) \<and>
     lucMono E (luc s) (luc t)"

definition steady :: "('b, 'c) nodeEnv \<Rightarrow> ('b, 'c) node \<Rightarrow> ('b, 'c) node \<Rightarrow> bool" where
  "steady E s0 t \<longleftrightarrow> nodeInv E t \<and> shardConf t = shardConf s0 \<and> chainRel E s0 t"

lemma chainRel_refl: "chainRel E s s"
  by (simp add: chainRel_def)

lemma steady_start: "nodeInv E s \<Longrightarrow> steady E s s"
  by (simp add: steady_def chainRel_refl)

lemma keeps_steady:
  assumes "\<And>s1 c. keeps (guarded E s1 (\<lambda>_ _. True) c) m"
  shows "keeps (steady E s0) m"
proof (rule keepsI)
  fix t
  assume t: "steady E s0 t"
  let ?c = "status t \<noteq> initializing"
  have g: "guarded E t (\<lambda>_ _. True) ?c t" using t by (simp add: steady_def guarded_start)
  have "steady E s0 u" if "guarded E t (\<lambda>_ _. True) ?c u" for u
    using t that unfolding steady_def guarded_def nodeRel_def chainRel_def
    by (auto elim: rtranclp_trans lucMono_trans)
  then show "wp False m (\<lambda>_. steady E s0) (\<lambda>_. steady E s0) t"
    by (intro wp_mono [OF keepsD [OF assms g]]) auto
qed

lemma keeps_onNode: "keeps J m \<Longrightarrow> keeps (\<lambda>t. J (theNode t)) (onNode m)"
  by (auto simp: keeps_def onNode_def wp_zoom)

lemma nodeInv_timer: "nodeInv E s \<Longrightarrow> timerInv tm \<Longrightarrow> nodeInv E (s\<lparr>timer := tm\<rparr>)"
  by (clarsimp simp: nodeInv_def selfID_def nodeCommittedUC_def)

lemma steady_timer: "steady E s0 s \<Longrightarrow> timerInv tm \<Longrightarrow> steady E s0 (s\<lparr>timer := tm\<rparr>)"
  by (auto simp: steady_def chainRel_def selfID_def nodeCommittedUC_def intro: nodeInv_timer)

lemma steady_timerInv: "steady E s0 s \<Longrightarrow> timerInv (timer s)"
  by (simp add: steady_def nodeInv_def)

lemma steady_network:
  "steady E s0 s \<Longrightarrow> netInv (selfID s) nw \<Longrightarrow> steady E s0 (s\<lparr>network := nw\<rparr>)"
  by (clarsimp simp: steady_def chainRel_def nodeInv_def netInv_def selfID_def nodeCommittedUC_def)

lemma steady_takeMessage: "steady E s0 s \<Longrightarrow> steady E s0 (takeMessage s)"
  unfolding takeMessage_def
  by (rule steady_network) (auto simp: steady_def nodeInv_def netInv_def)

text \<open>An epoch change replaces the configuration and leaves the chain alone.\<close>

definition settled :: "('b, 'c) nodeEnv \<Rightarrow> ('b, 'c) node \<Rightarrow> ('b, 'c) node \<Rightarrow> bool" where
  "settled E s0 t \<longleftrightarrow> nodeInv E t \<and> conf t = conf s0 \<and> selfID t = selfID s0 \<and> fuc t = fuc s0 \<and>
     nodeCommittedUC t = nodeCommittedUC s0 \<and> lucMono E (luc s0) (luc t) \<and>
     (status s0 \<noteq> initializing \<longrightarrow> status t \<noteq> initializing)"

lemma settled_chain: "settled E s0 t \<Longrightarrow> nodeInv E t \<and> chainRel E s0 t"
  by (simp add: settled_def chainRel_def)

lemma keeps_settled:
  assumes "\<And>s1 c. keeps (guarded E s1 (\<lambda>_ m. m = nodeCommittedUC s0) c) m"
  shows "keeps (settled E s0) m"
proof (rule keepsI)
  fix t
  assume t: "settled E s0 t"
  let ?c = "status t \<noteq> initializing"
  have g: "guarded E t (\<lambda>_ m. m = nodeCommittedUC s0) ?c t" using t by (simp add: settled_def guarded_start)
  have "settled E s0 u" if "guarded E t (\<lambda>_ m. m = nodeCommittedUC s0) ?c u" for u
    using t that unfolding settled_def guarded_def nodeRel_def by (auto dest: lucMono_trans [of E "luc s0" "luc t"])
  then show "wp False m (\<lambda>_. settled E s0) (\<lambda>_. settled E s0) t"
    by (intro wp_mono [OF keepsD [OF assms g]]) auto
qed

lemma settled_frame:
  "settled E s0 (s\<lparr>shardConf := sc\<rparr>) = settled E s0 s"
  "settled E s0 (s\<lparr>shardConfStore := cs\<rparr>) = settled E s0 s"
  "settled E s0 (s\<lparr>epochChangeEvent := b\<rparr>) = settled E s0 s"
  by (simp_all add: settled_def nodeInv_def selfID_def nodeCommittedUC_def)

lemma settled_ensure: "settled E s0 s \<Longrightarrow> settled E s0 (ensureT1TimerState s)"
  by (auto simp: settled_def ensureT1TimerState_def selfID_def nodeCommittedUC_def nodeInv_def
      intro!: timerInv_ensure)

lemma keeps_handleEpochChangeEvent: "keeps (settled E s0) (handleEpochChangeEvent E)"
proof -
  have conf: "keeps (settled E s0) (onConf (getConf (confDb E) e))" for e
    unfolding onConf_def
    by (rule keepsI, unfold wp_zoom, rule wp_mono [OF store_source.get_spec]) (simp_all add: settled_frame)
  have set: "keeps (settled E s0) (modify (\<lambda>s. s\<lparr>shardConf := sc\<rparr>))" for sc
    by (rule keeps_modify) (simp add: settled_frame)
  show ?thesis
    unfolding handleEpochChangeEvent_def
    by (intro keeps_rules conf set keeps_settled node_keeps)
qed

lemma keeps_loop_events:
  assumes laws: "envLaws E"
  shows "keeps (steady E s0) (handleMessage E m)" "keeps (steady E s0) (handleT1TimeoutEvent E)"
    "keeps (steady E s0) (handleMonitoring E lu)" "keeps (steady E s0) (draw f)"
    "keeps (steady E s0) (modify takeMessage)"
    "keeps (steady E s0) (modify (\<lambda>n. n\<lparr>timer := takeTimerEvent (timer n)\<rparr>))"
    "keeps (steady E s0) (modify ensureT1TimerState)"
  using laws
  by (auto intro!: keeps_steady keeps_handleMessage keeps_handleT1TimeoutEvent keeps_handleMonitoring
      keeps_draw keeps_modify steady_takeMessage steady_timer timerInv_ensure
      simp: ensureT1TimerState_def takeTimerEvent_def timerInv_event dest: steady_timerInv)

lemma loopStep_wp:
  assumes laws: "envLaws E" and inv: "nodeInv E (theNode s)"
  shows "wp False (loopStep E ev)
    (\<lambda>_ t. nodeInv E (theNode t) \<and> chainRel E (theNode s) (theNode t))
    (\<lambda>_ t. nodeInv E (theNode t) \<and> chainRel E (theNode s) (theNode t)) s"
proof -
  let ?J = "\<lambda>t. steady E (theNode s) (theNode t)"
  let ?K = "\<lambda>t. settled E (theNode s) (theNode t)"
  note ev = keeps_loop_events [OF laws, THEN keeps_onNode]
  have local: "keeps ?J (modify (\<lambda>s. s\<lparr>lastUCReceived := now\<rparr>))" for now
    by (rule keeps_modify) simp
  have weak: "nodeInv E (theNode t) \<and> chainRel E (theNode s) (theNode t)" if "?J t" for t
    using that by (simp add: steady_def)
  have "keeps ?J (loopStep E ev)" if "ev \<noteq> EpochChangeEvent"
    using that unfolding loopStep_def
    by (cases ev; simp only: loopEvent.case) (intro keeps_rules ev local | simp)+
  then have others: ?thesis if "ev \<noteq> EpochChangeEvent"
    using that steady_start [OF inv] by (intro wp_mono [OF keepsD [where J = ?J]]) (auto dest: weak)
  show ?thesis
  proof (cases ev)
    case EpochChangeEvent
    have clear: "keeps ?K (onNode (modify (\<lambda>n. n\<lparr>epochChangeEvent := False\<rparr>)))"
      by (rule keeps_onNode, rule keeps_modify) (simp add: settled_frame)
    have ensure: "keeps ?K (onNode (modify ensureT1TimerState))"
      by (rule keeps_onNode, rule keeps_modify) (rule settled_ensure)
    have "keeps ?K (loopStep E ev)"
      unfolding loopStep_def EpochChangeEvent loopEvent.case
      by (intro keeps_rules clear ensure keeps_onNode [OF keeps_handleEpochChangeEvent])
    moreover have "?K s" using inv by (simp add: settled_def)
    ultimately show ?thesis by (rule wp_mono [OF keepsD]) (simp_all add: settled_chain)
  next
    case MessageEvent
    then show ?thesis by (intro others) simp
  next
    case TimerEvent
    then show ?thesis by (intro others) simp
  next
    case TickEvent
    then show ?thesis by (intro others) simp
  qed
qed

lemma loop_completes:
  assumes "envLaws E" and "nodeInv E (theNode s)"
  shows "\<exists>t. loopStep E ev s = (Ok (), t) \<and> nodeInv E (theNode t) \<and> chainRel E (theNode s) (theNode t)"
  using noFail_wp [OF noFail_loopStep loopStep_wp [OF assms]] by auto

lemma keeps_worker:
  assumes laws: "envLaws E" and inv: "nodeInv E s" and ch: "replicationCh s = lr # rest"
  shows "wp False (andSeq (modify (\<lambda>n. n\<lparr>replicationCh := rest\<rparr>)) (processReplicationRequest E lr))
    (\<lambda>_ t. nodeInv E t \<and> chainRel E s t) (\<lambda>_ t. nodeInv E t \<and> chainRel E s t) s"
proof -
  let ?g = "guarded E s (\<lambda>_ _. True) (status s \<noteq> initializing)"
  have "?g (s\<lparr>replicationCh := rest\<rparr>)"
    using inv ch by (intro guarded_channel guarded_start) (simp_all add: nodeInv_def)
  from keepsD [OF keeps_processReplicationRequest [OF laws] this] show ?thesis
    unfolding wp_andSeq wp_modify by (rule wp_mono) (auto simp: guarded_def nodeRel_def chainRel_def)
qed

lemma stream_netInv:
  assumes "netInv self n" and "streamHandler X ty dl ende bs n = (r, m)"
  shows "netInv self m"
  using assms readLoop_frame [of n X ty ende bs] by (auto simp: streamHandler_def netInv_def split: if_splits)

lemma nodeStep_inv:
  assumes "nodeStep E s t" and laws: "envLaws E" and inv: "nodeInv E (theNode s)"
  shows "nodeInv E (theNode t) \<and> chainRel E (theNode s) (theNode t)"
  using assms(1)
proof cases
  case (loop ev)
  obtain t' where "loopStep E ev s = (Ok (), t')" "nodeInv E (theNode t') \<and> chainRel E (theNode s) (theNode t')"
    using loop_completes [OF laws inv] by blast
  with loop(2) show ?thesis by simp
next
  case (worker lr rest)
  have "wp False (onNode (andSeq (modify (\<lambda>n. n\<lparr>replicationCh := rest\<rparr>)) (processReplicationRequest E lr)))
      (\<lambda>_ t. nodeInv E (theNode t) \<and> chainRel E (theNode s) (theNode t)) (\<lambda>_ _. True) s"
    unfolding onNode_def wp_zoom
    by (rule wp_mono [OF keeps_worker [OF laws inv worker(1)]]) simp_all
  then show ?thesis using worker(2) by (rule wp_Ok)
next
  case (timerGoroutine tm)
  have "timerInv tm" using timerGoroutine(2) inv by (auto simp: nodeInv_def intro: timerInv_step)
  with steady_start [OF inv] have "steady E (theNode s) ((theNode s)\<lparr>timer := tm\<rparr>)" by (rule steady_timer)
  then show ?thesis unfolding timerGoroutine(1) by (simp add: steady_def)
next
  case (stream ty dl ende bs closed nw)
  have "netInv (selfID (theNode s)) nw"
    by (rule stream_netInv [OF _ stream(2)]) (use inv in \<open>simp add: nodeInv_def\<close>)
  with steady_start [OF inv] have "steady E (theNode s) ((theNode s)\<lparr>network := nw\<rparr>)" by (rule steady_network)
  then show ?thesis unfolding stream(1) by (simp add: steady_def)
qed

section \<open>Start of a node\<close>

text \<open>
  The blocks that \<open>initState\<close> reads, the last one and the pending proposal, have a certificate with an
  input record: those are the only ones a node writes.
\<close>

definition storeComplete :: "('b, 'c) nodeEnv \<Rightarrow> 'b \<Rightarrow> bool" where
  "storeComplete E db \<longleftrightarrow>
     (\<forall>e it b u. kvLast (blockDb E) db = e # it \<and> snd e = Inr b \<and> getUCv1 (extOps E) (Some b) = Inr u \<longrightarrow>
        ucInputRecord u \<noteq> None) \<and>
     (\<forall>b u. kvRead (blockDb E) db (uint32ToBytes (extOps E) proposalKey) = Inr (Some b) \<and>
        getUCv1 (extOps E) (Some b) = Inr u \<longrightarrow> ucInputRecord u \<noteq> None)"

definition preInv :: "('b, 'c) nodeEnv \<Rightarrow> 'b \<Rightarrow> ('b, 'c) node \<Rightarrow> bool" where
  "preInv E db s \<longleftrightarrow> selfID s \<noteq> '''' \<and> leader s = '''' \<and> ltr s = None \<and> replicationCh s = [] \<and>
     fgpInv (extOps E) (transactionSystem s) \<and> netInv (selfID s) (network s) \<and>
     unat (maxReturnBlocks (replicationConfig (conf s))) \<le> maxSliceCap \<and> timer s = newRoundTimer \<and>
     blockStore s = db \<and> (\<forall>u. nodeCommittedUC s = Some u \<longrightarrow> ucInputRecord u \<noteq> None)"

lemma preInv_frame:
  "preInv E db (s\<lparr>shardConf := sc\<rparr>) = preInv E db s"
  "preInv E db (s\<lparr>shardConfStore := cs\<rparr>) = preInv E db s"
  "preInv E db (s\<lparr>calls := n\<rparr>) = preInv E db s"
  by (simp_all add: preInv_def selfID_def nodeCommittedUC_def)

lemma preInv_tx:
  "preInv E db s \<Longrightarrow> fgpInv (extOps E) x \<Longrightarrow>
     committedUC x = nodeCommittedUC s \<or> committedUC x = Some u \<and> ucInputRecord u \<noteq> None \<Longrightarrow>
     preInv E db (s\<lparr>transactionSystem := x\<rparr>)"
  by (auto simp: preInv_def selfID_def nodeCommittedUC_def)

lemma keeps_preInv:
  "keeps (preInv E db) (onConf (getConf (confDb E) e))"
  "keeps (preInv E db) (modify (\<lambda>s. s\<lparr>shardConf := sc\<rparr>))"
  "keeps (preInv E db) (draw f)"
  "keeps (preInv E db) (onTx (updateConfig (Some sc)))"
  "ucInputRecord u \<noteq> None \<Longrightarrow> keeps (preInv E db) (onTx (restoreState (extOps E) pow u))"
proof -
  show "keeps (preInv E db) (onConf (getConf (confDb E) e))"
    unfolding onConf_def
    by (rule keepsI, unfold wp_zoom, rule wp_mono [OF store_source.get_spec]) (simp_all add: preInv_frame)
  show "keeps (preInv E db) (modify (\<lambda>s. s\<lparr>shardConf := sc\<rparr>))" "keeps (preInv E db) (draw f)"
    by (simp_all add: keeps_def wp_rules preInv_frame)
  have fgp: "fgpInv (extOps E) (transactionSystem s)" if "preInv E db s" for s
    using that by (simp add: preInv_def)
  show "keeps (preInv E db) (onTx (updateConfig (Some sc)))"
  proof (rule keepsI)
    fix s
    assume s: "preInv E db s"
    have "wp False (updateConfig (Some sc)) (\<lambda>_ y. committedUC y = nodeCommittedUC s) (\<lambda>_ y. committedUC y = nodeCommittedUC s)
        (transactionSystem s)"
      by (auto simp: wp_def updateConfig_run nodeCommittedUC_def split: sum.splits)
    from wp_conj [OF keepsD [OF fgpInv_keeps(1) fgp [OF s]] this]
    show "wp False (onTx (updateConfig (Some sc))) (\<lambda>_. preInv E db) (\<lambda>_. preInv E db) s"
      unfolding onTx_def wp_zoom by (rule wp_mono) (auto intro: preInv_tx [OF s])
  qed
  assume u: "ucInputRecord u \<noteq> None"
  show "keeps (preInv E db) (onTx (restoreState (extOps E) pow u))"
  proof (rule keepsI)
    fix s
    assume s: "preInv E db s"
    have upd: "preInv E db (s\<lparr>transactionSystem := x\<rparr>)" if "fgpInv (extOps E) x" "committedUC x = Some u" for x
      using preInv_tx [OF s that(1), of u] that(2) u by simp
    from wp_conj [OF keepsD [OF fgpInv_keeps(5) fgp [OF s]] restoreState_frame]
    show "wp False (onTx (restoreState (extOps E) pow u)) (\<lambda>_. preInv E db) (\<lambda>_. preInv E db) s"
      unfolding onTx_def wp_zoom by (rule wp_mono) (auto intro!: upd simp: s)
  qed
qed

lemma preInv_start:
  assumes "preInv E db s"
  shows "nodeInv E (s\<lparr>fuc := nodeCommittedUC s, luc := nodeCommittedUC s\<rparr>)"
  using assms timerInv_new
  by (auto simp: preInv_def nodeInv_def chainStored_def selfID_def nodeCommittedUC_def)

lemma keeps_verifyPending:
  assumes "ucInputRecord u \<noteq> None"
  shows "keeps (guarded E s0 F c) (verifyPending E pr u)"
proof -
  obtain ir where ir: "ucInputRecord u = Some ir" using assms by auto
  show ?thesis unfolding verifyPending_def ir by (intro keeps_rules node_keeps)
qed

lemma restoreBlockProposal_wp:
  assumes "nodeInv E s" and st: "storeComplete E (blockStore s)"
  shows "wp False (restoreBlockProposal E) (\<lambda>_. nodeInv E) (\<lambda>_. nodeInv E) s"
proof -
  let ?g = "guarded E s (\<lambda>_ _. True) False"
  have g: "?g s" using assms(1) by (intro guarded_start) auto
  have load: "wp False (attempt (loadPendingProposal E)) (\<lambda>r t. t = s \<and>
      (\<forall>pr u. r = Inr (Some pr) \<longrightarrow> getUCv1 (extOps E) (Some pr) = Inr u \<longrightarrow> ucInputRecord u \<noteq> None))
      (\<lambda>_ _. False) s"
    using st by (auto simp: loadPendingProposal_def wp_rules storeComplete_def split: sum.splits)
  have pending: "wp False (case r of Inl e \<Rightarrow> ret () | Inr None \<Rightarrow> ret ()
      | Inr (Some pr) \<Rightarrow> (case getUCv1 (extOps E) (Some pr) of Inl e \<Rightarrow> ret ()
        | Inr uc \<Rightarrow> verifyPending E pr uc)) (\<lambda>_. ?g) (\<lambda>_. ?g) s"
    if "\<forall>pr u. r = Inr (Some pr) \<longrightarrow> getUCv1 (extOps E) (Some pr) = Inr u \<longrightarrow> ucInputRecord u \<noteq> None" for r
    using that g by (auto simp: wp_ret split: sum.splits option.splits intro!: keepsD [OF keeps_verifyPending])
  have "wp False (restoreBlockProposal E) (\<lambda>_. ?g) (\<lambda>_. ?g) s"
    unfolding restoreBlockProposal_def wp_andThen [of _ "attempt _"]
    by (rule wp_mono [OF load], elim conjE, hypsubst, erule pending) simp_all
  then show ?thesis by (rule wp_mono) (simp_all add: guarded_def)
qed

lemma initState_wp:
  assumes pre: "preInv E db s" and st: "storeComplete E db"
  shows "wp False (initState E) (\<lambda>_. nodeInv E) (\<lambda>_ _. True) s"
proof -
  let ?read = "case kvLast (blockDb E) db of [] \<Rightarrow> ret ()
     | e # _ \<Rightarrow>
       andThen (wrapErr ''failed to read latest block from db'' (liftE (snd e))) (\<lambda>b.
       andThen (wrapErr ''failed to extract UC from latest block'' (liftE (getUCv1 (extOps E) (Some b)))) (\<lambda>uc.
       andThen (wrapErr ''failed to load shard conf for epoch %d''
         (onConf (getConf (confDb E) (getShardEpoch (extOps E) (Some uc))))) (\<lambda>sc.
       andSeq (modify (\<lambda>s. s\<lparr>shardConf := sc\<rparr>))
       (andSeq (wrapErr ''failed to update transaction system config'' (onTx (updateConfig (Some sc))))
       (andThen (draw (powAt E)) (\<lambda>pow.
       wrapErr ''failed to restore transaction system state''
         (onTx (restoreState (extOps E) pow uc))))))))"
  have restore: "keeps (preInv E db) (andThen (wrapErr ''failed to load shard conf for epoch %d''
       (onConf (getConf (confDb E) (getShardEpoch (extOps E) (Some uc))))) (\<lambda>sc.
     andSeq (modify (\<lambda>s. s\<lparr>shardConf := sc\<rparr>))
     (andSeq (wrapErr ''failed to update transaction system config'' (onTx (updateConfig (Some sc))))
     (andThen (draw (powAt E)) (\<lambda>pow.
     wrapErr ''failed to restore transaction system state''
       (onTx (restoreState (extOps E) pow uc)))))))" if "ucInputRecord uc \<noteq> None" for uc
    by (intro keeps_rules keeps_preInv that)
  have read: "wp False ?read (\<lambda>_. preInv E db) (\<lambda>_. preInv E db) s"
  proof (cases "kvLast (blockDb E) db")
    case (Cons e it)
    have complete: "ucInputRecord u \<noteq> None" if "snd e = Inr b" "getUCv1 (extOps E) (Some b) = Inr u" for b u
      using st Cons that unfolding storeComplete_def by blast
    show ?thesis
      unfolding Cons list.case wp_andThen [of _ "wrapErr ''failed to read latest block from db'' _"]
        wp_andThen [of _ "wrapErr ''failed to extract UC from latest block'' _"] wp_wrapErr wp_liftE
      using pre complete by (auto split: sum.splits intro!: keepsD [OF restore])
  qed (use pre in \<open>simp add: wp_ret\<close>)
  have blocks: "blockStore t = db" if "preInv E db t" for t using that by (simp add: preInv_def)
  have rest: "wp False (andSeq (modify (\<lambda>s. s\<lparr>fuc := nodeCommittedUC s\<rparr>))
     (andSeq (modify (\<lambda>s. s\<lparr>luc := fuc s\<rparr>)) (restoreBlockProposal E))) (\<lambda>_. nodeInv E) (\<lambda>_ _. True) t"
    if t: "preInv E db t" for t
    unfolding wp_andSeq wp_modify
    by (rule wp_mono [OF restoreBlockProposal_wp]) (use preInv_start [OF t] blocks [OF t] st in simp_all)
  show ?thesis
    unfolding initState_def wp_andThen [of _ "gets _"] wp_gets blocks [OF pre] wp_andSeq [of _ ?read]
    by (rule wp_mono [OF read]) (simp_all only: rest simp_thms)
qed

text \<open>What \<open>NewNode\<close> needs of its arguments: a fresh transaction system and a network with an identity.\<close>

definition startable ::
  "('b, 'c) nodeEnv \<Rightarrow> nodeConf \<Rightarrow> fgpTxSystem \<Rightarrow> 'b \<Rightarrow> libP2PNetwork \<Rightarrow> bool" where
  "startable E cf txs db nw \<longleftrightarrow> fgpInv (extOps E) txs \<and> committedUC txs = None \<and>
     netSelf nw \<noteq> '''' \<and> length (receivedMsgs nw) \<le> receivedCap nw \<and>
     unat (maxReturnBlocks (replicationConfig cf)) \<le> maxSliceCap \<and> storeComplete E db"

lemma newNode_inv:
  assumes "startable E cf txs db nw" and "newNode E cf txs db cs nw = Ok n"
  shows "nodeInv E n"
proof -
  obtain sc cs' where first: "getFirst (confDb E) cs = (Ok sc, cs')"
    using assms(2) by (auto simp: newNode_def split: prod.splits outcome.splits)
  let ?s = "\<lparr>status = initializing, fuc = None, luc = None, ltr = None, leader = '''',
      pendingBlockProposal = None, recoveryLastProp = None, conf = cf,
      transactionSystem = txs, lastLedgerReqTime = zeroTime, replicationCh = [], blockStore = db,
      shardConfStore = cs', network = nw, timer = newRoundTimer, epochChangeEvent = False,
      shardConf = sc, calls = 0\<rparr>"
  have run: "initState E ?s = (Ok (), n)"
    using assms(2) by (auto simp: newNode_def first split: prod.splits outcome.splits)
  have "preInv E db ?s"
    using assms(1) by (simp add: startable_def preInv_def selfID_def nodeCommittedUC_def netInv_def)
  then show ?thesis
    using assms(1) by (intro wp_Ok [OF initState_wp run]) (auto simp: startable_def)
qed

lemma keeps_nodeRun: "envLaws E \<Longrightarrow> keeps (guarded E s0 F c) (nodeRun E)"
  unfolding nodeRun_def registerValidatorProtocols_def
  by (intro keeps_rules node_keeps keeps_onNet keeps_registerReceiveProtocols)

lemma nodeRun_inv:
  assumes "envLaws E" and "nodeInv E n" and "nodeRun E n = (Ok (), m)"
  shows "nodeInv E m"
proof -
  have "guarded E n anyFact False n" using assms(2) by (rule guarded_start) simp_all
  from wp_Ok [OF keepsD [OF keeps_nodeRun [OF assms(1)] this] assms(3)] show ?thesis
    by (simp add: guarded_def)
qed

text \<open>The states of a running node: those after \<open>NewNode\<close> and the beginning of \<open>Run\<close>, with any times recorded so far.\<close>

inductive nodeReach :: "('b, 'c) nodeEnv \<Rightarrow> ('b, 'c) loopState \<Rightarrow> bool"
  for E :: "('b, 'c) nodeEnv" where
  start: "startable E cf txs db nw \<Longrightarrow> newNode E cf txs db cs nw = Ok n \<Longrightarrow>
     nodeRun E n = (Ok (), theNode s) \<Longrightarrow> nodeReach E s"
| step: "nodeReach E s \<Longrightarrow> nodeStep E s t \<Longrightarrow> nodeReach E t"

lemma nodeReach_inv: "nodeReach E s \<Longrightarrow> envLaws E \<Longrightarrow> nodeInv E (theNode s)"
proof (induction rule: nodeReach.induct)
  case (start cf txs db nw cs n s)
  show ?case
    by (rule nodeRun_inv [OF start.prems newNode_inv [OF start.hyps(1,2)] start.hyps(3)])
next
  case (step s t)
  then show ?case by (blast dest: nodeStep_inv)
qed

end
