(* ===== verification/NodeSamples.thy ===== *)
theory NodeSamples
  imports LoopSafety Samples "HOL-Library.RBT" "HOL-Library.List_Lexorder"
begin

text \<open>
  A concrete environment for the witnesses of the node: databases kept in search trees, which satisfy
  the documented behaviour of the key-value store, and the sample external operations. Nothing here
  models a source file.
\<close>

section \<open>A key-value store\<close>

definition treeDb :: "((dbkey, 'v) rbt, 'v) kvdb" where
  "treeDb = \<lparr>kvRead = (\<lambda>d k. Inr (RBT.lookup d k)),
     kvWrite = (\<lambda>k v. modify (RBT.insert k v)),
     kvDelete = (\<lambda>k. modify (RBT.delete k)),
     kvFirst = (\<lambda>d. map (\<lambda>(k, v). (k, Inr v)) (RBT.entries d)),
     kvLast = (\<lambda>d. if RBT.entries d = [] then [] else [map_prod id Inr (last (RBT.entries d))]),
     kvFind = (\<lambda>d k. filter (\<lambda>e. \<not> keyLess (fst e) k) (map (\<lambda>(k, v). (k, Inr v)) (RBT.entries d)))\<rparr>"

lemma keyLess_less: "keyLess a b \<longleftrightarrow> a < b"
  by (induction a b rule: keyLess.induct) (auto simp: list_less_def)

lemma treeDb_write: "kvWriteLaw treeDb" and treeDb_delete: "kvDeleteLaw treeDb"
  by (auto simp: kvWriteLaw_def kvDeleteLaw_def treeDb_def wp_rules)

lemma treeDb_iter: "kvIterLaw (treeDb :: ((dbkey, 'v) rbt, 'v) kvdb)"
proof -
  have sorted: "sorted_wrt (\<lambda>a b. keyLess (fst a) (fst b)) (map (\<lambda>(k, v). (k, Inr v)) (RBT.entries d))"
    for d :: "(dbkey, 'v) rbt"
    using strict_sorted_iff [THEN iffD2, OF conjI [OF RBT.sorted_entries [of d] RBT.distinct_entries [of d]]]
    by (simp add: sorted_wrt_map keyLess_less case_prod_beta)
  have mem: "(k, r) \<in> set (map (\<lambda>(k, v). (k, Inr v)) (RBT.entries d)) \<longleftrightarrow> map_sum id Some r = Inr (RBT.lookup d k)"
    for d :: "(dbkey, 'v) rbt" and k and r :: "goerror + 'v"
  proof -
    have "map_sum id Some r = Inr (RBT.lookup d k) \<longleftrightarrow> (\<exists>v. r = Inr v \<and> (k, v) \<in> set (RBT.entries d))"
      by (cases r) (auto simp: RBT.lookup_in_tree [symmetric])
    then show ?thesis by auto
  qed
  show ?thesis
    unfolding kvIterLaw_def using sorted mem
    by (intro allI conjI) (simp_all add: treeDb_def last_map case_prod_beta map_prod_def)
qed

section \<open>The environment\<close>

definition sampleTB :: trustBase where
  "sampleTB = \<lparr>tbEpoch = 1, tbRootNodes = [\<lparr>niNodeID = ''r'', niSigKey = Some [1]\<rparr>]\<rparr>"

type_synonym sampleStore = "(dbkey, block) rbt"
type_synonym sampleConfs = "(dbkey, shardConfRecord) rbt"

definition sampleEnv :: "(sampleStore, sampleConfs) nodeEnv" where
  "sampleEnv = \<lparr>extOps = sampleNetExt, blockDb = treeDb, confDb = treeDb,
     trustBaseByEpoch = (\<lambda>e. Inr sampleTB), powAt = (\<lambda>_. sampleClient), shuffleAt = (\<lambda>_ xs. xs),
     randAt = (\<lambda>_ _. 0), uuidAt = (\<lambda>_. []), nowAt = int, ctxDoneAt = (\<lambda>_. False)\<rparr>"

lemma sampleNetExt_fields:
  "getRoundNumber sampleNetExt = getRoundNumber sampleExt" "getRootRoundNumber sampleNetExt = getRootRoundNumber sampleExt"
  "getShardEpoch sampleNetExt = getShardEpoch sampleExt" "getStateHash sampleNetExt = getStateHash sampleExt"
  "getPreviousStateHash sampleNetExt = getPreviousStateHash sampleExt" "getBlockHash sampleNetExt = getBlockHash sampleExt"
  "getETHash sampleNetExt = getETHash sampleExt" "ucVerify sampleNetExt = ucVerify sampleExt"
  "checkNonEquivocatingCertificates sampleNetExt = checkNonEquivocatingCertificates sampleExt"
  "isSuccessor sampleNetExt = isSuccessor sampleExt" "blockIsValid sampleNetExt = blockIsValid sampleExt"
  "calculateBlockHash sampleNetExt = calculateBlockHash sampleExt" "marshalUC sampleNetExt = marshalUC sampleExt"
  "unmarshalUC sampleNetExt = unmarshalUC sampleExt" "uint64ToBytes sampleNetExt = uint64ToBytes sampleExt"
  "uint32ToBytes sampleNetExt = uint32ToBytes sampleExt" "bytesToUint64 sampleNetExt = bytesToUint64 sampleExt"
  by (simp_all add: sampleNetExt_def ext.defs)

lemma sampleNetExt_laws:
  "gettersLaw sampleNetExt" "verifyLaw sampleNetExt" "nonEquivocationLaw sampleNetExt" "successorLaw sampleNetExt"
  "blockLaw sampleNetExt" "ucCodecLaw sampleNetExt" "keyLaw sampleNetExt"
  using sampleExt_laws sampleExt_keys unfolding extLaws sampleNetExt_fields by blast+

lemma sampleNetExt_size: "sizeLaw sampleNetExt"
  by (auto simp: sizeLaw_def sampleNetExt_def ext.defs split: if_splits)

lemma sampleEnv_laws: "envLaws sampleEnv"
  using sampleNetExt_laws sampleNetExt_size treeDb_write treeDb_delete by (simp add: envLaws_def sampleEnv_def)

definition sampleNodeConf :: nodeConf where
  "sampleNodeConf = \<lparr>signerOf = Some [7], hashAlgorithm = SHA256, t1Timeout = 750000000,
     replicationConfig = \<lparr>maxFetchBlocks = 1000, maxReturnBlocks = 1000, maxWorkers = 2, replTimeout = 1500000000\<rparr>\<rparr>"

definition sampleNet :: libP2PNetwork where
  "sampleNet = \<lparr>netSelf = ''n'', sendProtocols = (\<lambda>_. None), receivedMsgs = [], receivedCap = 10,
     muxHandlers = [], spawned = []\<rparr>"

lemma entries_empty [simp]: "RBT.entries (RBT.empty :: ('k :: linorder, 'v) rbt) = []"
proof -
  have "(k, v) \<notin> set (RBT.entries (RBT.empty :: ('k, 'v) rbt))" for k v
    by (simp add: RBT.lookup_in_tree [symmetric])
  then have "set (RBT.entries (RBT.empty :: ('k, 'v) rbt)) = {}" by (metis equals0I surj_pair)
  then show ?thesis by simp
qed

lemma entries_single: "RBT.entries (RBT.insert k v RBT.empty) = [(k, v)]" (is "?es = _")
proof -
  have set: "set ?es = {(k, v)}"
    by (auto simp: RBT.lookup_in_tree [symmetric] split: if_splits)
  have "distinct (map fst ?es)" by (rule RBT.distinct_entries)
  then have "distinct ?es" by (simp add: distinct_map)
  then have "length ?es = 1" using distinct_card [of ?es] set by simp
  then obtain x where "?es = [x]" by (cases ?es) auto
  with set show ?thesis by simp
qed

definition sampleConfStore :: "sampleConfs shardConfStore" where
  "sampleConfStore = \<lparr>scDb = RBT.insert (epochToKey 0) sampleConf RBT.empty, scCache = (\<lambda>_. None)\<rparr>"

definition sampleNode :: "(sampleStore, sampleConfs) node" where
  "sampleNode = \<lparr>status = initializing, fuc = None, luc = None, ltr = None, leader = '''',
      pendingBlockProposal = None, recoveryLastProp = None, conf = sampleNodeConf,
      transactionSystem = sampleFgp, lastLedgerReqTime = zeroTime, replicationCh = [], blockStore = RBT.empty,
      shardConfStore = sampleConfStore\<lparr>scCache := [0 \<mapsto> sampleConf]\<rparr>, network = sampleNet, timer = newRoundTimer,
      epochChangeEvent = False, shardConf = sampleConf, calls = 0\<rparr>"

lemma sample_startable: "startable sampleEnv sampleNodeConf sampleFgp RBT.empty sampleNet"
  by (simp add: startable_def storeComplete_def sampleEnv_def treeDb_def sampleNodeConf_def sampleNet_def
      sampleFgp_def fgpInv_def maxSliceCap_def)

lemma sample_getFirst: "getFirst (confDb sampleEnv) sampleConfStore =
    (Ok sampleConf, sampleConfStore\<lparr>scCache := [0 \<mapsto> sampleConf]\<rparr>)"
  by (simp add: getFirst_def getConf_def loadConf_def sampleEnv_def treeDb_def sampleConfStore_def entries_single
      comp_defs epochToKey_def uint64BE_put)

lemma sample_newNode:
  "newNode sampleEnv sampleNodeConf sampleFgp RBT.empty sampleConfStore sampleNet = Ok sampleNode"
  unfolding newNode_def sample_getFirst
  by (simp add: initState_def restoreBlockProposal_def loadPendingProposal_def sampleEnv_def treeDb_def comp_defs
      sampleNode_def nodeCommittedUC_def sampleFgp_def)

definition sampleLoop :: "(sampleStore, sampleConfs) loopState" where
  "sampleLoop = \<lparr>theNode = snd (nodeRun sampleEnv sampleNode), lastUCReceived = 0, lastBlockReceived = 0\<rparr>"

lemma sample_nodeRun: "fst (nodeRun sampleEnv sampleNode) = Ok ()"
  by code_simp

lemma sample_reach: "nodeReach sampleEnv sampleLoop"
  by (rule nodeReach.start [OF sample_startable sample_newNode])
    (simp add: sampleLoop_def prod_eq_iff sample_nodeRun)

section \<open>A run through recovery\<close>

text \<open>
  A node that starts with two messages in its queue: the certificate of round 1, for which it has no
  block and so starts recovery, and the replication response that brings the block.
\<close>

definition sampleU1 :: unicityCertificate where
  "sampleU1 = sampleUC 1 1 (Some []) (Some [10, 5])"

definition sampleB1 :: block where
  "sampleB1 = \<lparr>blkHeader = Some \<lparr>hdrVersion = 1, hdrPartitionID = 3, hdrShardID = ShardID [],
       hdrProposerID = ''v'', hdrPreviousBlockHash = None\<rparr>,
     blkUnicityCertificate = Some [1, 1, 0, 10, 5], blkTransactions = None\<rparr>"

definition sampleCR :: certificationResponse where
  "sampleCR = \<lparr>crPartition = 3, crShard = ShardID [], crTechnical = sampleTR 2 ''n'', crUC = sampleU1\<rparr>"

definition sampleRR :: ledgerReplicationResponse where
  "sampleRR = \<lparr>lrrUUID = [], lrrStatus = replOk, lrrMessage = '''', lrrBlocks = Some [Some sampleB1],
     lrrFirstBlockNumber = 1, lrrLastBlockNumber = 1\<rparr>"

definition sampleQueue :: libP2PNetwork where
  "sampleQueue = sampleNet\<lparr>receivedMsgs :=
     [ByPointer (CertificationResponseMsg sampleCR), ByPointer (ReplicationResponseMsg sampleRR)]\<rparr>"

definition sampleLoop1 :: "(sampleStore, sampleConfs) loopState" where
  "sampleLoop1 = sampleLoop\<lparr>theNode := snd (nodeRun sampleEnv (sampleNode\<lparr>network := sampleQueue\<rparr>))\<rparr>"

lemma sample_nodeRun1: "fst (nodeRun sampleEnv (sampleNode\<lparr>network := sampleQueue\<rparr>)) = Ok () \<and> ready MessageEvent sampleLoop1 \<and>
    selfID (theNode sampleLoop1) = ''n''"
  by code_simp

definition sampleLoop2 :: "(sampleStore, sampleConfs) loopState" where
  "sampleLoop2 = snd (loopStep sampleEnv MessageEvent sampleLoop1)"

definition sampleLoop3 :: "(sampleStore, sampleConfs) loopState" where
  "sampleLoop3 = snd (loopStep sampleEnv MessageEvent sampleLoop2)"

lemma reach_loop:
  assumes "envLaws E" and "nodeReach E s" and "ready ev s"
  shows "loopStep E ev s = (Ok (), snd (loopStep E ev s))" and "nodeStep E s (snd (loopStep E ev s))"
    and "nodeReach E (snd (loopStep E ev s))"
proof -
  show run: "loopStep E ev s = (Ok (), snd (loopStep E ev s))"
    using loop_completes [OF assms(1) nodeReach_inv [OF assms(2,1)], of ev] by auto
  show "nodeStep E s (snd (loopStep E ev s))" using assms(3) run by (rule nodeStep.loop)
  with assms(2) show "nodeReach E (snd (loopStep E ev s))" by (rule nodeReach.step)
qed

lemma sample_reach1: "nodeReach sampleEnv sampleLoop1"
proof -
  have "startable sampleEnv sampleNodeConf sampleFgp RBT.empty sampleQueue"
    using sample_startable by (simp add: startable_def sampleQueue_def sampleNet_def)
  moreover have "newNode sampleEnv sampleNodeConf sampleFgp RBT.empty sampleConfStore sampleQueue
      = Ok (sampleNode\<lparr>network := sampleQueue\<rparr>)"
    unfolding newNode_def sample_getFirst
    by (simp add: initState_def restoreBlockProposal_def loadPendingProposal_def sampleEnv_def treeDb_def comp_defs
        sampleNode_def nodeCommittedUC_def sampleFgp_def)
  ultimately show ?thesis
    by (rule nodeReach.start) (simp add: sampleLoop1_def prod_eq_iff sample_nodeRun1)
qed

lemma sample_run:
  "let s2 = sampleLoop2; n2 = theNode s2; n3 = theNode (snd (loopStep sampleEnv MessageEvent s2)) in
   ready MessageEvent s2 \<and> luc n2 = Some sampleU1 \<and> status n2 = recovering \<and> nodeCommittedUC n2 = None \<and>
   fuc n3 = None \<and> nodeCommittedUC n3 = Some sampleU1 \<and> luc n3 = Some sampleU1 \<and> status n3 = normal \<and>
   leader n3 = ''n'' \<and> ltr n3 \<noteq> None"
  by code_simp

lemma sample_run1:
  "ready MessageEvent sampleLoop1" "ready MessageEvent sampleLoop2"
  "luc (theNode sampleLoop2) = Some sampleU1" "status (theNode sampleLoop2) = recovering"
  "nodeCommittedUC (theNode sampleLoop2) = None"
  using sample_run sample_nodeRun1 by (simp_all add: Let_def)

lemma sample_run2:
  "fuc (theNode sampleLoop3) = None" "nodeCommittedUC (theNode sampleLoop3) = Some sampleU1"
  "luc (theNode sampleLoop3) = Some sampleU1" "status (theNode sampleLoop3) = normal"
  "leader (theNode sampleLoop3) = ''n''" "ltr (theNode sampleLoop3) \<noteq> None"
  using sample_run by (simp_all add: Let_def sampleLoop3_def)

lemmas sample_reach2 = reach_loop [OF sampleEnv_laws sample_reach1 sample_run1(1), folded sampleLoop2_def]
lemmas sample_reach3 = reach_loop [OF sampleEnv_laws sample_reach2(3) sample_run1(2), folded sampleLoop3_def]

section \<open>States for the handlers\<close>

lemma sample_certOk: "ucInputRecord u \<noteq> None \<Longrightarrow> ucUnicitySeal u \<noteq> None \<Longrightarrow> certOk sampleEnv cf sc u"
  by (auto simp: certOk_def sampleEnv_def ucValidate_def sampleNetExt_fields sampleExt_def sampleNetExt_def ext.defs)

text \<open>A running node, optionally with a latest certificate, a pending block and a pending state.\<close>

definition sampleRunning ::
  "unicityCertificate option \<Rightarrow> block option \<Rightarrow> slice \<Rightarrow> (sampleStore, sampleConfs) node" where
  "sampleRunning l b h = sampleNode\<lparr>status := normal, luc := l, pendingBlockProposal := b,
     transactionSystem := sampleFgp\<lparr>pendingStateHash := h\<rparr>\<rparr>"

lemma sampleRunning_inv:
  assumes "\<And>u. l = Some u \<Longrightarrow> ucInputRecord u \<noteq> None"
  shows "nodeInv sampleEnv (sampleRunning l b h)"
proof -
  have "nodeInv sampleEnv sampleNode" using sample_startable sample_newNode by (rule newNode_inv)
  then show ?thesis
    using assms by (auto simp: nodeInv_def sampleRunning_def sampleNode_def selfID_def nodeCommittedUC_def sampleFgp_def fgpInv_def)
qed

lemma sampleRunning_fields [simp]:
  "status (sampleRunning l b h) = normal" "luc (sampleRunning l b h) = l" "ltr (sampleRunning l b h) = None"
  "pendingBlockProposal (sampleRunning l b h) = b" "nodeCommittedUC (sampleRunning l b h) = None"
  "pendingStateHash (transactionSystem (sampleRunning l b h)) = h" "blockStore (sampleRunning l b h) = RBT.empty"
  by (simp_all add: sampleRunning_def sampleNode_def nodeCommittedUC_def sampleFgp_def)

text \<open>The external operations on the sample certificates.\<close>

lemmas sample_ops = sampleEnv_def sampleNetExt_def ext.defs sampleExt_def irField_def sealField_def
  sampleU1_def sampleUC_def sampleIR_def

end
