(* ===== verification/NodeProperties.thy ===== *)
theory NodeProperties
  imports NodeSamples
begin

text \<open>
  Properties of the running node: no reachable state makes an iteration of the main loop panic or
  fail, the certified chain only grows by validated successors, the latest certificate never goes
  back, and every block of the chain since the start is in the store.
\<close>

section \<open>Runs\<close>

lemma nodeReach_run: "(nodeStep E)\<^sup>*\<^sup>* s t \<Longrightarrow> nodeReach E s \<Longrightarrow> nodeReach E t"
  by (induction rule: rtranclp_induct) (auto intro: nodeReach.step)

lemma run_chain:
  assumes laws: "envLaws E" and "nodeReach E s" and "(nodeStep E)\<^sup>*\<^sup>* s t"
  shows "lucMono E (luc (theNode s)) (luc (theNode t)) \<and>
    (status (theNode s) \<noteq> initializing \<longrightarrow> status (theNode t) \<noteq> initializing) \<and>
    fuc (theNode t) = fuc (theNode s)"
  using assms(3)
proof (induction rule: rtranclp_induct)
  case base
  show ?case by simp
next
  case (step t u)
  have "nodeReach E t" using step.hyps(1) assms(2) by (rule nodeReach_run)
  from nodeStep_inv [OF step.hyps(2) laws nodeReach_inv [OF this laws]]
  have "chainRel E (theNode t) (theNode u)" by simp
  with step.IH show ?case unfolding chainRel_def by (auto dest: lucMono_trans)
qed

section \<open>Safety of the running node\<close>

text \<open>
  C5: In every reachable state and for every ready event, whatever message arrived, an iteration of
  the main loop runs to its end: no handler panics, no error escapes, and the state is reachable
  again.
\<close>

theorem loop_iteration_total:
  assumes "envLaws E" and "nodeReach E s" and "ready ev s"
  shows "\<exists>t. loopStep E ev s = (Ok (), t) \<and> nodeReach E t"
proof -
  obtain t where t: "loopStep E ev s = (Ok (), t)"
    using loop_completes [OF assms(1) nodeReach_inv [OF assms(2,1)]] by blast
  moreover have "nodeReach E t"
    using assms(2) nodeStep.loop [OF assms(3) t] by (rule nodeReach.step)
  ultimately show ?thesis by blast
qed

theorem loop_iteration_total_witness:
  "\<exists>t. loopStep sampleEnv TickEvent sampleLoop = (Ok (), t) \<and> nodeReach sampleEnv t"
  using loop_iteration_total [OF sampleEnv_laws sample_reach, of TickEvent] by (simp add: ready_def)

text \<open>
  C6: In a step of a reachable node the committed certificate changes only along links
  from a certificate to a successor that the trust base and the shard configuration of the node
  validate.
\<close>

theorem commits_validated_successors:
  assumes "envLaws E" and "nodeReach E s" and "nodeStep E s t"
  shows "(commitStep E (conf (theNode s)) (shardConf (theNode s)))\<^sup>*\<^sup>*
    (nodeCommittedUC (theNode s)) (nodeCommittedUC (theNode t))"
  using nodeStep_inv [OF assms(3,1) nodeReach_inv [OF assms(2,1)]] by (simp add: chainRel_def)

theorem commits_validated_successors_witness:
  "(commitStep sampleEnv (conf (theNode sampleLoop2)) (shardConf (theNode sampleLoop2)))\<^sup>*\<^sup>* None (Some sampleU1)"
  using commits_validated_successors [OF sampleEnv_laws sample_reach2(3) sample_reach3(2)]
  by (simp add: sample_run1 sample_run2)

text \<open>
  C7: Along every run the latest certificate is never forgotten and never replaced by one of an older
  root round, a node that has left the initial status never returns to it, and the certificate it
  started from stays the same.
\<close>

theorem luc_root_round_monotone:
  assumes "envLaws E" and "nodeReach E s" and "(nodeStep E)\<^sup>*\<^sup>* s t" and "luc (theNode s) = Some l"
  shows "(\<exists>l'. luc (theNode t) = Some l' \<and>
      getRootRoundNumber (extOps E) (Some l) \<le> getRootRoundNumber (extOps E) (Some l')) \<and>
    (status (theNode s) \<noteq> initializing \<longrightarrow> status (theNode t) \<noteq> initializing) \<and>
    fuc (theNode t) = fuc (theNode s)"
  using run_chain [OF assms(1-3)] assms(4) by (auto simp: lucMono_def)

theorem luc_root_round_monotone_witness:
  "(\<exists>l'. luc (theNode sampleLoop3) = Some l' \<and>
      getRootRoundNumber (extOps sampleEnv) (Some sampleU1) \<le> getRootRoundNumber (extOps sampleEnv) (Some l')) \<and>
    status (theNode sampleLoop3) \<noteq> initializing"
  using luc_root_round_monotone [OF sampleEnv_laws sample_reach2(3) r_into_rtranclp [of "nodeStep sampleEnv", OF sample_reach3(2)]]
  by (simp add: sample_run1)

text \<open>
  C8: The comment on \<open>fuc\<close>: in every reachable state the store has, for every round
  after the one the node started from up to the committed one, a block with a certificate of that
  round.
\<close>

theorem blocks_since_start_stored:
  assumes "envLaws E" and "nodeReach E s"
    and "getRoundNumber (extOps E) (fuc (theNode s)) < r"
    and "r \<le> getRoundNumber (extOps E) (nodeCommittedUC (theNode s))"
  shows "\<exists>b u. kvRead (blockDb E) (blockStore (theNode s)) (uint64ToBytes (extOps E) r) = Inr (Some b) \<and>
    getUCv1 (extOps E) (Some b) = Inr u \<and> getRoundNumber (extOps E) (Some u) = r"
  using nodeReach_inv [OF assms(2,1)] assms(3,4) by (auto simp: nodeInv_def chainStored_def storedAt_def)

theorem blocks_since_start_stored_witness:
  "\<exists>b u. kvRead (blockDb sampleEnv) (blockStore (theNode sampleLoop3)) (uint64ToBytes (extOps sampleEnv) 1) = Inr (Some b) \<and>
    getUCv1 (extOps sampleEnv) (Some b) = Inr u \<and> getRoundNumber (extOps sampleEnv) (Some u) = 1"
proof -
  have "getRoundNumber (extOps sampleEnv) (Some sampleU1) = 1" "getRoundNumber (extOps sampleEnv) None = 0"
    by (simp_all add: sampleEnv_def sampleNetExt_fields sampleExt_def irField_def sampleU1_def sampleUC_def sampleIR_def)
  then show ?thesis
    by (intro blocks_since_start_stored [OF sampleEnv_laws sample_reach3(3)]) (simp_all add: sample_run2)
qed

text \<open>
  C23: A reachable state is well formed: a known leader comes with a technical
  record, a technical record with a sealed certificate, a latest certificate with an input record,
  and the queues of replication requests and of received messages stay within their capacities.
\<close>

theorem node_state_wellformed:
  assumes "envLaws E" and "nodeReach E s"
  shows "(leader (theNode s) \<noteq> '''' \<longrightarrow> ltr (theNode s) \<noteq> None) \<and>
    (ltr (theNode s) \<noteq> None \<longrightarrow> (\<exists>u. luc (theNode s) = Some u \<and> ucUnicitySeal u \<noteq> None)) \<and>
    (\<forall>u. luc (theNode s) = Some u \<longrightarrow> ucInputRecord u \<noteq> None) \<and>
    length (replicationCh (theNode s)) \<le> unat (maxWorkers (replicationConfig (conf (theNode s)))) \<and>
    length (receivedMsgs (network (theNode s))) \<le> receivedCap (network (theNode s))"
  using nodeReach_inv [OF assms(2,1)] by (simp add: nodeInv_def netInv_def)

theorem node_state_wellformed_witness:
  "leader (theNode sampleLoop3) = ''n'' \<and> ltr (theNode sampleLoop3) \<noteq> None \<and>
    ucUnicitySeal sampleU1 \<noteq> None \<and> ucInputRecord sampleU1 \<noteq> None \<and>
    length (receivedMsgs (network (theNode sampleLoop3))) \<le> receivedCap (network (theNode sampleLoop3))"
  using node_state_wellformed [OF sampleEnv_laws sample_reach3(3)]
  by (simp add: sample_run2)

section \<open>The T1 timer\<close>

lemma loopStep_ensure:
  assumes "loopStep E ev s = (Ok (), t)"
  shows "\<exists>u. theNode t = ensureT1TimerState u"
  using assms unfolding loopStep_def andSeq_def andThen_def onNode_def zoom_def modify_def
  by (auto split: prod.splits outcome.splits)

lemma ensure_running:
  "isRunning (timer (ensureT1TimerState u)) \<longleftrightarrow>
     leader (ensureT1TimerState u) = selfID (ensureT1TimerState u) \<and> status (ensureT1TimerState u) \<noteq> recovering"
  by (simp add: ensureT1TimerState_def ensure_isRunning selfID_def)

lemma sample_running: "isRunning (timer (theNode sampleLoop3))"
proof -
  have "selfID (theNode sampleLoop3) = selfID (theNode sampleLoop1)"
    using nodeStep_inv [OF sample_reach2(2) sampleEnv_laws nodeReach_inv [OF sample_reach1 sampleEnv_laws]]
      nodeStep_inv [OF sample_reach3(2) sampleEnv_laws nodeReach_inv [OF sample_reach2(3) sampleEnv_laws]]
    by (simp add: chainRel_def)
  then have "selfID (theNode sampleLoop3) = ''n''"
    by (simp add: sample_nodeRun1)
  moreover obtain u where "theNode sampleLoop3 = ensureT1TimerState u"
    using loopStep_ensure [OF sample_reach3(1)] by blast
  ultimately show ?thesis using ensure_running [of u] sample_run2 by simp
qed

text \<open>
  C24: In a reachable state at most one goroutine of the round timer is not cancelled,
  and when the timer counts as running, that goroutine is still waiting for the timeout.
\<close>

theorem t1_timer_single:
  assumes "envLaws E" and "nodeReach E s"
  shows "(\<forall>g h. g \<in> goroutines (timer (theNode s)) - cancelled (timer (theNode s)) \<times> UNIV \<and>
      h \<in> goroutines (timer (theNode s)) - cancelled (timer (theNode s)) \<times> UNIV \<longrightarrow> g = h) \<and>
    (isRunning (timer (theNode s)) \<longrightarrow>
      (\<exists>c. c \<notin> cancelled (timer (theNode s)) \<and> (c, Waiting) \<in> goroutines (timer (theNode s))))"
proof -
  have inv: "timerInv (timer (theNode s))" using nodeReach_inv [OF assms(2,1)] by (simp add: nodeInv_def)
  have "g = h" if "g \<in> goroutines (timer (theNode s)) - cancelled (timer (theNode s)) \<times> UNIV"
    "h \<in> goroutines (timer (theNode s)) - cancelled (timer (theNode s)) \<times> UNIV" for g h
    using that by (intro live_unique [OF inv]) (auto simp: mem_Times_iff)
  moreover have "\<exists>c. c \<notin> cancelled (timer (theNode s)) \<and> (c, Waiting) \<in> goroutines (timer (theNode s))"
    if "isRunning (timer (theNode s))"
    using inv that unfolding timerInv_def by blast
  ultimately show ?thesis by blast
qed

theorem t1_timer_single_witness:
  "\<exists>c. c \<notin> cancelled (timer (theNode sampleLoop3)) \<and> (c, Waiting) \<in> goroutines (timer (theNode sampleLoop3))"
  using t1_timer_single [OF sampleEnv_laws sample_reach3(3)]
  by (simp add: sample_running)

text \<open>After every iteration of the loop the timer runs exactly on a leader that is not recovering.\<close>

lemma t1_timer_follows_leader:
  assumes "loopStep E ev s = (Ok (), t)"
  shows "isRunning (timer (theNode t)) \<longleftrightarrow>
    leader (theNode t) = selfID (theNode t) \<and> status (theNode t) \<noteq> recovering"
  using loopStep_ensure [OF assms] by (auto simp: ensure_running)

end
