(* ===== verification/HandlerProperties.thy ===== *)
theory HandlerProperties
  imports NodeSamples
begin

text \<open>
  What the handlers compute, branch by branch: installation of a certificate, duplicate and repeated
  certificates, finalisation of the pending proposal, the start of recovery, and the service of
  replication requests.
\<close>

lemma wp_total: "wp False m Q (\<lambda>_ _. False) s \<Longrightarrow> \<exists>x t. m s = (Ok x, t) \<and> Q x t"
  unfolding wp_def by (cases "m s"; cases "fst (m s)") auto

lemma andThen_gets: "andThen (gets g) f s = f (g s) s"
  by (simp add: comp_defs)

lemma andThen_deref: "andThen (deref (Some x)) f s = f x s"
  by (simp add: comp_defs)

lemma andSeq_ret: "andSeq (ret x) k s = k s"
  by (simp add: comp_defs)

section \<open>Latest certificate\<close>

text \<open>The epoch a node works in: that of its technical record, else that of its latest certificate.\<close>

definition epochOf :: "('b, 'c) node \<Rightarrow> uint64" where
  "epochOf s = (case ltr s of Some t \<Rightarrow> trEpoch t
     | None \<Rightarrow> (case luc s of None \<Rightarrow> 0
        | Some u \<Rightarrow> (case ucInputRecord u of None \<Rightarrow> 0 | Some ir \<Rightarrow> irEpoch ir)))"

lemma currentEpoch_run: "nodeInv E s \<Longrightarrow> currentEpoch s = (Ok (epochOf s), s)"
  by (auto simp: currentEpoch_def epochOf_def comp_defs nodeInv_def split: option.splits)

text \<open>The certificate passes all checks of \<open>updateLUC\<close> and is new.\<close>

definition lucAcceptable ::
  "('b, 'c) nodeEnv \<Rightarrow> unicityCertificate \<Rightarrow> ('b, 'c) node \<Rightarrow> bool" where
  "lucAcceptable E u s \<longleftrightarrow> certOk E (conf s) (shardConf s) u \<and>
     \<not> (status s = recovering \<and> getRootRoundNumber (extOps E) (Some u) < getRootRoundNumber (extOps E) (luc s)) \<and>
     (case luc s of None \<Rightarrow> True | Some l \<Rightarrow> checkNonEquivocatingCertificates (extOps E) l u = None) \<and>
     \<not> (isDuplicate (extOps E) u (luc s) \<and> ltr s \<noteq> None)"

definition installed ::
  "unicityCertificate \<Rightarrow> technicalRecord \<Rightarrow> peerID \<Rightarrow> ('b, 'c) node \<Rightarrow> ('b, 'c) node" where
  "installed u tr p s = s\<lparr>leader := p, ltr := Some tr, luc := Some u,
     epochChangeEvent := epochChangeEvent s \<or> epochOf s \<noteq> trEpoch tr \<or> pdrEpoch (shardConf s) \<noteq> trEpoch tr\<rparr>"

lemma installLUC_run:
  assumes "nodeInv E s" and "peerDecode (extOps E) (trLeader tr) = Inr p"
  shows "installLUC E u (Some tr) s = (Ok (), installed u tr p s)"
  using assms(2)
  by (simp add: installLUC_def andThen_def [of currentEpoch] currentEpoch_run [OF assms(1)])
    (simp add: comp_defs currentEpoch_def installed_def signalEpochChange_def)

lemma updateLUC_installed:
  assumes laws: "envLaws E" and inv: "nodeInv E s" and acc: "lucAcceptable E u s"
    and p: "peerDecode (extOps E) (trLeader tr) = Inr p"
  shows "updateLUC E (Some u) (Some tr) s = (Ok (), installed u tr p s)"
proof -
  obtain tb where tb: "trustBaseByEpoch E (getRootEpoch (extOps E) (Some u)) = Inr tb"
    and valid: "ucValidate (extOps E) (hashAlgorithm (conf s)) (Some u) (Some (shardConf s)) tb = None"
    using acc by (auto simp: lucAcceptable_def certOk_def)
  note complete = ucValidate_complete [OF envLawsD(2) [OF laws] valid]
  have print: "printUC (luc s) s = (Ok (), s)" "printUC (Some u) s = (Ok (), s)"
    using inv complete by (auto simp: printUC_def comp_defs nodeInv_def split: option.splits)
  have noneq: "checkEquivocation E (luc s) u s = (Ok (), s)"
    using acc by (auto simp: checkEquivocation_def lucAcceptable_def comp_defs split: option.splits)
  have fresh: "\<not> (isDuplicate (extOps E) u (luc s) \<and> ltr s \<noteq> None)"
    "\<not> (status s = recovering \<and> getRootRoundNumber (extOps E) (luc s) > getRootRoundNumber (extOps E) (Some u))"
    using acc by (auto simp: lucAcceptable_def)
  show ?thesis
    using fresh print noneq installLUC_run [OF inv p]
    by (cases "status s = initializing") (auto simp: updateLUC_def tb valid comp_defs)
qed

text \<open>A certificate that is checked and found old or known changes nothing.\<close>

lemma updateLUC_known:
  assumes laws: "envLaws E" and inv: "nodeInv E s" and cert: "certOk E (conf s) (shardConf s) u"
    and noneq: "status s = recovering \<and> getRootRoundNumber (extOps E) (Some u) < getRootRoundNumber (extOps E) (luc s) \<or>
      (case luc s of None \<Rightarrow> True | Some l \<Rightarrow> checkNonEquivocatingCertificates (extOps E) l u = None)"
    and known: "status s = recovering \<and> getRootRoundNumber (extOps E) (Some u) < getRootRoundNumber (extOps E) (luc s) \<or>
      isDuplicate (extOps E) u (luc s) \<and> ltr s \<noteq> None"
  shows "updateLUC E (Some u) tr s = (Ok (), s)"
proof -
  obtain tb where tb: "trustBaseByEpoch E (getRootEpoch (extOps E) (Some u)) = Inr tb"
    and valid: "ucValidate (extOps E) (hashAlgorithm (conf s)) (Some u) (Some (shardConf s)) tb = None"
    using cert by (auto simp: certOk_def)
  note complete = ucValidate_complete [OF envLawsD(2) [OF laws] valid]
  have print: "printUC (luc s) s = (Ok (), s)" "printUC (Some u) s = (Ok (), s)"
    using inv complete by (auto simp: printUC_def comp_defs nodeInv_def split: option.splits)
  show ?thesis
  proof (cases "status s = recovering \<and> getRootRoundNumber (extOps E) (Some u) < getRootRoundNumber (extOps E) (luc s)")
    case True
    then show ?thesis by (simp add: updateLUC_def tb valid comp_defs)
  next
    case False
    have "checkEquivocation E (luc s) u s = (Ok (), s)"
      using noneq False by (auto simp: checkEquivocation_def comp_defs split: option.splits)
    with False known print show ?thesis
      by (cases "status s = initializing") (auto simp: updateLUC_def tb valid comp_defs)
  qed
qed

text \<open>
  C18: A valid certificate that is newer than the known one is installed together with its
  technical record and the leader the record names, and a change of the epoch is signalled; a
  duplicate, or in recovery a certificate of an older root round, changes nothing. The check against
  equivocation is asked for only of a certificate that is not older than the known one in recovery:
  it would refuse the older one.
\<close>

theorem updateLUC_effect:
  assumes "envLaws E" and "nodeInv E s" and "certOk E (conf s) (shardConf s) u"
    and "status s = recovering \<and> getRootRoundNumber (extOps E) (Some u) < getRootRoundNumber (extOps E) (luc s) \<or>
      (case luc s of None \<Rightarrow> True | Some l \<Rightarrow> checkNonEquivocatingCertificates (extOps E) l u = None)"
    and "peerDecode (extOps E) (trLeader tr) = Inr p"
  shows "updateLUC E (Some u) (Some tr) s = (Ok (),
    if status s = recovering \<and> getRootRoundNumber (extOps E) (Some u) < getRootRoundNumber (extOps E) (luc s) \<or>
       isDuplicate (extOps E) u (luc s) \<and> ltr s \<noteq> None then s
    else s\<lparr>leader := p, ltr := Some tr, luc := Some u,
       epochChangeEvent := epochChangeEvent s \<or> epochOf s \<noteq> trEpoch tr \<or> pdrEpoch (shardConf s) \<noteq> trEpoch tr\<rparr>)"
proof (cases "status s = recovering \<and> getRootRoundNumber (extOps E) (Some u) < getRootRoundNumber (extOps E) (luc s) \<or>
       isDuplicate (extOps E) u (luc s) \<and> ltr s \<noteq> None")
  case True
  then show ?thesis using updateLUC_known [OF assms(1-4) True] by (simp only: if_True)
next
  case False
  then have "lucAcceptable E u s" using assms(3,4) by (auto simp: lucAcceptable_def)
  from updateLUC_installed [OF assms(1,2) this assms(5)] show ?thesis
    using False by (simp only: if_False installed_def)
qed

lemma currentEpoch_pure: "wp True currentEpoch (\<lambda>_ t. t = s) (\<lambda>_ _. False) s"
  by (auto simp: currentEpoch_def wp_rules split: option.splits)

text \<open>A certificate that is refused, for whatever reason, leaves the node as it was.\<close>

lemma updateLUC_error_unchanged:
  assumes "updateLUC E uc tr s = (Fail e, t)"
  shows "t = s"
proof -
  have install: "wp True (installLUC E u tr) (\<lambda>_ _. True) (\<lambda>_ t. t = s) s" for u
    unfolding installLUC_def wp_andThen
    by (rule wp_mono [OF currentEpoch_pure])
      (auto simp: wp_rules signalEpochChange_def split: option.splits sum.splits intro!: wp_mono [OF currentEpoch_pure])
  have "wp True (updateLUC E uc tr) (\<lambda>_ _. True) (\<lambda>_ t. t = s) s"
    unfolding updateLUC_def
    by (auto simp: wp_andThen wp_andSeq wp_wrapErr wp_liftE wp_liftErr wp_gets wp_if wp_ret wp_deref wp_fail
        wp_case_option printUC_def checkEquivocation_def install split: option.splits sum.splits)
  then show ?thesis using assms by (rule wp_Fail)
qed

section \<open>Certificates\<close>

text \<open>A running node that receives its latest certificate once more does nothing.\<close>

lemma duplicate_certificate_ignored:
  assumes "envLaws E" and "nodeInv E s" and "certOk E (conf s) (shardConf s) u"
    and "luc s = Some l" and "ltr s \<noteq> None" and "status s \<noteq> initializing"
    and "checkNonEquivocatingCertificates (extOps E) l u = None"
    and "isDuplicate (extOps E) u (Some l)"
  shows "handleUnicityCertificate E (Some u) tr s = (Ok (), s)"
proof -
  have "updateLUC E (Some u) tr s = (Ok (), s)"
    using assms by (intro updateLUC_known) auto
  then show ?thesis
    using assms by (simp add: handleUnicityCertificate_def comp_defs)
qed

text \<open>What a running node does with a new certificate after installing it.\<close>

lemma handleUC_new:
  assumes "envLaws E" and "nodeInv E s" and "lucAcceptable E u s" and "status s = normal"
    and "peerDecode (extOps E) (trLeader tr) = Inr p"
    and "\<not> isDuplicate (extOps E) u (luc s)" and "isRepeat (extOps E) u (luc s) = Inr rep"
  shows "handleUnicityCertificate E (Some u) (Some tr) s =
    (if rep then andSeq revertState (startNewRound E)
     else andThen (gets nodeCommittedUC) (\<lambda>committed.
       if \<not> isSuccessor (extOps E) u committed then
         andSeq (startRecovery E) (fail ErrNodeDoesNotHaveLatestBlock)
       else andThen (gets pendingBlockProposal) (\<lambda>pending. (case pending of
           None \<Rightarrow> handleWithoutProposal E u
         | Some b \<Rightarrow> handleWithProposal E u b)))) (installed u tr p s)"
proof -
  have st: "status (installed u tr p s) = normal" using assms(4) by (simp add: installed_def)
  have upd: "andSeq (wrapErr ''failed to update LUC'' (updateLUC E (Some u) (Some tr))) k s = k (installed u tr p s)" for k
    by (rule andSeq_step, rule wrapErr_step, rule updateLUC_installed [OF assms(1-3,5)])
  show ?thesis
    unfolding handleUnicityCertificate_def
    using assms(6,7) by (cases rep) (simp_all add: andThen_gets upd andThen_deref andSeq_ret st)
qed

lemma startNewRound_wp:
  assumes "envLaws E"
    and "\<And>d. (\<forall>r. kvRead (blockDb E) d (uint64ToBytes (extOps E) r)
           = kvRead (blockDb E) (blockStore s) (uint64ToBytes (extOps E) r)) \<Longrightarrow>
      Q () (s\<lparr>pendingBlockProposal := None, blockStore := d\<rparr>)"
  shows "wp False (startNewRound E) Q X s"
proof -
  note fresh = proposalKey_fresh [OF envLawsD(5) [OF assms(1)]]
  show ?thesis
    unfolding startNewRound_def resetProposal_def deletePendingProposal_def wp_andSeq wp_modify wp_attempt wp_ret
      onBlocks_def wp_zoom
    by (rule wp_mono [OF kvDeleteLawD [OF envLawsD(10) [OF assms(1)]]])
      (use fresh assms(2) [of "blockStore s"] in \<open>auto intro!: assms(2)\<close>)
qed

text \<open>
  C10: When a new certificate succeeds the committed one and certifies exactly the pending proposal,
  the node finalises the block: it is stored with the certificate under its round, the transaction
  system commits, and the node is ready for the next round.
\<close>

theorem certificate_finalises_proposal:
  assumes "envLaws E" and "nodeInv E s" and "lucAcceptable E u s" and "status s = normal"
    and "peerDecode (extOps E) (trLeader tr) = Inr p"
    and "\<not> isDuplicate (extOps E) u (luc s)" and "isRepeat (extOps E) u (luc s) = Inr False"
    and "isSuccessor (extOps E) u (nodeCommittedUC s)"
    and pend: "pendingBlockProposal s = Some b"
    and ir: "blockInputRecord (extOps E) b = Inr ir" "assertEqualIR (extOps E) ir (ucInputRecord u) = None"
    and enc: "marshalUC (extOps E) u = Inr bs"
    and hash: "bytesEqual (pendingStateHash (transactionSystem s)) (getStateHash (extOps E) (Some u))"
    and wr: "kvWrite (blockDb E) (uint64ToBytes (extOps E) (getRoundNumber (extOps E) (Some u)))
      (b\<lparr>blkUnicityCertificate := bs\<rparr>) (blockStore s) = (Ok (), d)"
  shows "\<exists>t. handleUnicityCertificate E (Some u) (Some tr) s = (Ok (), t) \<and>
    nodeCommittedUC t = Some u \<and> luc t = Some u \<and> leader t = p \<and> status t = normal \<and>
    pendingBlockProposal t = None \<and> pendingStateHash (transactionSystem t) = None \<and>
    kvRead (blockDb E) (blockStore t) (uint64ToBytes (extOps E) (getRoundNumber (extOps E) (Some u)))
      = Inr (Some (b\<lparr>blkUnicityCertificate := bs\<rparr>))"
proof -
  let ?s = "installed u tr p s"
  let ?b = "b\<lparr>blkUnicityCertificate := bs\<rparr>"
  let ?k = "uint64ToBytes (extOps E) (getRoundNumber (extOps E) (Some u))"
  let ?x = "(transactionSystem s)\<lparr>committedStateHash := pendingStateHash (transactionSystem s),
      committedStateHeight := pendingStateHeight (transactionSystem s), committedUC := Some u,
      pendingStateHash := None, pendingStateHeight := 0\<rparr>"
  have step: "handleUnicityCertificate E (Some u) (Some tr) s = handleWithProposal E u b ?s"
    unfolding handleUC_new [OF assms(1-7)] using assms(8) pend
    by (simp add: comp_defs installed_def nodeCommittedUC_def)
  have stored: "kvRead (blockDb E) d ?k = Inr (Some ?b)"
    using wp_Ok [OF kvWriteLawD [OF envLawsD(9) [OF assms(1)]] wr] by simp
  have commit: "commit (extOps E) u (transactionSystem s) = (Ok (), ?x)"
    using hash by (simp add: commit_run)
  have final: "finalizeBlock E ?b u (?s\<lparr>pendingBlockProposal := Some ?b\<rparr>) =
      (Ok (), ?s\<lparr>pendingBlockProposal := Some ?b, blockStore := d, transactionSystem := ?x\<rparr>)"
    using assms(4) wr commit
    by (simp add: finalizeBlock_def Let_def storeBlock_def onBlocks_def onTx_def comp_defs installed_def)
  have "wp False (handleWithProposal E u b) (\<lambda>_ t. nodeCommittedUC t = Some u \<and> luc t = Some u \<and> leader t = p \<and>
      status t = normal \<and> pendingBlockProposal t = None \<and> pendingStateHash (transactionSystem t) = None \<and>
      kvRead (blockDb E) (blockStore t) ?k = Inr (Some ?b)) (\<lambda>_ _. False) ?s"
    unfolding handleWithProposal_def ir(1) sum.case ir(2) option.case enc Let_def wp_andSeq wp_modify wp_andThen [of _ "attempt _"] wp_attempt
    using final stored assms(4)
    by (auto simp: wp_def [of _ "finalizeBlock _ _ _"] installed_def nodeCommittedUC_def intro!: startNewRound_wp [OF assms(1)])
  from wp_total [OF this] show ?thesis unfolding step by simp
qed

section \<open>Recovery\<close>

text \<open>The part of the state that sending does not touch.\<close>

definition localView :: "('b, 'c) node \<Rightarrow> nodeStatus \<times> fgpTxSystem \<times> block option \<times> 'b \<times>
    unicityCertificate option \<times> technicalRecord option \<times> peerID \<times> unicityCertificate option" where
  "localView s = (status s, transactionSystem s, pendingBlockProposal s, blockStore s, luc s, ltr s, leader s, fuc s)"

lemma localView_frame [simp]:
  "localView (s\<lparr>calls := n\<rparr>) = localView s" "localView (s\<lparr>lastLedgerReqTime := i\<rparr>) = localView s"
  "localView (s\<lparr>network := nw\<rparr>) = localView s"
  by (simp_all add: localView_def)

lemma wp_strengthen: "wp False m Q' X' s \<Longrightarrow> wp True m Q X s \<Longrightarrow> wp False m Q X s"
  by (auto simp: wp_def split: outcome.splits prod.splits)

lemma send_frame:
  "wp True (send E msg rs) (\<lambda>_ t. localView t = localView s) (\<lambda>_ t. localView t = localView s) s"
  unfolding send_def onNet_def wp_zoom by (auto simp: wp_def split: outcome.splits prod.splits)

lemma trySendLoop_frame:
  "wp True (trySendLoop E req ps) (\<lambda>_ t. localView t = localView s) (\<lambda>_ _. False) s"
proof (induction ps arbitrary: s)
  case Nil
  show ?case by (simp add: wp_ret)
next
  case (Cons p ps)
  have next': "wp True (trySendLoop E req ps) (\<lambda>_ t. localView t = localView s) (\<lambda>_ _. False) t"
    if "localView t = localView s" for t
    by (rule wp_mono [OF Cons.IH]) (use that in auto)
  show ?case
    unfolding trySendLoop.simps wp_andThen [of _ "gets _"] wp_gets wp_if wp_andThen [of _ "attempt _"] wp_attempt
    by (auto simp: wp_rules intro!: next' wp_mono [OF send_frame])
qed

lemma sendLedgerReplicationRequest_view:
  "wp True (sendLedgerReplicationRequest E) (\<lambda>_ t. localView t = localView s) (\<lambda>_ _. False) s"
proof -
  have loop: "wp True (trySendLoop E req ps) (\<lambda>_ t. localView t = localView s) (\<lambda>_ _. False) t"
    if "localView t = localView s" for t req ps
    by (rule wp_mono [OF trySendLoop_frame]) (use that in auto)
  show ?thesis
    unfolding sendLedgerReplicationRequest_def
    by (auto simp: wp_rules intro!: loop)
qed

lemma sendLedgerReplicationRequest_frame:
  assumes "envLaws E" and "guarded E s0 F c s"
  shows "wp False (sendLedgerReplicationRequest E) (\<lambda>_ t. localView t = localView s) (\<lambda>_ _. False) s"
  by (rule wp_strengthen [OF keepsD [OF keeps_sendLedgerReplicationRequest [OF assms(1)] assms(2)]
        sendLedgerReplicationRequest_view])

lemma guarded_any: "nodeInv E s \<Longrightarrow> guarded E s (\<lambda>_ _. True) False s"
  by (rule guarded_start) auto

lemma startRecovery_wp:
  assumes "envLaws E" and "guarded E s0 (\<lambda>_ _. True) c s" and "status s \<noteq> recovering"
  shows "wp False (startRecovery E) (\<lambda>_ t. localView t =
      localView (s\<lparr>status := recovering, transactionSystem := revert (transactionSystem s), pendingBlockProposal := None\<rparr>))
    (\<lambda>_ _. False) s"
proof -
  let ?s = "s\<lparr>status := recovering, transactionSystem := revert (transactionSystem s), pendingBlockProposal := None\<rparr>"
  have "guarded E s0 (\<lambda>_ _. True) c (s\<lparr>status := recovering\<rparr>)" using assms(2) by (rule guarded_status) simp
  from keepsD [OF keeps_revertState this] have "guarded E s0 (\<lambda>_ _. True) c ?s"
    by (simp add: revertState_def wp_modify)
  from sendLedgerReplicationRequest_frame [OF assms(1) this] show ?thesis
    using assms(3) by (simp add: startRecovery_def revertState_def resetProposal_def wp_rules)
qed

text \<open>
  C19: A new certificate that does not succeed the committed one shows that blocks are missing. The
  node keeps the certificate, gives up its pending proposal and state, enters recovery and reports
  it; the committed chain and the stored blocks stay as they are.
\<close>

theorem gap_starts_recovery:
  assumes "envLaws E" and "nodeInv E s" and "lucAcceptable E u s" and "status s = normal"
    and "peerDecode (extOps E) (trLeader tr) = Inr p"
    and "\<not> isDuplicate (extOps E) u (luc s)" and "isRepeat (extOps E) u (luc s) = Inr False"
    and gap: "\<not> isSuccessor (extOps E) u (nodeCommittedUC s)"
  shows "\<exists>t. handleUnicityCertificate E (Some u) (Some tr) s = (Fail ErrNodeDoesNotHaveLatestBlock, t) \<and>
    status t = recovering \<and> luc t = Some u \<and> transactionSystem t = revert (transactionSystem s) \<and>
    pendingBlockProposal t = None \<and> blockStore t = blockStore s"
proof -
  let ?s = "installed u tr p s"
  have acc: "certOk E (conf s) (shardConf s) u" using assms(3) by (simp add: lucAcceptable_def)
  have g: "guarded E s (\<lambda>_ _. True) False ?s"
    using wp_Ok [OF updateLUC_wp [OF assms(1) guarded_any [OF assms(2)]] updateLUC_installed [OF assms(1-3,5)]] by simp
  have "nodeCommittedUC ?s = nodeCommittedUC s" "status ?s \<noteq> recovering"
    using assms(4) by (simp_all add: installed_def nodeCommittedUC_def)
  then have step: "handleUnicityCertificate E (Some u) (Some tr) s
      = andSeq (startRecovery E) (fail ErrNodeDoesNotHaveLatestBlock) ?s"
    unfolding handleUC_new [OF assms(1-7)] using gap by (simp add: andThen_gets)
  obtain t where t: "startRecovery E ?s = (Ok (), t)" "localView t =
      localView (?s\<lparr>status := recovering, transactionSystem := revert (transactionSystem ?s), pendingBlockProposal := None\<rparr>)"
    using wp_total [OF startRecovery_wp [OF assms(1) g \<open>status ?s \<noteq> recovering\<close>]] by auto
  show ?thesis
    unfolding step andSeq_step [of "startRecovery E", OF t(1)]
    using t(2) by (simp add: fail_def localView_def installed_def)
qed

text \<open>
  C20: A repeat certificate, which certifies the old state once more, makes the node drop the state
  of its proposal and start the round again, with the committed certificate unchanged.
\<close>

theorem repeat_certificate_reverts:
  assumes "envLaws E" and "nodeInv E s" and "lucAcceptable E u s" and "status s = normal"
    and "peerDecode (extOps E) (trLeader tr) = Inr p"
    and "\<not> isDuplicate (extOps E) u (luc s)" and "isRepeat (extOps E) u (luc s) = Inr True"
  shows "\<exists>t. handleUnicityCertificate E (Some u) (Some tr) s = (Ok (), t) \<and>
    transactionSystem t = revert (transactionSystem s) \<and> nodeCommittedUC t = nodeCommittedUC s \<and>
    pendingBlockProposal t = None \<and> luc t = Some u \<and> status t = normal"
proof -
  have "wp False (andSeq revertState (startNewRound E)) (\<lambda>_ t.
      transactionSystem t = revert (transactionSystem s) \<and> nodeCommittedUC t = nodeCommittedUC s \<and>
      pendingBlockProposal t = None \<and> luc t = Some u \<and> status t = normal) (\<lambda>_ _. False) (installed u tr p s)"
    unfolding wp_andSeq revertState_def wp_modify
    by (rule startNewRound_wp [OF assms(1)])
      (use assms(4) in \<open>simp add: installed_def nodeCommittedUC_def revert_def\<close>)
  from wp_total [OF this] show ?thesis unfolding handleUC_new [OF assms(1-7)] by simp
qed

section \<open>Witnesses\<close>

lemma sampleU1_complete: "ucInputRecord sampleU1 \<noteq> None" "ucUnicitySeal sampleU1 \<noteq> None"
  by (simp_all add: sampleU1_def sampleUC_def)

text \<open>The certificate is installed, and it changes nothing in recovery when a later one is known.\<close>

theorem updateLUC_effect_witness:
  "luc (snd (updateLUC sampleEnv (Some sampleU1) (Some (sampleTR 2 ''v'')) (sampleRunning None None None))) = Some sampleU1 \<and>
   updateLUC sampleEnv (Some sampleU1) (Some (sampleTR 2 ''v''))
       ((sampleRunning (Some (sampleUC 2 2 None None)) None None)\<lparr>status := recovering\<rparr>) =
     (Ok (), (sampleRunning (Some (sampleUC 2 2 None None)) None None)\<lparr>status := recovering\<rparr>)"
proof -
  let ?s = "(sampleRunning (Some (sampleUC 2 2 None None)) None None)\<lparr>status := recovering\<rparr>"
  have dec: "peerDecode (extOps sampleEnv) (trLeader (sampleTR 2 ''v'')) = Inr ''v''"
    by (simp add: sample_ops sampleTR_def)
  have "\<not> isDuplicate (extOps sampleEnv) sampleU1 None" by (simp add: sample_ops)
  moreover have "nodeInv sampleEnv ?s"
    using sampleRunning_inv [of "Some (sampleUC 2 2 None None)" None None]
    by (simp add: nodeInv_def sampleUC_def selfID_def nodeCommittedUC_def)
  moreover have "getRootRoundNumber (extOps sampleEnv) (Some sampleU1) < getRootRoundNumber (extOps sampleEnv) (luc ?s)"
    by (simp add: sample_ops)
  ultimately show ?thesis
    using updateLUC_effect [OF sampleEnv_laws sampleRunning_inv sample_certOk [OF sampleU1_complete] _ dec, of None None None]
      updateLUC_effect [OF sampleEnv_laws _ sample_certOk [OF sampleU1_complete] _ dec, of ?s]
    by simp
qed

definition sampleProposal :: block where
  "sampleProposal = sampleB1\<lparr>blkUnicityCertificate := Some [1, 0, 0, 10, 5]\<rparr>"

theorem certificate_finalises_proposal_witness:
  "\<exists>t. handleUnicityCertificate sampleEnv (Some sampleU1) (Some (sampleTR 2 ''v''))
       (sampleRunning None (Some sampleProposal) (Some [10, 5])) = (Ok (), t) \<and> nodeCommittedUC t = Some sampleU1"
proof -
  let ?s = "sampleRunning None (Some sampleProposal) (Some [10, 5])"
  have acc: "lucAcceptable sampleEnv sampleU1 ?s"
    using sample_certOk [OF sampleU1_complete] by (simp add: lucAcceptable_def sample_ops)
  have dec: "peerDecode (extOps sampleEnv) (trLeader (sampleTR 2 ''v'')) = Inr ''v''"
    by (simp add: sample_ops sampleTR_def)
  have ops: "\<not> isDuplicate (extOps sampleEnv) sampleU1 None" "isRepeat (extOps sampleEnv) sampleU1 None = Inr False"
    "isSuccessor (extOps sampleEnv) sampleU1 None" "getStateHash (extOps sampleEnv) (Some sampleU1) = Some [10, 5]"
    by (simp_all add: sample_ops bytesEqual_def)
  have ir: "blockInputRecord (extOps sampleEnv) sampleProposal = Inr (ucInputRecord sampleU1)" by code_simp
  have eq: "assertEqualIR (extOps sampleEnv) (ucInputRecord sampleU1) (ucInputRecord sampleU1) = None"
    by (simp add: sample_ops)
  have enc: "marshalUC (extOps sampleEnv) sampleU1 = Inr (Some [1, 1, 0, 10, 5])" by code_simp
  have wr: "\<exists>d. kvWrite (blockDb sampleEnv) k b RBT.empty = (Ok (), d)" for k b
    by (simp add: sampleEnv_def treeDb_def modify_def)
  obtain d where "kvWrite (blockDb sampleEnv) (uint64ToBytes (extOps sampleEnv) (getRoundNumber (extOps sampleEnv) (Some sampleU1)))
      (sampleProposal\<lparr>blkUnicityCertificate := Some [1, 1, 0, 10, 5]\<rparr>) (blockStore ?s) = (Ok (), d)"
    using wr by (simp only: sampleRunning_fields) blast
  from certificate_finalises_proposal [OF sampleEnv_laws sampleRunning_inv acc _ dec _ _ _ _ ir eq enc _ this]
  show ?thesis using ops by (simp add: bytesEqual_def) blast
qed

theorem gap_starts_recovery_witness:
  "\<exists>t. handleUnicityCertificate sampleEnv (Some (sampleUC 3 3 (Some []) (Some [10, 5]))) (Some (sampleTR 4 ''v''))
       (sampleRunning None None None) = (Fail ErrNodeDoesNotHaveLatestBlock, t) \<and> status t = recovering"
proof -
  let ?u = "sampleUC 3 3 (Some []) (Some [10, 5])"
  have "lucAcceptable sampleEnv ?u (sampleRunning None None None)"
    using sample_certOk [of ?u] by (simp add: lucAcceptable_def sample_ops)
  moreover have "peerDecode (extOps sampleEnv) (trLeader (sampleTR 4 ''v'')) = Inr ''v''"
    by (simp add: sample_ops sampleTR_def)
  moreover have "\<not> isDuplicate (extOps sampleEnv) ?u None" "isRepeat (extOps sampleEnv) ?u None = Inr False"
    "\<not> isSuccessor (extOps sampleEnv) ?u None"
    by (simp_all add: sample_ops)
  ultimately show ?thesis
    using gap_starts_recovery [OF sampleEnv_laws sampleRunning_inv, of None ?u None None "sampleTR 4 ''v''" "''v''"] by auto
qed

theorem repeat_certificate_reverts_witness:
  "\<exists>t. handleUnicityCertificate sampleEnv (Some (sampleUC 1 2 (Some []) (Some []))) (Some (sampleTR 2 ''v''))
       (sampleRunning (Some sampleU1) (Some sampleProposal) (Some [10, 5])) = (Ok (), t) \<and>
     pendingBlockProposal t = None \<and> pendingStateHash (transactionSystem t) = None"
proof -
  let ?u = "sampleUC 1 2 (Some []) (Some [])" and ?s = "sampleRunning (Some sampleU1) (Some sampleProposal) (Some [10, 5])"
  have "lucAcceptable sampleEnv ?u ?s"
    using sample_certOk [of ?u] by (simp add: lucAcceptable_def sample_ops)
  moreover have "peerDecode (extOps sampleEnv) (trLeader (sampleTR 2 ''v'')) = Inr ''v''"
    by (simp add: sample_ops sampleTR_def)
  moreover have "\<not> isDuplicate (extOps sampleEnv) ?u (Some sampleU1)" "isRepeat (extOps sampleEnv) ?u (Some sampleU1) = Inr True"
    by (simp_all add: sample_ops)
  ultimately show ?thesis
    using repeat_certificate_reverts [OF sampleEnv_laws sampleRunning_inv, of "Some sampleU1" ?u "Some sampleProposal" "Some [10, 5]" "sampleTR 2 ''v''" "''v''"]
      sampleU1_complete by (auto simp: revert_def)
qed

end
