(* ===== verification/ReplicationProperties.thy ===== *)
theory ReplicationProperties
  imports HandlerProperties
begin

text \<open>
  Serving ledger replication requests: which requests are accepted, what is read from the block
  store for them, and which proposals a node refuses without any effect.
\<close>

section \<open>Accepting a request\<close>

lemma reply_channel:
  "wp True (replyError E lr st msg) (\<lambda>_ t. replicationCh t = replicationCh s) (\<lambda>_ _. True) s"
  unfolding replyError_def sendLedgerReplicationResponse_def send_def onNet_def
  by (auto simp: wp_andThen wp_wrapErr wp_liftE wp_zoom split: sum.splits)
    (auto simp: wp_def split: outcome.splits prod.splits)

lemma andSeq_checked:
  "andSeq (wrapErr w (liftErr r)) k s = (case r of Some e \<Rightarrow> (Fail (Wrapf w e), s) | None \<Rightarrow> k s)"
  by (simp add: comp_defs split: option.splits)

text \<open>
  C25: A replication request is put into the queue of the workers exactly when it is well formed, for
  this shard, starts at a block the node has since its start, and a worker slot is free. Every other
  request leaves the queue alone.
\<close>

theorem replication_request_accepted_iff:
  "(\<exists>t. handleLedgerReplicationRequest E (Some lr) s = (Ok (), t) \<and> replicationCh t \<noteq> replicationCh s) \<longleftrightarrow>
     lrqIsValid (Some lr) = None \<and>
     lrqPartitionID lr = partitionID s \<and> shardEqual (extOps E) (lrqShardID lr) (shardIDOf s) \<and>
     getRoundNumber (extOps E) (fuc s) < lrqBeginBlockNumber lr \<and>
     lrqBeginBlockNumber lr \<le> getRoundNumber (extOps E) (nodeCommittedUC s) \<and>
     length (replicationCh s) < unat (maxWorkers (replicationConfig (conf s)))" (is "?l \<longleftrightarrow> ?r")
proof -
  have run: "handleLedgerReplicationRequest E (Some lr) s =
     (case lrqIsValid (Some lr) of Some e \<Rightarrow> (Fail (Wrapf ''invalid request'' e), s)
      | None \<Rightarrow>
       (if lrqPartitionID lr \<noteq> partitionID s \<or> \<not> shardEqual (extOps E) (lrqShardID lr) (shardIDOf s) then
          replyError E lr replWrongShard ''Wrong partition/shard: requested %s-%s, I'm %s-%s''
        else if lrqBeginBlockNumber lr \<le> getRoundNumber (extOps E) (fuc s) then
          replyError E lr replBlocksNotFound ''Node does not have block: %v, first block: %v''
        else if getRoundNumber (extOps E) (nodeCommittedUC s) < lrqBeginBlockNumber lr then
          replyError E lr replBlocksNotFound ''Node does not have block: %v, latest block: %v''
        else if length (replicationCh s) < unat (maxWorkers (replicationConfig (conf s))) then
          modify (\<lambda>s. s\<lparr>replicationCh := replicationCh s @ [lr]\<rparr>)
        else replyError E lr replBusy ''Too many concurrent replication requests'') s)"
    unfolding handleLedgerReplicationRequest_def andThen_deref andSeq_checked
    by (simp only: if_distribR andThen_gets)
  have enqueue: "handleLedgerReplicationRequest E (Some lr) s = (Ok (), s\<lparr>replicationCh := replicationCh s @ [lr]\<rparr>)"
    if ?r
  proof -
    have "\<not> (lrqPartitionID lr \<noteq> partitionID s \<or> \<not> shardEqual (extOps E) (lrqShardID lr) (shardIDOf s))"
      "\<not> lrqBeginBlockNumber lr \<le> getRoundNumber (extOps E) (fuc s)"
      "\<not> getRoundNumber (extOps E) (nodeCommittedUC s) < lrqBeginBlockNumber lr" "lrqIsValid (Some lr) = None"
      "length (replicationCh s) < unat (maxWorkers (replicationConfig (conf s)))"
      using that by (auto simp: not_le not_less)
    then show ?thesis unfolding run by (simp only: option.case if_True if_False modify_def)
  qed
  have other: "wp True (handleLedgerReplicationRequest E (Some lr)) (\<lambda>_ t. replicationCh t = replicationCh s) (\<lambda>_ _. True) s"
    if "\<not> ?r"
    unfolding handleLedgerReplicationRequest_def wp_andThen wp_deref option.case wp_andSeq wp_wrapErr wp_liftErr
      wp_gets wp_if wp_modify
    using that reply_channel by (cases "lrqIsValid (Some lr)") (simp_all only: option.case simp_thms if_True if_False not_le not_less split: if_split, blast)
  show ?thesis
  proof
    assume ?l
    then show ?r using wp_Ok [OF other] by blast
  next
    assume ?r
    then show ?l using enqueue by simp
  qed
qed

section \<open>Reading the blocks\<close>

lemma unat_inc: "unat (c :: uint64) < unat (m :: uint64) \<Longrightarrow> unat (c + 1) = unat c + 1"
  using uint64_lt [of m] by (simp add: unat_word_ariths)

text \<open>
  Where reading a list of entries stops: after \<open>n\<close> entries, after the first one that is the last wanted
  (\<open>final\<close>), before the first one that cannot be read (\<open>bad\<close>), or at the end of the list.
\<close>

definition cutAt :: "('e \<Rightarrow> bool) \<Rightarrow> ('e \<Rightarrow> bool) \<Rightarrow> nat \<Rightarrow> 'e list \<Rightarrow> nat \<Rightarrow> bool" where
  "cutAt bad final n es k \<longleftrightarrow> k \<le> length es \<and> k \<le> n \<and> (\<forall>i<k. \<not> bad (es ! i)) \<and> (\<forall>i. Suc i < k \<longrightarrow> \<not> final (es ! i)) \<and>
     (k = length es \<or> k = n \<or> 0 < k \<and> final (es ! (k - 1)) \<or> bad (es ! k))"

lemma cutAt_one: "\<not> bad e \<Longrightarrow> final e \<or> n = 1 \<Longrightarrow> 0 < n \<Longrightarrow> cutAt bad final n (e # es) 1"
  by (auto simp: cutAt_def)

lemma cutAt_Suc: "\<not> bad e \<Longrightarrow> \<not> final e \<Longrightarrow> cutAt bad final n es k \<Longrightarrow> cutAt bad final (Suc n) (e # es) (Suc k)"
  by (auto simp: cutAt_def nth_Cons split: nat.splits)

text \<open>The last block that a request asks for; without an end number there is none.\<close>

definition lastWanted :: "('b, 'c) nodeEnv \<Rightarrow> uint64 \<Rightarrow> dbkey \<times> (goerror + block) \<Rightarrow> bool" where
  "lastWanted E endNr e \<longleftrightarrow> 0 < endNr \<and> endNr \<le> bytesToUint64 (extOps E) (fst e)"

text \<open>After the first block the loop appends the blocks of the iterator up to the cut.\<close>

lemma fetchLoop_run:
  assumes ctx: "\<And>n. \<not> ctxDoneAt E n"
  shows "first \<noteq> 0 \<Longrightarrow> unat cnt = length bs \<Longrightarrow> length bs < unat mr \<Longrightarrow>
    \<exists>k t. cutAt (\<lambda>e. isl (snd e)) (lastWanted E endNr) (unat mr - length bs) it k \<and>
      fetchLoop E mr endNr bs cnt first lst it s = (Ok (Some (bs @ map (\<lambda>e. projr (snd e)) (take k it), first,
        if k = 0 then lst else bytesToUint64 (extOps E) (fst (it ! (k - 1))))), t)"
proof (induction it arbitrary: bs cnt lst s)
  case Nil
  then show ?case by (simp add: ret_def cutAt_def)
next
  case (Cons e it)
  obtain k v where e: "e = (k, v)" by (cases e)
  let ?r = "bytesToUint64 (extOps E) k"
  let ?s = "s\<lparr>calls := calls s + 1\<rparr>"
  have inc: "unat (cnt + 1) = length bs + 1" using unat_inc [of cnt mr] Cons.prems by simp
  show ?case
  proof (cases v)
    case (Inl x)
    then show ?thesis
      by (intro exI [of _ 0]) (simp add: e ctx comp_defs draw_def cutAt_def)
  next
    case (Inr bl)
    have run: "fetchLoop E mr endNr bs cnt first lst (e # it) s =
        (if cnt + 1 \<ge> mr \<or> (?r \<ge> endNr \<and> endNr > 0) then ret (Some (bs @ [bl], first, ?r))
         else fetchLoop E mr endNr (bs @ [bl]) (cnt + 1) first ?r it) ?s"
      using Cons.prems(1) by (simp add: e Inr ctx draw_def andThen_def Let_def)
    show ?thesis
    proof (cases "cnt + 1 \<ge> mr \<or> (?r \<ge> endNr \<and> endNr > 0)")
      case True
      then have "lastWanted E endNr e \<or> unat mr - length bs = 1"
        using inc Cons.prems(3) by (auto simp: lastWanted_def e word_le_nat_alt)
      then have "cutAt (\<lambda>e. isl (snd e)) (lastWanted E endNr) (unat mr - length bs) (e # it) 1"
        using Cons.prems(3) by (intro cutAt_one) (simp_all add: e Inr)
      then show ?thesis
        unfolding run if_P [OF True] by (intro exI [of _ 1]) (simp add: ret_def e Inr)
    next
      case False
      then have less: "length (bs @ [bl]) < unat mr" using inc by (simp add: word_le_nat_alt not_le)
      have "\<not> lastWanted E endNr e" using False by (auto simp: lastWanted_def e)
      moreover obtain j t where cut: "cutAt (\<lambda>e. isl (snd e)) (lastWanted E endNr) (unat mr - length (bs @ [bl])) it j"
        and "fetchLoop E mr endNr (bs @ [bl]) (cnt + 1) first ?r it ?s = (Ok (Some ((bs @ [bl]) @
          map (\<lambda>e. projr (snd e)) (take j it), first, if j = 0 then ?r else bytesToUint64 (extOps E) (fst (it ! (j - 1))))), t)"
        using Cons.IH [OF Cons.prems(1) _ less, of "cnt + 1" ?r ?s] inc by auto
      moreover have "unat mr - length bs = Suc (unat mr - length (bs @ [bl]))" using less by simp
      ultimately show ?thesis
        using cutAt_Suc [OF _ _ cut, of e] unfolding run if_not_P [OF False]
        by (intro exI [of _ "Suc j"]) (simp add: e Inr nth_Cons')
    qed
  qed
qed

lemma fetchLoop_cut:
  assumes ctx: "\<And>n. \<not> ctxDoneAt E n" and it: "es = (key, Inr b) # it"
    and r: "bytesToUint64 (extOps E) key = r" "r \<noteq> 0"
  shows "\<exists>k t. 0 < k \<and> cutAt (\<lambda>e. isl (snd e)) (lastWanted E endNr) (max 1 (unat mr)) es k \<and> fetchLoop E mr endNr [] 0 0 0 es s =
      (Ok (Some (map (\<lambda>e. projr (snd e)) (take k es), r, bytesToUint64 (extOps E) (fst (es ! (k - 1))))), t)"
proof -
  let ?s = "s\<lparr>calls := calls s + 1\<rparr>"
  let ?last = "(1 :: uint64) \<ge> mr \<or> (r \<ge> endNr \<and> endNr > 0)"
  have run: "fetchLoop E mr endNr [] 0 0 0 es s =
      (if ?last then ret (Some ([b], r, r)) else fetchLoop E mr endNr [b] 1 r r it) ?s"
    by (simp add: it ctx r draw_def andThen_def)
  show ?thesis
  proof (cases ?last)
    case True
    then have "lastWanted E endNr (key, Inr b) \<or> max 1 (unat mr) = 1"
      by (auto simp: lastWanted_def r word_le_nat_alt)
    then have "cutAt (\<lambda>e. isl (snd e)) (lastWanted E endNr) (max 1 (unat mr)) es 1"
      unfolding it by (intro cutAt_one) auto
    then show ?thesis unfolding run if_P [OF True] by (intro exI [of _ 1]) (simp add: ret_def it r)
  next
    case False
    then have less: "length [b] < unat mr" by (simp add: word_le_nat_alt not_le)
    obtain j t where cut: "cutAt (\<lambda>e. isl (snd e)) (lastWanted E endNr) (unat mr - 1) it j"
      and "fetchLoop E mr endNr [b] 1 r r it ?s = (Ok (Some ([b] @ map (\<lambda>e. projr (snd e)) (take j it), r,
        if j = 0 then r else bytesToUint64 (extOps E) (fst (it ! (j - 1))))), t)"
      using fetchLoop_run [OF ctx r(2) _ less, where cnt = 1 and endNr = endNr and lst = r and it = it and s = ?s] by auto
    moreover have "max 1 (unat mr) = Suc (unat mr - 1)" using less by simp
    moreover have "\<not> lastWanted E endNr (key, Inr b)"
      using False by (auto simp: lastWanted_def r)
    ultimately show ?thesis
      using cutAt_Suc [OF _ _ cut, of "(key, Inr b)"] unfolding run if_not_P [OF False]
      by (intro exI [of _ "Suc j"]) (simp add: it r nth_Cons')
  qed
qed

text \<open>The iterator from a stored key starts with the block of that key.\<close>

lemma kvFind_stored:
  assumes iter: "kvIterLaw D" and stored: "kvRead D d k = Inr (Some b)"
  shows "\<exists>it. kvFind D d k = (k, Inr b) # it"
proof -
  let ?xs = "filter (\<lambda>e. \<not> keyLess (fst e) k) (kvFirst D d)"
  have find: "kvFind D d k = ?xs" and sorted: "sorted_wrt (\<lambda>a b. keyLess (fst a) (fst b)) ?xs"
    and mem: "(k', r) \<in> set (kvFirst D d) \<longleftrightarrow> map_sum id Some r = kvRead D d k'" for k' r
    using iter by (auto simp: kvIterLaw_def intro: sorted_wrt_filter)
  have "(k, Inr b) \<in> set ?xs" using mem [of k "Inr b"] stored by simp
  then obtain e es where es: "?xs = e # es" by (cases ?xs) auto
  have "e \<in> set ?xs" by (simp add: es)
  then have notLess: "\<not> keyLess (fst e) k" and e: "e \<in> set (kvFirst D d)" by auto
  have "fst e = k"
    using \<open>(k, Inr b) \<in> set ?xs\<close> sorted notLess unfolding es by auto
  moreover have "snd e = Inr b"
    using mem [of k "snd e"] e stored \<open>fst e = k\<close> by (cases e; cases "snd e") auto
  ultimately show ?thesis using find es by (cases e) auto
qed

lemma kvFind_entries:
  assumes "kvIterLaw D"
  shows "sorted_wrt (\<lambda>a b. keyLess (fst a) (fst b)) (kvFind D d k)"
    and "e \<in> set (kvFind D d k) \<Longrightarrow> \<not> isl (snd e) \<Longrightarrow> kvRead D d (fst e) = Inr (Some (projr (snd e)))"
proof -
  have find: "kvFind D d k = filter (\<lambda>e. \<not> keyLess (fst e) k) (kvFirst D d)"
    and mem: "(k', r) \<in> set (kvFirst D d) \<longleftrightarrow> map_sum id Some r = kvRead D d k'" for k' r
    using assms by (auto simp: kvIterLaw_def)
  show "sorted_wrt (\<lambda>a b. keyLess (fst a) (fst b)) (kvFind D d k)"
    using assms unfolding find by (auto simp: kvIterLaw_def intro: sorted_wrt_filter)
  assume e: "e \<in> set (kvFind D d k)" and v: "\<not> isl (snd e)"
  have "(fst e, snd e) \<in> set (kvFirst D d)" using e by (simp add: find)
  then have "map_sum id Some (snd e) = kvRead D d (fst e)" by (simp only: mem)
  with v show "kvRead D d (fst e) = Inr (Some (projr (snd e)))" by (cases "snd e") auto
qed

text \<open>
  C26: For a request that was accepted, a worker reads the requested block and those that follow it in the
  order of the keys of the store, each of them as it is stored, and reports the numbers of the first and
  of the last one. It stops after \<open>maxReturnBlocks\<close> blocks (after one, when that is 0), after the first block with at
  least the end number of the request, if it has one, before an entry that cannot be read, or
  at the end of the store, and not earlier.
\<close>

theorem replication_reads_requested_blocks:
  assumes "envLaws E" and "kvIterLaw (blockDb E)" and "nodeInv E s" and ctx: "\<And>n. \<not> ctxDoneAt E n"
    and "getRoundNumber (extOps E) (fuc s) < r" and "r \<le> getRoundNumber (extOps E) (nodeCommittedUC s)"
    and es: "es = kvFind (blockDb E) (blockStore s) (uint64ToBytes (extOps E) r)"
  shows "\<exists>k t. 0 < k \<and> cutAt (\<lambda>e. isl (snd e)) (lastWanted E endNr) (max 1 (unat mr)) es k \<and>
    fst (es ! 0) = uint64ToBytes (extOps E) r \<and> sorted_wrt (\<lambda>a b. keyLess (fst a) (fst b)) es \<and>
    (\<forall>e\<in>set (take k es). kvRead (blockDb E) (blockStore s) (fst e) = Inr (Some (projr (snd e)))) \<and>
    fetchLoop E mr endNr [] 0 0 0 es s =
      (Ok (Some (map (\<lambda>e. projr (snd e)) (take k es), r, bytesToUint64 (extOps E) (fst (es ! (k - 1))))), t)"
proof -
  obtain b where b: "kvRead (blockDb E) (blockStore s) (uint64ToBytes (extOps E) r) = Inr (Some b)"
    using assms(3,5,6) by (auto simp: nodeInv_def chainStored_def storedAt_def)
  from kvFind_stored [OF assms(2) this] obtain it where
    it: "es = (uint64ToBytes (extOps E) r, Inr b) # it" using es by blast
  have r: "bytesToUint64 (extOps E) (uint64ToBytes (extOps E) r) = r" "r \<noteq> 0"
    using envLawsD(5) [OF assms(1)] assms(5) by (auto simp: keyLaw_def)
  obtain k t where k: "0 < k" "cutAt (\<lambda>e. isl (snd e)) (lastWanted E endNr) (max 1 (unat mr)) es k"
    "fetchLoop E mr endNr [] 0 0 0 es s =
      (Ok (Some (map (\<lambda>e. projr (snd e)) (take k es), r, bytesToUint64 (extOps E) (fst (es ! (k - 1))))), t)"
    using fetchLoop_cut [OF ctx it r] by blast
  have "kvRead (blockDb E) (blockStore s) (fst e) = Inr (Some (projr (snd e)))" if "e \<in> set (take k es)" for e
  proof -
    have "\<not> isl (snd e)" using that k(2) by (auto simp: cutAt_def in_set_conv_nth)
    then show ?thesis using kvFind_entries(2) [OF assms(2)] in_set_takeD [OF that] unfolding es by blast
  qed
  moreover have "fst (es ! 0) = uint64ToBytes (extOps E) r" by (simp add: it)
  moreover have "sorted_wrt (\<lambda>a b. keyLess (fst a) (fst b)) es"
    unfolding es by (rule kvFind_entries(1) [OF assms(2)])
  ultimately show ?thesis using k by blast
qed

theorem replication_reads_requested_blocks_witness:
  "\<exists>k t. 0 < k \<and> fetchLoop sampleEnv 1000 0 [] 0 0 0
      (kvFind (blockDb sampleEnv) (blockStore (theNode sampleLoop3)) (uint64ToBytes (extOps sampleEnv) 1)) (theNode sampleLoop3)
      = (Ok (Some (map (\<lambda>e. projr (snd e)) (take k (kvFind (blockDb sampleEnv) (blockStore (theNode sampleLoop3))
          (uint64ToBytes (extOps sampleEnv) 1))), 1, bytesToUint64 (extOps sampleEnv) (fst (kvFind (blockDb sampleEnv)
          (blockStore (theNode sampleLoop3)) (uint64ToBytes (extOps sampleEnv) 1) ! (k - 1))))), t) \<and> k \<le> 1000"
proof -
  have ctx: "\<not> ctxDoneAt sampleEnv n" for n by (simp add: sampleEnv_def)
  have iter: "kvIterLaw (blockDb sampleEnv)" using treeDb_iter by (simp add: sampleEnv_def)
  have "getRoundNumber (extOps sampleEnv) (Some sampleU1) = 1" "getRoundNumber (extOps sampleEnv) None = 0"
    by (simp_all add: sample_ops)
  then obtain k t where "0 < k"
    "cutAt (\<lambda>e. isl (snd e)) (lastWanted sampleEnv 0) (max 1 (unat (1000 :: uint64)))
       (kvFind (blockDb sampleEnv) (blockStore (theNode sampleLoop3)) (uint64ToBytes (extOps sampleEnv) 1)) k"
    "fetchLoop sampleEnv 1000 0 [] 0 0 0
      (kvFind (blockDb sampleEnv) (blockStore (theNode sampleLoop3)) (uint64ToBytes (extOps sampleEnv) 1)) (theNode sampleLoop3)
      = (Ok (Some (map (\<lambda>e. projr (snd e)) (take k (kvFind (blockDb sampleEnv) (blockStore (theNode sampleLoop3))
          (uint64ToBytes (extOps sampleEnv) 1))), 1, bytesToUint64 (extOps sampleEnv) (fst (kvFind (blockDb sampleEnv)
          (blockStore (theNode sampleLoop3)) (uint64ToBytes (extOps sampleEnv) 1) ! (k - 1))))), t)"
    using replication_reads_requested_blocks [OF sampleEnv_laws iter nodeReach_inv [OF sample_reach3(3) sampleEnv_laws] ctx _ _ refl,
        of 1 0 1000] by (simp add: sample_run2) blast
  moreover from this(2) have "k \<le> 1000" by (simp add: cutAt_def)
  ultimately show ?thesis by blast
qed

end
