(* ===== verification/ProposalProperties.thy ===== *)
theory ProposalProperties
  imports HandlerProperties
begin

text \<open>
  Block proposals: which ones a node refuses without any effect, what a node that follows a proposal
  has checked, and how a node starts from its block store.
\<close>

section \<open>The leader\<close>

text \<open>Signing and sending a certification request does not change who leads.\<close>

lemma leaves_leader [leaves_rules]:
  "leaves leader (draw a)" "leaves leader (send E msg rs)" "leaves leader revertState"
  "leaves leader (onTx m)" "leaves leader (onBlocks n)"
  "leaves leader (modify (\<lambda>s. s\<lparr>pendingBlockProposal := p\<rparr>))"
  unfolding send_def on_defs revertState_def
  by (auto intro!: leaves_zoom leaves_modify) (simp add: leaves_def wp_draw)

lemma sendCertificationRequest_leader: "leaves leader (sendCertificationRequest E author st)"
  unfolding sendCertificationRequest_def submitProposal_def proposedInputRecord_def currentEpoch_def
    storePendingProposal_def
  by (intro leaves_rules)

section \<open>Proposals\<close>

text \<open>A proposal that belongs to the shard, is signed by a validator and is not older than the latest certificate.\<close>

definition proposalCurrent :: "('b, 'c) nodeEnv \<Rightarrow> blockProposal \<Rightarrow> ('b, 'c) node \<Rightarrow> bool" where
  "proposalCurrent E prop s \<longleftrightarrow>
     (\<exists>tb. trustBaseByEpoch E (getRootEpoch (extOps E) (bpUnicityCertificate prop)) = Inr tb \<and>
        proposalAcceptable (extOps E) prop tb (shardConf s) (hashAlgorithm (conf s))) \<and>
     getRootRoundNumber (extOps E) (luc s) \<le> getRootRoundNumber (extOps E) (bpUnicityCertificate prop)"

lemma bpIsValid_fails:
  assumes "verifyLaw X" and "\<not> proposalAcceptable X x t sc alg"
  shows "\<exists>e. bpIsValid X (Some x) (Some t) (Some sc) alg s = (Fail e, s)"
proof -
  obtain r u where run: "bpIsValid X (Some x) (Some t) (Some sc) alg s = (r, u)" by fastforce
  moreover have "bpIsValid X (Some x) (Some t) (Some sc) alg s \<noteq> (Ok (), s)"
    by (simp add: bpIsValid_run [OF assms(1)] assms(2))
  ultimately show ?thesis
    using bpIsValid_pure [OF assms(1), of "Some x" "Some t" "Some sc" alg s]
    by (cases r) (simp_all add: wp_def)
qed

lemma andSeq_deref: "andSeq (deref (Some x)) k s = k s"
  by (simp add: comp_defs)

lemma handleBlockProposal_run:
  assumes "status s \<noteq> recovering" and "proposalCurrent E prop s" and law: "verifyLaw (extOps E)"
  shows "\<exists>uc. bpUnicityCertificate prop = Some uc \<and> handleBlockProposal E (Some prop) s =
    andSeq (if getRootRoundNumber (extOps E) (Some uc) > getRootRoundNumber (extOps E) (luc s) then
        wrapErr ''block proposal UC handling failed''
          (handleUnicityCertificate E (Some uc) (Some (bpTechnical prop)))
      else ret ()) (followProposal E prop uc) s"
proof -
  obtain tb where tb: "trustBaseByEpoch E (getRootEpoch (extOps E) (bpUnicityCertificate prop)) = Inr tb"
    and acc: "proposalAcceptable (extOps E) prop tb (shardConf s) (hashAlgorithm (conf s))"
    using assms(2) by (auto simp: proposalCurrent_def)
  then obtain uc where uc: "bpUnicityCertificate prop = Some uc"
    "ucVerify (extOps E) (Some uc) tb (hashAlgorithm (conf s)) (pdrPartitionID (shardConf s)) (pdrShardID (shardConf s)) None = None"
    by (auto simp: proposalAcceptable_def)
  obtain ir where ir: "ucInputRecord uc = Some ir" using verifyLawD [OF law uc(2)] by auto
  have valid: "andSeq (wrapErr w (bpValidate (extOps E) (hashAlgorithm (conf s)) (Some prop) (Some (shardConf s)) (Some tb))) k s
      = k s" for w k
    by (rule andSeq_step, rule wrapErr_step) (simp add: bpValidate_def bpIsValid_run [OF law] acc)
  have load: "andThen (wrapErr w (liftE (Inr x))) f s = f x s" for w x f
    by (simp add: comp_defs)
  have "\<not> getRootRoundNumber (extOps E) (Some uc) < getRootRoundNumber (extOps E) (luc s)"
    using assms(2) uc(1) by (simp add: proposalCurrent_def not_less)
  then have "handleBlockProposal E (Some prop) s =
    andSeq (if getRootRoundNumber (extOps E) (Some uc) > getRootRoundNumber (extOps E) (luc s) then
        wrapErr ''block proposal UC handling failed''
          (handleUnicityCertificate E (Some uc) (Some (bpTechnical prop)))
      else ret ()) (followProposal E prop uc) s"
    using assms(1) tb
    by (simp add: handleBlockProposal_def andThen_gets uc(1) load valid andThen_deref ir andSeq_deref)
  with uc(1) show ?thesis by blast
qed


lemma proposal_rejected:
  assumes "envLaws E" and "status s \<noteq> recovering" and "\<not> proposalCurrent E prop s"
  shows "\<exists>e. handleBlockProposal E (Some prop) s = (Fail e, s)"
proof (cases "trustBaseByEpoch E (getRootEpoch (extOps E) (bpUnicityCertificate prop))")
  case (Inl e)
  then show ?thesis using assms(2) by (simp add: handleBlockProposal_def comp_defs)
next
  case (Inr tb)
  note law = envLawsD(2) [OF assms(1)]
  have load: "andThen (wrapErr w (liftE (Inr x))) f s = f x s" for w x f
    by (simp add: comp_defs)
  show ?thesis
  proof (cases "proposalAcceptable (extOps E) prop tb (shardConf s) (hashAlgorithm (conf s))")
    case False
    then obtain e where "bpValidate (extOps E) (hashAlgorithm (conf s)) (Some prop) (Some (shardConf s)) (Some tb) s = (Fail e, s)"
      using bpIsValid_fails [OF law] by (fastforce simp: bpValidate_def)
    then have fails: "andSeq (wrapErr w (bpValidate (extOps E) (hashAlgorithm (conf s)) (Some prop) (Some (shardConf s)) (Some tb))) k s
        = (Fail (Wrapf w e), s)" for w k
      by (simp add: andSeq_def andThen_def wrapErr_def)
    show ?thesis
      using assms(2) Inr by (simp add: handleBlockProposal_def andThen_gets load fails)
  next
    case True
    then obtain uc where uc: "bpUnicityCertificate prop = Some uc"
      "ucVerify (extOps E) (Some uc) tb (hashAlgorithm (conf s)) (pdrPartitionID (shardConf s)) (pdrShardID (shardConf s)) None = None"
      by (auto simp: proposalAcceptable_def)
    obtain ir where ir: "ucInputRecord uc = Some ir" using verifyLawD [OF law uc(2)] by auto
    have valid: "andSeq (wrapErr w (bpValidate (extOps E) (hashAlgorithm (conf s)) (Some prop) (Some (shardConf s)) (Some tb))) k s
        = k s" for w k
      by (rule andSeq_step, rule wrapErr_step) (simp add: bpValidate_def bpIsValid_run [OF law] True)
    have "getRootRoundNumber (extOps E) (Some uc) < getRootRoundNumber (extOps E) (luc s)"
      using assms(3) True Inr uc(1) by (auto simp: proposalCurrent_def)
    then show ?thesis
      using assms(2) Inr
      by (simp add: handleBlockProposal_def andThen_gets uc(1) load valid andThen_deref ir andSeq_deref fail_def)
  qed
qed

lemma followProposal_leader:
  assumes "followProposal E prop uc s = (Ok (), t)"
  shows "leader t = bpNodeID prop"
proof -
  have "leader s = bpNodeID prop"
    using assms by (auto simp: followProposal_def andThen_gets fail_def split: if_splits)
  moreover have "leaves leader (followProposal E prop uc)"
    unfolding followProposal_def by (intro leaves_rules sendCertificationRequest_leader)
  then have "leader t = leader s" using assms by (rule leavesD)
  ultimately show ?thesis by simp
qed

text \<open>
  C21: A node that is not recovering refuses, without any effect, every proposal that is not for its
  shard, not signed by one of its validators, not backed by a valid certificate and technical record,
  or older than its latest certificate.
\<close>

theorem proposal_rejected_unchanged:
  assumes "envLaws E" and "status s \<noteq> recovering" and "\<not> proposalCurrent E prop s"
  shows "\<exists>e. handleBlockProposal E (Some prop) s = (Fail e, s)"
  using assms by (rule proposal_rejected)

text \<open>
  C11: A node that handles a proposal to the end, and so signs a request for its certification, has
  found it current and from the leader of the round.
\<close>

theorem certifies_only_current_leader:
  assumes "envLaws E" and "handleBlockProposal E (Some prop) s = (Ok (), t)"
  shows "status s \<noteq> recovering \<and> proposalCurrent E prop s \<and> leader t = bpNodeID prop"
proof -
  have st: "status s \<noteq> recovering"
    using assms(2) by (auto simp: handleBlockProposal_def comp_defs)
  moreover have cur: "proposalCurrent E prop s"
    using proposal_rejected [OF assms(1) st] assms(2) by fastforce
  moreover have "leader t = bpNodeID prop"
  proof -
    obtain uc where "handleBlockProposal E (Some prop) s =
        andSeq (if getRootRoundNumber (extOps E) (Some uc) > getRootRoundNumber (extOps E) (luc s) then
          wrapErr ''block proposal UC handling failed''
            (handleUnicityCertificate E (Some uc) (Some (bpTechnical prop)))
        else ret ()) (followProposal E prop uc) s" (is "_ = andSeq ?m _ s")
      using handleBlockProposal_run [OF st cur envLawsD(2) [OF assms(1)]] by blast
    then have "andSeq ?m (followProposal E prop uc) s = (Ok (), t)" using assms(2) by simp
    then obtain u where "followProposal E prop uc u = (Ok (), t)"
      by (auto simp: andSeq_def andThen_def split: prod.splits outcome.splits)
    then show ?thesis by (rule followProposal_leader)
  qed
  ultimately show ?thesis by blast
qed

section \<open>Witnesses\<close>

theorem proposal_rejected_unchanged_witness:
  "\<exists>e. handleBlockProposal sampleEnv (Some \<lparr>bpPartitionID = 9, bpShardID = ShardID [], bpNodeID = ''v'',
      bpUnicityCertificate = Some sampleU1, bpTechnical = sampleTR 2 ''v'', bpProposedRoot = Some [10, 5],
      bpSignature = Some [5]\<rparr>) sampleNode = (Fail e, sampleNode)"
  by (rule proposal_rejected_unchanged [OF sampleEnv_laws])
    (simp_all add: sampleNode_def proposalCurrent_def proposalAcceptable_def sampleConf_def)

text \<open>A follower with the certificate of round 1 that receives the proposal of the leader \<open>v\<close> for round 2.\<close>

definition sampleProposedUC :: unicityCertificate where
  "sampleProposedUC = \<lparr>ucVersion = 1, ucInputRecord = Some \<lparr>irVersion = 1, irRoundNumber = 2, irEpoch = 0,
       irPreviousHash = Some [10, 5], irHash = Some [10, 5], irSummaryValue = Some [], irTimestamp = 7,
       irBlockHash = None, irSumOfEarnedFees = 0, irETHash = None\<rparr>,
     ucTRHash = None, ucShardConfHash = None, ucUnicityTreeCertificate = None, ucUnicitySeal = None, ucProof = []\<rparr>"

definition sampleFollowerEnv :: "(sampleStore, sampleConfs) nodeEnv" where
  "sampleFollowerEnv = sampleEnv\<lparr>extOps := sampleNetExt\<lparr>
     marshalUC := (\<lambda>u. if u = sampleProposedUC then Inr (Some [255]) else Inl ioEOF),
     unmarshalUC := (\<lambda>bs. if bs = Some [255] then Inr sampleProposedUC else sampleDecodeUC bs),
     calculateBlockHash := (\<lambda>b alg. Inr (ucInputRecord sampleProposedUC, b)),
     cborMarshal := (\<lambda>m. Inr [1])\<rparr>\<rparr>"

lemma sampleFollowerEnv_laws: "envLaws sampleFollowerEnv"
  using sampleEnv_laws sampleNetExt_laws
  by (auto simp: envLaws_def sampleFollowerEnv_def extLaws sizeLaw_def sampleProposedUC_def sampleEnv_def)

definition sampleFollower :: "(sampleStore, sampleConfs) node" where
  "sampleFollower = sampleNode\<lparr>status := normal, luc := Some sampleU1, ltr := Some (sampleTR 2 ''v''), leader := ''v'',
     transactionSystem := sampleFgp\<lparr>committedStateHash := Some [10, 5], committedStateHeight := 5, committedUC := Some sampleU1\<rparr>,
     shardConf := sampleConf\<lparr>pdrValidators := [\<lparr>niNodeID = ''v'', niSigKey = Some [8]\<rparr>]\<rparr>,
     network := sampleNet\<lparr>sendProtocols := (\<lambda>_. Some \<lparr>spProtocolID = ''p'', spTimeout = 1\<rparr>)\<rparr>\<rparr>"

definition sampleLeaderProposal :: blockProposal where
  "sampleLeaderProposal = \<lparr>bpPartitionID = 3, bpShardID = ShardID [], bpNodeID = ''v'',
     bpUnicityCertificate = Some sampleU1, bpTechnical = sampleTR 2 ''v'', bpProposedRoot = Some [10, 5],
     bpSignature = Some [5]\<rparr>"

theorem certifies_only_current_leader_witness:
  "proposalCurrent sampleFollowerEnv sampleLeaderProposal sampleFollower \<and>
   leader (snd (handleBlockProposal sampleFollowerEnv (Some sampleLeaderProposal) sampleFollower)) = ''v''"
proof -
  have "fst (handleBlockProposal sampleFollowerEnv (Some sampleLeaderProposal) sampleFollower) = Ok ()" by code_simp
  then have "handleBlockProposal sampleFollowerEnv (Some sampleLeaderProposal) sampleFollower =
      (Ok (), snd (handleBlockProposal sampleFollowerEnv (Some sampleLeaderProposal) sampleFollower))"
    by (simp add: prod_eq_iff)
  from certifies_only_current_leader [OF sampleFollowerEnv_laws this] show ?thesis
    by (simp add: sampleLeaderProposal_def)
qed

end
