(* ===== verification/StartProperties.thy ===== *)
theory StartProperties
  imports ProposalProperties
begin

text \<open>
  How a node starts: the state \<open>NewNode\<close> takes over from the block store.
\<close>

lemma leaves_tx_cert:
  assumes "\<And>x. wp False m (\<lambda>_ y. committedUC y = committedUC x) (\<lambda>_ y. committedUC y = committedUC x) x"
  shows "leaves nodeCommittedUC (onTx m)"
proof -
  have "wp True m (\<lambda>_ y. committedUC y = committedUC x) (\<lambda>_ y. committedUC y = committedUC x) x" for x
    by (rule wp_mono [OF assms]) auto
  then show ?thesis by (simp add: leaves_def onTx_def wp_zoom nodeCommittedUC_def)
qed

lemma leaves_verify: "leaves nodeCommittedUC (onTx (followerVerify pow r p))"
  by (rule leaves_tx_cert, rule wp_mono [OF fgp.verify_frame]) auto

text \<open>The certificates and the status of a node.\<close>

definition certView :: "('b, 'c) node \<Rightarrow>
    unicityCertificate option \<times> unicityCertificate option \<times> unicityCertificate option \<times> nodeStatus" where
  "certView s = (nodeCommittedUC s, fuc s, luc s, status s)"

lemma leaves_certView [leaves_rules]:
  "leaves certView (draw a)" "leaves certView (onTx (followerVerify pow r p))" "leaves certView revertState"
  "leaves certView (modify (\<lambda>s. s\<lparr>pendingBlockProposal := q\<rparr>))"
proof -
  show "leaves certView (draw a)" "leaves certView (modify (\<lambda>s. s\<lparr>pendingBlockProposal := q\<rparr>))"
    by (simp_all add: leaves_def wp_draw wp_modify certView_def nodeCommittedUC_def)
  show "leaves certView revertState"
    by (simp add: leaves_def revertState_def wp_modify certView_def nodeCommittedUC_def revert_def)
  show "leaves certView (onTx (followerVerify pow r p))"
    using leaves_verify [of pow r p] unfolding leaves_def onTx_def wp_zoom certView_def
    by (simp add: nodeCommittedUC_def)
qed

lemma leaves_restoreBlockProposal: "leaves certView (restoreBlockProposal E)"
  unfolding restoreBlockProposal_def loadPendingProposal_def verifyPending_def by (intro leaves_rules)

lemma newNode_init:
  assumes "newNode E cf txs db cs nw = Ok n"
  shows "\<exists>s. initState E s = (Ok (), n) \<and> blockStore s = db \<and> status s = initializing"
  using assms unfolding newNode_def by (auto split: prod.splits outcome.splits intro!: exI)

lemma initState_last:
  assumes last: "kvLast (blockDb E) (blockStore s) = (k, Inr b) # it" and uc: "getUCv1 (extOps E) (Some b) = Inr u"
  shows "wp True (initState E) (\<lambda>_ t. certView t = (Some u, Some u, Some u, status s)) (\<lambda>_ _. True) s"
proof -
  have rest: "wp True (restoreBlockProposal E) (\<lambda>_ t. certView t = (Some u, Some u, Some u, status s)) (\<lambda>_ _. True) t"
    if "certView t = (Some u, Some u, Some u, status s)" for t
    using leaves_restoreBlockProposal [of E] that unfolding leaves_def
    by (elim allE [of _ t]) (erule wp_mono, auto)
  have conf: "wp True (onConf (getConf (confDb E) e)) (\<lambda>_ t. status t = status s) (\<lambda>_ _. True) s" for e
    unfolding onConf_def wp_zoom by (rule wp_mono [OF store_source.get_spec]) auto
  have upd: "wp True (onTx (updateConfig (Some sc))) (\<lambda>_ t. status t = status s) (\<lambda>_ _. True) t" if "status t = status s" for sc t
    unfolding onTx_def wp_zoom using that by (simp add: wp_def split: prod.splits outcome.splits)
  have restore: "wp True (onTx (restoreState (extOps E) pow u))
      (\<lambda>_ t. nodeCommittedUC t = Some u \<and> status t = status s) (\<lambda>_ _. True) t" if "status t = status s" for pow t
    unfolding onTx_def wp_zoom
    by (rule wp_mono [OF restoreState_frame]) (use that in \<open>auto simp: nodeCommittedUC_def\<close>)
  have final: "wp True (andSeq (modify (\<lambda>s. s\<lparr>fuc := nodeCommittedUC s\<rparr>))
      (andSeq (modify (\<lambda>s. s\<lparr>luc := fuc s\<rparr>)) (restoreBlockProposal E)))
      (\<lambda>_ t. certView t = (Some u, Some u, Some u, status s)) (\<lambda>_ _. True) t"
    if "nodeCommittedUC t = Some u" "status t = status s" for t
    unfolding wp_andSeq wp_modify
    by (rule rest) (use that in \<open>simp add: certView_def nodeCommittedUC_def\<close>)
  have load: "wp True (andSeq (modify (\<lambda>s. s\<lparr>shardConf := sc\<rparr>))
      (andSeq (wrapErr w (onTx (updateConfig (Some sc))))
      (andThen (draw (powAt E)) (\<lambda>pow. wrapErr w' (onTx (restoreState (extOps E) pow u))))))
      (\<lambda>_ t. nodeCommittedUC t = Some u \<and> status t = status s) (\<lambda>_ _. True) t"
    if "status t = status s" for sc w w' t
    unfolding wp_andSeq wp_modify wp_wrapErr
    by (rule wp_mono [OF upd], simp add: that, unfold wp_andThen wp_draw wp_wrapErr)
      (rule restore, simp, simp_all)
  show ?thesis
    unfolding initState_def wp_andThen [of _ "gets _"] wp_gets last list.case wp_andSeq [of _ "andThen _ _"]
      wp_andThen [of _ "wrapErr _ (liftE _)"] wp_wrapErr [of _ _ "liftE _"] wp_liftE snd_conv sum.case uc
      wp_andThen [of _ "wrapErr _ (onConf _)"] wp_wrapErr [of _ _ "onConf _"]
    by (rule wp_mono [OF conf], rule wp_mono [OF load], assumption) (auto intro: final)
qed

lemma newNode_last:
  assumes "newNode E cf txs db cs nw = Ok n"
    and "kvLast (blockDb E) db = (k, Inr b) # it" and "getUCv1 (extOps E) (Some b) = Inr u"
  shows "nodeCommittedUC n = Some u \<and> fuc n = Some u \<and> luc n = Some u \<and> status n = initializing"
proof -
  from newNode_init [OF assms(1)] obtain s where s: "initState E s = (Ok (), n)" "blockStore s = db" "status s = initializing"
    by blast
  have "kvLast (blockDb E) (blockStore s) = (k, Inr b) # it" using assms(2) s(2) by simp
  from wp_Ok [OF initState_last [OF this assms(3)] s(1)] s(3) show ?thesis by (simp add: certView_def)
qed

lemma kvLast_single:
  assumes iter: "kvIterLaw D" and only: "\<And>k. kvRead D d k = (if k = key then Inr (Some v) else Inr None)"
  shows "kvLast D d = [(key, Inr v)]"
proof -
  have sorted: "sorted_wrt (\<lambda>a b. keyLess (fst a) (fst b)) (kvFirst D d)"
    and mem: "\<And>k r. (k, r) \<in> set (kvFirst D d) \<longleftrightarrow> map_sum id Some r = kvRead D d k"
    and last: "kvLast D d = (if kvFirst D d = [] then [] else [last (kvFirst D d)])"
    using iter by (auto simp: kvIterLaw_def)
  have val: "r = Inr v \<and> k = key" if "(k, r) \<in> set (kvFirst D d)" for k r
    using that mem [of k r] only by (cases r) (auto split: if_splits)
  have ne: "kvFirst D d \<noteq> []" using mem [of key "Inr v"] only by auto
  from last_in_set [OF ne] val have "last (kvFirst D d) = (key, Inr v)" by (metis surj_pair)
  with last ne show ?thesis by simp
qed

text \<open>
  A node started on a store with blocks takes the certificate of the last entry as its first,
  its latest and its committed one, and starts in the initial status.
\<close>

lemma node_starts_from_last_block:
  assumes "newNode E cf txs db cs nw = Ok n"
    and "kvLast (blockDb E) db = (k, Inr b) # it" and "getUCv1 (extOps E) (Some b) = Inr u"
  shows "nodeCommittedUC n = Some u \<and> fuc n = Some u \<and> luc n = Some u \<and> status n = initializing"
  using assms by (rule newNode_last)

text \<open>
  C22: The pending proposal lives in the block store. A node that stops before its first block is
  certified and starts again finds the proposal as the last entry, and takes its input record, which
  nobody certified, for the committed state.
\<close>

theorem restart_takes_pending_as_committed:
  assumes "kvIterLaw (blockDb E)"
    and "\<And>k. kvRead (blockDb E) db k = (if k = uint32ToBytes (extOps E) proposalKey then Inr (Some p) else Inr None)"
    and "getUCv1 (extOps E) (Some p) = Inr u" and "newNode E cf txs db cs nw = Ok n"
  shows "nodeCommittedUC n = Some u \<and> luc n = Some u"
  using newNode_last [OF assms(4) kvLast_single [OF assms(1,2)] assms(3)] by simp

section \<open>Witnesses\<close>

lemma sample_updateConfig: "updateConfig (Some sampleConf) sampleFgp = (Ok (), sampleFgp)"
  by (simp add: updateConfig_run readDFG_def sample_defs parseUint_def digitVal_def parseCutoff_def)

lemma sample_hex: "hexEncodeToString [10, 5] = ''0a05''"
  by code_simp

lemma sample_restoreState:
  assumes "getStateHash (extOps sampleEnv) (Some u) = Some [10, 5]"
  shows "\<exists>x. restoreState (extOps sampleEnv) sampleClient u sampleFgp = (Ok (), x)"
  using assms
  by (simp add: restoreState_def comp_defs sliceLen_def sampleClient_def sampleHeader_def sample_hex Let_def)

text \<open>The sample node starts on any store whose last entry leads to the sample block.\<close>

lemma noFail_restoreBlockProposal: "noFail (restoreBlockProposal E)"
  unfolding restoreBlockProposal_def verifyPending_def by (intro noFail_rules noFail_revertState)

lemma andThen_loaded: "andThen (wrapErr w (liftE (Inr x))) f s = f x s"
  by (simp add: comp_defs)

lemma sample_start:
  assumes last: "kvLast (blockDb sampleEnv) db = [(k, Inr b)]" and uc: "getUCv1 (extOps sampleEnv) (Some b) = Inr u"
    and hash: "getStateHash (extOps sampleEnv) (Some u) = Some [10, 5]"
    and epoch: "getShardEpoch (extOps sampleEnv) (Some u) = 0"
    and complete: "storeComplete sampleEnv db"
  shows "\<exists>n. newNode sampleEnv sampleNodeConf sampleFgp db sampleConfStore sampleNet = Ok n"
proof -
  let ?s = "sampleNode\<lparr>blockStore := db\<rparr>"
  let ?rest = "andSeq (modify (\<lambda>s. s\<lparr>fuc := nodeCommittedUC s\<rparr>))
     (andSeq (modify (\<lambda>s. s\<lparr>luc := fuc s\<rparr>)) (restoreBlockProposal sampleEnv)) :: ((sampleStore, sampleConfs) node, unit) comp"
  obtain x where x: "restoreState (extOps sampleEnv) sampleClient u sampleFgp = (Ok (), x)"
    using sample_restoreState [OF hash] by blast
  have conf: "andThen (wrapErr w (onConf (getConf (confDb sampleEnv) 0))) f ?s = f sampleConf ?s" for w f
    by (rule andThen_step, rule wrapErr_step)
      (simp add: onConf_def zoom_def getConf_def comp_defs sampleNode_def sampleConfStore_def)
  have set: "andSeq (modify (\<lambda>s. s\<lparr>shardConf := sampleConf\<rparr>)) m ?s = m ?s" for m
    by (simp add: andSeq_def andThen_def modify_def sampleNode_def)
  have upd: "andSeq (wrapErr w (onTx (updateConfig (Some sampleConf)))) m ?s = m ?s" for w m
    by (rule andSeq_step, rule wrapErr_step) (simp add: onTx_def zoom_def sampleNode_def sample_updateConfig)
  have pow: "andThen (draw (powAt sampleEnv)) f ?s = f sampleClient (?s\<lparr>calls := 1\<rparr>)" for f
    by (simp add: andThen_def draw_def sampleEnv_def sampleNode_def)
  have restore: "wrapErr w (onTx (restoreState (extOps sampleEnv) sampleClient u)) (?s\<lparr>calls := n\<rparr>)
      = (Ok (), ?s\<lparr>calls := n, transactionSystem := x\<rparr>)" for w n
    by (simp add: onTx_def zoom_def wrapErr_def sampleNode_def x)
  have db: "blockStore ?s = db" by (simp add: sampleNode_def)
  have run: "initState sampleEnv ?s = ?rest (?s\<lparr>calls := 1, transactionSystem := x\<rparr>)"
    unfolding initState_def andThen_gets db last list.case
    by (rule andSeq_step) (simp only: snd_conv andThen_loaded uc epoch conf set upd pow restore)
  have "noFail ?rest" by (intro noFail_rules noFail_restoreBlockProposal)
  moreover have pre: "preInv sampleEnv db ?s"
    using sample_startable
    by (simp add: preInv_def startable_def sampleNode_def selfID_def nodeCommittedUC_def netInv_def)
  from wp_no_panic [OF initState_wp [OF pre complete]] have "fst (?rest (?s\<lparr>calls := 1, transactionSystem := x\<rparr>)) \<noteq> Panics p" for p
    unfolding run .
  ultimately obtain n where "initState sampleEnv ?s = (Ok (), n)"
    unfolding run noFail_def
    by (cases "?rest (?s\<lparr>calls := 1, transactionSystem := x\<rparr>)"; cases "fst (?rest (?s\<lparr>calls := 1, transactionSystem := x\<rparr>))") auto
  moreover have "?s = \<lparr>status = initializing, fuc = None, luc = None, ltr = None, leader = '''',
      pendingBlockProposal = None, recoveryLastProp = None, conf = sampleNodeConf,
      transactionSystem = sampleFgp, lastLedgerReqTime = zeroTime, replicationCh = [], blockStore = db,
      shardConfStore = sampleConfStore\<lparr>scCache := [0 \<mapsto> sampleConf]\<rparr>, network = sampleNet, timer = newRoundTimer,
      epochChangeEvent = False, shardConf = sampleConf, calls = 0\<rparr>"
    by (simp add: sampleNode_def)
  ultimately show ?thesis unfolding newNode_def sample_getFirst by simp
qed

definition sampleStored :: sampleStore where
  "sampleStored = RBT.insert (uint64ToBytes sampleNetExt 1) sampleB1 RBT.empty"

definition samplePending :: block where
  "samplePending = sampleB1\<lparr>blkUnicityCertificate := Some [1, 0, 0, 10, 5]\<rparr>"

definition samplePendingStore :: sampleStore where
  "samplePendingStore = RBT.insert (uint32ToBytes sampleNetExt proposalKey) samplePending RBT.empty"

lemma sample_ucs:
  "getUCv1 (extOps sampleEnv) (Some sampleB1) = Inr sampleU1"
  "getUCv1 (extOps sampleEnv) (Some samplePending) = Inr (sampleU1\<lparr>ucUnicitySeal := None\<rparr>)"
  by code_simp+

lemma sample_hash:
  "getStateHash (extOps sampleEnv) (Some sampleU1) = Some [10, 5]"
  "getShardEpoch (extOps sampleEnv) (Some sampleU1) = 0"
  "getStateHash (extOps sampleEnv) (Some (sampleU1\<lparr>ucUnicitySeal := None\<rparr>)) = Some [10, 5]"
  "getShardEpoch (extOps sampleEnv) (Some (sampleU1\<lparr>ucUnicitySeal := None\<rparr>)) = 0"
  by (simp_all add: sampleEnv_def sampleNetExt_fields sampleExt_def irField_def sampleU1_def sampleUC_def sampleIR_def)

lemma sample_stores:
  "kvLast (blockDb sampleEnv) sampleStored = [(uint64ToBytes sampleNetExt 1, Inr sampleB1)]"
  "kvLast (blockDb sampleEnv) samplePendingStore = [(uint32ToBytes sampleNetExt proposalKey, Inr samplePending)]"
  by (simp_all add: sampleEnv_def treeDb_def sampleStored_def samplePendingStore_def entries_single)

lemma sample_complete: "storeComplete sampleEnv sampleStored" "storeComplete sampleEnv samplePendingStore"
  unfolding storeComplete_def sample_stores
  using proposalKey_fresh [OF sampleNetExt_laws(7), of 1 proposalKey]
  by (auto simp: sampleEnv_def treeDb_def sampleStored_def samplePendingStore_def sample_ucs [unfolded sampleEnv_def, simplified]
      sampleU1_def sampleUC_def)

theorem restart_takes_pending_as_committed_witness:
  "\<exists>n u. newNode sampleEnv sampleNodeConf sampleFgp samplePendingStore sampleConfStore sampleNet = Ok n \<and>
     nodeCommittedUC n = Some u \<and> ucUnicitySeal u = None"
proof -
  obtain n where n: "newNode sampleEnv sampleNodeConf sampleFgp samplePendingStore sampleConfStore sampleNet = Ok n"
    using sample_start [OF sample_stores(2) sample_ucs(2) sample_hash(3,4) sample_complete(2)] by blast
  have only: "kvRead (blockDb sampleEnv) samplePendingStore k =
      (if k = uint32ToBytes (extOps sampleEnv) proposalKey then Inr (Some samplePending) else Inr None)" for k
    by (simp add: sampleEnv_def treeDb_def samplePendingStore_def)
  have iter: "kvIterLaw (blockDb sampleEnv)" using treeDb_iter by (simp add: sampleEnv_def)
  from restart_takes_pending_as_committed [OF iter only sample_ucs(2) n] n show ?thesis by auto
qed

end
