(* ===== verification/RoundProperties.thy ===== *)
theory RoundProperties
  imports ProposalProperties NetworkProperties
begin

text \<open>
  One round of two nodes: the leader that proposes at its T1 timeout and a follower that receives the
  proposal ask the root chain to certify the same block. The block a node asks for is a function of
  the proposed root and of a view of its state that all nodes of a round share.
\<close>

section \<open>Code that moves the state along a preorder\<close>

definition moves :: "('s \<Rightarrow> 's \<Rightarrow> bool) \<Rightarrow> ('s, 'a) comp \<Rightarrow> bool" where
  "moves R m \<longleftrightarrow> (\<forall>s. wp True m (\<lambda>_. R s) (\<lambda>_. R s) s)"

named_theorems moves_rules \<open>composition of code that moves the state along a preorder\<close>

lemma movesD: "moves R m \<Longrightarrow> m s = (r, t) \<Longrightarrow> \<forall>p. r \<noteq> Panics p \<Longrightarrow> R s t"
  unfolding moves_def by (cases r) (auto simp: wp_def dest!: spec [of _ s])

lemma moves_pure [moves_rules]:
  assumes "reflp R"
  shows "moves R (ret x)" "moves R (fail e)" "moves R (gets g)" "moves R (liftE r)" "moves R (liftErr q)"
    "moves R (deref p)" "moves R (liftOut o')"
  using assms by (auto simp: moves_def wp_rules reflp_def split: sum.splits option.splits outcome.splits)

lemma moves_onLocal [moves_rules]: "reflp R \<Longrightarrow> moves R (onLocal m p)"
  by (auto simp: moves_def wp_onLocal reflp_def) (auto simp: wp_def split: prod.splits outcome.splits)

lemma moves_andThen [moves_rules]:
  assumes "transp R" and "moves R m" and "\<And>x. moves R (k x)"
  shows "moves R (andThen m k)"
  unfolding moves_def wp_andThen
proof
  fix s
  have "wp True (k x) (\<lambda>_. R s) (\<lambda>_. R s) t" if "R s t" for x t
  proof (rule wp_mono)
    show "wp True (k x) (\<lambda>_. R t) (\<lambda>_. R t) t" using assms(3) by (simp add: moves_def)
  qed (use transpD [OF assms(1) that] in blast)+
  moreover have "wp True m (\<lambda>_. R s) (\<lambda>_. R s) s" using assms(2) by (simp add: moves_def)
  ultimately show "wp True m (\<lambda>x. wp True (k x) (\<lambda>_. R s) (\<lambda>_. R s)) (\<lambda>_. R s) s"
    by (blast intro: wp_mono)
qed

lemma moves_andSeq [moves_rules]: "transp R \<Longrightarrow> moves R m \<Longrightarrow> moves R k \<Longrightarrow> moves R (andSeq m k)"
  unfolding andSeq_def by (rule moves_andThen)

lemma moves_attempt [moves_rules]: "moves R m \<Longrightarrow> moves R (attempt m)"
  by (simp add: moves_def wp_attempt)

lemma moves_wrapErr [moves_rules]: "moves R m \<Longrightarrow> moves R (wrapErr w m)"
  by (simp add: moves_def wp_wrapErr)

lemma moves_cases [moves_rules]:
  "moves R m \<Longrightarrow> moves R k \<Longrightarrow> moves R (if b then m else k)"
  "moves R m \<Longrightarrow> (\<And>v. moves R (g v)) \<Longrightarrow> moves R (case p of None \<Rightarrow> m | Some v \<Rightarrow> g v)"
  "(\<And>e. moves R (h e)) \<Longrightarrow> (\<And>w. moves R (l w)) \<Longrightarrow> moves R (case r of Inl e \<Rightarrow> h e | Inr w \<Rightarrow> l w)"
  "(\<And>a b. moves R (n a b)) \<Longrightarrow> moves R (case q of (a, b) \<Rightarrow> n a b)"
  by (simp_all split: option.splits sum.splits prod.splits)

section \<open>The block of a round\<close>

text \<open>What the input record and the header of a proposal are made of.\<close>

definition roundView :: "('b, 'c) node \<Rightarrow>
    unicityCertificate option \<times> technicalRecord option \<times> shardConfRecord \<times> hashAlg \<times> unicityCertificate option" where
  "roundView s = (luc s, ltr s, shardConf s, hashAlgorithm (conf s), nodeCommittedUC s)"

definition roundBlock :: "('b, 'c) nodeEnv \<Rightarrow> string \<Rightarrow> summary \<Rightarrow> ('b, 'c) node \<Rightarrow> block option" where
  "roundBlock E author st s = (case fst (proposedInputRecord E st s) of
      Ok ir0 \<Rightarrow> (case marshalUC (extOps E) \<lparr>ucVersion = 1, ucInputRecord = Some ir0, ucTRHash = None,
          ucShardConfHash = None, ucUnicityTreeCertificate = None, ucUnicitySeal = None, ucProof = []\<rparr> of
        Inr ucBytes \<Rightarrow> (case calculateBlockHash (extOps E) (pendingProposalOf E author ucBytes s) (hashAlgorithm (conf s)) of
            Inr (ir, b) \<Rightarrow> Some b | Inl _ \<Rightarrow> None)
      | Inl _ \<Rightarrow> None)
    | _ \<Rightarrow> None)"

lemma roundBlock_cong:
  assumes "extOps E = extOps F" and "roundView s = roundView t"
  shows "roundBlock E author st s = roundBlock F author st t"
proof -
  have view: "luc s = luc t" "ltr s = ltr t" "shardConf s = shardConf t" "hashAlgorithm (conf s) = hashAlgorithm (conf t)"
    "nodeCommittedUC s = nodeCommittedUC t" using assms(2) by (simp_all add: roundView_def)
  then have "fst (proposedInputRecord E st s) = fst (proposedInputRecord F st t)"
    by (auto simp: proposedInputRecord_def currentRoundNumber_def currentEpoch_def comp_defs assms(1)
        split: option.splits)
  moreover have "pendingProposalOf E author u s = pendingProposalOf F author u t" for u
    using view by (simp add: pendingProposalOf_def partitionID_def shardIDOf_def assms(1))
  ultimately show ?thesis unfolding roundBlock_def assms(1) view(4) by presburger
qed

section \<open>Asking for certification\<close>

text \<open>Nothing that was handed to the network is taken back, and a new pending proposal is \<open>b\<close>.\<close>

definition submits :: "block option \<Rightarrow> ('b, 'c) node \<Rightarrow> ('b, 'c) node \<Rightarrow> bool" where
  "submits b s t \<longleftrightarrow> set (spawned (network s)) \<subseteq> set (spawned (network t)) \<and>
     pendingBlockProposal t \<in> {pendingBlockProposal s, b}"

lemma submits_preorder: "reflp (submits b)" "transp (submits b)"
  by (auto simp: submits_def reflp_def transp_def)

lemma submits_refl [simp]: "submits b s s"
  by (simp add: submits_def)

lemma netSend_spawned: "moves (\<lambda>n m. set (spawned n) \<subseteq> set (spawned m)) (netSend X msg rs)"
proof -
  have pre: "reflp (\<lambda>n m. set (spawned n) \<subseteq> set (spawned m))" "transp (\<lambda>n m. set (spawned n) \<subseteq> set (spawned m))"
    by (auto simp: reflp_def transp_def)
  have "moves (\<lambda>n m. set (spawned n) \<subseteq> set (spawned m)) (forEach rs (\<lambda>receiver.
       andThen (gets netSelf) (\<lambda>self.
       if receiver = self then andSeq (attempt (receivedMsg msg)) (ret ())
       else modify (\<lambda>n. n\<lparr>spawned := spawned n @ [(p, bs, receiver)]\<rparr>))))" for p bs
  proof (induction rs)
    case Nil
    show ?case unfolding forEach.simps by (rule moves_pure(1) [OF pre(1)])
  next
    case (Cons r rs)
    show ?case unfolding forEach.simps
      by (intro moves_rules pre Cons) (auto simp: moves_def receivedMsg_def modify_def wp_def)
  qed
  then show ?thesis
    unfolding netSend_def sendAsync_def by (intro moves_rules pre)
qed

lemma moves_send: "moves (submits b) (send E msg rs)"
  using netSend_spawned [of "extOps E" msg rs]
  unfolding moves_def send_def onNet_def wp_zoom
  by (auto simp: submits_def elim!: wp_mono)

lemma moves_submits [moves_rules]:
  "moves (submits b) revertState" "moves (submits b) (onBlocks m)" "moves (submits b) (draw a)"
  "moves (submits (Some p)) (modify (\<lambda>s. s\<lparr>pendingBlockProposal := Some p\<rparr>))"
  by (auto simp: moves_def submits_def revertState_def onBlocks_def wp_rules wp_draw)
    (auto simp: wp_def split: prod.splits outcome.splits)

lemma moves_submitProposal: "moves (submits (Some p)) (submitProposal E l ir p)"
  unfolding submitProposal_def storePendingProposal_def
  by (intro moves_rules submits_preorder moves_send)

lemma leaves_pending [leaves_rules]:
  "leaves pendingBlockProposal (draw a)" "leaves pendingBlockProposal (send E msg rs)"
  "leaves pendingBlockProposal revertState" "leaves pendingBlockProposal (onBlocks n)" "leaves pendingBlockProposal (onTx k)"
  unfolding send_def on_defs revertState_def
  by (auto intro!: leaves_zoom leaves_modify) (simp add: leaves_def wp_draw)

lemma modify_leaves: "andSeq (modify h) k s = (Ok x, t) \<Longrightarrow> leaves f k \<Longrightarrow> f t = f (h s)"
  by (auto simp: run_Ok dest: leavesD)

lemma submitProposal_pending:
  assumes "submitProposal E l ir p s = (Ok (), t)"
  shows "pendingBlockProposal t = Some p"
proof -
  have "pendingBlockProposal t = pendingBlockProposal (u\<lparr>pendingBlockProposal := Some p\<rparr>)" if
    "andSeq (modify (\<lambda>s. s\<lparr>pendingBlockProposal := Some p\<rparr>))
       (andThen (wrapErr ''calculating block size'' (liftE (blockSize (extOps E) p))) (\<lambda>size.
       andThen (gets (\<lambda>s. \<lparr>bcrPartitionID = partitionID s, bcrShardID = shardIDOf s,
         bcrNodeID = peerString (extOps E) (selfID s), bcrInputRecord = ir, bcrBlockSize = size,
         bcrStateSize = 0, bcrSignature = None\<rparr>)) (\<lambda>req0.
       andThen (gets conf) (\<lambda>cf.
       andThen (wrapErr ''failed to sign certification request''
         (onLocal (bcrSign (extOps E) (signerOf cf)) req0)) (\<lambda>req.
       andSeq (deref ir)
       (andThen (wrapErr ''failed to get current root validators''
         (andThen (gets (rootValidators E)) liftE)) (\<lambda>roots.
       andThen (wrapErr ''selecting root nodes''
         (liftOut (rootNodesSelector (extOps E) l roots defaultNofRootNodes))) (\<lambda>rootIDs.
       send E (ByPointer (CertificationRequestMsg req)) rootIDs)))))))) u = (Ok (), t)" for u
    using that by (rule modify_leaves) (intro leaves_rules)
  with assms show ?thesis
    unfolding submitProposal_def
    by (auto simp: run_Ok_andThen [where m = "attempt _"] attempt_Ok run_Ok_andSeq [where m = revertState] run_Ok_basic(2))
qed

text \<open>A request that is sent leaves the block of the round pending.\<close>

lemma proposedInputRecord_pure: "proposedInputRecord E st s = (Ok ir, t) \<Longrightarrow> t = s"
proof -
  have "leaves (\<lambda>s. s) (proposedInputRecord E st)"
    unfolding proposedInputRecord_def currentEpoch_def by (intro leaves_rules)
  then show "proposedInputRecord E st s = (Ok ir, t) \<Longrightarrow> t = s" by (rule leavesD)
qed

lemma sendCertificationRequest_block:
  assumes "sendCertificationRequest E author st s = (Ok (), t)"
  shows "pendingBlockProposal t = roundBlock E author st s"
proof -
  obtain ir0 u where ir0: "proposedInputRecord E st s = (Ok ir0, s)"
    and u: "marshalUC (extOps E) \<lparr>ucVersion = 1, ucInputRecord = Some ir0, ucTRHash = None,
          ucShardConfHash = None, ucUnicityTreeCertificate = None, ucUnicitySeal = None, ucProof = []\<rparr> = Inr u"
    and rest: "(case calculateBlockHash (extOps E) (pendingProposalOf E author u s) (hashAlgorithm (conf s)) of
        Inl e \<Rightarrow> fail (Wrapf ''calculating block hash'' e)
      | Inr (ir, p) \<Rightarrow> submitProposal E (luc s) ir p) s = (Ok (), t)"
    using assms unfolding sendCertificationRequest_def
    by (fastforce simp: run_Ok dest: proposedInputRecord_pure)
  then show ?thesis
    by (auto simp: roundBlock_def fail_def dest: submitProposal_pending split: sum.splits prod.splits)
qed

lemma moves_sendCertificationRequest:
  assumes "sendCertificationRequest E author st s = (r, t)" and "\<forall>p. r \<noteq> Panics p"
  shows "submits (roundBlock E author st s) s t"
proof -
  have pure: "moves (=) (proposedInputRecord E st)"
    unfolding proposedInputRecord_def currentEpoch_def by (intro moves_rules) (simp_all add: reflp_def transp_def)
  obtain q u where run: "proposedInputRecord E st s = (q, u)" by fastforce
  show ?thesis
  proof (cases q)
    case (Ok ir0)
    then have [simp]: "u = s" using run proposedInputRecord_pure by blast
    then show ?thesis
      using assms Ok run
      by (auto simp: sendCertificationRequest_def comp_defs roundBlock_def intro: movesD [OF moves_submitProposal]
          split: sum.splits prod.splits outcome.splits)
  next
    case (Fail e)
    then have "u = s" using movesD [OF pure run] by simp
    then show ?thesis using assms(1) Fail run by (auto simp: sendCertificationRequest_def comp_defs submits_def)
  next
    case (Panics p)
    then show ?thesis using assms run by (auto simp: sendCertificationRequest_def comp_defs)
  qed
qed

section \<open>The leader\<close>

text \<open>The proposal a leader signs at its T1 timeout.\<close>

definition unsignedProposal :: "slice \<Rightarrow> technicalRecord \<Rightarrow> ('b, 'c) node \<Rightarrow> blockProposal" where
  "unsignedProposal root tr s = \<lparr>bpPartitionID = partitionID s, bpShardID = shardIDOf s, bpNodeID = selfID s,
     bpUnicityCertificate = luc s, bpTechnical = tr, bpProposedRoot = root, bpSignature = None\<rparr>"

definition signedProposal :: "('b, 'c) nodeEnv \<Rightarrow> slice \<Rightarrow> ('b, 'c) node \<Rightarrow> blockProposal option" where
  "signedProposal E root s = (case ltr s of None \<Rightarrow> None
     | Some tr \<Rightarrow> (case bpSign (extOps E) (hashAlgorithm (conf s)) (signerOf (conf s)) (unsignedProposal root tr s) of
         (Ok _, p) \<Rightarrow> Some p | _ \<Rightarrow> None))"

definition t1Proposal :: "('b, 'c) nodeEnv \<Rightarrow> ('b, 'c) node \<Rightarrow> blockProposal option" where
  "t1Proposal E s = (case leaderPropose (powAt E (calls s)) (currentRoundNumber E s) (transactionSystem s) of
      (Ok sm, _) \<Rightarrow> signedProposal E (rootHash sm) s | _ \<Rightarrow> None)"

lemma signedProposal_fields:
  assumes "signedProposal E root s = Some p"
  shows "bpUnicityCertificate p = luc s" "bpProposedRoot p = root" "bpNodeID p = selfID s"
  using assms
  by (auto simp: signedProposal_def unsignedProposal_def bpSign_def comp_defs
      split: option.splits prod.splits outcome.splits if_splits sum.splits)

lemma signedProposal_frame [simp]:
  "signedProposal E root (s\<lparr>calls := k, transactionSystem := x\<rparr>) = signedProposal E root s"
  by (cases "ltr s")
    (simp_all add: signedProposal_def unsignedProposal_def partitionID_def shardIDOf_def selfID_def)

lemma netSend_frames:
  assumes "netSend X (ByPointer m) rs n = (Ok (), k)" and "length (receivedMsgs n) \<le> receivedCap n"
  shows "netSelf k = netSelf n \<and> (\<forall>r\<in>set rs. r \<noteq> netSelf n \<longrightarrow> (\<exists>p. (p, frameOf X m, r) \<in> set (spawned k)))"
proof (cases "rs = []")
  case True
  then show ?thesis using assms(1) by (simp add: netSend_def ret_def)
next
  case False
  then obtain p bs where "serializeMsg X (ByPointer m) = Ok bs" and "k = sendEffect p bs (ByPointer m) rs n"
    using assms(1) sendLoop_effect [OF assms(2)]
    by (auto simp: netSend_def sendAsync_def run_Ok fail_def split: option.splits)
  then show ?thesis by (auto simp: sendEffect_def frameOf_def)
qed

lemma sendBlockProposal_Ok:
  assumes "sendBlockProposal E root s = (Ok (), t)" and "length (receivedMsgs (network s)) \<le> receivedCap (network s)"
  obtains p n where "signedProposal E root s = Some p" and "t = s\<lparr>network := n\<rparr>" and "netSelf n = selfID s"
    and "\<forall>r\<in>set (filterValidatorNodes E (selfID s) s). \<exists>q. (q, frameOf (extOps E) (BlockProposalMsg p), r) \<in> set (spawned n)"
proof -
  obtain tr where tr: "ltr s = Some tr"
    using assms(1) by (cases "ltr s") (auto simp: sendBlockProposal_def run_Ok)
  obtain p where p: "bpSign (extOps E) (hashAlgorithm (conf s)) (signerOf (conf s)) (unsignedProposal root tr s) = (Ok (), p)"
    and "send E (ByPointer (BlockProposalMsg p)) (filterValidatorNodes E (selfID s) s) s = (Ok (), t)"
    using assms(1) tr
    by (auto simp: sendBlockProposal_def run_Ok onLocal_def unsignedProposal_def split: prod.splits outcome.splits)
  then obtain n where n: "netSend (extOps E) (ByPointer (BlockProposalMsg p)) (filterValidatorNodes E (selfID s) s) (network s) = (Ok (), n)"
    and t: "t = s\<lparr>network := n\<rparr>"
    by (auto simp: send_def onNet_def run_Ok)
  have "signedProposal E root s = Some p" using tr p by (simp add: signedProposal_def)
  moreover have "netSelf n = selfID s" "\<forall>r\<in>set (filterValidatorNodes E (selfID s) s). \<exists>q. (q, frameOf (extOps E) (BlockProposalMsg p), r) \<in> set (spawned n)"
    using netSend_frames [OF n assms(2)] by (simp_all add: filterValidatorNodes_def selfID_def)
  ultimately show thesis using that t by blast
qed

lemma leaderPropose_leaves: "leaves committedUC (leaderPropose c r)"
  unfolding leaderPropose_def Let_def
proof (intro leaves_rules)
  have "leaves committedUC (forEach ts (\<lambda>t. liftErr (checkForkTip h t)))" for ts h
    by (induction ts) (simp_all add: leaves_rules)
  then show "leaves committedUC (forEach ts (\<lambda>t. liftErr (checkForkTip h t)))" for ts h .
qed (simp add: leaves_modify)

lemma handleT1TimeoutEvent_pending:
  assumes run: "handleT1TimeoutEvent E s = (Ok (), t)" and none: "pendingBlockProposal s = None"
    and some: "pendingBlockProposal t = Some b"
  obtains sm x u where "leaderPropose (powAt E (calls s)) (currentRoundNumber E s) (transactionSystem s) = (Ok sm, x)"
    and "sendBlockProposal E (rootHash sm) (s\<lparr>calls := calls s + 1, transactionSystem := x\<rparr>) = (Ok (), u)"
    and "roundBlock E (peerString (extOps E) (selfID u)) sm u = Some b"
    and "set (spawned (network u)) \<subseteq> set (spawned (network t))"
proof -
  let ?p = "leaderPropose (powAt E (calls s)) (currentRoundNumber E s) (transactionSystem s)"
  note defs = handleT1TimeoutEvent_def andThen_def gets_def draw_def attempt_def onTx_def zoom_def ret_def
  have reverted: "pendingBlockProposal t = pendingBlockProposal v" if "revertState v = (Ok (), t)" for v
    using that by (auto simp: revertState_def modify_def)
  have start: "status s \<noteq> recovering" "leader s = selfID s"
    using run none some by (auto simp: handleT1TimeoutEvent_def andThen_gets ret_def split: if_splits)
  obtain r x where p: "?p = (r, x)" by fastforce
  show thesis
  proof (cases r)
    case (Ok sm)
    let ?s = "s\<lparr>calls := calls s + 1, transactionSystem := x\<rparr>"
    obtain q u where send: "sendBlockProposal E (rootHash sm) ?s = (q, u)" by fastforce
    have "leaves pendingBlockProposal (sendBlockProposal E (rootHash sm))"
      unfolding sendBlockProposal_def by (intro leaves_rules)
    then have pend: "pendingBlockProposal u = None" if "q = Ok () \<or> (\<exists>e. q = Fail e)"
      using send none that by (auto simp: leaves_def wp_def dest!: spec [of _ ?s] split: prod.splits)
    obtain z v where req: "sendCertificationRequest E (peerString (extOps E) (selfID u)) sm u = (z, v)" by fastforce
    show thesis
    proof (cases q)
      case q: (Ok x0)
      have z: "\<forall>m. z \<noteq> Panics m" using run start p Ok send q req by (auto simp: defs)
      have moved: "submits (roundBlock E (peerString (extOps E) (selfID u)) sm u) u v"
        by (rule moves_sendCertificationRequest [OF req z])
      have "pendingBlockProposal t = pendingBlockProposal v \<and> network t = network v"
        using run start p Ok send q req z by (cases z) (auto simp: defs revertState_def modify_def)
      moreover have "sendBlockProposal E (rootHash sm) ?s = (Ok (), u)" using send q by simp
      ultimately show thesis using that [OF p [unfolded Ok]] moved pend q some by (auto simp: submits_def)
    next
      case (Fail e)
      then have "revertState u = (Ok (), t)" using run start p Ok send by (simp add: defs)
      then show thesis using reverted pend Fail some by fastforce
    next
      case (Panics m)
      then show thesis using run start p Ok send by (simp add: defs)
    qed
  next
    case (Fail e)
    then have "revertState (s\<lparr>calls := calls s + 1, transactionSystem := x\<rparr>) = (Ok (), t)"
      using run start p by (simp add: defs)
    then show thesis using reverted none some by fastforce
  next
    case (Panics m)
    then show thesis
      using run start p by (simp add: defs)
  qed
qed

section \<open>The follower\<close>

lemma roundView_frame [simp]:
  "roundView (s\<lparr>calls := k\<rparr>) = roundView s" "roundView (s\<lparr>network := n\<rparr>) = roundView s"
  "committedUC x = committedUC (transactionSystem s) \<Longrightarrow> roundView (s\<lparr>transactionSystem := x\<rparr>) = roundView s"
  by (simp_all add: roundView_def nodeCommittedUC_def)

lemma followProposal_block:
  assumes "followProposal F prop uc f = (Ok (), t)" and "dFG (transactionSystem f) \<noteq> 0"
  shows "pendingBlockProposal t = roundBlock F (peerString (extOps F) (bpNodeID prop))
    (summaryOf (bpProposedRoot prop) (transactionSystem f)) f"
proof -
  have summary: "v = x" if "FgpTxSystem.stateSummary x = (Ok sm, v)" for x v sm
    using that by (auto simp: FgpTxSystem.stateSummary_def run_Ok)
  from assms(1) obtain sm x where verify: "followerVerify (powAt F (calls f)) (currentRoundNumber F f) (bpProposedRoot prop) (transactionSystem f) = (Ok sm, x)"
    and req: "sendCertificationRequest F (peerString (extOps F) (bpNodeID prop)) sm (f\<lparr>calls := calls f + 1, transactionSystem := x\<rparr>) = (Ok (), t)"
    unfolding followProposal_def
    by (auto simp: run_Ok onTx_def attempt_Ok draw_def dest!: summary)
  have "sm = summaryOf (bpProposedRoot prop) (transactionSystem f)" "committedUC x = committedUC (transactionSystem f)"
    using verify by (auto simp: followerVerify_run [OF assms(2)])
  then show ?thesis
    using sendCertificationRequest_block [OF req]
      roundBlock_cong [of F F "f\<lparr>calls := calls f + 1, transactionSystem := x\<rparr>" f] by simp
qed

lemma handleBlockProposal_block:
  fixes f :: "('b, 'c) node"
  assumes "handleBlockProposal F (Some prop) f = (Ok (), t)" and "dFG (transactionSystem f) \<noteq> 0"
    and "bpUnicityCertificate prop = luc f"
  shows "pendingBlockProposal t = roundBlock F (peerString (extOps F) (bpNodeID prop))
    (summaryOf (bpProposedRoot prop) (transactionSystem f)) f"
proof -
  have "leaves (\<lambda>u. u) (bpValidate X alg p sc tb :: (('b, 'c) node, unit) comp)" for X :: netExt and alg p sc tb
    unfolding bpValidate_def bpIsValid_def by (intro leaves_rules)
  note valid = leavesD [OF this]
  obtain uc where "followProposal F prop uc f = (Ok (), t)"
    using assms(1,3) by (auto simp: handleBlockProposal_def run_Ok dest!: valid)
  then show ?thesis by (rule followProposal_block [OF _ assms(2)])
qed

section \<open>The round\<close>

text \<open>
  C4: Leader and followers of a round ask for the certification of the same block. The leader hands
  one signed proposal to the network for every other validator; a follower with the same latest
  certificate, technical record, shard configuration and committed certificate that handles this
  proposal to the end has the block of the leader pending, whatever its own PoW node reported.
\<close>

theorem round_agreement:
  assumes "fgpInv (extOps E) (transactionSystem s)" and "length (receivedMsgs (network s)) \<le> receivedCap (network s)"
    and "handleT1TimeoutEvent E s = (Ok (), s')" and "pendingBlockProposal s = None" and "pendingBlockProposal s' = Some b"
    and "fgpInv (extOps F) (transactionSystem f)" and "extOps F = extOps E" and "roundView f = roundView s"
  shows "\<exists>prop. t1Proposal E s = Some prop \<and>
    (\<forall>r\<in>set (filterValidatorNodes E (selfID s) s). \<exists>p. (p, frameOf (extOps E) (BlockProposalMsg prop), r) \<in> set (spawned (network s'))) \<and>
    (\<forall>f'. handleBlockProposal F (Some prop) f = (Ok (), f') \<longrightarrow> pendingBlockProposal f' = Some b)"
proof -
  obtain sm x u where lead: "leaderPropose (powAt E (calls s)) (currentRoundNumber E s) (transactionSystem s) = (Ok sm, x)"
    and proposes: "sendBlockProposal E (rootHash sm) (s\<lparr>calls := calls s + 1, transactionSystem := x\<rparr>) = (Ok (), u)"
    and block: "roundBlock E (peerString (extOps E) (selfID u)) sm u = Some b"
    and sent: "set (spawned (network u)) \<subseteq> set (spawned (network s'))"
    using handleT1TimeoutEvent_pending [OF assms(3-5)] by blast
  let ?s = "s\<lparr>calls := calls s + 1, transactionSystem := x\<rparr>"
  have d: "dFG (transactionSystem s) \<noteq> 0" "dFG (transactionSystem f) \<noteq> 0" using assms(1,6) by (simp_all add: fgpInv_def)
  have sm: "sm = summaryOf (rootHash sm) (transactionSystem f)" "committedUC x = committedUC (transactionSystem s)"
    using lead assms(1,6) by (auto simp: leaderPropose_run [OF d(1)] summaryOf_def newStateSummary_def fgpInv_def)
  have cap: "length (receivedMsgs (network ?s)) \<le> receivedCap (network ?s)" using assms(2) by simp
  obtain p n where p: "signedProposal E (rootHash sm) ?s = Some p" and u: "u = ?s\<lparr>network := n\<rparr>" and self: "netSelf n = selfID ?s"
    and frames: "\<forall>r\<in>set (filterValidatorNodes E (selfID ?s) ?s). \<exists>q. (q, frameOf (extOps E) (BlockProposalMsg p), r) \<in> set (spawned n)"
    by (rule sendBlockProposal_Ok [OF proposes cap])
  have "t1Proposal E s = Some p"
    using p lead by (simp add: t1Proposal_def)
  moreover have "pendingBlockProposal f' = Some b" if "handleBlockProposal F (Some p) f = (Ok (), f')" for f'
  proof -
    have fields: "bpUnicityCertificate p = luc f" "bpProposedRoot p = rootHash sm" "bpNodeID p = selfID u"
      using signedProposal_fields [OF p] assms(8) self u by (simp_all add: roundView_def selfID_def)
    have "roundBlock F (peerString (extOps F) (selfID u)) sm f = roundBlock E (peerString (extOps E) (selfID u)) sm u"
      using roundBlock_cong [OF assms(7), of f u] assms(7,8) u sm(2) by (simp add: selfID_def)
    then show ?thesis using handleBlockProposal_block [OF that d(2) fields(1)] fields sm(1) block by simp
  qed
  moreover have "filterValidatorNodes E (selfID ?s) ?s = filterValidatorNodes E (selfID s) s"
    by (simp add: filterValidatorNodes_def validators_def selfID_def)
  then have "\<forall>r\<in>set (filterValidatorNodes E (selfID s) s). \<exists>q. (q, frameOf (extOps E) (BlockProposalMsg p), r) \<in> set (spawned (network s'))"
    using frames sent u by fastforce
  ultimately show ?thesis by blast
qed

text \<open>Round 2 of two validators: the certified block is \<open>0a05\<close>, and both PoW nodes have the tip 11.\<close>

definition sampleRoundEnv :: "(sampleStore, sampleConfs) nodeEnv" where
  "sampleRoundEnv = sampleFollowerEnv
     \<lparr>extOps := (extOps sampleFollowerEnv)\<lparr>marshalUC := (\<lambda>u. Inr (Some [255]))\<rparr>,
      powAt := (\<lambda>_. sampleClient\<lparr>getTip := Inr (sampleHeader ''0a0b'' 1 11),
        getBlockHeaderByHash := (\<lambda>h. if h = ''0a06'' then Inr (sampleHeader ''0a06'' 6 6) else Inr (sampleHeader ''0a05'' 7 5)),
        getBlockHeaderByHeight := (\<lambda>_. Inr (sampleHeader ''0a06'' 6 6))\<rparr>)\<rparr>"

definition sampleRoundNode :: "peerID \<Rightarrow> (sampleStore, sampleConfs) node" where
  "sampleRoundNode self = sampleFollower
     \<lparr>shardConf := sampleConf\<lparr>pdrValidators := [\<lparr>niNodeID = ''v'', niSigKey = Some [8]\<rparr>, \<lparr>niNodeID = ''n'', niSigKey = Some [9]\<rparr>]\<rparr>,
      network := (network sampleFollower)\<lparr>netSelf := self\<rparr>\<rparr>"

lemma sample_round_leader:
  "fst (handleT1TimeoutEvent sampleRoundEnv (sampleRoundNode ''v'')) = Ok () \<and>
   pendingBlockProposal (snd (handleT1TimeoutEvent sampleRoundEnv (sampleRoundNode ''v''))) \<noteq> None"
  by code_simp

lemma sample_round_follower:
  "(case t1Proposal sampleRoundEnv (sampleRoundNode ''v'') of None \<Rightarrow> False
    | Some p \<Rightarrow> fst (handleBlockProposal sampleRoundEnv (Some p) (sampleRoundNode ''n'')) = Ok ())"
  by code_simp

theorem round_agreement_witness:
  "\<exists>b p f'. pendingBlockProposal (snd (handleT1TimeoutEvent sampleRoundEnv (sampleRoundNode ''v''))) = Some b \<and>
     t1Proposal sampleRoundEnv (sampleRoundNode ''v'') = Some p \<and>
     handleBlockProposal sampleRoundEnv (Some p) (sampleRoundNode ''n'') = (Ok (), f') \<and> pendingBlockProposal f' = Some b"
proof -
  obtain s' b where lead: "handleT1TimeoutEvent sampleRoundEnv (sampleRoundNode ''v'') = (Ok (), s')"
    and b: "pendingBlockProposal s' = Some b"
    using sample_round_leader by (metis option.exhaust prod.collapse)
  obtain p f' where p: "t1Proposal sampleRoundEnv (sampleRoundNode ''v'') = Some p"
    and f: "handleBlockProposal sampleRoundEnv (Some p) (sampleRoundNode ''n'') = (Ok (), f')"
    using sample_round_follower by (auto split: option.splits) (metis prod.collapse)
  have fields: "pendingBlockProposal (sampleRoundNode x) = None" "roundView (sampleRoundNode x) = roundView (sampleRoundNode y)"
    "length (receivedMsgs (network (sampleRoundNode x))) \<le> receivedCap (network (sampleRoundNode x))"
    "fgpInv (extOps sampleRoundEnv) (transactionSystem (sampleRoundNode x))" for x y
    by (simp_all add: sampleRoundNode_def sampleFollower_def sampleNode_def sampleNet_def roundView_def nodeCommittedUC_def
        fgpInv_def sampleFgp_def sampleRoundEnv_def sampleFollowerEnv_def sampleEnv_def sampleNetExt_def sampleExt_def ext.defs
        sampleU1_def sampleUC_def sampleIR_def irField_def)
  from round_agreement [OF fields(4,3) lead fields(1) b fields(4) refl fields(2), of "''n''"] p f b lead
  show ?thesis by fastforce
qed

end
