(* ===== verification/RecoveryProperties.thy ===== *)
theory RecoveryProperties
  imports HandlerProperties
begin

text \<open>
  Recovery from a ledger replication response: which blocks are in the chain afterwards and when the
  node returns to normal operation.
\<close>

section \<open>The blocks of a response\<close>

text \<open>
  The blocks of a response that are new to a chain of \<open>r\<close> rounds, with their certificates: each of a later
  round than the chain has when it is its turn.
\<close>

fun newBlocks :: "'x ext_scheme \<Rightarrow> uint64 \<Rightarrow> block option list \<Rightarrow> (block \<times> unicityCertificate) list" where
  "newBlocks X r [] = []"
| "newBlocks X r (p # ps) = (case (p, getUCv1 X p) of
      (Some b, Inr u) \<Rightarrow> (if r < getRoundNumber X (Some u) then (b, u) # newBlocks X (getRoundNumber X (Some u)) ps
        else newBlocks X r ps)
    | _ \<Rightarrow> newBlocks X r ps)"

text \<open>The blocks extend the chain: every certificate succeeds the one before it, and every header refers to the block before.\<close>

fun extends :: "'x ext_scheme \<Rightarrow> unicityCertificate option \<Rightarrow> (block \<times> unicityCertificate) list \<Rightarrow> bool" where
  "extends X c [] = True"
| "extends X c ((b, u) # bs) = (isSuccessor X u c \<and>
     (\<exists>h. blkHeader b = Some h \<and> bytesEqual (hdrPreviousBlockHash h) (getBlockHash X c)) \<and> extends X (Some u) bs)"

text \<open>What is in the store of a node after the blocks, when \<open>d\<close> was its store before.\<close>

definition storeExtended ::
  "('b, 'c) nodeEnv \<Rightarrow> 'b \<Rightarrow> (block \<times> unicityCertificate) list \<Rightarrow> 'b \<Rightarrow> bool" where
  "storeExtended E d new d' \<longleftrightarrow>
     (\<forall>(b, u)\<in>set new. kvRead (blockDb E) d' (uint64ToBytes (extOps E) (getRoundNumber (extOps E) (Some u))) = Inr (Some b)) \<and>
     (\<forall>k. k \<noteq> uint32ToBytes (extOps E) proposalKey \<and>
        k \<notin> (\<lambda>(b, u). uint64ToBytes (extOps E) (getRoundNumber (extOps E) (Some u))) ` set new \<longrightarrow>
        kvRead (blockDb E) d' k = kvRead (blockDb E) d k)"

lemma newBlocks_later: "(b, u) \<in> set (newBlocks X r ps) \<Longrightarrow> r < getRoundNumber X (Some u)"
proof (induction X r ps rule: newBlocks.induct)
  case (2 X r p ps)
  then show ?case by (fastforce split: option.splits sum.splits if_splits)
qed simp

lemma storeExtended_Nil: "storeExtended E d [] d"
  by (simp add: storeExtended_def)

lemma storeExtended_Cons:
  assumes key: "keyLaw (extOps E)" and new: "storeExtended E d1 new d'"
    and later: "\<And>b' u'. (b', u') \<in> set new \<Longrightarrow> getRoundNumber (extOps E) (Some u) < getRoundNumber (extOps E) (Some u')"
    and first: "\<And>k. kvRead (blockDb E) d1 k =
      (if k = uint64ToBytes (extOps E) (getRoundNumber (extOps E) (Some u)) then Inr (Some b) else kvRead (blockDb E) d k)"
  shows "storeExtended E d ((b, u) # new) d'"
proof -
  have "uint64ToBytes (extOps E) (getRoundNumber (extOps E) (Some u)) \<noteq> uint64ToBytes (extOps E) (getRoundNumber (extOps E) (Some u'))"
    if "(b', u') \<in> set new" for b' u'
    using later [OF that] key by (metis keyLaw_def less_irrefl)
  then have "uint64ToBytes (extOps E) (getRoundNumber (extOps E) (Some u)) \<notin>
      (\<lambda>(b, u). uint64ToBytes (extOps E) (getRoundNumber (extOps E) (Some u))) ` set new" by auto
  then show ?thesis
    using new proposalKey_fresh [OF key] by (simp add: storeExtended_def first)
qed

section \<open>Applying a block\<close>

text \<open>What no step before a block is finalised touches.\<close>

definition chainView :: "('b, 'c) node \<Rightarrow> unicityCertificate option \<times> nodeStatus \<times> blockProposal option \<times> 'b" where
  "chainView s = (nodeCommittedUC s, status s, recoveryLastProp s, blockStore s)"

lemma leaves_currentEpoch: "leaves f currentEpoch"
  unfolding currentEpoch_def by (intro leaves_rules)

lemma updateLUC_chainView: "leaves chainView (updateLUC E uc tr)"
  unfolding updateLUC_def installLUC_def printUC_def checkEquivocation_def signalEpochChange_def
  by (intro leaves_rules leaves_modify leaves_currentEpoch) (simp_all add: chainView_def nodeCommittedUC_def)

text \<open>The block is at the end of the chain and in the store.\<close>

definition appended ::
  "('b, 'c) nodeEnv \<Rightarrow> block \<Rightarrow> unicityCertificate \<Rightarrow> ('b, 'c) node \<Rightarrow> ('b, 'c) node \<Rightarrow> bool" where
  "appended E b u s t \<longleftrightarrow> nodeCommittedUC t = Some u \<and> status t = status s \<and> recoveryLastProp t = recoveryLastProp s \<and>
     (\<forall>k. kvRead (blockDb E) (blockStore t) k =
       (if k = uint64ToBytes (extOps E) (getRoundNumber (extOps E) (Some u)) then Inr (Some b)
        else kvRead (blockDb E) (blockStore s) k))"

lemma finalizeBlock_appended:
  assumes law: "kvWriteLaw (blockDb E)" and "status s \<noteq> initializing" and "finalizeBlock E b u s = (Ok (), t)"
  shows "appended E b u s t"
proof -
  let ?r = "uint64ToBytes (extOps E) (getRoundNumber (extOps E) (Some u))"
  obtain d where stored: "kvWrite (blockDb E) ?r b (blockStore s) = (Ok (), d)"
    using assms(2,3) by (auto simp: finalizeBlock_def Let_def on_defs storeBlock_def run_Ok)
  have "wp True (finalizeBlock E b u) (\<lambda>_ t. nodeCommittedUC t = Some u \<and> status t = status s \<and>
      recoveryLastProp t = recoveryLastProp s \<and> blockStore t = d) (\<lambda>_ _. True) s"
    using assms(2) unfolding finalizeBlock_def Let_def on_defs storeBlock_def
    by (simp add: wp_rules commit_run stored wp_def [of _ "commit _ _"] wp_def [of _ "kvWrite _ _ _"] wp_def [of _ "deleteBlock _ _"]
        nodeCommittedUC_def split: outcome.splits prod.splits)
  from wp_Ok [OF this assms(3)] wp_Ok [OF kvWriteLawD [OF law] stored] show ?thesis
    by (simp add: appended_def)
qed

lemma applyBlock_appended:
  assumes law: "kvWriteLaw (blockDb E)" and "status s \<noteq> initializing" and "applyBlock E cm b u s = (Ok (), t)"
  shows "appended E b u s t \<and> (\<exists>h. blkHeader b = Some h \<and> bytesEqual (hdrPreviousBlockHash h) (getBlockHash (extOps E) cm))"
proof -
  have final: "appended E b u s t" if "finalizeBlock E b u (s\<lparr>calls := k, transactionSystem := x\<rparr>) = (Ok (), t)" for k x
    using finalizeBlock_appended [OF law _ that] assms(2) by (simp add: appended_def)
  show ?thesis
    using assms(3) unfolding applyBlock_def
    by (auto simp: run_Ok attempt_Ok onTx_def draw_def FgpTxSystem.stateSummary_def split: option.splits if_splits
        dest!: final)
qed

lemma handleBlock_Ok:
  assumes "kvWriteLaw (blockDb E)" and "status s \<noteq> initializing" and "handleBlock E p s = (Ok (), t)"
  obtains b u where "p = Some b" "getUCv1 (extOps E) p = Inr u"
      "getRoundNumber (extOps E) (Some u) \<le> getRoundNumber (extOps E) (nodeCommittedUC s)" "chainView t = chainView s"
  | b u where "p = Some b" "getUCv1 (extOps E) p = Inr u"
      "getRoundNumber (extOps E) (nodeCommittedUC s) < getRoundNumber (extOps E) (Some u)" "appended E b u s t"
      "isSuccessor (extOps E) u (nodeCommittedUC s)"
      "\<exists>h. blkHeader b = Some h \<and> bytesEqual (hdrPreviousBlockHash h) (getBlockHash (extOps E) (nodeCommittedUC s))"
proof -
  obtain u b v where u: "p = Some b" "getUCv1 (extOps E) p = Inr u" and luc: "updateLUC E (Some u) None s = (Ok (), v)"
    and rest: "(if getRoundNumber (extOps E) (Some u) \<le> getRoundNumber (extOps E) (nodeCommittedUC s) then t = v
      else isSuccessor (extOps E) u (nodeCommittedUC s) \<and> applyBlock E (nodeCommittedUC s) b u v = (Ok (), t))"
    using assms(3) unfolding handleBlock_def by (auto simp: run_Ok split: if_splits)
  have view: "chainView v = chainView s" using leavesD [OF updateLUC_chainView luc] .
  show thesis
  proof (cases "getRoundNumber (extOps E) (Some u) \<le> getRoundNumber (extOps E) (nodeCommittedUC s)")
    case True
    with rest view show thesis by (intro that(1) [OF u]) simp_all
  next
    case False
    with rest have new: "isSuccessor (extOps E) u (nodeCommittedUC s)" "applyBlock E (nodeCommittedUC s) b u v = (Ok (), t)" by simp_all
    have "status v \<noteq> initializing" using view assms(2) by (simp add: chainView_def)
    from applyBlock_appended [OF assms(1) this new(2)] view have "appended E b u s t"
      and "\<exists>h. blkHeader b = Some h \<and> bytesEqual (hdrPreviousBlockHash h) (getBlockHash (extOps E) (nodeCommittedUC s))"
      by (auto simp: appended_def chainView_def)
    with False new(1) show thesis by (intro that(2) [OF u]) simp_all
  qed
qed

text \<open>The node after the blocks of a response.\<close>

definition blocksApplied :: "('b, 'c) nodeEnv \<Rightarrow> block option list \<Rightarrow> ('b, 'c) node \<Rightarrow> ('b, 'c) node \<Rightarrow> bool" where
  "blocksApplied E bs s t \<longleftrightarrow>
     (let new = newBlocks (extOps E) (getRoundNumber (extOps E) (nodeCommittedUC s)) bs in
      (\<forall>p\<in>set bs. \<exists>u. getUCv1 (extOps E) p = Inr u) \<and> extends (extOps E) (nodeCommittedUC s) new \<and>
      nodeCommittedUC t = (if new = [] then nodeCommittedUC s else Some (snd (last new))) \<and>
      storeExtended E (blockStore s) new (blockStore t))"

lemma handleBlocks_Ok:
  assumes "envLaws E" and "status s \<noteq> initializing" and "forEach bs (handleBlock E) s = (Ok (), t)"
  shows "status t = status s \<and> recoveryLastProp t = recoveryLastProp s \<and> blocksApplied E bs s t"
  using assms(2,3)
proof (induction bs arbitrary: s)
  case Nil
  then show ?case by (simp add: ret_def blocksApplied_def storeExtended_Nil)
next
  case (Cons p bs)
  note laws = envLawsD(5,9) [OF assms(1)]
  obtain v where v: "handleBlock E p s = (Ok (), v)" "forEach bs (handleBlock E) v = (Ok (), t)"
    using Cons.prems(2) by (auto simp: run_Ok)
  from laws(2) Cons.prems(1) v(1) show ?case
  proof (cases rule: handleBlock_Ok)
    case (1 b u)
    then have "status v \<noteq> initializing" using Cons.prems(1) by (simp add: chainView_def)
    moreover have "newBlocks (extOps E) (getRoundNumber (extOps E) (nodeCommittedUC s)) (p # bs) =
        newBlocks (extOps E) (getRoundNumber (extOps E) (nodeCommittedUC s)) bs" using 1(1,2) 1(3) [THEN leD] by simp
    ultimately show ?thesis
      using Cons.IH [OF _ v(2)] 1(2,4) by (simp add: chainView_def blocksApplied_def Let_def del: newBlocks.simps)
  next
    case (2 b u)
    then have "status v \<noteq> initializing" using Cons.prems(1) by (simp add: appended_def)
    note rest = Cons.IH [OF this v(2)]
    let ?new = "newBlocks (extOps E) (getRoundNumber (extOps E) (Some u)) bs"
    have "storeExtended E (blockStore v) ?new (blockStore t)"
      using rest 2(4) by (simp add: blocksApplied_def Let_def appended_def)
    then have "storeExtended E (blockStore s) ((b, u) # ?new) (blockStore t)"
      by (rule storeExtended_Cons [OF laws(1)]) (use 2(4) newBlocks_later in \<open>auto simp: appended_def\<close>)
    with rest 2 show ?thesis
      by (simp add: appended_def blocksApplied_def Let_def)
  qed
qed

section \<open>The end of a response\<close>

lemma startNewRound_Ok:
  assumes "kvDeleteLaw (blockDb E)" and "startNewRound E s = (Ok (), t)"
  shows "pendingBlockProposal t = None \<and> nodeCommittedUC t = nodeCommittedUC s \<and> luc t = luc s \<and> status t = status s \<and>
    recoveryLastProp t = recoveryLastProp s \<and>
    (\<forall>k. k \<noteq> uint32ToBytes (extOps E) proposalKey \<longrightarrow> kvRead (blockDb E) (blockStore t) k = kvRead (blockDb E) (blockStore s) k)"
proof -
  have "wp True (startNewRound E) (\<lambda>_ t. pendingBlockProposal t = None \<and> nodeCommittedUC t = nodeCommittedUC s \<and> luc t = luc s \<and>
      status t = status s \<and> recoveryLastProp t = recoveryLastProp s \<and> (\<forall>k. k \<noteq> uint32ToBytes (extOps E) proposalKey \<longrightarrow>
        kvRead (blockDb E) (blockStore t) k = kvRead (blockDb E) (blockStore s) k)) (\<lambda>_ _. True) s"
    unfolding startNewRound_def resetProposal_def deletePendingProposal_def on_defs wp_andSeq wp_modify wp_attempt wp_zoom wp_ret
    by (rule wp_mono [OF kvDeleteLawD [OF assms(1)]]) (auto simp: nodeCommittedUC_def)
  then show ?thesis using assms(2) by (rule wp_Ok)
qed

lemma response_Ok:
  assumes "handleLedgerReplicationResponse E (Some lr) s = (Ok (), t)" and "status s = recovering"
    and "lrrStatus lr = replOk" and "getRoundNumber (extOps E) (nodeCommittedUC s) < lrrFirstBlockNumber lr"
    and "lrrBlocks lr = Some bs"
  obtains v where "forEach bs (handleBlock E) s = (Ok (), v)"
    and "\<not> isRecoveryComplete E v" and "sendLedgerReplicationRequest E v = (Ok (), t)"
  | v w where "forEach bs (handleBlock E) s = (Ok (), v)" and "isRecoveryComplete E v"
    and "startNewRound E (v\<lparr>status := normal\<rparr>) = (Ok (), w)" and "retryLastProposal E w = (Ok (), t)"
proof -
  obtain v where "forEach bs (handleBlock E) s = (Ok (), v)"
    and "(if \<not> isRecoveryComplete E v then sendLedgerReplicationRequest E
      else andSeq stopRecovery (andSeq (startNewRound E) (retryLastProposal E))) v = (Ok (), t)"
    using assms(1) unfolding handleLedgerReplicationResponse_def
    by (simp add: run_Ok assms(2-5) not_le [THEN iffD2, OF assms(4)] del: if_split) blast
  note v = this
  show thesis
  proof (cases "isRecoveryComplete E v")
    case True
    with v(2) obtain w where "startNewRound E (v\<lparr>status := normal\<rparr>) = (Ok (), w)" "retryLastProposal E w = (Ok (), t)"
      by (simp add: run_Ok stopRecovery_def) blast
    then show thesis by (rule that(2) [OF v(1) True])
  next
    case False
    with v(2) show thesis by (simp add: that(1) [OF v(1) False])
  qed
qed

text \<open>
  C13: A recovering node that handles a replication response to the end has applied its blocks. Those of later
  rounds than the chain has when it is their turn extend it one by one (every certificate succeeds the one
  before, every header refers to the block before); the certificate of the last of them is the committed one,
  each is in the store under its round, and nothing else of the store has changed but the entry of the pending
  proposal. The node returns to normal operation, with no proposal pending, exactly when the chain has
  reached the round of the latest certificate; otherwise it stays in recovery. A proposal that was kept during
  recovery would be handled afterwards; there is none here.
\<close>

theorem recovery_applies_blocks:
  assumes "envLaws E" and "handleLedgerReplicationResponse E (Some lr) s = (Ok (), t)" and "status s = recovering"
    and "lrrStatus lr = replOk" and "getRoundNumber (extOps E) (nodeCommittedUC s) < lrrFirstBlockNumber lr"
    and "recoveryLastProp s = None" and "lrrBlocks lr = Some bs"
    and new: "new = newBlocks (extOps E) (getRoundNumber (extOps E) (nodeCommittedUC s)) bs"
  shows "(\<forall>p\<in>set bs. \<exists>u. getUCv1 (extOps E) p = Inr u) \<and> extends (extOps E) (nodeCommittedUC s) new \<and>
    nodeCommittedUC t = (if new = [] then nodeCommittedUC s else Some (snd (last new))) \<and>
    (\<forall>(b, u)\<in>set new. kvRead (blockDb E) (blockStore t) (uint64ToBytes (extOps E) (getRoundNumber (extOps E) (Some u))) = Inr (Some b)) \<and>
    (\<forall>k. k \<noteq> uint32ToBytes (extOps E) proposalKey \<and>
       k \<notin> (\<lambda>(b, u). uint64ToBytes (extOps E) (getRoundNumber (extOps E) (Some u))) ` set new \<longrightarrow>
       kvRead (blockDb E) (blockStore t) k = kvRead (blockDb E) (blockStore s) k) \<and>
    (if getRoundNumber (extOps E) (nodeCommittedUC t) = getRoundNumber (extOps E) (luc t)
     then status t = normal \<and> pendingBlockProposal t = None else status t = recovering)"
proof -
  have "blocksApplied E bs s t \<and> (if getRoundNumber (extOps E) (nodeCommittedUC t) = getRoundNumber (extOps E) (luc t)
     then status t = normal \<and> pendingBlockProposal t = None else status t = recovering)"
    using assms(2-5,7)
  proof (cases rule: response_Ok)
    case (1 v)
    then show ?thesis
      using handleBlocks_Ok [OF assms(1) _ 1(1)] wp_Ok [OF sendLedgerReplicationRequest_view 1(3)] assms(3)
      by (simp add: blocksApplied_def localView_def isRecoveryComplete_def nodeCommittedUC_def)
  next
    case (2 v w)
    have blocks: "recoveryLastProp v = None" "blocksApplied E bs s v"
      using handleBlocks_Ok [OF assms(1) _ 2(1)] assms(3,6) by simp_all
    note w = startNewRound_Ok [OF envLawsD(10) [OF assms(1)] 2(3)]
    have t: "t = w" using 2(4) w blocks(1) by (simp add: retryLastProposal_def run_Ok)
    have "blocksApplied E bs s w"
      using blocks(2) w proposalKey_fresh [OF envLawsD(5) [OF assms(1)]]
      by (simp add: blocksApplied_def Let_def storeExtended_def nodeCommittedUC_def)
    then show ?thesis
      using w 2(2) unfolding t by (simp add: isRecoveryComplete_def nodeCommittedUC_def)
  qed
  then show ?thesis by (simp add: blocksApplied_def storeExtended_def new [symmetric] Let_def)
qed

definition sampleRecovering :: "(sampleStore, sampleConfs) node" where
  "sampleRecovering = (sampleRunning (Some sampleU1) None None)\<lparr>status := recovering\<rparr>"

lemma sample_recovery:
  "fst (handleLedgerReplicationResponse sampleEnv (Some sampleRR) sampleRecovering) = Ok () \<and>
   getRoundNumber (extOps sampleEnv) (nodeCommittedUC sampleRecovering) < lrrFirstBlockNumber sampleRR \<and>
   (let t = snd (handleLedgerReplicationResponse sampleEnv (Some sampleRR) sampleRecovering)
    in getRoundNumber (extOps sampleEnv) (nodeCommittedUC t) = getRoundNumber (extOps sampleEnv) (luc t)) \<and>
   newBlocks (extOps sampleEnv) (getRoundNumber (extOps sampleEnv) (nodeCommittedUC sampleRecovering)) [Some sampleB1] = [(sampleB1, sampleU1)]"
  by code_simp

theorem recovery_applies_blocks_witness:
  "\<exists>t. handleLedgerReplicationResponse sampleEnv (Some sampleRR) sampleRecovering = (Ok (), t) \<and>
     nodeCommittedUC t = Some sampleU1 \<and> status t = normal \<and>
     kvRead (blockDb sampleEnv) (blockStore t) (uint64ToBytes (extOps sampleEnv) (getRoundNumber (extOps sampleEnv) (Some sampleU1)))
       = Inr (Some sampleB1)"
proof -
  obtain t where run: "handleLedgerReplicationResponse sampleEnv (Some sampleRR) sampleRecovering = (Ok (), t)"
    using sample_recovery by (cases "handleLedgerReplicationResponse sampleEnv (Some sampleRR) sampleRecovering") simp
  have "status sampleRecovering = recovering" "recoveryLastProp sampleRecovering = None"
    by (simp_all add: sampleRecovering_def sampleRunning_def sampleNode_def)
  moreover have "lrrStatus sampleRR = replOk" "lrrBlocks sampleRR = Some [Some sampleB1]"
    by (simp_all add: sampleRR_def)
  ultimately show ?thesis
    using recovery_applies_blocks [OF sampleEnv_laws run _ _ _ _ _ refl, of "[Some sampleB1]"] sample_recovery run
    by (simp add: Let_def del: newBlocks.simps)
qed

end
