(* ===== verification/ServiceProperties.thy ===== *)
theory ServiceProperties
  imports NodeSamples
begin

text \<open>
  Properties of the services the node is built on: the selection of root nodes, the store of shard
  configurations, signed messages, and the framing of messages on a stream.
\<close>

section \<open>Selection of nodes\<close>

text \<open>
  C31: The loop that picks root nodes from an index on, wrapping around at the end of the list, chooses
  the first \<open>n\<close> nodes of the list rotated by the hash of the certificate, read as a big-endian number.
\<close>

theorem root_selection_is_rotation:
  assumes "ucHash X uc SHA256 = Inr h" and "0 < n" and "n < int (length nodes)"
  shows "rootNodesSelector X (Some uc) nodes n =
    Ok (take (nat n) (rotate (bytesToNat (sliceBytes h) mod length nodes) nodes))"
  using assms by (rule rootNodesSelector_window)

theorem root_selection_is_rotation_witness:
  "rootNodesSelector sampleNetExt (Some sampleU1) [''a'', ''b'', ''c''] 2 = Ok [''b'', ''c'']"
proof -
  have "ucHash sampleNetExt sampleU1 SHA256 = Inr (Some [1])" by (simp add: sample_ops)
  moreover have "bytesToNat [1] mod 3 = 1" by (simp add: bytesToNat_def)
  ultimately show ?thesis
    using root_selection_is_rotation [of sampleNetExt sampleU1 "Some [1]" 2 "[''a'', ''b'', ''c'']"]
    by (simp add: numeral_2_eq_2)
qed

text \<open>
  C32: Both selectors return as many nodes as asked for, or all of them when there are fewer, taken
  from the given list and none of them twice.
\<close>

theorem selected_nodes:
  assumes "randomNodeSelector rnd nodes n = Ok ys \<or> rootNodesSelector X (Some uc) nodes n = Ok ys"
    and "distinct nodes"
  shows "int (length ys) = min n (int (length nodes)) \<and> set ys \<subseteq> set nodes \<and> distinct ys \<and> ys \<noteq> []"
  using assms(1)
proof
  assume "randomNodeSelector rnd nodes n = Ok ys"
  from random_selector.select_Ok [OF this] assms(2) show ?thesis by simp
next
  assume "rootNodesSelector X (Some uc) nodes n = Ok ys"
  from root_selector.select_Ok [OF this] assms(2) show ?thesis by simp
qed

theorem selected_nodes_witness:
  "\<exists>ys. rootNodesSelector sampleNetExt (Some sampleU1) [''a'', ''b'', ''c''] 2 = Ok ys \<and>
     int (length ys) = 2 \<and> set ys \<subseteq> {''a'', ''b'', ''c''} \<and> distinct ys"
proof -
  have run: "rootNodesSelector sampleNetExt (Some sampleU1) [''a'', ''b'', ''c''] 2 = Ok [''b'', ''c'']"
    by code_simp
  have "distinct [''a'', ''b'', ''c'']" by simp
  from selected_nodes [OF disjI2 [OF run] this] run show ?thesis by auto
qed

text \<open>
  The selection of root nodes ends, with nodes or with an error, for every number of nodes that is
  not negative and every list; only a negative number panics.
\<close>

lemma root_selection_terminates:
  "(\<exists>ys. rootNodesSelector X cert nodes n = Ok ys) \<or> (\<exists>e. rootNodesSelector X cert nodes n = Fail e) \<or> n < 0"
proof (cases cert)
  case None
  then show ?thesis by (simp add: rootNodesSelector_def)
next
  case (Some uc)
  then show ?thesis
    using root_selector.select_no_panic [of n X uc nodes]
    by (cases "n < 0"; cases "rootNodesSelector X cert nodes n") (auto simp: not_less)
qed

section \<open>Shard configurations\<close>

text \<open>The configuration agrees with the first one in all that identifies the shard.\<close>

definition sameShard :: "'x ext_scheme \<Rightarrow> shardConfRecord \<Rightarrow> shardConfRecord \<Rightarrow> bool" where
  "sameShard X a b \<longleftrightarrow> pdrNetworkID a = pdrNetworkID b \<and> pdrPartitionTypeID a = pdrPartitionTypeID b \<and>
     pdrPartitionID a = pdrPartitionID b \<and> shardEqual X (pdrShardID a) (pdrShardID b)"

lemma verifyDbLoop_iff:
  "verifyDbLoop X (Some p) it = Ok () \<longleftrightarrow>
     (\<forall>e\<in>set it. length (fst e) \<ge> 8 \<and> (\<exists>c. snd e = Inr c \<and> sameShard X p c))"
proof (induction it)
  case (Cons e it)
  obtain k v where "e = (k, v)" by (cases e)
  with Cons.IH show ?case
    by (cases v) (auto simp: uint64BE_def sameShard_def Let_def)
qed simp

text \<open>
  C33: The check of the store at the start accepts exactly the stores whose keys have at least 8 bytes and
  whose configurations can all be read and belong to the shard of the first one.
\<close>

theorem verifyDb_accepts_iff:
  assumes "\<And>s. shardEqual X s s"
  shows "verifyDb X D db = Ok () \<longleftrightarrow> kvFirst D db = [] \<or>
    (\<exists>first. snd (hd (kvFirst D db)) = Inr first \<and>
      (\<forall>e\<in>set (kvFirst D db). length (fst e) \<ge> 8 \<and> (\<exists>c. snd e = Inr c \<and> sameShard X first c)))"
proof (cases "kvFirst D db")
  case Nil
  then show ?thesis by (simp add: verifyDb_def)
next
  case (Cons e it)
  obtain k v where e: "e = (k, v)" by (cases e)
  have self: "sameShard X c c" for c using assms by (simp add: sameShard_def)
  have "verifyDb X D db = Ok () \<longleftrightarrow> length k \<ge> 8 \<and> (\<exists>c. v = Inr c \<and> verifyDbLoop X (Some c) it = Ok ())"
    using assms by (cases v) (auto simp: verifyDb_def Cons e uint64BE_def Let_def)
  then show ?thesis unfolding verifyDbLoop_iff Cons using self by (auto simp: e)
qed

theorem verifyDb_accepts_iff_witness:
  "verifyDb sampleNetExt treeDb (scDb sampleConfStore) = Ok ()"
proof -
  have "shardEqual sampleNetExt s s" for s by (simp add: sample_ops)
  moreover have "kvFirst treeDb (scDb sampleConfStore) = [(epochToKey 0, Inr sampleConf)]"
    by (simp add: treeDb_def sampleConfStore_def entries_single)
  moreover have "length (epochToKey 0) = 8" by (simp add: epochToKey_def putUint64BE_def)
  ultimately show ?thesis
    using verifyDb_accepts_iff [of sampleNetExt treeDb "scDb sampleConfStore"]
    by (simp add: sameShard_def)
qed

text \<open>
  C34: A stored configuration is the one that is read for its epoch afterwards, unless the epoch had
  been read before: then the cache still answers with the configuration read at that time. Other
  epochs are read as before.
\<close>

theorem stored_conf_is_read:
  assumes "kvWriteLaw D" and "storeConf X D sc s = (Ok (), t)"
  shows "(\<exists>u. getConf D e t = (Ok c, u)) \<longleftrightarrow> (case scCache s e of Some old \<Rightarrow> c = old
     | None \<Rightarrow> if e = pdrEpoch sc then c = sc else (\<exists>u. getConf D e s = (Ok c, u)))"
proof -
  have get: "(\<exists>u. getConf D e r = (Ok c, u)) \<longleftrightarrow> confAt D r e = Some c" for r
    using store_source.get_defined store_source.get_Ok by blast
  from wp_Ok [OF storeConf_wp [OF assms(1)] assms(2)]
  have "confAt D t e = (case scCache s e of Some old \<Rightarrow> Some old
     | None \<Rightarrow> if e = pdrEpoch sc then Some sc else confAt D s e)"
    by (auto simp: confAt_def split: option.splits)
  then show ?thesis unfolding get by (auto split: option.splits)
qed

theorem stored_conf_is_read_witness:
  "\<exists>u. getConf treeDb 0 (sampleConfStore\<lparr>scDb := RBT.insert (epochToKey 0) (sampleConf\<lparr>pdrEpochStart := 9\<rparr>) (scDb sampleConfStore)\<rparr>)
     = (Ok (sampleConf\<lparr>pdrEpochStart := 9\<rparr>), u)"
proof -
  have "storeConf sampleNetExt treeDb (sampleConf\<lparr>pdrEpochStart := 9\<rparr>) sampleConfStore = (Ok (),
      sampleConfStore\<lparr>scDb := RBT.insert (epochToKey 0) (sampleConf\<lparr>pdrEpochStart := 9\<rparr>) (scDb sampleConfStore)\<rparr>)"
    by (simp add: storeConf_def comp_defs sampleConf_def sample_ops treeDb_def)
  from stored_conf_is_read [OF treeDb_write this, of 0 "sampleConf\<lparr>pdrEpochStart := 9\<rparr>"] show ?thesis
    by (simp add: sampleConfStore_def sampleConf_def)
qed

text \<open>
  The keys of the store order the configurations by epoch: keys are 8 bytes long, and comparing
  them byte by byte compares the epochs.
\<close>

lemma epoch_keys_ordered:
  "length (epochToKey a) = 8 \<and> (keyLess (epochToKey a) (epochToKey b) \<longleftrightarrow> a < b)"
proof -
  have num: "bytesToNat (epochToKey e) = unat e" for e
    using uint64_lt [of e] by (simp add: epochToKey_def putUint64BE_def bytesToNat_natToBytes)
  have len: "length (epochToKey e) = 8" for e by (simp add: epochToKey_def putUint64BE_def)
  show ?thesis using keyLess_number [of "epochToKey a" "epochToKey b"] by (simp add: num len word_less_nat_alt)
qed

section \<open>Signed messages\<close>

text \<open>
  C35: What a node signs, the receiver accepts: the signature of a block proposal and of a certification
  request covers the message without the signature, so signing and then verifying with the key that
  belongs to the signer succeeds.
\<close>

theorem signed_messages_verify:
  assumes "\<And>h sig. signHash X sg h = Inr sig \<Longrightarrow> verifyHash X v sig h = None"
    and "\<And>m sig. signBytes X sg m = Inr sig \<Longrightarrow> verifyBytes X v sig m = None"
  shows "(bpSign X alg sg p = (Ok (), p') \<longrightarrow> bpVerify X p' alg (Some v) = None \<and> p'\<lparr>bpSignature := None\<rparr> = p\<lparr>bpSignature := None\<rparr>) \<and>
    (bcrSign X sg q = (Ok (), q') \<longrightarrow> bcrIsValid X (Some q') (Some v) = None \<or> bcrPartitionID q = 0 \<or>
       bcrNodeID q = '''' \<or> irIsValid X (bcrInputRecord q) \<noteq> None)"
proof (intro conjI impI)
  assume "bpSign X alg sg p = (Ok (), p')"
  then obtain h sig where s: "bpHash X p alg = Inr h" "signHash X sg h = Inr sig" "p' = p\<lparr>bpSignature := sig\<rparr>"
    by (auto simp: bpSign_def comp_defs split: if_splits sum.splits)
  show "bpVerify X p' alg (Some v) = None" using s assms(1) by (simp add: bpVerify_def)
  show "p'\<lparr>bpSignature := None\<rparr> = p\<lparr>bpSignature := None\<rparr>" using s(3) by simp
next
  assume "bcrSign X sg q = (Ok (), q')"
  then obtain m sig where "bcrBytes X q = Inr m" "signBytes X sg m = Inr sig" "q' = q\<lparr>bcrSignature := sig\<rparr>"
    by (auto simp: bcrSign_def comp_defs split: if_splits sum.splits)
  then show "bcrIsValid X (Some q') (Some v) = None \<or> bcrPartitionID q = 0 \<or>
      bcrNodeID q = '''' \<or> irIsValid X (bcrInputRecord q) \<noteq> None"
    using assms(2) by (auto simp: bcrIsValid_def)
qed

definition sampleUnsigned :: blockProposal where
  "sampleUnsigned = \<lparr>bpPartitionID = 3, bpShardID = ShardID [], bpNodeID = ''v'', bpUnicityCertificate = Some sampleU1,
     bpTechnical = sampleTR 2 ''v'', bpProposedRoot = Some [10, 5], bpSignature = None\<rparr>"

theorem signed_messages_verify_witness:
  "bpSign sampleNetExt SHA256 (Some [7]) sampleUnsigned = (Ok (), sampleUnsigned\<lparr>bpSignature := Some [5]\<rparr>) \<and>
   bpVerify sampleNetExt (sampleUnsigned\<lparr>bpSignature := Some [5]\<rparr>) SHA256 (Some (Some [8])) = None"
proof -
  have keys: "signHash sampleNetExt (Some [7]) h = Inr sig \<Longrightarrow> verifyHash sampleNetExt (Some [8]) sig h = None"
    "signBytes sampleNetExt (Some [7]) h = Inr sig \<Longrightarrow> verifyBytes sampleNetExt (Some [8]) sig h = None" for h sig
    by (simp_all add: sample_ops)
  have sign: "bpSign sampleNetExt SHA256 (Some [7]) sampleUnsigned = (Ok (), sampleUnsigned\<lparr>bpSignature := Some [5]\<rparr>)"
    by (simp add: bpSign_def bpHash_def comp_defs sample_ops)
  with signed_messages_verify [of sampleNetExt "Some [7]" "Some [8]", OF keys] show ?thesis by blast
qed

section \<open>Frames\<close>

lemma readUvarintAt_drop:
  "i \<le> 10 \<Longrightarrow> readUvarintAt ende i x bs = Inr (v, rest) \<Longrightarrow> \<exists>k\<le>10 - i. rest = drop k bs"
proof (induction ende i x bs rule: readUvarintAt.induct)
  case (2 ende i x b bs)
  show ?case
  proof (cases "rest = bs")
    case True
    then show ?thesis using "2.prems" by (intro exI [of _ 1]) (cases "i = 10"; simp split: if_splits)
  next
    case False
    then have "i < 10" and "\<exists>k\<le>10 - (i + 1). rest = drop k bs"
      using 2 by (cases "i = 9"; auto split: if_splits)+
    then obtain k where "k \<le> 10 - (i + 1)" "rest = drop k bs" by blast
    with \<open>i < 10\<close> show ?thesis by (intro exI [of _ "Suc k"]) simp
  qed
qed simp

lemma drop_take_drop: "drop c (take l xs) @ drop l xs = drop (min c l) xs"
proof (cases "c \<le> l")
  case True
  then have "drop l xs = drop (l - c) (drop c xs)" by simp
  then have "take (l - c) (drop c xs) @ drop l xs = drop c xs" by (simp only: append_take_drop_id)
  with True show ?thesis by (simp add: drop_take)
qed simp

text \<open>
  C36: Whatever the peer sends, and whether a message comes out or an error, reading a message takes a
  prefix of at most ten bytes and \<open>maxMsgSize\<close> more off the stream and leaves the rest as it was; a message that is
  read takes at least one byte, so that reading goes on to the end of the stream.
\<close>

theorem message_read_bounded:
  assumes "deserializeMsg X ty ende bs = (r, rest)"
  shows "\<exists>k. rest = drop k bs \<and> k \<le> 10 + maxMsgSize \<and> (\<forall>m. r = Inr m \<longrightarrow> length rest < length bs)"
proof -
  have short: "length rest < length bs" if "r = Inr m" for m
    using deserialize_shorter assms that by blast
  show ?thesis
  proof (cases "readUvarint ende bs")
    case (Inl e)
    then have "rest = drop 10 bs" using assms by (auto simp: deserializeMsg_def maxVarintLen64_def)
    with short show ?thesis by (intro exI [of _ 10]) simp
  next
    case (Inr p)
    obtain l src where p: "p = (l, src)" by fastforce
    obtain i where i: "src = drop i bs" "i \<le> 10"
      using readUvarintAt_drop [of 0 ende 0 bs l src] Inr p by (auto simp: readUvarint_def)
    have "\<exists>j. rest = drop j src \<and> j \<le> maxMsgSize"
    proof (cases "l = 0 \<or> maxMsgSize < unat l")
      case True
      then have "rest = src" using assms Inr p by (auto simp: deserializeMsg_def split: if_splits)
      then show ?thesis by (intro exI [of _ 0]) simp
    next
      case False
      then obtain c where "rest = drop c (take (unat l) src) @ drop (unat l) src"
        using assms Inr p by (auto simp: deserializeMsg_def Let_def split: sum.splits prod.splits)
      then have "rest = drop (min c (unat l)) src" by (simp add: drop_take_drop)
      with False show ?thesis by (intro exI [of _ "min c (unat l)"]) (simp add: min.coboundedI2 not_less)
    qed
    then obtain j where "rest = drop (i + j) bs" "j \<le> maxMsgSize" using i(1) by (auto simp: add.commute)
    with i(2) short show ?thesis by (intro exI [of _ "i + j"]) simp
  qed
qed

theorem message_read_bounded_witness:
  "\<exists>k. deserializeMsg sampleNetExt (msgStruct (sampleHandshake 7)) ioEOF [2, 1, 7, 9] = (Inr (sampleHandshake 7), drop k [2, 1, 7, 9]) \<and>
     k \<le> 10 + maxMsgSize"
proof -
  have run: "deserializeMsg sampleNetExt (msgStruct (sampleHandshake 7)) ioEOF [2, 1, 7, 9] = (Inr (sampleHandshake 7), [9])"
    by (simp add: deserializeMsg_def readUvarint_def sampleNetExt_def ext.defs maxMsgSize_def)
  from message_read_bounded [OF this] run show ?thesis by auto
qed

end
