(* ===== verification/Peer.thy ===== *)
theory Peer
  imports LibP2P
begin

text \<open>
  \<open>src/network/peer.go\<close>: the configuration of a peer, the construction of the libp2p host and the
  connection to the bootstrap nodes. The cryptography, address formats and the host itself belong to
  libp2p; what they answer is the parameter \<open>p2pExt\<close> (functions of the arguments) and \<open>hostEnv\<close>
  (answers of the running host). A multiaddress and a key are known by their binary form.
\<close>

section \<open>Types\<close>

type_synonym multiaddr = "byte list"
type_synonym privKey = "byte list"
type_synonym pubKey = "byte list"

record addrInfo =
  aiID :: peerID
  aiAddrs :: "multiaddr list"

record bootstrapConnectRetry =
  retryCount :: int
  retryDelay :: int

record peerKeyPair =
  kpPublicKey :: slice
  kpPrivateKey :: slice

record peerConfiguration =
  pcID :: peerID
  pcAddress :: string
  pcAnnounceAddrs :: "multiaddr list"
  pcKeyPair :: "peerKeyPair option"
  pcBootstrapPeers :: "addrInfo list"
  pcBootstrapConnectRetry :: "bootstrapConnectRetry option"

text \<open>The peerstore of the host keeps, for every peer, the set of its known addresses.\<close>

record peer =
  hostID :: peerID
  peerConf :: peerConfiguration
  peerAddrs :: "peerID \<Rightarrow> multiaddr set"

section \<open>What libp2p provides\<close>

record p2pExt =
  unmarshalPrivateKey :: "slice \<Rightarrow> goerror + privKey"
  unmarshalPublicKey :: "slice \<Rightarrow> goerror + pubKey"
  getPublic :: "privKey \<Rightarrow> pubKey"
  rawPrivate :: "privKey \<Rightarrow> goerror + slice"
  rawPublic :: "pubKey \<Rightarrow> goerror + slice"
  idFromPublicKey :: "pubKey \<Rightarrow> goerror + peerID"
  idFromPrivateKey :: "privKey \<Rightarrow> goerror + peerID"
  newMultiaddr :: "string \<Rightarrow> goerror + multiaddr"
  addrInfoFromString :: "string \<Rightarrow> goerror + addrInfo"

text \<open>
  Documented: the raw form of a key is what it is unmarshalled from, the identifier of a private key
  is that of its public key, and no identifier is empty.
\<close>

definition keyPairLaw :: "'x p2pExt_scheme \<Rightarrow> bool" where
  "keyPairLaw P \<longleftrightarrow>
     (\<forall>k bs. rawPublic P k = Inr bs \<longrightarrow> unmarshalPublicKey P bs = Inr k) \<and>
     (\<forall>k bs. rawPrivate P k = Inr bs \<longrightarrow> unmarshalPrivateKey P bs = Inr k) \<and>
     (\<forall>k. idFromPrivateKey P k = idFromPublicKey P (getPublic P k)) \<and>
     (\<forall>k i. idFromPublicKey P k = Inr i \<longrightarrow> i \<noteq> '''')"

text \<open>
  The options \<open>NewPeer\<close> passes to \<open>libp2p.New\<close>: \<open>None\<close> for the announced addresses leaves the
  listen addresses of the host in place.
\<close>

record hostOptions =
  hoListen :: string
  hoIdentity :: privKey
  hoAnnounce :: "multiaddr list option"
  hoRouting :: "goerror + addrInfo list"

text \<open>
  Answers of the running host. Dials run in goroutines: \<open>connectAt g k\<close> is the result of the \<open>k\<close>-th
  \<open>Connect\<close> of goroutine \<open>g\<close> (\<open>None\<close>: connected), \<open>retryAt g k\<close> tells whether the delay after it
  elapsed before the context was cancelled, and \<open>finishOrder n\<close> is the order in which \<open>n\<close> goroutines
  end. \<open>dhtBootstrap 0\<close> is the answer of the DHT to \<open>NewPeer\<close>, \<open>dhtBootstrap 1\<close> that to \<open>BootstrapConnect\<close>.
\<close>

record hostEnv =
  newPeerstore :: "goerror option"
  dhtNew :: "addrInfo list \<Rightarrow> goerror option"
  libp2pNew :: "hostOptions \<Rightarrow> goerror + peerID"
  dhtBootstrap :: "nat \<Rightarrow> goerror option"
  connectAt :: "nat \<Rightarrow> nat \<Rightarrow> goerror option"
  retryAt :: "nat \<Rightarrow> nat \<Rightarrow> bool"
  finishOrder :: "nat \<Rightarrow> nat list"
  dhtClose :: "goerror option"
  hostClose :: "goerror option"

definition orderLaw :: "hostEnv \<Rightarrow> bool" where
  "orderLaw H \<longleftrightarrow> (\<forall>n. mset (finishOrder H n) = mset [0..<n])"

text \<open>Documented: a host has the identity of the key it is given.\<close>

definition hostLaw :: "'x p2pExt_scheme \<Rightarrow> hostEnv \<Rightarrow> bool" where
  "hostLaw P H \<longleftrightarrow> (\<forall>opts i. libp2pNew H opts = Inr i \<longrightarrow> idFromPrivateKey P (hoIdentity opts) = Inr i)"

section \<open>Configuration\<close>

definition defaultAddress :: string where
  "defaultAddress = ''/ip4/0.0.0.0/tcp/0''"
definition defaultBootstrapConnectRetry :: int where
  "defaultBootstrapConnectRetry = 0"
definition defaultBootstrapConnectRetryDelay :: int where
  "defaultBootstrapConnectRetryDelay = 1"
definition ErrPeerConfigurationIsNil :: goerror where
  "ErrPeerConfigurationIsNil = Errorf ''peer configuration is nil''"

definition nodeIDFromPublicKeyBytes :: "'x p2pExt_scheme \<Rightarrow> slice \<Rightarrow> goerror + peerID" where
  "nodeIDFromPublicKeyBytes P pubKey = (case unmarshalPublicKey P pubKey of
      Inl e \<Rightarrow> Inl e
    | Inr pub \<Rightarrow> idFromPublicKey P pub)"

fun announceMultiaddrs :: "'x p2pExt_scheme \<Rightarrow> string list \<Rightarrow> goerror + multiaddr list" where
  "announceMultiaddrs P [] = Inr []"
| "announceMultiaddrs P (a # as) = (case newMultiaddr P a of
      Inl e \<Rightarrow> Inl (Wrapf ''failed to convert announce address '%s' to libp2p multiaddress format'' e)
    | Inr m \<Rightarrow> map_sum id ((#) m) (announceMultiaddrs P as))"

definition newPeerConfiguration ::
  "'x p2pExt_scheme \<Rightarrow> string \<Rightarrow> string list \<Rightarrow> peerKeyPair option \<Rightarrow> addrInfo list \<Rightarrow> bootstrapConnectRetry option
     \<Rightarrow> goerror + peerConfiguration" where
  "newPeerConfiguration P addr announceAddrs keyPair boots retry = (case keyPair of
      None \<Rightarrow> Inl (Errorf ''missing key pair'')
    | Some kp \<Rightarrow> (case nodeIDFromPublicKeyBytes P (kpPublicKey kp) of
        Inl e \<Rightarrow> Inl (Wrapf ''invalid key pair'' e)
      | Inr i \<Rightarrow> (case announceMultiaddrs P announceAddrs of
          Inl e \<Rightarrow> Inl e
        | Inr ms \<Rightarrow> Inr \<lparr>pcID = i, pcAddress = addr, pcAnnounceAddrs = ms, pcKeyPair = keyPair,
            pcBootstrapPeers = boots,
            pcBootstrapConnectRetry = (case retry of
                Some r \<Rightarrow> Some r
              | None \<Rightarrow> Some \<lparr>retryCount = defaultBootstrapConnectRetry,
                  retryDelay = defaultBootstrapConnectRetryDelay\<rparr>)\<rparr>)))"

definition readKeyPair :: "'x p2pExt_scheme \<Rightarrow> peerConfiguration \<Rightarrow> goerror + privKey \<times> pubKey" where
  "readKeyPair P conf = (case pcKeyPair conf of
      None \<Rightarrow> Inl (Errorf ''missing peer key'')
    | Some kp \<Rightarrow> (case unmarshalPrivateKey P (kpPrivateKey kp) of
        Inl e \<Rightarrow> Inl (Wrapf ''invalid private key'' e)
      | Inr priv \<Rightarrow> (case unmarshalPublicKey P (kpPublicKey kp) of
          Inl e \<Rightarrow> Inl (Wrapf ''invalid public key'' e)
        | Inr pub \<Rightarrow> Inr (priv, pub))))"

section \<open>NewPeer\<close>

text \<open>\<open>newDHT\<close>, as the routing option of the host calls it; the callbacks it adds only log.\<close>

definition newDHT :: "hostEnv \<Rightarrow> addrInfo list \<Rightarrow> goerror + addrInfo list" where
  "newDHT H boots = (case dhtNew H boots of
      Some e \<Rightarrow> Inl (Wrapf ''creating DHT'' e)
    | None \<Rightarrow> Inr boots)"

definition newPeer :: "'x p2pExt_scheme \<Rightarrow> hostEnv \<Rightarrow> peerConfiguration option \<Rightarrow> goerror + peer" where
  "newPeer P H conf = (case conf of
      None \<Rightarrow> Inl ErrPeerConfigurationIsNil
    | Some c \<Rightarrow> (case readKeyPair P c of
        Inl e \<Rightarrow> Inl e
      | Inr (priv, _) \<Rightarrow> (case newPeerstore H of
          Some e \<Rightarrow> Inl e
        | None \<Rightarrow> (case libp2pNew H
              \<lparr>hoListen = (if pcAddress c \<noteq> '''' then pcAddress c else defaultAddress),
               hoIdentity = priv,
               hoAnnounce = (if pcAnnounceAddrs c \<noteq> [] then Some (pcAnnounceAddrs c) else None),
               hoRouting = newDHT H (pcBootstrapPeers c)\<rparr> of
            Inl e \<Rightarrow> Inl e
          | Inr i \<Rightarrow> (case dhtBootstrap H 0 of
              Some e \<Rightarrow> Inl (Wrapf ''bootstrapping DHT'' e)
            | None \<Rightarrow> Inr \<lparr>hostID = i, peerConf = c, peerAddrs = (\<lambda>_. {})\<rparr>)))))"

section \<open>Bootstrapping\<close>

fun bootstrapPeers :: "addrInfo list \<Rightarrow> peerID \<Rightarrow> addrInfo list" where
  "bootstrapPeers [] self = []"
| "bootstrapPeers (b # bs) self =
     (if aiID b \<noteq> self then b # bootstrapPeers bs self else bootstrapPeers bs self)"

fun isBootnode :: "peerID \<Rightarrow> addrInfo list \<Rightarrow> bool" where
  "isBootnode i [] = False"
| "isBootnode i (b # bs) = (if i = aiID b then True else isBootnode i bs)"

definition maxInt :: int where
  "maxInt = 2 ^ 63 - 1"

text \<open>How often a failed dial is repeated: a negative count means practically always, a bootnode never retries.\<close>

definition dialCountdown :: "bool \<Rightarrow> bootstrapConnectRetry \<Rightarrow> int" where
  "dialCountdown bootnode r =
     (let countdown = (if retryCount r < 0 then maxInt else retryCount r)
      in if bootnode then 0 else countdown)"

datatype dialResult = Connected | DialFailed goerror | Cancelled

text \<open>The loop of a dialling goroutine, with the number of calls of \<open>Connect\<close> it made.\<close>

function dialLoop :: "hostEnv \<Rightarrow> nat \<Rightarrow> nat \<Rightarrow> int \<Rightarrow> dialResult \<times> nat" where
  "dialLoop H g k countdown = (case connectAt H g k of
      None \<Rightarrow> (Connected, k + 1)
    | Some e \<Rightarrow>
        if countdown \<le> 0 then (DialFailed e, k + 1)
        else if retryAt H g k then dialLoop H g (k + 1) (countdown - 1)
        else (Cancelled, k + 1))"
  by pat_completeness auto

termination dialLoop
  by (relation "measure (\<lambda>(H, g, k, countdown). nat countdown)") auto

declare dialLoop.simps [simp del]

text \<open>Draining the channel of errors, which the goroutines filled in the order in which they ended.\<close>

definition dialErrors :: "hostEnv \<Rightarrow> nat \<Rightarrow> int \<Rightarrow> goerror list" where
  "dialErrors H n countdown = concat (map (\<lambda>g. case fst (dialLoop H g 0 countdown) of
      DialFailed e \<Rightarrow> [e] | Connected \<Rightarrow> [] | Cancelled \<Rightarrow> []) (finishOrder H n))"

definition joinAll :: "goerror list \<Rightarrow> goerror option" where
  "joinAll es = foldl (\<lambda>a e. Some (errorsJoin a e)) None es"

text \<open>
  \<open>BootstrapConnect\<close>. Every goroutine reads \<open>BootstrapConnectRetry\<close> through its pointer.
\<close>

definition bootstrapConnect :: "hostEnv \<Rightarrow> (peer, unit) comp" where
  "bootstrapConnect H =
     andThen (gets (\<lambda>p. bootstrapPeers (pcBootstrapPeers (peerConf p)) (hostID p))) (\<lambda>boots.
     if boots = [] then ret ()
     else
     andThen (gets (\<lambda>p. isBootnode (hostID p) (pcBootstrapPeers (peerConf p)))) (\<lambda>bootnode.
     andSeq (forEach boots (\<lambda>b. modify (\<lambda>p. p\<lparr>peerAddrs :=
         (peerAddrs p)(aiID b := peerAddrs p (aiID b) \<union> set (aiAddrs b))\<rparr>)))
     (andThen (gets (\<lambda>p. pcBootstrapConnectRetry (peerConf p))) (\<lambda>retry.
     andThen (deref retry) (\<lambda>r.
     let errs = dialErrors H (length boots) (dialCountdown bootnode r) in
     if length errs = length boots then
       (if bootnode then ret ()
        else fail (case joinAll errs of
            None \<Rightarrow> Errorf ''failed to bootstrap''
          | Some e \<Rightarrow> Wrapf ''failed to bootstrap'' e))
     else liftErr (dhtBootstrap H 1))))))"

section \<open>Other methods\<close>

text \<open>\<open>String\<close>: slicing the identifier is within bounds.\<close>

definition shortID :: "string \<Rightarrow> string" where
  "shortID i = (if length i \<le> 10 then i else take 2 i @ ''*'' @ drop (length i - 6) i)"

definition nodeIDString :: "'x ext_scheme \<Rightarrow> peer \<Rightarrow> string" where
  "nodeIDString X p = ''NodeID:'' @ shortID (peerString X (hostID p))"

definition closePeer :: "hostEnv \<Rightarrow> goerror option" where
  "closePeer H = (let err = map_option (Wrapf ''closing the DHT'') (dhtClose H) in
     (case hostClose H of
        None \<Rightarrow> err
      | Some e \<Rightarrow> Some (errorsJoin err (Wrapf ''closing the host'' e))))"

section \<open>Lemmas\<close>

text \<open>A dial is refused when all its attempts fail and it is not cancelled between them.\<close>

definition refused :: "hostEnv \<Rightarrow> nat \<Rightarrow> int \<Rightarrow> bool" where
  "refused H g countdown \<longleftrightarrow> (\<forall>k\<le>nat countdown. connectAt H g k \<noteq> None) \<and> (\<forall>k<nat countdown. retryAt H g k)"

lemma le_Suc_shift: "(\<forall>j\<le>Suc n. P j) \<longleftrightarrow> P 0 \<and> (\<forall>j\<le>n. P (Suc j))" for P :: "nat \<Rightarrow> bool"
  by (metis Suc_le_mono le0 not0_implies_Suc)

lemma dialLoop_refused:
  "(\<exists>e. fst (dialLoop H g k c) = DialFailed e) \<longleftrightarrow>
     (\<forall>j\<le>nat c. connectAt H g (k + j) \<noteq> None) \<and> (\<forall>j<nat c. retryAt H g (k + j))"
proof (induction H g k c rule: dialLoop.induct)
  case (1 H g k c)
  show ?case
  proof (cases "connectAt H g k \<noteq> None \<and> 0 < c \<and> retryAt H g k")
    case True
    then have "nat c = Suc (nat (c - 1))" by linarith
    moreover have "dialLoop H g k c = dialLoop H g (k + 1) (c - 1)"
      using True by (subst dialLoop.simps) auto
    ultimately show ?thesis
      using True "1.IH" by (auto simp: le_Suc_shift All_less_Suc2)
  next
    case False
    have "retryAt H g k" if "\<forall>j<nat c. retryAt H g (k + j)" and "0 < c"
      using that(1) [rule_format, of 0] that(2) by simp
    with False show ?thesis
      by (subst dialLoop.simps) (auto split: option.splits)
  qed
qed

lemma dialLoop_attempts: "k < snd (dialLoop H g k c) \<and> snd (dialLoop H g k c) \<le> k + nat c + 1"
proof (induction H g k c rule: dialLoop.induct)
  case (1 H g k c)
  then show ?case by (subst (1 2) dialLoop.simps) (auto split: option.splits)
qed

lemma dialErrors_all:
  assumes "orderLaw H"
  shows "length (dialErrors H n c) = n \<longleftrightarrow> (\<forall>g<n. refused H g c)"
proof -
  let ?P = "\<lambda>g. \<exists>e. fst (dialLoop H g 0 c) = DialFailed e"
  have "length (concat (map (\<lambda>g. case fst (dialLoop H g 0 c) of
      DialFailed e \<Rightarrow> [e] | Connected \<Rightarrow> [] | Cancelled \<Rightarrow> []) xs)) = length (filter ?P xs)" for xs
    by (induction xs) (auto split: dialResult.splits)
  then have "length (dialErrors H n c) = length (filter ?P (finishOrder H n))"
    by (simp only: dialErrors_def)
  also have "\<dots> = size (filter_mset ?P (mset (finishOrder H n)))"
    by (simp only: mset_filter [symmetric] size_mset)
  also have "\<dots> = length (filter ?P [0..<n])"
    using assms by (simp only: orderLaw_def mset_filter [symmetric] size_mset)
  finally have "length (dialErrors H n c) = n \<longleftrightarrow> filter ?P [0..<n] = [0..<n]"
    using length_filter_less [of _ "[0..<n]" ?P] by (fastforce simp: filter_id_conv)
  then have "length (dialErrors H n c) = n \<longleftrightarrow> (\<forall>g<n. ?P g)"
    by (auto simp: filter_id_conv)
  then show ?thesis by (simp add: dialLoop_refused refused_def)
qed

lemma bootstrapPeers_filter: "bootstrapPeers bs self = filter (\<lambda>b. aiID b \<noteq> self) bs"
  by (induction bs) auto

lemma isBootnode_iff: "isBootnode i bs \<longleftrightarrow> i \<in> aiID ` set bs"
  by (induction bs) auto

lemma addAddrs_run:
  "\<exists>t. forEach bs (\<lambda>b. modify (\<lambda>p. p\<lparr>peerAddrs :=
      (peerAddrs p)(aiID b := peerAddrs p (aiID b) \<union> set (aiAddrs b))\<rparr>)) p = (Ok (), t) \<and>
    peerConf t = peerConf p \<and> hostID t = hostID p"
proof (induction bs arbitrary: p)
  case (Cons b bs)
  from Cons.IH [of "p\<lparr>peerAddrs := (peerAddrs p)(aiID b := peerAddrs p (aiID b) \<union> set (aiAddrs b))\<rparr>"]
  show ?case by (simp add: comp_defs fun_upd_def)
qed (simp add: comp_defs)

text \<open>The result of the bootstrap: it depends on the dials only through whether all were refused.\<close>

lemma bootstrapConnect_run:
  assumes "pcBootstrapConnectRetry (peerConf p) = Some r"
  shows "\<exists>t. bootstrapConnect H p =
    (let boots = bootstrapPeers (pcBootstrapPeers (peerConf p)) (hostID p);
         bootnode = isBootnode (hostID p) (pcBootstrapPeers (peerConf p));
         errs = dialErrors H (length boots) (dialCountdown bootnode r)
     in (if boots = [] \<or> length errs = length boots \<and> bootnode then Ok ()
         else if length errs = length boots then Fail (case joinAll errs of
             None \<Rightarrow> Errorf ''failed to bootstrap'' | Some e \<Rightarrow> Wrapf ''failed to bootstrap'' e)
         else (case dhtBootstrap H 1 of None \<Rightarrow> Ok () | Some e \<Rightarrow> Fail e), t)) \<and>
     peerConf t = peerConf p \<and> hostID t = hostID p"
  using assms addAddrs_run [of "bootstrapPeers (pcBootstrapPeers (peerConf p)) (hostID p)" p]
  by (auto simp: bootstrapConnect_def comp_defs Let_def split: option.splits)

lemma bootstrapConnect_Ok_iff:
  assumes "orderLaw H" and "pcBootstrapConnectRetry (peerConf p) = Some r"
  shows "(\<exists>t. bootstrapConnect H p = (Ok (), t)) \<longleftrightarrow>
    (let boots = filter (\<lambda>b. aiID b \<noteq> hostID p) (pcBootstrapPeers (peerConf p));
         bootnode = hostID p \<in> aiID ` set (pcBootstrapPeers (peerConf p))
     in boots = [] \<or>
        (if \<forall>g<length boots. refused H g (dialCountdown bootnode r) then bootnode else dhtBootstrap H 1 = None))"
  using bootstrapConnect_run [OF assms(2), of H]
  unfolding Let_def dialErrors_all [OF assms(1)] bootstrapPeers_filter isBootnode_iff
  by (auto split: option.splits if_splits)

text \<open>The configuration of a peer always has retry parameters, and its identifier comes from its public key.\<close>

lemma newPeerConfiguration_Inr:
  assumes "newPeerConfiguration P addr anns kp boots retry = Inr pc"
  shows "pcBootstrapConnectRetry pc \<noteq> None \<and> pcBootstrapPeers pc = boots \<and> pcAddress pc = addr \<and> pcKeyPair pc = kp \<and>
    (\<exists>k. kp = Some k \<and> nodeIDFromPublicKeyBytes P (kpPublicKey k) = Inr (pcID pc))"
  using assms by (auto simp: newPeerConfiguration_def split: option.splits sum.splits)

lemma newPeer_Inr:
  assumes "hostLaw P H" and "newPeer P H (Some pc) = Inr p"
  shows "peerConf p = pc \<and> (\<exists>kp priv. pcKeyPair pc = Some kp \<and>
    unmarshalPrivateKey P (kpPrivateKey kp) = Inr priv \<and> idFromPrivateKey P priv = Inr (hostID p))"
  using assms(2) assms(1) [unfolded hostLaw_def, rule_format]
  by (fastforce simp: newPeer_def readKeyPair_def split: option.splits sum.splits prod.splits)

end
