(* ===== verification/Configuration.thy ===== *)
theory Configuration
  imports Peer NodeState
begin

text \<open>
  \<open>src/partition/configuration.go\<close>: the key configuration, the configuration of a node with its
  options, and the peer configuration derived from both. The record \<open>nodeConf\<close> of \<open>NodeState\<close> holds
  the fields the running node reads; \<open>startConf\<close> extends it by those that are used once, when the
  node starts. The validators are the default ones of \<open>NodeState\<close>; the options that replace them
  are not modelled.
\<close>

section \<open>Keys\<close>

record key =
  keyAlgorithm :: string
  privateKey :: slice

record keyConf =
  sigKey :: key
  authKey :: key

definition KeyAlgorithmSecp256k1 :: string where
  "KeyAlgorithmSecp256k1 = ''secp256k1''"

text \<open>\<open>NewInMemorySecp256K1SignerFromKey\<close> of \<open>bft-go-base\<close>.\<close>

record keyExt = p2pExt +
  newSignerFromKey :: "slice \<Rightarrow> goerror + signer"

definition nodeID :: "keyExt \<Rightarrow> keyConf \<Rightarrow> goerror + peerID" where
  "nodeID P c = (case unmarshalPrivateKey P (privateKey (authKey c)) of
      Inl e \<Rightarrow> Inl (Wrapf ''invalid authentication key'' e)
    | Inr k \<Rightarrow> idFromPrivateKey P k)"

definition keySigner :: "keyExt \<Rightarrow> keyConf \<Rightarrow> goerror + signer" where
  "keySigner P c = (case newSignerFromKey P (privateKey (sigKey c)) of
      Inl e \<Rightarrow> Inl (Wrapf ''invalid signing key'' e)
    | Inr s \<Rightarrow> Inr s)"

definition authKeyPair :: "keyExt \<Rightarrow> keyConf \<Rightarrow> goerror + peerKeyPair" where
  "authKeyPair P c =
     (if keyAlgorithm (authKey c) \<noteq> KeyAlgorithmSecp256k1 then
        Inl (Errorf ''unsupported authentication key algorithm %v'')
      else (case unmarshalPrivateKey P (privateKey (authKey c)) of
          Inl e \<Rightarrow> Inl (Wrapf ''failed to unmarshal authentication key'' e)
        | Inr k \<Rightarrow> (case rawPrivate P k of
            Inl e \<Rightarrow> Inl e
          | Inr priv \<Rightarrow> (case rawPublic P (getPublic P k) of
              Inl e \<Rightarrow> Inl e
            | Inr pub \<Rightarrow> Inr \<lparr>kpPublicKey = pub, kpPrivateKey = priv\<rparr>))))"

section \<open>The configuration of a node\<close>

definition DefaultT1Timeout :: int where
  "DefaultT1Timeout = 8640000"
definition DefaultReplicationMaxBlocks :: uint64 where
  "DefaultReplicationMaxBlocks = 1000"
definition DefaultReplicationMaxWorkers :: uint64 where
  "DefaultReplicationMaxWorkers = 10"
definition DefaultLedgerReplicationTimeout :: int where
  "DefaultLedgerReplicationTimeout = 1500 * 1000000"

definition ErrKeyConfIsNil :: goerror where
  "ErrKeyConfIsNil = Errorf ''key configuration is nil''"
definition ErrShardConfStoreIsNil :: goerror where
  "ErrShardConfStoreIsNil = Errorf ''shard conf store is nil''"
definition ErrTrustBaseStoreIsNil :: goerror where
  "ErrTrustBaseStoreIsNil = Errorf ''trust base store is nil''"

record 'b startConf = nodeConf +
  scKeyConf :: keyConf
  scAddress :: string
  scAnnounceAddresses :: "string list"
  scBootstrapAddresses :: "string list"
  scBootstrapConnectRetry :: "bootstrapConnectRetry option"
  scValidatorNetwork :: "libP2PNetwork option"
  scBlockDB :: 'b
  scShardConf :: shardConfRecord

datatype 'b nodeOption =
    WithAddress string
  | WithAnnounceAddresses "string list"
  | WithBootstrapAddresses "string list"
  | WithBootstrapConnectRetry "bootstrapConnectRetry option"
  | WithValidatorNetwork "libP2PNetwork option"
  | WithReplicationParams uint64 uint64 uint64 int
  | WithBlockDB 'b
  | WithT1Timeout int

fun applyOption :: "'b nodeOption \<Rightarrow> 'b startConf \<Rightarrow> 'b startConf" where
  "applyOption (WithAddress a) c = c\<lparr>scAddress := a\<rparr>"
| "applyOption (WithAnnounceAddresses as) c = c\<lparr>scAnnounceAddresses := as\<rparr>"
| "applyOption (WithBootstrapAddresses as) c = c\<lparr>scBootstrapAddresses := as\<rparr>"
| "applyOption (WithBootstrapConnectRetry r) c = c\<lparr>scBootstrapConnectRetry := r\<rparr>"
| "applyOption (WithValidatorNetwork nw) c = c\<lparr>scValidatorNetwork := nw\<rparr>"
| "applyOption (WithReplicationParams mf mr mw t) c =
     c\<lparr>replicationConfig := \<lparr>maxFetchBlocks = mf, maxReturnBlocks = mr, maxWorkers = mw, replTimeout = t\<rparr>\<rparr>"
| "applyOption (WithBlockDB db) c = c\<lparr>scBlockDB := db\<rparr>"
| "applyOption (WithT1Timeout t) c = c\<lparr>t1Timeout := t\<rparr>"

text \<open>The configuration before the options are applied; \<open>db0\<close> is a fresh in-memory database.\<close>

definition defaultConf :: "keyConf \<Rightarrow> signer \<Rightarrow> shardConfRecord \<Rightarrow> 'b \<Rightarrow> 'b startConf" where
  "defaultConf kc sg sc db0 =
     \<lparr>signerOf = sg, hashAlgorithm = SHA256, t1Timeout = DefaultT1Timeout * 1000000,
      replicationConfig = \<lparr>maxFetchBlocks = DefaultReplicationMaxBlocks,
        maxReturnBlocks = DefaultReplicationMaxBlocks, maxWorkers = DefaultReplicationMaxWorkers,
        replTimeout = DefaultLedgerReplicationTimeout\<rparr>,
      scKeyConf = kc, scAddress = '''', scAnnounceAddresses = [], scBootstrapAddresses = [],
      scBootstrapConnectRetry = None, scValidatorNetwork = None, scBlockDB = db0, scShardConf = sc\<rparr>"

text \<open>
  \<open>NewNodeConf\<close>. The stores are pointers; reading the first shard configuration fills the cache of
  its store, which is the state.
\<close>

definition newNodeConf ::
  "keyExt \<Rightarrow> ('d, shardConfRecord) kvdb \<Rightarrow> 'b \<Rightarrow> keyConf option \<Rightarrow> 't option \<Rightarrow> 'b nodeOption list
     \<Rightarrow> ('d shardConfStore option, 'b startConf) comp" where
  "newNodeConf P D db0 keyc tbs opts = (\<lambda>scs. case keyc of
      None \<Rightarrow> (Fail ErrKeyConfIsNil, scs)
    | Some kc \<Rightarrow> (case scs of
        None \<Rightarrow> (Fail ErrShardConfStoreIsNil, scs)
      | Some s \<Rightarrow>
          if tbs = None then (Fail ErrTrustBaseStoreIsNil, scs)
          else map_prod id Some
            (andThen (getFirst D) (\<lambda>sc.
             andThen (liftE (keySigner P kc)) (\<lambda>sg.
             let c = fold applyOption opts (defaultConf kc sg sc db0) in
             if maxWorkers (replicationConfig c) < 1 then
               fail (Errorf ''replication max workers must be at least 1'')
             else ret c)) s)))"

section \<open>The configuration of the peer\<close>

fun bootNodeInfos :: "keyExt \<Rightarrow> string list \<Rightarrow> goerror + addrInfo list" where
  "bootNodeInfos P [] = Inr []"
| "bootNodeInfos P (a # as) = (case addrInfoFromString P a of
      Inl e \<Rightarrow> Inl (Wrapf ''invalid bootstrap address'' e)
    | Inr i \<Rightarrow> map_sum id ((#) i) (bootNodeInfos P as))"

definition peerConfOf :: "keyExt \<Rightarrow> 'b startConf \<Rightarrow> goerror + peerConfiguration" where
  "peerConfOf P c = (case authKeyPair P (scKeyConf c) of
      Inl e \<Rightarrow> Inl (Wrapf ''invalid authentication key'' e)
    | Inr kp \<Rightarrow> (case bootNodeInfos P (scBootstrapAddresses c) of
        Inl e \<Rightarrow> Inl e
      | Inr boots \<Rightarrow> newPeerConfiguration P (scAddress c) (scAnnounceAddresses c) (Some kp) boots
          (scBootstrapConnectRetry c)))"

section \<open>Lemmas\<close>

text \<open>What a field has after the options: the value of the last option that sets it, or the default.\<close>

definition lastSet :: "('o \<Rightarrow> 'v option) \<Rightarrow> 'o list \<Rightarrow> 'v \<Rightarrow> 'v" where
  "lastSet sel opts d = fold (\<lambda>opt v. case sel opt of None \<Rightarrow> v | Some w \<Rightarrow> w) opts d"

lemma lastSet_simps [simp]:
  "lastSet sel [] d = d"
  "lastSet sel (opts @ [opt]) d = (case sel opt of None \<Rightarrow> lastSet sel opts d | Some w \<Rightarrow> w)"
  by (simp_all add: lastSet_def split: option.split)

lemma fold_options:
  assumes "\<And>opt c. field (applyOption opt c) = (case sel opt of None \<Rightarrow> field c | Some w \<Rightarrow> w)"
  shows "field (fold applyOption opts c) = lastSet sel opts (field c)"
  by (induction opts rule: rev_induct) (simp_all add: assms split: option.split)

fun replicationOption :: "'b nodeOption \<Rightarrow> ledgerReplicationConfig option" where
  "replicationOption (WithReplicationParams mf mr mw t) =
     Some \<lparr>maxFetchBlocks = mf, maxReturnBlocks = mr, maxWorkers = mw, replTimeout = t\<rparr>"
| "replicationOption _ = None"

fun blockDBOption :: "'b nodeOption \<Rightarrow> 'b option" where
  "blockDBOption (WithBlockDB db) = Some db"
| "blockDBOption _ = None"

lemma options_keep:
  "signerOf (fold applyOption opts c) = signerOf c"
  "hashAlgorithm (fold applyOption opts c) = hashAlgorithm c"
  "scKeyConf (fold applyOption opts c) = scKeyConf c"
  "scShardConf (fold applyOption opts c) = scShardConf c"
proof -
  have step: "signerOf (applyOption opt c) = signerOf c" "hashAlgorithm (applyOption opt c) = hashAlgorithm c"
    "scKeyConf (applyOption opt c) = scKeyConf c" "scShardConf (applyOption opt c) = scShardConf c" for opt c
    by (cases opt; simp)+
  show "signerOf (fold applyOption opts c) = signerOf c"
    "hashAlgorithm (fold applyOption opts c) = hashAlgorithm c"
    "scKeyConf (fold applyOption opts c) = scKeyConf c"
    "scShardConf (fold applyOption opts c) = scShardConf c"
    by (induction opts arbitrary: c) (simp_all add: step)
qed

lemma options_set:
  "replicationConfig (fold applyOption opts c) = lastSet replicationOption opts (replicationConfig c)"
  "scBlockDB (fold applyOption opts c) = lastSet blockDBOption opts (scBlockDB c)"
proof -
  show "replicationConfig (fold applyOption opts c) = lastSet replicationOption opts (replicationConfig c)"
  proof (rule fold_options)
    show "replicationConfig (applyOption opt c) =
        (case replicationOption opt of None \<Rightarrow> replicationConfig c | Some w \<Rightarrow> w)"
      for opt and c :: "'a startConf" by (cases opt) simp_all
  qed
  show "scBlockDB (fold applyOption opts c) = lastSet blockDBOption opts (scBlockDB c)"
  proof (rule fold_options)
    show "scBlockDB (applyOption opt c) = (case blockDBOption opt of None \<Rightarrow> scBlockDB c | Some w \<Rightarrow> w)"
      for opt and c :: "'a startConf" by (cases opt) simp_all
  qed
qed

lemma newNodeConf_Ok:
  assumes "newNodeConf P D db0 keyc tbs opts scs = (Ok c, scs')"
  shows "\<exists>kc s s' sg. keyc = Some kc \<and> scs = Some s \<and> scs' = Some s' \<and> tbs \<noteq> None \<and>
    getFirst D s = (Ok (scShardConf c), s') \<and> keySigner P kc = Inr sg \<and>
    c = fold applyOption opts (defaultConf kc sg (scShardConf c) db0) \<and>
    maxWorkers (replicationConfig c) \<noteq> 0"
  using assms
  by (auto simp: newNodeConf_def comp_defs Let_def options_keep defaultConf_def not_less
      split: option.splits if_splits prod.splits outcome.splits sum.splits)

text \<open>The two ways to the identifier of a node agree.\<close>

lemma peerConf_nodeID:
  assumes "keyPairLaw P" and "peerConfOf P c = Inr pc"
  shows "nodeID P (scKeyConf c) = Inr (pcID pc) \<and> pcID pc \<noteq> ''''"
proof -
  note laws = assms(1) [unfolded keyPairLaw_def]
  obtain kp boots where kp: "authKeyPair P (scKeyConf c) = Inr kp"
    and "newPeerConfiguration P (scAddress c) (scAnnounceAddresses c) (Some kp) boots (scBootstrapConnectRetry c) = Inr pc"
    using assms(2) by (auto simp: peerConfOf_def split: sum.splits)
  then have i: "nodeIDFromPublicKeyBytes P (kpPublicKey kp) = Inr (pcID pc)"
    using newPeerConfiguration_Inr by blast
  obtain k where k: "unmarshalPrivateKey P (privateKey (authKey (scKeyConf c))) = Inr k"
    and pub: "rawPublic P (getPublic P k) = Inr (kpPublicKey kp)"
    using kp by (auto simp: authKeyPair_def split: if_splits sum.splits)
  from pub laws have "unmarshalPublicKey P (kpPublicKey kp) = Inr (getPublic P k)" by blast
  with i have "idFromPublicKey P (getPublic P k) = Inr (pcID pc)" by (simp add: nodeIDFromPublicKeyBytes_def)
  with k laws show ?thesis by (simp add: nodeID_def)
qed

end
