(* ===== verification/NodeStart.thy ===== *)
theory NodeStart
  imports Configuration LoopSafety
begin

text \<open>
  \<open>NewNode\<close> and \<open>initNetwork\<close> of \<open>src/partition/node_init.go\<close>: from the configuration and a
  transaction system to a node that can run. The state is initialised first (\<open>newNode\<close> of
  \<open>NodeLoop\<close>), then the peer and the network are set up. The theory shows that a node started this
  way is one of the start states of \<open>nodeReach\<close>, so that everything proved of reachable states holds
  for it.
\<close>

section \<open>Definitions\<close>

text \<open>\<open>mux\<close> are the stream handlers libp2p itself has installed on the new host.\<close>

definition initNetwork ::
  "keyExt \<Rightarrow> hostEnv \<Rightarrow> (string \<times> protocolHandler) list \<Rightarrow> 'b startConf \<Rightarrow> peerConfiguration
     \<Rightarrow> libP2PNetwork outcome" where
  "initNetwork P H mux c pc = (case newPeer P H (Some pc) of
      Inl e \<Rightarrow> Fail e
    | Inr p \<Rightarrow> (case scValidatorNetwork c of
        Some nw \<Rightarrow> Ok nw
      | None \<Rightarrow> (case newLibP2PValidatorNetwork (Some (hostID p)) DefaultValidatorNetworkOptions mux of
          Fail e \<Rightarrow> Fail e
        | Panics m \<Rightarrow> Panics m
        | Ok nw \<Rightarrow> (case bootstrapConnect H p of
            (Ok _, _) \<Rightarrow> Ok nw
          | (Fail e, _) \<Rightarrow> Fail e
          | (Panics m, _) \<Rightarrow> Panics m))))"

text \<open>The network of a node before \<open>initNetwork\<close>: the one of the configuration, or none.\<close>

definition noNetwork :: libP2PNetwork where
  "noNetwork = \<lparr>netSelf = '''', sendProtocols = (\<lambda>_. None), receivedMsgs = [], receivedCap = 0,
     muxHandlers = [], spawned = []\<rparr>"

text \<open>
  The channel of replication requests holds \<open>maxWorkers\<close> elements of 24 bytes; \<open>make\<close> panics when they
  do not fit into the address space of the runtime.
\<close>

definition maxChanCap :: nat where
  "maxChanCap = (2 ^ 48 - 96) div 24"

definition createNode ::
  "keyExt \<Rightarrow> hostEnv \<Rightarrow> (string \<times> protocolHandler) list \<Rightarrow> ('b, 'c) nodeEnv \<Rightarrow> 'b startConf \<Rightarrow> fgpTxSystem
     \<Rightarrow> 'c shardConfStore \<Rightarrow> ('b, 'c) node outcome" where
  "createNode P H mux E c txs cs = (case peerConfOf P c of
      Inl e \<Rightarrow> Fail (Wrapf ''failed to create peer configuration'' e)
    | Inr pc \<Rightarrow>
        if unat (maxWorkers (replicationConfig c)) > maxChanCap then Panics ''makechan: size out of range''
        else
        (case newNode E (nodeConf.truncate c) txs (scBlockDB c) cs
            (case scValidatorNetwork c of Some nw \<Rightarrow> nw | None \<Rightarrow> noNetwork) of
          Fail e \<Rightarrow> Fail e
        | Panics m \<Rightarrow> Panics m
        | Ok n \<Rightarrow> (case initNetwork P H mux c pc of
            Fail e \<Rightarrow> Fail (Wrapf ''node network initialization failed'' e)
          | Panics m \<Rightarrow> Panics m
          | Ok nw \<Rightarrow> Ok (n\<lparr>network := nw\<rparr>))))"

section \<open>The state is initialised without the network\<close>

lemma commutes_draw:
  assumes "\<And>s. calls (f s) = calls s" and "\<And>s n. f (s\<lparr>calls := n\<rparr>) = (f s)\<lparr>calls := n\<rparr>"
  shows "commutes f (draw g)"
  by (simp add: commutes_def draw_def assms)

lemma commutes_initState: "commutes (\<lambda>s. s\<lparr>network := nw\<rparr>) (initState E)"
proof -
  have draw: "commutes (\<lambda>s. s\<lparr>network := nw\<rparr>) (draw g)" for g by (rule commutes_draw) simp_all
  have tx: "commutes (\<lambda>s. s\<lparr>network := nw\<rparr>) (onTx m)" for m
    unfolding onTx_def by (rule commutes_zoom) simp_all
  have cf: "commutes (\<lambda>s. s\<lparr>network := nw\<rparr>) (onConf m)" for m
    unfolding onConf_def by (rule commutes_zoom) simp_all
  show ?thesis
    unfolding initState_def restoreBlockProposal_def loadPendingProposal_def verifyPending_def revertState_def
    by (intro commutes_rules draw tx cf | simp add: nodeCommittedUC_def)+
qed

lemma newNode_network:
  assumes "newNode E cf txs db cs nw0 = Ok n"
  shows "newNode E cf txs db cs nw = Ok (n\<lparr>network := nw\<rparr>)"
proof -
  obtain sc cs' where first: "getFirst (confDb E) cs = (Ok sc, cs')"
    using assms by (auto simp: newNode_def split: prod.splits outcome.splits)
  let ?s = "\<lambda>nw. \<lparr>status = initializing, fuc = None, luc = None, ltr = None, leader = '''',
      pendingBlockProposal = None, recoveryLastProp = None, conf = cf,
      transactionSystem = txs, lastLedgerReqTime = zeroTime, replicationCh = [], blockStore = db,
      shardConfStore = cs', network = nw, timer = newRoundTimer, epochChangeEvent = False,
      shardConf = sc, calls = 0\<rparr>"
  have "initState E (?s nw0) = (Ok (), n)"
    using assms by (auto simp: newNode_def first split: prod.splits outcome.splits)
  then have "initState E (?s nw) = (Ok (), n\<lparr>network := nw\<rparr>)"
    using commutesD [OF commutes_initState [of nw E], of "?s nw0"] by simp
  then show ?thesis by (simp add: newNode_def first)
qed

lemma newNode_conf:
  assumes "newNode E cf txs db cs nw = Ok n"
  shows "conf n = cf"
proof -
  have field: "leaves conf (modify h)" if "\<And>s. conf (h s) = conf s" for h :: "('a, 'b) node \<Rightarrow> ('a, 'b) node"
    using that by (rule leaves_modify)
  have comp: "leaves conf (draw a)" "leaves conf (onTx m)" "leaves conf (onConf k)"
    for a :: "nat \<Rightarrow> powClient" and m :: "(fgpTxSystem, 'e) comp" and k :: "('b shardConfStore, shardConfRecord) comp"
    unfolding on_defs by (auto intro!: leaves_zoom) (simp add: leaves_def wp_draw)
  have "leaves conf (initState E)" for E :: "('a, 'b) nodeEnv"
    unfolding initState_def restoreBlockProposal_def loadPendingProposal_def verifyPending_def revertState_def
    by (intro leaves_rules comp field) simp_all
  from leavesD [OF this] show ?thesis
    using assms by (fastforce simp: newNode_def split: prod.splits outcome.splits)
qed

section \<open>The identity of the node\<close>

lemma newPeer_identity:
  assumes laws: "keyPairLaw P" "hostLaw P H"
    and pc: "peerConfOf P c = Inr pc" and p: "newPeer P H (Some pc) = Inr p"
  shows "hostID p = pcID pc"
proof -
  obtain kp boots where kp: "authKeyPair P (scKeyConf c) = Inr kp"
    and conf: "newPeerConfiguration P (scAddress c) (scAnnounceAddresses c) (Some kp) boots
      (scBootstrapConnectRetry c) = Inr pc"
    using pc by (auto simp: peerConfOf_def split: sum.splits)
  obtain k where k: "unmarshalPrivateKey P (privateKey (authKey (scKeyConf c))) = Inr k"
    and "rawPrivate P k = Inr (kpPrivateKey kp)"
    using kp by (auto simp: authKeyPair_def split: if_splits sum.splits)
  then have "unmarshalPrivateKey P (kpPrivateKey kp) = Inr k" using laws(1) by (simp add: keyPairLaw_def)
  moreover have "pcKeyPair pc = Some kp" using newPeerConfiguration_Inr [OF conf] by simp
  ultimately have "idFromPrivateKey P k = Inr (hostID p)" using newPeer_Inr [OF laws(2) p] by auto
  moreover have "idFromPrivateKey P k = Inr (pcID pc)"
    using peerConf_nodeID [OF laws(1) pc] k by (simp add: nodeID_def)
  ultimately show ?thesis by simp
qed

section \<open>The network\<close>

lemma newLibP2PValidatorNetwork_inv:
  assumes "newLibP2PValidatorNetwork (Some i) opts mux = Ok nw"
  shows "netInv i nw"
proof -
  let ?m = "andSeq (wrapErr ''registering send protocols'' (registerSendProtocols (sendDescriptions opts)))
    (wrapErr ''registering receive protocols'' (registerReceiveProtocols
      [receiveDescription ProtocolLedgerReplicationReq ''replication.LedgerReplicationRequest'',
       receiveDescription ProtocolLedgerReplicationResp ''replication.LedgerReplicationResponse'']))"
  obtain base where base: "newLibP2PNetwork (Some i) (ReceivedChannelCapacity opts) mux = Inr base"
    and run: "?m base = (Ok (), nw)"
    using assms by (auto simp: newLibP2PValidatorNetwork_def split: sum.splits prod.splits outcome.splits)
  have "netInv i base" using base by (auto simp: newLibP2PNetwork_def netInv_def)
  moreover have "keeps (netInv i) ?m"
    by (intro keeps_rules keeps_registerReceiveProtocols keeps_registerSendProtocols)
  ultimately have "wp False ?m (\<lambda>_. netInv i) (\<lambda>_. netInv i) base" by (intro keepsD)
  then show ?thesis using run by (rule wp_Ok)
qed

lemma initNetwork_inv:
  assumes "keyPairLaw P" and "hostLaw P H" and "peerConfOf P c = Inr pc"
    and "scValidatorNetwork c = None" and "initNetwork P H mux c pc = Ok nw"
  shows "newLibP2PValidatorNetwork (Some (pcID pc)) DefaultValidatorNetworkOptions mux = Ok nw \<and> netInv (pcID pc) nw"
proof -
  have "newLibP2PValidatorNetwork (Some (pcID pc)) DefaultValidatorNetworkOptions mux = Ok nw"
    using assms(4,5) newPeer_identity [OF assms(1-3)]
    by (auto simp: initNetwork_def split: sum.splits outcome.splits prod.splits)
  then show ?thesis using newLibP2PValidatorNetwork_inv by blast
qed

section \<open>A started node is reachable\<close>

lemma createNode_startable:
  assumes laws: "keyPairLaw P" "hostLaw P H" and new: "createNode P H mux E c txs cs = Ok n"
    and net: "scValidatorNetwork c = None"
    and args: "fgpInv (extOps E) txs" "committedUC txs = None"
      "unat (maxReturnBlocks (replicationConfig c)) \<le> maxSliceCap" "storeComplete E (scBlockDB c)"
  shows "\<exists>nw. startable E (nodeConf.truncate c) txs (scBlockDB c) nw \<and>
    newNode E (nodeConf.truncate c) txs (scBlockDB c) cs nw = Ok n \<and>
    newLibP2PValidatorNetwork (Some (selfID n)) DefaultValidatorNetworkOptions mux = Ok (network n) \<and>
    nodeID P (scKeyConf c) = Inr (selfID n)"
proof -
  obtain pc n0 nw where pc: "peerConfOf P c = Inr pc"
    and n0: "newNode E (nodeConf.truncate c) txs (scBlockDB c) cs noNetwork = Ok n0"
    and nw: "initNetwork P H mux c pc = Ok nw" and n: "n = n0\<lparr>network := nw\<rparr>"
    using new net by (auto simp: createNode_def split: sum.splits outcome.splits if_splits)
  have inv: "netInv (pcID pc) nw" and "newLibP2PValidatorNetwork (Some (pcID pc)) DefaultValidatorNetworkOptions mux = Ok nw"
    using initNetwork_inv [OF laws pc net nw] by blast+
  have i: "nodeID P (scKeyConf c) = Inr (pcID pc) \<and> pcID pc \<noteq> ''''"
    by (rule peerConf_nodeID [OF laws(1) pc])
  have "startable E (nodeConf.truncate c) txs (scBlockDB c) nw"
    using args inv i by (simp add: startable_def netInv_def nodeConf.defs)
  moreover have "newNode E (nodeConf.truncate c) txs (scBlockDB c) cs nw = Ok n"
    unfolding n by (rule newNode_network [OF n0])
  moreover have "selfID n = pcID pc" "network n = nw" using inv n by (simp_all add: netInv_def selfID_def)
  ultimately show ?thesis using i \<open>newLibP2PValidatorNetwork _ _ _ = _\<close> by auto
qed

text \<open>\<open>Run\<close> starts when the validator protocols can be registered; the handshake cannot stop it.\<close>

lemma nodeRun_completes:
  assumes "envLaws E" and "nodeInv E n" and "registerValidatorProtocols (network n) = (Ok (), nw)"
  shows "\<exists>m. nodeRun E n = (Ok (), m)"
proof -
  have net: "onNet registerValidatorProtocols n = (Ok (), n\<lparr>network := nw\<rparr>)"
    using assms(3) by (simp add: onNet_def zoom_def)
  have "guarded E n anyFact False n" using assms(2) by (rule guarded_start) simp_all
  moreover have "keeps (guarded E n anyFact False) (onNet registerValidatorProtocols)"
    unfolding registerValidatorProtocols_def by (intro keeps_onNet keeps_registerReceiveProtocols)
  ultimately have "wp False (onNet registerValidatorProtocols) (\<lambda>_. guarded E n anyFact False) (\<lambda>_. guarded E n anyFact False) n"
    by (intro keepsD)
  then have "guarded E n anyFact False (n\<lparr>network := nw\<rparr>)" using net by (rule wp_Ok)
  from noFail_wp [OF noFail_sending(2) keepsD [OF keeps_sendHandshake [OF assms(1)] this]]
  obtain m where "sendHandshake E (n\<lparr>network := nw\<rparr>) = (Ok (), m)" by auto
  then show ?thesis
    by (simp add: nodeRun_def andSeq_def andThen_def wrapErr_def net)
qed

end
