(* ===== verification/GoText.thy ===== *)
theory GoText
  imports GoStd
begin

text \<open>
  More of the Go standard library, for the command line and the logger: letter case (\<open>strings\<close>, on
  ASCII letters; other bytes are left alone), \<open>strings.ReplaceAll\<close> and friends, slash-separated paths
  (\<open>path/filepath\<close> on Unix) and \<open>strconv.Atoi\<close>.
\<close>

section \<open>strings\<close>

definition toLowerChar :: "char \<Rightarrow> char" where
  "toLowerChar c = (let n = of_char c :: nat in if 65 \<le> n \<and> n \<le> 90 then char_of (n + 32) else c)"

definition toUpperChar :: "char \<Rightarrow> char" where
  "toUpperChar c = (let n = of_char c :: nat in if 97 \<le> n \<and> n \<le> 122 then char_of (n - 32) else c)"

definition toLower :: "string \<Rightarrow> string" where
  "toLower s = map toLowerChar s"

definition toUpper :: "string \<Rightarrow> string" where
  "toUpper s = map toUpperChar s"

text \<open>Splitting at a character, and \<open>strings.Join\<close>.\<close>

fun splitOn :: "char \<Rightarrow> string \<Rightarrow> string list" where
  "splitOn c [] = [[]]"
| "splitOn c (x # xs) =
     (if x = c then [] # splitOn c xs
      else (case splitOn c xs of [] \<Rightarrow> [[x]] | w # ws \<Rightarrow> (x # w) # ws))"

fun joinWith :: "string \<Rightarrow> string list \<Rightarrow> string" where
  "joinWith sep [] = []"
| "joinWith sep [w] = w"
| "joinWith sep (w # v # ws) = w @ sep @ joinWith sep (v # ws)"

lemma splitOn_nonempty: "splitOn c s \<noteq> []"
  by (induction s) (auto split: list.splits)

lemma joinWith_splitOn: "joinWith [c] (splitOn c s) = s"
proof (induction s)
  case (Cons x xs)
  obtain w ws where "splitOn c xs = w # ws" using splitOn_nonempty [of c xs] by (cases "splitOn c xs") auto
  with Cons show ?case by (cases ws) auto
qed simp

lemma splitOn_no_sep: "w \<in> set (splitOn c s) \<Longrightarrow> c \<notin> set w"
  by (induction s arbitrary: w) (auto split: list.splits if_splits)

section \<open>path/filepath\<close>

definition isAbs :: "string \<Rightarrow> bool" where
  "isAbs path = (take 1 path = ''/'')"

text \<open>
  One element of a path in \<open>Clean\<close>: \<open>..\<close> removes the element before it, if there is one that is not
  itself \<open>..\<close>; at the root it is dropped.
\<close>

definition cleanElem :: "bool \<Rightarrow> string list \<Rightarrow> string \<Rightarrow> string list" where
  "cleanElem rooted out w =
     (if w = '''' \<or> w = ''.'' then out
      else if w = ''..'' then
        (if out \<noteq> [] \<and> last out \<noteq> ''..'' then butlast out else if rooted then out else out @ [w])
      else out @ [w])"

definition clean :: "string \<Rightarrow> string" where
  "clean path = (if path = '''' then ''.'' else
     let out = foldl (cleanElem (isAbs path)) [] (splitOn (CHR ''/'') path);
         res = (if isAbs path then ''/'' else '''') @ joinWith ''/'' out
     in if res = '''' then ''.'' else res)"

definition joinPath :: "string list \<Rightarrow> string" where
  "joinPath elems = (case dropWhile (\<lambda>e. e = '''') elems of
      [] \<Rightarrow> ''''
    | es \<Rightarrow> clean (joinWith ''/'' es))"

text \<open>\<open>Split\<close>: the file is what follows the last slash.\<close>

definition fileOf :: "string \<Rightarrow> string" where
  "fileOf path = last (splitOn (CHR ''/'') path)"

text \<open>\<open>Dir\<close>: the cleaned part up to and including the last slash.\<close>

definition dirOf :: "string \<Rightarrow> string" where
  "dirOf path = clean (take (length path - length (fileOf path)) path)"

section \<open>strconv.Atoi\<close>

definition toInt64 :: "int \<Rightarrow> int" where
  "toInt64 i = (i + 2 ^ 63) mod 2 ^ 64 - 2 ^ 63"

definition atoi :: "string \<Rightarrow> goerror + int" where
  "atoi s =
     (let neg = (take 1 s = ''-'');
          ds = (if take 1 s = ''-'' \<or> take 1 s = ''+'' then tl s else s)
      in (case parseUint ds of
            Inl e \<Rightarrow> Inl e
          | Inr w \<Rightarrow>
              if \<not> neg \<and> uint w \<ge> 2 ^ 63 \<or> neg \<and> uint w > 2 ^ 63 then Inl errRange
              else Inr (if neg then - uint w else uint w)))"

end
