(* ===== verification/IpcClient.thy ===== *)
theory IpcClient
  imports PowTypes GoText
begin

text \<open>
  \<open>src/pow/ipc_client.go\<close>: the JSON-RPC client of the PoW node over HTTP on a Unix socket. The
  socket, the HTTP transport and the PoW node behind it answer the requests one after the other;
  \<open>httpDo path k\<close> is the answer to the \<open>k\<close>-th request of a client over the socket \<open>path\<close>. The JSON codec works on Go types by
  reflection and is the parameter \<open>marshalRequest\<close>, \<open>unmarshalResponse\<close> and one decoder for every
  result type.
\<close>

section \<open>Requests and responses\<close>

datatype rpcParam = StringParam string | Uint64Param uint64

record jsonRpcRequest =
  rqJSONRPC :: string
  rqMethod :: string
  rqParams :: "rpcParam list"
  rqID :: int

text \<open>\<open>Result\<close> is a raw message (nil when the field is missing); \<open>Error\<close> is any value or nil.\<close>

record jsonRpcResponse =
  rspResult :: slice
  rspError :: "string option"
  rspID :: int

text \<open>A body delivers bytes and ends normally (\<open>None\<close>) or with an error of the connection.\<close>

record httpResponse =
  httpStatusCode :: int
  httpBody :: "(byte list \<times> goerror option) option"

record ipcExt =
  marshalRequest :: "jsonRpcRequest \<Rightarrow> goerror + byte list"
  httpDo :: "string \<Rightarrow> nat \<Rightarrow> byte list \<Rightarrow> goerror + httpResponse"
  unmarshalResponse :: "byte list \<Rightarrow> goerror + jsonRpcResponse"
  unmarshalString :: "byte list \<Rightarrow> goerror + string"
  unmarshalHeader :: "byte list \<Rightarrow> goerror + blockHeader"
  unmarshalTips :: "byte list \<Rightarrow> goerror + chainTip list"

section \<open>The client\<close>

text \<open>\<open>nextID\<close> is an \<open>atomic.Int64\<close>; \<open>sentRequests\<close> counts the requests the transport has seen.\<close>

record ipcClient =
  socketPath :: string
  nextID :: int
  sentRequests :: nat

definition newIPCClient :: "string \<Rightarrow> ipcClient" where
  "newIPCClient path = \<lparr>socketPath = path, nextID = 0, sentRequests = 0\<rparr>"

definition StatusOK :: int where
  "StatusOK = 200"

definition maxResponseSize :: nat where
  "maxResponseSize = 5 * 1024 * 1024"

text \<open>\<open>io.ReadAll\<close> of a body behind \<open>http.MaxBytesReader\<close>.\<close>

definition readAllLimited :: "nat \<Rightarrow> byte list \<times> goerror option \<Rightarrow> goerror + byte list" where
  "readAllLimited limit body =
     (if length (fst body) > limit then Inl (Errorf ''http: request body too large'')
      else (case snd body of Some e \<Rightarrow> Inl e | None \<Rightarrow> Inr (fst body)))"

definition sendRequest :: "ipcExt \<Rightarrow> byte list \<Rightarrow> (ipcClient, httpResponse) comp" where
  "sendRequest E payload =
     andThen (gets socketPath) (\<lambda>path.
     andThen (gets sentRequests) (\<lambda>k.
     andSeq (modify (\<lambda>c. c\<lparr>sentRequests := k + 1\<rparr>)) (liftE (httpDo E path k payload))))"

text \<open>
  \<open>call\<close>, with the decoder of the result type. The request URL and method are constants, so building
  the request cannot fail. The deferred \<open>resp.Body.Close()\<close> dereferences a nil body before the check
  for it is reached.
\<close>

definition ipcCall ::
  "ipcExt \<Rightarrow> string \<Rightarrow> rpcParam list \<Rightarrow> (byte list \<Rightarrow> goerror + 'r) \<Rightarrow> (ipcClient, 'r) comp" where
  "ipcCall E meth params decode =
     andSeq (modify (\<lambda>c. c\<lparr>nextID := toInt64 (nextID c + 1)\<rparr>))
     (andThen (gets nextID) (\<lambda>reqID.
     andThen (wrapErr ''failed to marshal request'' (liftE (marshalRequest E
       \<lparr>rqJSONRPC = ''2.0'', rqMethod = meth, rqParams = params, rqID = reqID\<rparr>))) (\<lambda>payload.
     andThen (wrapErr ''rpc call failed'' (sendRequest E payload)) (\<lambda>resp.
     andThen (deref (httpBody resp)) (\<lambda>body.
     if httpStatusCode resp \<noteq> StatusOK then fail (Errorf ''unexpected http status: %s'')
     else
     andThen (wrapErr ''failed to read response body'' (liftE (readAllLimited maxResponseSize body))) (\<lambda>bodyBytes.
     andThen (wrapErr ''failed to decode response'' (liftE (unmarshalResponse E bodyBytes))) (\<lambda>rpcResp.
     if rspError rpcResp \<noteq> None then fail (Errorf ''rpc error: %v'')
     else wrapErr ''failed to unmarshal result'' (liftE (decode (sliceBytes (rspResult rpcResp)))))))))))"

definition ipcGetBlockHeaderByHash :: "ipcExt \<Rightarrow> string \<Rightarrow> (ipcClient, blockHeader) comp" where
  "ipcGetBlockHeaderByHash E hash = wrapErr ''failed to invoke getblockheader''
     (ipcCall E ''getblockheader'' [StringParam hash] (unmarshalHeader E))"

definition ipcGetTip :: "ipcExt \<Rightarrow> (ipcClient, blockHeader) comp" where
  "ipcGetTip E =
     andThen (wrapErr ''failed to get best block hash''
       (ipcCall E ''getbestblockhash'' [] (unmarshalString E))) (\<lambda>hash.
     wrapErr ''failed to get tip block header'' (ipcGetBlockHeaderByHash E hash))"

definition ipcGetChainTips :: "ipcExt \<Rightarrow> (ipcClient, chainTip list) comp" where
  "ipcGetChainTips E = ipcCall E ''getchaintips'' [] (unmarshalTips E)"

definition ipcGetBlockHeaderByHeight :: "ipcExt \<Rightarrow> uint64 \<Rightarrow> (ipcClient, blockHeader) comp" where
  "ipcGetBlockHeaderByHeight E height =
     andThen (wrapErr ''failed to get block hash for height %d''
       (ipcCall E ''getblockhash'' [Uint64Param height] (unmarshalString E))) (\<lambda>hash.
     ipcGetBlockHeaderByHash E hash)"

text \<open>
  The client as the transaction system sees it: the answer each method gives when it is called in
  the given state. None of the methods panics when the transport keeps what it documents
  (\<open>ipcCall_safe\<close>), so the last case of \<open>answer\<close> does not arise.
\<close>

definition answer :: "('s, 'a) comp \<Rightarrow> 's \<Rightarrow> goerror + 'a" where
  "answer m s = (case fst (m s) of Ok x \<Rightarrow> Inr x | Fail e \<Rightarrow> Inl e | Panics p \<Rightarrow> Inl (Errorf p))"

definition ipcPowClient :: "ipcExt \<Rightarrow> (string \<Rightarrow> ipcClient) \<Rightarrow> powClient" where
  "ipcPowClient E at =
     \<lparr>getTip = answer (ipcGetTip E) (at ''GetTip''),
      getBlockHeaderByHash = (\<lambda>hash. answer (ipcGetBlockHeaderByHash E hash) (at ''GetBlockHeaderByHash'')),
      getBlockHeaderByHeight = (\<lambda>h. answer (ipcGetBlockHeaderByHeight E h) (at ''GetBlockHeaderByHeight'')),
      getChainTips = answer (ipcGetChainTips E) (at ''GetChainTips'')\<rparr>"

section \<open>Lemmas\<close>

text \<open>Every answer of the transport has a body, as \<open>net/http\<close> documents.\<close>

definition bodyLaw :: "ipcExt \<Rightarrow> bool" where
  "bodyLaw E \<longleftrightarrow> (\<forall>path k p r. httpDo E path k p = Inr r \<longrightarrow> httpBody r \<noteq> None)"

text \<open>What the PoW node answered to one request: the raw result, if the exchange was in order.\<close>

definition rpcAnswer :: "ipcExt \<Rightarrow> ipcClient \<Rightarrow> string \<Rightarrow> rpcParam list \<Rightarrow> byte list option" where
  "rpcAnswer E c meth params =
     (case marshalRequest E \<lparr>rqJSONRPC = ''2.0'', rqMethod = meth, rqParams = params, rqID = toInt64 (nextID c + 1)\<rparr> of
        Inl _ \<Rightarrow> None
      | Inr payload \<Rightarrow> (case httpDo E (socketPath c) (sentRequests c) payload of
          Inl _ \<Rightarrow> None
        | Inr resp \<Rightarrow> (case httpBody resp of
            Some (bs, None) \<Rightarrow>
              if httpStatusCode resp = StatusOK \<and> length bs \<le> maxResponseSize
              then (case unmarshalResponse E bs of
                  Inr r \<Rightarrow> if rspError r = None then Some (sliceBytes (rspResult r)) else None
                | Inl _ \<Rightarrow> None)
              else None
          | _ \<Rightarrow> None)))"

definition afterCall :: "ipcClient \<Rightarrow> ipcClient" where
  "afterCall c = c\<lparr>nextID := toInt64 (nextID c + 1), sentRequests := sentRequests c + 1\<rparr>"

lemma readAllLimited_Inr: "readAllLimited limit body = Inr bs \<longleftrightarrow> length bs \<le> limit \<and> body = (bs, None)"
  by (cases body) (auto simp: readAllLimited_def split: option.splits)

lemma ipcCall_Ok [run_Ok]:
  "ipcCall E meth ps decode c = (Ok r, t) \<longleftrightarrow>
     (\<exists>raw. rpcAnswer E c meth ps = Some raw \<and> decode raw = Inr r) \<and> t = afterCall c"
  by (auto simp: ipcCall_def sendRequest_def run_Ok rpcAnswer_def readAllLimited_Inr afterCall_def
      split: sum.splits option.splits if_splits)

text \<open>No call panics, and whatever happens it only advances the counters.\<close>

lemma ipcCall_safe:
  assumes "bodyLaw E"
  shows "wp False (ipcCall E meth ps decode) (\<lambda>_ t. socketPath t = socketPath c) (\<lambda>_ t. socketPath t = socketPath c) c"
  using assms [unfolded bodyLaw_def, rule_format]
  by (fastforce simp: ipcCall_def sendRequest_def wp_rules split: sum.splits option.splits)

end
