(* ===== verification/Logger.thy ===== *)
theory Logger
  imports GoText BftTypes
begin

text \<open>
  \<open>src/logger\<close>: the configuration of the log and the formatting of log attributes. A log handler is
  known by how it was made; what the text and JSON handlers of \<open>log/slog\<close> do with the options is
  modelled as far as the enabling of levels goes, the console handler (\<open>tint\<close>) is a parameter. The
  rendering of times and of JSON data are parameters too.
\<close>

section \<open>Attributes\<close>

record slogSource =
  srcFunction :: string
  srcFile :: string
  srcLine :: int

text \<open>
  A value of any Go type: nil, a peer identifier, a source position, or something else, known by the
  name of its type and an index. Values that implement \<open>LogValuer\<close> are resolved before they are
  formatted. A floating-point number is its bit pattern, a time is \<open>None\<close> when it is the zero time.
\<close>

datatype anyValue = NilAny | PeerIDAny peerID | SourceAny slogSource | OtherAny string nat

datatype slogValue =
    StringValue string
  | Uint64Value uint64
  | Int64Value int
  | BoolValue bool
  | DurationValue int
  | Float64Value uint64
  | TimeValue "int option"
  | GroupValue "(string \<times> slogValue) list"
  | AnyValue anyValue

type_synonym slogAttr = "string \<times> slogValue"

text \<open>A formatter may panic on a value of the wrong kind.\<close>

type_synonym attrFmt = "string list \<Rightarrow> slogAttr \<Rightarrow> slogAttr outcome"

definition thenOut :: "'a outcome \<Rightarrow> ('a \<Rightarrow> 'b outcome) \<Rightarrow> 'b outcome" where
  "thenOut r f = (case r of Ok x \<Rightarrow> f x | Fail e \<Rightarrow> Fail e | Panics p \<Rightarrow> Panics p)"

text \<open>The empty attribute, which handlers leave out.\<close>

definition noAttr :: slogAttr where
  "noAttr = ('''', AnyValue NilAny)"

definition TimeKey :: string where "TimeKey = ''time''"
definition LevelKey :: string where "LevelKey = ''level''"
definition MessageKey :: string where "MessageKey = ''msg''"
definition SourceKey :: string where "SourceKey = ''source''"
definition NodeIDKey :: string where "NodeIDKey = ''node_id''"
definition ErrorKey :: string where "ErrorKey = ''err''"
definition RoundKey :: string where "RoundKey = ''round''"
definition DataKey :: string where "DataKey = ''data''"

lemmas key_defs = TimeKey_def LevelKey_def MessageKey_def SourceKey_def NodeIDKey_def ErrorKey_def
  RoundKey_def DataKey_def

definition NodeIDAttr :: "peerID \<Rightarrow> slogAttr" where
  "NodeIDAttr i = (NodeIDKey, AnyValue (PeerIDAny i))"

definition ShardAttr :: "(shardID \<Rightarrow> string) \<Rightarrow> idnum \<Rightarrow> shardID \<Rightarrow> slogAttr" where
  "ShardAttr str part shard =
     (''shard'', GroupValue [(''partition'', Uint64Value part), (''id'', StringValue (str shard))])"

section \<open>Formatters\<close>

text \<open>
  \<open>composeAttrFmt\<close>: nil formatters are dropped, up to three are composed directly, more by recursion
  on the first three and the rest.
\<close>

function composeAttrFmt :: "attrFmt option list \<Rightarrow> attrFmt option" where
  "composeAttrFmt fs0 = (case List.map_filter id fs0 of
      [] \<Rightarrow> None
    | [f] \<Rightarrow> Some f
    | [f0, f1] \<Rightarrow> Some (\<lambda>groups a. thenOut (f0 groups a) (f1 groups))
    | [f0, f1, f2] \<Rightarrow> Some (\<lambda>groups a. thenOut (thenOut (f0 groups a) (f1 groups)) (f2 groups))
    | f0 # f1 # f2 # f3 # fs \<Rightarrow>
        composeAttrFmt [composeAttrFmt [Some f0, Some f1, Some f2], composeAttrFmt (map Some (f3 # fs))])"
  by pat_completeness auto

lemma length_map_filter_id: "length (List.map_filter id xs) \<le> length xs"
  by (simp add: map_filter_def)

termination composeAttrFmt
proof (relation "measure length", goal_cases)
  case 1 then show ?case by simp
next
  case (2 fs0 f0 l f1 l' f2 l'' f3 fs)
  then show ?case using length_map_filter_id [of fs0] by simp
next
  case (3 fs0 f0 l f1 l' f2 l'' f3 fs)
  then show ?case using length_map_filter_id [of fs0] by simp
next
  case (4 fs0 f0 l f1 l' f2 l'' f3 fs)
  then show ?case using length_map_filter_id [of fs0] by simp
qed

declare composeAttrFmt.simps [simp del]

text \<open>\<open>fmtTime\<close> renders a time in a layout. \<open>Value.Time()\<close> panics on a value of another kind.\<close>

definition formatTimeAttr :: "(int \<Rightarrow> string \<Rightarrow> string) \<Rightarrow> string \<Rightarrow> attrFmt option" where
  "formatTimeAttr fmtTime layout =
     (if layout = '''' then None
      else if layout = ''none'' then Some (\<lambda>groups a. Ok (if fst a = TimeKey then noAttr else a))
      else Some (\<lambda>groups a.
        if fst a = TimeKey then
          (case snd a of
             TimeValue (Some t) \<Rightarrow> Ok (fst a, StringValue (fmtTime t layout))
           | TimeValue None \<Rightarrow> Ok a
           | _ \<Rightarrow> Panics ''Value kind is not Time'')
        else Ok a))"

definition formatPeerIDAttr :: "'x ext_scheme \<Rightarrow> string \<Rightarrow> attrFmt option" where
  "formatPeerIDAttr X layout =
     (if layout = ''none'' then
        Some (\<lambda>groups a. Ok (case snd a of AnyValue (PeerIDAny _) \<Rightarrow> noAttr | _ \<Rightarrow> a))
      else if layout = ''short'' then
        Some (\<lambda>groups a. Ok (case snd a of
            AnyValue (PeerIDAny i) \<Rightarrow>
              (let pid = peerString X i in
               (fst a, StringValue (if length pid > 10 then take 2 pid @ ''*'' @ drop (length pid - 6) pid else pid)))
          | _ \<Rightarrow> a))
      else None)"

definition formatDataAttrAsJSON :: "(anyValue \<Rightarrow> string option) \<Rightarrow> attrFmt" where
  "formatDataAttrAsJSON marshal groups a =
     Ok (if fst a = DataKey then
        (case snd a of
           AnyValue v \<Rightarrow> (case marshal v of Some js \<Rightarrow> (fst a, StringValue js) | None \<Rightarrow> a)
         | _ \<Rightarrow> a)
      else a)"

definition formatAttrWallet :: attrFmt where
  "formatAttrWallet groups a =
     Ok (if fst a = LevelKey \<or> fst a = MessageKey \<or> fst a = ErrorKey then a else noAttr)"

text \<open>\<open>trimSource\<close>: the last element of the path, without the package name before the first dot.\<close>

definition trimFunction :: "string \<Rightarrow> string" where
  "trimFunction f = (let g = fileOf f in
     if CHR ''.'' \<in> set g then tl (dropWhile (\<lambda>c. c \<noteq> CHR ''.'') g) else g)"

definition trimSource :: "slogSource \<Rightarrow> slogSource" where
  "trimSource src = src\<lparr>srcFunction := trimFunction (srcFunction src)\<rparr>"

text \<open>\<open>reflect.TypeOf(v).String()\<close>: nil has no type, and calling the method on it panics.\<close>

fun anyTypeName :: "anyValue \<Rightarrow> string outcome" where
  "anyTypeName NilAny = Panics ''nil pointer dereference''"
| "anyTypeName (PeerIDAny _) = Ok ''peer.ID''"
| "anyTypeName (SourceAny _) = Ok ''*slog.Source''"
| "anyTypeName (OtherAny n _) = Ok n"

fun dataName :: "slogValue \<Rightarrow> string outcome" where
  "dataName (AnyValue v) = thenOut (anyTypeName v) (\<lambda>n.
     Ok (map (\<lambda>c. if c = CHR ''.'' then CHR ''_'' else c) (dropWhile (\<lambda>c. c = CHR ''*'') n)))"
| "dataName (StringValue _) = Ok ''String''"
| "dataName (Uint64Value _) = Ok ''Uint64''"
| "dataName (Int64Value _) = Ok ''Int64''"
| "dataName (BoolValue _) = Ok ''Bool''"
| "dataName (DurationValue _) = Ok ''Duration''"
| "dataName (Float64Value _) = Ok ''Float64''"
| "dataName (TimeValue _) = Ok ''Time''"
| "dataName (GroupValue _) = Ok ''Group''"

text \<open>\<open>valueString\<close> is \<open>Value.String()\<close>.\<close>

definition formatAttrECS :: "(slogValue \<Rightarrow> string) \<Rightarrow> attrFmt" where
  "formatAttrECS valueString groups a =
     (if fst a = MessageKey then Ok (''message'', StringValue (valueString (snd a)))
      else if fst a = SourceKey then
        (case snd a of
           AnyValue (SourceAny src0) \<Rightarrow>
             (let src = trimSource src0 in
              Ok (''log'', GroupValue [(''origin'', GroupValue
                [(''function'', StringValue (srcFunction src)),
                 (''file'', GroupValue [(''name'', StringValue (srcFile src)), (''line'', Int64Value (srcLine src))])])]))
         | _ \<Rightarrow> Ok a)
      else if fst a = NodeIDKey then
        Ok (''service'', GroupValue [(''node'', GroupValue [(''name'', snd a)])])
      else if fst a = ErrorKey then Ok (''error'', GroupValue [(''message'', snd a)])
      else if fst a = DataKey then
        thenOut (dataName (snd a)) (\<lambda>n. Ok (DataKey, GroupValue [(n, snd a)]))
      else Ok a)"

section \<open>Configuration\<close>

datatype writer = StdoutWriter | StderrWriter | DiscardWriter | FileWriter string

record logConfiguration =
  lcLevel :: string
  lcFormat :: string
  lcOutputPath :: string
  lcTimeFormat :: string
  lcPeerIDFormat :: string
  lcShowGoroutineID :: "bool option"
  lcConsoleSupportsColor :: "(writer \<Rightarrow> bool) option"

definition fmtTEXT :: string where "fmtTEXT = ''text''"
definition fmtJSON :: string where "fmtJSON = ''json''"
definition fmtECS :: string where "fmtECS = ''ecs''"
definition fmtCONSOLE :: string where "fmtCONSOLE = ''console''"
definition fmtWALLET :: string where "fmtWALLET = ''wallet''"

lemmas fmt_defs = fmtTEXT_def fmtJSON_def fmtECS_def fmtCONSOLE_def fmtWALLET_def

definition LevelDebug :: int where "LevelDebug = -4"
definition LevelInfo :: int where "LevelInfo = 0"
definition LevelWarn :: int where "LevelWarn = 4"
definition LevelError :: int where "LevelError = 8"
definition LevelTrace :: int where "LevelTrace = LevelDebug - 4"
definition levelNone :: int where "levelNone = - (2 ^ 63)"

definition devNull :: string where "devNull = ''/dev/null''"

text \<open>
  \<open>filenameToWriter\<close>: \<open>mkdirAll\<close> and \<open>openFile\<close> are the answers of the file system for a path.
\<close>

definition filenameToWriter ::
  "(string \<Rightarrow> goerror option) \<Rightarrow> (string \<Rightarrow> goerror option) \<Rightarrow> string \<Rightarrow> goerror + writer" where
  "filenameToWriter mkdirAll openFile name =
     (if toLower name = ''stdout'' then Inr StdoutWriter
      else if toLower name = ''stderr'' \<or> toLower name = '''' then Inr StderrWriter
      else if toLower name = ''discard'' \<or> toLower name = devNull then Inr DiscardWriter
      else (case mkdirAll (dirOf name) of
          Some e \<Rightarrow> Inl (Wrapf ''create dir %q for log output'' e)
        | None \<Rightarrow> (case openFile (clean name) of
            Some e \<Rightarrow> Inl (Wrapf ''open file %q for log output'' e)
          | None \<Rightarrow> Inr (FileWriter name))))"

text \<open>\<open>initDefaults\<close>; \<open>isTerminal\<close> tells whether a writer is a terminal.\<close>

definition initDefaults :: "(writer \<Rightarrow> bool) \<Rightarrow> logConfiguration \<Rightarrow> logConfiguration" where
  "initDefaults isTerminal c0 =
     (let c1 = (if lcLevel c0 = '''' then c0\<lparr>lcLevel := ''INFO''\<rparr> else c0);
          c2 = (if lcFormat c1 = '''' then c1\<lparr>lcFormat := fmtCONSOLE\<rparr> else c1);
          c3 = (if lcTimeFormat c2 = '''' then c2\<lparr>lcTimeFormat :=
                  (if lcFormat c2 = fmtCONSOLE then ''15:04:05.0000'' else ''2006-01-02T15:04:05.0000Z0700'')\<rparr>
                else c2);
          c4 = (if lcPeerIDFormat c3 = '''' \<and> lcFormat c3 = fmtCONSOLE then c3\<lparr>lcPeerIDFormat := ''short''\<rparr> else c3);
          c5 = (if lcConsoleSupportsColor c4 = None
                then c4\<lparr>lcConsoleSupportsColor := Some (\<lambda>out. out \<noteq> DiscardWriter \<and> isTerminal out)\<rparr> else c4)
      in if lcFormat c5 = fmtWALLET then c5\<lparr>lcShowGoroutineID := Some False\<rparr> else c5)"

text \<open>\<open>slog.Level.UnmarshalText\<close>: a name with an optional offset; an error leaves the level at zero.\<close>

definition parseLevel :: "string \<Rightarrow> goerror + int" where
  "parseLevel s =
     (let name = takeWhile (\<lambda>c. c \<noteq> CHR ''+'' \<and> c \<noteq> CHR ''-'') s;
          rest = dropWhile (\<lambda>c. c \<noteq> CHR ''+'' \<and> c \<noteq> CHR ''-'') s;
          base = (if toUpper name = ''DEBUG'' then Some LevelDebug
                  else if toUpper name = ''INFO'' then Some LevelInfo
                  else if toUpper name = ''WARN'' then Some LevelWarn
                  else if toUpper name = ''ERROR'' then Some LevelError
                  else None)
      in (case (if rest = '''' then Inr 0 else atoi rest) of
            Inl e \<Rightarrow> Inl e
          | Inr offset \<Rightarrow> (case base of
              None \<Rightarrow> Inl (Errorf ''unknown name'')
            | Some b \<Rightarrow> Inr (toInt64 (b + offset)))))"

definition logLevel :: "logConfiguration \<Rightarrow> int" where
  "logLevel c =
     (if lcOutputPath c = ''discard'' \<or> lcOutputPath c = devNull then levelNone
      else if toLower (lcLevel c) = ''warning'' then LevelWarn
      else if toLower (lcLevel c) = ''trace'' then LevelTrace
      else if toLower (lcLevel c) = ''none'' then levelNone
      else (case parseLevel (lcLevel c) of Inl _ \<Rightarrow> 0 | Inr l \<Rightarrow> l))"

section \<open>Handlers\<close>

record handlerOptions =
  hoAddSource :: bool
  hoLevel :: int
  hoReplaceAttr :: "attrFmt option"

record tintOptions =
  toLevel :: int
  toNoColor :: bool
  toTimeFormat :: string
  toAddSource :: bool
  toReplaceAttr :: "attrFmt option"

text \<open>The last two are what \<open>WithAttrs\<close> and \<open>WithGroup\<close> of the handlers outside the repository return.\<close>

datatype slogHandler =
    TextHandler writer "handlerOptions option"
  | JSONHandler writer "handlerOptions option"
  | TintHandler writer tintOptions
  | ABHandler slogHandler
  | RoundHandler slogHandler "unit \<Rightarrow> uint64"
  | AttrsHandler slogHandler "slogAttr list"
  | GroupHandler slogHandler string

record 'x logExt =
  lxOps :: "'x ext_scheme"
  lxFmtTime :: "int \<Rightarrow> string \<Rightarrow> string"
  lxMarshal :: "anyValue \<Rightarrow> string option"
  lxValueString :: "slogValue \<Rightarrow> string"
  lxIsTerminal :: "writer \<Rightarrow> bool"
  lxTintEnabled :: "tintOptions \<Rightarrow> int \<Rightarrow> bool"

text \<open>The switch of \<open>handlerOptions\<close> is on the format as written, that of \<open>Handler\<close> on its lower case.\<close>

definition handlerOptionsOf :: "'x logExt \<Rightarrow> logConfiguration \<Rightarrow> handlerOptions option" where
  "handlerOptionsOf L c =
     (let opt = \<lparr>hoAddSource = True, hoLevel = logLevel c, hoReplaceAttr = None\<rparr> in
      if lcFormat c = fmtTEXT \<or> lcFormat c = fmtJSON then
        Some (opt\<lparr>hoReplaceAttr := composeAttrFmt [formatTimeAttr (lxFmtTime L) (lcTimeFormat c),
          formatPeerIDAttr (lxOps L) (lcPeerIDFormat c)]\<rparr>)
      else if lcFormat c = fmtECS then
        Some (opt\<lparr>hoReplaceAttr := composeAttrFmt [formatTimeAttr (lxFmtTime L) (lcTimeFormat c),
          Some (formatAttrECS (lxValueString L))]\<rparr>)
      else None)"

definition newABHandler :: "slogHandler \<Rightarrow> slogHandler" where
  "newABHandler h = (case h of ABHandler g \<Rightarrow> ABHandler g | _ \<Rightarrow> ABHandler h)"

definition newRoundHandler :: "slogHandler \<Rightarrow> (unit \<Rightarrow> uint64) \<Rightarrow> slogHandler" where
  "newRoundHandler h getRound = (case h of RoundHandler g _ \<Rightarrow> RoundHandler g getRound | _ \<Rightarrow> RoundHandler h getRound)"

definition logHandler :: "'x logExt \<Rightarrow> logConfiguration \<Rightarrow> writer \<Rightarrow> goerror + slogHandler" where
  "logHandler L c0 out =
     (let c = initDefaults (lxIsTerminal L) c0;
          noColor = (case lcConsoleSupportsColor c of None \<Rightarrow> True | Some supports \<Rightarrow> \<not> supports out);
          f = toLower (lcFormat c)
      in if f = fmtTEXT then Inr (newABHandler (TextHandler out (handlerOptionsOf L c)))
      else if f = fmtJSON \<or> f = fmtECS then Inr (newABHandler (JSONHandler out (handlerOptionsOf L c)))
      else if f = fmtCONSOLE then Inr (newABHandler (TintHandler out
        \<lparr>toLevel = logLevel c, toNoColor = noColor, toTimeFormat = lcTimeFormat c, toAddSource = True,
         toReplaceAttr = composeAttrFmt [formatPeerIDAttr (lxOps L) (lcPeerIDFormat c),
           Some (formatDataAttrAsJSON (lxMarshal L))]\<rparr>))
      else if f = fmtWALLET then Inr (newABHandler (TintHandler out
        \<lparr>toLevel = logLevel c, toNoColor = noColor, toTimeFormat = lcTimeFormat c, toAddSource = False,
         toReplaceAttr = Some formatAttrWallet\<rparr>))
      else Inl (Errorf ''unknown log format %q''))"

text \<open>\<open>Enabled\<close>: the handlers of \<open>slog\<close> compare with the configured level, \<open>INFO\<close> without options.\<close>

fun enabled :: "'x logExt \<Rightarrow> slogHandler \<Rightarrow> int \<Rightarrow> bool" where
  "enabled L (TextHandler out opts) level = (level \<ge> (case opts of None \<Rightarrow> LevelInfo | Some ho \<Rightarrow> hoLevel ho))"
| "enabled L (JSONHandler out opts) level = (level \<ge> (case opts of None \<Rightarrow> LevelInfo | Some ho \<Rightarrow> hoLevel ho))"
| "enabled L (TintHandler out opts) level = lxTintEnabled L opts level"
| "enabled L (ABHandler h) level = enabled L h level"
| "enabled L (RoundHandler h r) level = enabled L h level"
| "enabled L (AttrsHandler h as) level = enabled L h level"
| "enabled L (GroupHandler h name) level = enabled L h level"

text \<open>
  The attributes a record reaches the innermost handler with. As \<open>slog\<close> documents, the attributes of a
  handler come before those of the record, and a group without a name is no group.
\<close>

fun handledAttrs :: "slogHandler \<Rightarrow> slogAttr list \<Rightarrow> slogAttr list" where
  "handledAttrs (RoundHandler h r) as = handledAttrs h (as @ [(RoundKey, Uint64Value (r ()))])"
| "handledAttrs (ABHandler h) as = handledAttrs h as"
| "handledAttrs (TextHandler _ _) as = as"
| "handledAttrs (JSONHandler _ _) as = as"
| "handledAttrs (TintHandler _ _) as = as"
| "handledAttrs (AttrsHandler h bs) as = handledAttrs h (bs @ as)"
| "handledAttrs (GroupHandler h name) as = handledAttrs h (if name = '''' then as else [(name, GroupValue as)])"

text \<open>\<open>WithAttrs\<close> and \<open>WithGroup\<close>: the wrappers pass them on and wrap the result again.\<close>

fun withAttrs :: "slogAttr list \<Rightarrow> slogHandler \<Rightarrow> slogHandler" where
  "withAttrs as (ABHandler h) = newABHandler (withAttrs as h)"
| "withAttrs as (RoundHandler h r) = newRoundHandler (withAttrs as h) r"
| "withAttrs as h = AttrsHandler h as"

fun withGroup :: "string \<Rightarrow> slogHandler \<Rightarrow> slogHandler" where
  "withGroup name (ABHandler h) = newABHandler (withGroup name h)"
| "withGroup name (RoundHandler h r) = newRoundHandler (withGroup name h) r"
| "withGroup name h = GroupHandler h name"

text \<open>\<open>Error\<close> and \<open>Data\<close>; the argument is the value \<open>slog.Any\<close> makes.\<close>

definition ErrorAttr :: "slogValue \<Rightarrow> slogAttr" where
  "ErrorAttr v = (ErrorKey, v)"

definition DataAttr :: "slogValue \<Rightarrow> slogAttr" where
  "DataAttr v = (DataKey, v)"

definition newLogger ::
  "'x logExt \<Rightarrow> (string \<Rightarrow> goerror option) \<Rightarrow> (string \<Rightarrow> goerror option) \<Rightarrow> logConfiguration
     \<Rightarrow> goerror + slogHandler" where
  "newLogger L mkdirAll openFile c = (case filenameToWriter mkdirAll openFile (lcOutputPath c) of
      Inl e \<Rightarrow> Inl (Wrapf ''creating writer for log output'' e)
    | Inr out \<Rightarrow> (case logHandler L c out of
        Inl e \<Rightarrow> Inl (Wrapf ''creating logger handler'' e)
      | Inr h \<Rightarrow> Inr h))"

section \<open>Lemmas\<close>

lemma thenOut_Ok [simp]: "thenOut (Ok x) f = f x" "thenOut r Ok = r"
  by (auto simp: thenOut_def split: outcome.splits)

lemma thenOut_assoc: "thenOut (thenOut r f) g = thenOut r (\<lambda>x. thenOut (f x) g)"
  by (cases r) (simp_all add: thenOut_def)

text \<open>Running formatters one after the other.\<close>

definition runFmts :: "attrFmt list \<Rightarrow> attrFmt" where
  "runFmts gs groups a = foldl (\<lambda>r f. thenOut r (f groups)) (Ok a) gs"

lemma runFmts_from: "foldl (\<lambda>r f. thenOut r (f groups)) r gs = thenOut r (runFmts gs groups)"
proof (induction gs arbitrary: r)
  case Nil
  show ?case by (simp add: runFmts_def)
next
  case (Cons g gs)
  have "runFmts (g # gs) groups = (\<lambda>a. thenOut (g groups a) (runFmts gs groups))"
    by (rule ext) (simp add: runFmts_def [of "g # gs"] Cons.IH)
  then show ?case by (simp add: Cons.IH thenOut_assoc)
qed

lemma runFmts_append: "runFmts (fs @ gs) groups a = thenOut (runFmts fs groups a) (runFmts gs groups)"
proof -
  have "runFmts (fs @ gs) groups a = foldl (\<lambda>r f. thenOut r (f groups)) (runFmts fs groups a) gs"
    by (simp add: runFmts_def)
  then show ?thesis by (simp only: runFmts_from)
qed

lemma map_filter_id_Some [simp]: "List.map_filter id (map Some gs) = gs"
  by (induction gs) (simp_all add: map_filter_def)

lemma composeAttrFmt_short:
  "composeAttrFmt [Some f, Some g] = Some (runFmts [f, g])"
  "composeAttrFmt [Some f, Some g, Some h] = Some (runFmts [f, g, h])"
  by (subst composeAttrFmt.simps, simp add: map_filter_simps runFmts_def [abs_def])+

lemma composeAttrFmt_seq:
  "composeAttrFmt fs = (case List.map_filter id fs of [] \<Rightarrow> None | gs \<Rightarrow> Some (runFmts gs))"
proof (induction fs rule: composeAttrFmt.induct)
  case (1 fs)
  show ?case
  proof (cases "\<exists>f0 f1 f2 f3 gs. List.map_filter id fs = f0 # f1 # f2 # f3 # gs")
    case False
    then show ?thesis
      by (subst composeAttrFmt.simps) (auto simp: runFmts_def fun_eq_iff split: list.splits)
  next
    case True
    then obtain f0 f1 f2 f3 gs where fs: "List.map_filter id fs = f0 # f1 # f2 # f3 # gs" by blast
    have rest: "composeAttrFmt (map Some (f3 # gs)) = Some (runFmts (f3 # gs))"
      using "1.IH"(2) [OF fs refl refl refl] by (simp only: map_filter_id_Some list.case)
    have "composeAttrFmt fs = composeAttrFmt [composeAttrFmt [Some f0, Some f1, Some f2], composeAttrFmt (map Some (f3 # gs))]"
      by (subst composeAttrFmt.simps) (simp only: fs list.case)
    also have "\<dots> = Some (runFmts [runFmts [f0, f1, f2], runFmts (f3 # gs)])"
      by (simp only: rest composeAttrFmt_short)
    also have "runFmts [runFmts [f0, f1, f2], runFmts (f3 # gs)] = runFmts ([f0, f1, f2] @ f3 # gs)"
      unfolding fun_eq_iff runFmts_append by (simp add: runFmts_def [of "[_, _]"])
    finally show ?thesis by (simp only: fs list.case append.simps)
  qed
qed

lemma initDefaults_fields:
  "lcOutputPath (initDefaults t c) = lcOutputPath c"
  "lcFormat c \<noteq> '''' \<Longrightarrow> lcFormat (initDefaults t c) = lcFormat c"
  "lcLevel c \<noteq> '''' \<Longrightarrow> lcLevel (initDefaults t c) = lcLevel c"
  by (simp_all add: initDefaults_def Let_def)

lemma newABHandler_enabled [simp]: "enabled L (newABHandler h) = enabled L h"
  by (cases h) (simp_all add: newABHandler_def fun_eq_iff)

text \<open>A chain of wrappers of the same kind never arises.\<close>

fun flatHandler :: "slogHandler \<Rightarrow> bool" where
  "flatHandler (ABHandler (ABHandler _)) = False"
| "flatHandler (RoundHandler (RoundHandler _ _) _) = False"
| "flatHandler (ABHandler h) = flatHandler h"
| "flatHandler (RoundHandler h _) = flatHandler h"
| "flatHandler _ = True"

lemma flat_new: "flatHandler h \<Longrightarrow> flatHandler (newABHandler h) \<and> flatHandler (newRoundHandler h r)"
proof -
  assume h: "flatHandler h"
  have "flatHandler (newABHandler h)" using h by (cases h) (simp_all add: newABHandler_def)
  moreover have "flatHandler (RoundHandler g r)" if "h = RoundHandler g r'" for g r'
    using h that by (cases g) simp_all
  then have "flatHandler (newRoundHandler h r)" using h by (cases h) (simp_all add: newRoundHandler_def)
  ultimately show ?thesis ..
qed

lemma newRoundHandler_enabled [simp]: "enabled L (newRoundHandler h r) = enabled L h"
  by (cases h) (simp_all add: newRoundHandler_def fun_eq_iff)

lemma derived_enabled: "enabled L (withAttrs as h) = enabled L h" "enabled L (withGroup name h) = enabled L h"
  by (induction h) (simp_all add: fun_eq_iff)

text \<open>Attributes of a logger come before those of a record, and the round stays last.\<close>

lemma newABHandler_attrs: "handledAttrs (newABHandler h) as = handledAttrs h as"
  by (cases h) (simp_all add: newABHandler_def)

lemma withAttrs_shape: "(\<exists>g r'. withAttrs as h = RoundHandler g r') \<longleftrightarrow> (\<exists>g r'. h = RoundHandler g r')"
  by (cases h) (auto simp: newABHandler_def newRoundHandler_def split: slogHandler.splits)

lemma withAttrs_attrs:
  "flatHandler h \<Longrightarrow> handledAttrs (withAttrs bs h) as = handledAttrs h (bs @ as)"
proof (induction h arbitrary: as)
  case (ABHandler h)
  then have "flatHandler h" by (cases h) simp_all
  with ABHandler show ?case by (simp add: newABHandler_attrs)
next
  case (RoundHandler h r)
  then have "flatHandler h" "\<nexists>g r'. h = RoundHandler g r'" by (cases h; simp)+
  then have "newRoundHandler (withAttrs bs h) r = RoundHandler (withAttrs bs h) r"
    using withAttrs_shape [of bs h] by (auto simp: newRoundHandler_def split: slogHandler.splits)
  with RoundHandler \<open>flatHandler h\<close> show ?case by simp
qed simp_all

text \<open>What is logged: formats of \<open>slog\<close> other than in lower case lose their options, and the level with them.\<close>

lemma logHandler_enabled:
  assumes "toLower (lcFormat c) \<in> {fmtTEXT, fmtJSON, fmtECS}" and "lcLevel c \<noteq> ''''" and "logHandler L c out = Inr h"
  shows "enabled L h level \<longleftrightarrow>
    (if lcFormat c \<in> {fmtTEXT, fmtJSON, fmtECS} then logLevel c \<le> level else LevelInfo \<le> level)"
proof -
  have "lcFormat c \<noteq> ''''" using assms(1) by (auto simp: toLower_def fmt_defs)
  note d = initDefaults_fields(2) [OF this, of "lxIsTerminal L"] initDefaults_fields(3) [OF assms(2), of "lxIsTerminal L"]
  have lv: "logLevel (initDefaults (lxIsTerminal L) c) = logLevel c"
    by (simp add: logLevel_def d initDefaults_fields(1))
  have "h = newABHandler (TextHandler out (handlerOptionsOf L (initDefaults (lxIsTerminal L) c))) \<or>
      h = newABHandler (JSONHandler out (handlerOptionsOf L (initDefaults (lxIsTerminal L) c)))"
    using assms(1,3) by (auto simp: logHandler_def Let_def d split: if_splits)
  moreover have "handlerOptionsOf L (initDefaults (lxIsTerminal L) c) = None \<longleftrightarrow>
      lcFormat c \<notin> {fmtTEXT, fmtJSON, fmtECS}"
    by (simp add: handlerOptionsOf_def Let_def d)
  moreover have "handlerOptionsOf L (initDefaults (lxIsTerminal L) c) = Some ho \<Longrightarrow> hoLevel ho = logLevel c" for ho
    by (auto simp: handlerOptionsOf_def Let_def lv split: if_splits)
  ultimately show ?thesis by (auto split: option.splits)
qed

end
