(* ===== verification/Command.thy ===== *)
theory Command
  imports NodeStart IpcClient Logger
begin

text \<open>
  \<open>src/cmd\<close>: the commands of the program. \<open>runNode\<close> puts the parts together: it reads the key, shard
  and trust base configurations, opens the databases, builds the node configuration, the transaction
  system and the node. Files, databases and the trust base store answer through the parameter
  \<open>osEnv\<close>; the databases opened are those the node environment works on. \<open>cliFlags\<close> holds the values
  of the flags; how they come about is the subject of \<open>CommandLine\<close>.
\<close>

section \<open>Flags and files\<close>

text \<open>
  The variables of the flags. The last three have none in the program: the flag set keeps their values, and
  \<open>GetString\<close> reads them.
\<close>

record cliFlags =
  PowSocketPath :: string
  HomeDir :: string
  CfgFile :: string
  LogCfgFile :: string
  KeyConfFile :: string
  ShardConfFiles :: "string list"
  TrustBaseFiles :: "string list"
  flAddress :: string
  AnnounceAddresses :: "string list"
  BootstrapAddresses :: "string list"
  BootstrapConnectRetryCount :: int
  BootstrapConnectRetryDelay :: int
  BlockDBFile :: string
  ShardConfDBFile :: string
  TrustBaseDBFile :: string
  LedgerReplicationMaxBlocksFetch :: uint64
  LedgerReplicationMaxBlocks :: uint64
  LedgerReplicationMaxWorkers :: uint64
  LedgerReplicationTimeoutMs :: "32 word"
  T1TimeoutMs :: "32 word"
  flLogFile :: string
  flLogLevel :: string
  flLogFormat :: string

record ('b, 'c) osEnv =
  fileExists :: "string \<Rightarrow> bool"
  readKeyConf :: "string \<Rightarrow> goerror + keyConf"
  readShardConf :: "string \<Rightarrow> goerror + shardConfRecord"
  readTrustBase :: "string \<Rightarrow> goerror + trustBase"
  openBlockDB :: "string \<Rightarrow> goerror + 'b"
  openConfDB :: "string \<Rightarrow> goerror + 'c"
  openTrustBaseDB :: "string \<Rightarrow> goerror option"
  newTrustBaseStore :: "goerror option"
  storeTrustBase :: "trustBase \<Rightarrow> goerror option"
  ErrAlreadyExists :: goerror
  memoryDB :: 'b
  getenv :: "string \<Rightarrow> string"
  userHomeDir :: "goerror + string"
  openLogCfg :: "string \<Rightarrow> goerror option"
  decodeLogCfg :: "string \<Rightarrow> goerror + logConfiguration"
  mkdirAll :: "string \<Rightarrow> goerror option"
  openLogFile :: "string \<Rightarrow> goerror option"

definition shardConfDBFileName :: string where
  "shardConfDBFileName = ''shard.db''"
definition blockDBFileName :: string where
  "blockDBFileName = ''blocks.db''"
definition defaultConfigFile :: string where
  "defaultConfigFile = ''config.props''"
definition defaultDir :: string where
  "defaultDir = ''.fgp''"
definition defaultLoggerConfigFile :: string where
  "defaultLoggerConfigFile = ''logger-config.yaml''"
definition envPrefix :: string where
  "envPrefix = ''FGP''"
definition keyHome :: string where
  "keyHome = ''home''"
definition keyConfig :: string where
  "keyConfig = ''config''"

definition pathWithDefault :: "cliFlags \<Rightarrow> string \<Rightarrow> string \<Rightarrow> string" where
  "pathWithDefault f path defaultFileName =
     (if path \<noteq> '''' then path else joinPath [HomeDir f, defaultFileName])"

definition initDB :: "(string \<Rightarrow> goerror + 'd) \<Rightarrow> cliFlags \<Rightarrow> string \<Rightarrow> string \<Rightarrow> goerror + 'd" where
  "initDB opn f path defaultFileName = (case opn (pathWithDefault f path defaultFileName) of
      Inl e \<Rightarrow> Inl (Wrapf ''failed to init %q'' e)
    | Inr db \<Rightarrow> Inr db)"

definition loadConfFile :: "(string \<Rightarrow> goerror + 'a) \<Rightarrow> string \<Rightarrow> goerror + 'a" where
  "loadConfFile rd path = map_sum (Wrapf ''failed to load %q'') id (rd path)"

fun loadFiles :: "string \<Rightarrow> (string \<Rightarrow> goerror + 'a) \<Rightarrow> string list \<Rightarrow> goerror + 'a list" where
  "loadFiles msg rd [] = Inr []"
| "loadFiles msg rd (p # ps) = (case loadConfFile rd p of
      Inl e \<Rightarrow> Inl (Wrapf msg e)
    | Inr x \<Rightarrow> map_sum id ((#) x) (loadFiles msg rd ps))"

text \<open>The given files, or the default one when none is given.\<close>

definition loadConfs :: "string \<Rightarrow> (string \<Rightarrow> goerror + 'a) \<Rightarrow> string \<Rightarrow> string list \<Rightarrow> goerror + 'a list" where
  "loadConfs msg rd deflt files = loadFiles msg rd (if files = [] then [deflt] else files)"

section \<open>main.go\<close>

definition defaultHomeDir :: "('b, 'c) osEnv \<Rightarrow> string outcome" where
  "defaultHomeDir S = (case userHomeDir S of
      Inl e \<Rightarrow> Panics ''default user home dir not defined''
    | Inr dir \<Rightarrow> Ok (joinPath [dir, defaultDir]))"

text \<open>The directories of \<open>initializeConfig\<close>: the flag, then the environment variable, then the default.\<close>

definition resolvePaths :: "('b, 'c) osEnv \<Rightarrow> cliFlags \<Rightarrow> cliFlags outcome" where
  "resolvePaths S f0 = thenOut
     (if HomeDir f0 \<noteq> '''' then Ok (HomeDir f0)
      else (let h = getenv S (toUpper (envPrefix @ ''_'' @ keyHome)) in
            if h \<noteq> '''' then Ok h else defaultHomeDir S)) (\<lambda>home.
     let cfg0 = (if CfgFile f0 \<noteq> '''' then CfgFile f0
                 else (let c = getenv S (toUpper (envPrefix @ ''_'' @ keyConfig)) in
                       if c \<noteq> '''' then c else defaultConfigFile));
         cfg = (if isAbs cfg0 then cfg0 else joinPath [home, cfg0])
     in Ok (f0\<lparr>HomeDir := home, CfgFile := cfg\<rparr>))"

definition emptyLogCfg :: logConfiguration where
  "emptyLogCfg = \<lparr>lcLevel = '''', lcFormat = '''', lcOutputPath = '''', lcTimeFormat = '''',
     lcPeerIDFormat = '''', lcShowGoroutineID = None, lcConsoleSupportsColor = None\<rparr>"

text \<open>
  \<open>initLogger\<close>: flags that were set (\<open>changed\<close> has their names) win over the file. \<open>GetString\<close> fails for
  flags of another type only.
\<close>

definition initLogger :: "'x logExt \<Rightarrow> ('b, 'c) osEnv \<Rightarrow> string list \<Rightarrow> cliFlags \<Rightarrow> goerror + slogHandler" where
  "initLogger L S changed f =
     (let file = clean (if isAbs (LogCfgFile f) then LogCfgFile f else joinPath [HomeDir f, LogCfgFile f]);
          read =
            (case openLogCfg S file of
               Some e \<Rightarrow>
                 if file \<noteq> joinPath [HomeDir f, defaultLoggerConfigFile] \<and> \<not> fileExists S file
                 then Inl (Wrapf ''opening logger configuration file'' e) else Inr emptyLogCfg
             | None \<Rightarrow> map_sum (Wrapf ''decoding logger configuration (%s)'') id (decodeLogCfg S file));
          given = (\<lambda>flag v old. if flag \<in> set changed then v else old)
      in (case read of
            Inl e \<Rightarrow> Inl e
          | Inr c \<Rightarrow> newLogger L (mkdirAll S) (openLogFile S)
              (c\<lparr>lcLevel := given ''log-level'' (flLogLevel f) (lcLevel c),
                 lcFormat := given ''log-format'' (flLogFormat f) (lcFormat c),
                 lcOutputPath := given ''log-file'' (flLogFile f) (lcOutputPath c)\<rparr>)))"

section \<open>run.go\<close>

text \<open>Calls on the shard configuration store, which exists from a certain point on.\<close>

definition onStore :: "('s, 'a) comp \<Rightarrow> ('s option, 'a) comp" where
  "onStore m = (\<lambda>s. case s of
      None \<Rightarrow> (Panics ''nil pointer dereference'', None)
    | Some x \<Rightarrow> map_prod id Some (m x))"

definition runOptions :: "cliFlags \<Rightarrow> 'b \<Rightarrow> 'b nodeOption list" where
  "runOptions f blockDB =
     [WithAddress (flAddress f), WithAnnounceAddresses (AnnounceAddresses f),
      WithBootstrapAddresses (BootstrapAddresses f),
      WithBootstrapConnectRetry (Some \<lparr>retryCount = BootstrapConnectRetryCount f,
        retryDelay = BootstrapConnectRetryDelay f\<rparr>),
      WithBlockDB blockDB,
      WithReplicationParams (LedgerReplicationMaxBlocksFetch f) (LedgerReplicationMaxBlocks f)
        (LedgerReplicationMaxWorkers f) (uint (LedgerReplicationTimeoutMs f) * 1000000),
      WithT1Timeout (uint (T1TimeoutMs f) * 1000000)]"

text \<open>A trust base that is already stored is not an error.\<close>

definition storeTrustBases :: "('b, 'c) osEnv \<Rightarrow> trustBase list \<Rightarrow> ('s, unit) comp" where
  "storeTrustBases S tbs = forEach tbs (\<lambda>tb. (case storeTrustBase S tb of
      None \<Rightarrow> ret ()
    | Some e \<Rightarrow> if errorsIs e (ErrAlreadyExists S) then ret () else fail (Wrapf ''failed to store trust base'' e)))"

text \<open>
  The environment of the node that is started: its PoW client is the IPC client of the socket given by
  the flags. \<open>sent k m\<close> is the number of requests that the client has made before the method \<open>m\<close> is called for
  the \<open>k\<close>-th call of the node on its environment.
\<close>

definition powEnv ::
  "ipcExt \<Rightarrow> (nat \<Rightarrow> string \<Rightarrow> nat) \<Rightarrow> cliFlags \<Rightarrow> ('b, 'c) nodeEnv \<Rightarrow> ('b, 'c) nodeEnv" where
  "powEnv I sent f E = E\<lparr>powAt := (\<lambda>k. ipcPowClient I (\<lambda>m.
     (newIPCClient (PowSocketPath f))\<lparr>nextID := toInt64 (int (sent k m)), sentRequests := sent k m\<rparr>))\<rparr>"

text \<open>
  \<open>runNode\<close> up to the point where the node runs; the result is the node that \<open>Run\<close> is called on.
\<close>

definition runNode ::
  "keyExt \<Rightarrow> hostEnv \<Rightarrow> (string \<times> protocolHandler) list \<Rightarrow> 'x logExt \<Rightarrow> ipcExt \<Rightarrow> (nat \<Rightarrow> string \<Rightarrow> nat)
     \<Rightarrow> ('b, 'c) nodeEnv \<Rightarrow> ('b, 'c) osEnv \<Rightarrow> string list \<Rightarrow> cliFlags \<Rightarrow> ('c shardConfStore option, ('b, 'c) node) comp" where
  "runNode P H mux L I sent E S changed f =
     andThen (wrapErr ''failed to init logger'' (liftE (initLogger L S changed f))) (\<lambda>_.
     let keyConfPath = pathWithDefault f (KeyConfFile f) ''keys.json'' in
     if \<not> fileExists S keyConfPath then fail (Errorf ''keys file not found in: %s'')
     else
     andThen (liftE (map_sum (\<lambda>_. Errorf ''failed to load key conf: %s'') id
       (loadConfFile (readKeyConf S) keyConfPath))) (\<lambda>kc.
     andThen (wrapErr ''failed to calculate nodeID'' (liftE (nodeID P kc))) (\<lambda>_.
     andThen (liftE (loadConfs ''failed to load shard conf'' (readShardConf S)
       (pathWithDefault f '''' ''shard-conf.json'') (ShardConfFiles f))) (\<lambda>shardConfs.
     andThen (liftE (initDB (openConfDB S) f (ShardConfDBFile f) shardConfDBFileName)) (\<lambda>confDB.
     andThen (liftOut (newShardConfStore (extOps E) (confDb E) confDB)) (\<lambda>store.
     andSeq (modify (\<lambda>_. Some store))
     (andSeq (forEach shardConfs (\<lambda>sc. wrapErr ''failed to store shard configuration''
       (onStore (storeConf (extOps E) (confDb E) sc))))
     (andThen (onStore (getFirst (confDb E))) (\<lambda>sc.
     andThen (liftE (loadConfs ''failed to load trust base'' (readTrustBase S)
       (pathWithDefault f '''' ''trust-base.json'') (TrustBaseFiles f))) (\<lambda>trustBases.
     andSeq (liftE (initDB (\<lambda>p. case openTrustBaseDB S p of Some e \<Rightarrow> Inl e | None \<Rightarrow> Inr ()) f
       (TrustBaseDBFile f) ''trustbase.db''))
     (andSeq (wrapErr ''failed to create trust base store'' (liftErr (newTrustBaseStore S)))
     (andSeq (storeTrustBases S trustBases)
     (andThen (liftE (initDB (openBlockDB S) f (BlockDBFile f) blockDBFileName)) (\<lambda>blockDB.
     andThen (wrapErr ''failed to create node configuration''
       (newNodeConf P (confDb E) (memoryDB S) (Some kc) (Some ()) (runOptions f blockDB))) (\<lambda>conf.
     andThen (wrapErr ''failed to create FGP tx system'' (liftE (newFGPTxSystem sc))) (\<lambda>txs.
     andThen (gets the) (\<lambda>scs.
     liftOut (createNode P H mux (powEnv I sent f E) conf txs scs))))))))))))))))))"

section \<open>block.go and pow.go\<close>

datatype outputFormat = OutputJSON | OutputCBOR

definition outputFormatOf :: "string \<Rightarrow> outputFormat option" where
  "outputFormatOf s = (if s = ''cbor'' then Some OutputCBOR else if s = ''json'' then Some OutputJSON else None)"

text \<open>The line that \<open>fgp block\<close> prints; the certificate is shown when it can be decoded.\<close>

definition blockCmd ::
  "'x ext_scheme \<Rightarrow> ('b, block) kvdb \<Rightarrow> (block \<Rightarrow> goerror + byte list)
     \<Rightarrow> (header option \<times> block \<times> unicityCertificate option \<Rightarrow> goerror + string)
     \<Rightarrow> ('b, 'c) osEnv \<Rightarrow> cliFlags \<Rightarrow> string \<Rightarrow> string \<Rightarrow> goerror + string" where
  "blockCmd X D cbor json S f fmt arg = (case parseUint arg of
      Inl e \<Rightarrow> Inl (Wrapf ''invalid round number'' e)
    | Inr r \<Rightarrow> (case openBlockDB S (pathWithDefault f (BlockDBFile f) blockDBFileName) of
        Inl e \<Rightarrow> Inl (Wrapf ''error opening block database (db in use my another process?)'' e)
      | Inr db \<Rightarrow> (case kvRead D db (uint64ToBytes X r) of
          Inl e \<Rightarrow> Inl (Wrapf ''failed to read block %v from db'' e)
        | Inr None \<Rightarrow> Inl (Errorf ''block %v not found'')
        | Inr (Some b) \<Rightarrow> (case outputFormatOf fmt of
            Some OutputCBOR \<Rightarrow> map_sum (Wrapf ''failed to marshal block to CBOR'') hexEncodeToString (cbor b)
          | Some OutputJSON \<Rightarrow> map_sum (Wrapf ''failed to marshal block to JSON'') id
              (json (blkHeader b, b, case unmarshalUC X (blkUnicityCertificate b) of Inr uc \<Rightarrow> Some uc | Inl _ \<Rightarrow> None))
          | None \<Rightarrow> Inl (Errorf ''invalid output format %q, must be %q or %q'')))))"

definition powGetTipCmd :: "ipcExt \<Rightarrow> (blockHeader \<Rightarrow> goerror + string) \<Rightarrow> cliFlags \<Rightarrow> string outcome" where
  "powGetTipCmd I json f = fst (andThen (wrapErr ''failed to get PoW chain tip'' (ipcGetTip I)) (\<lambda>b. liftE (json b))
     (newIPCClient (PowSocketPath f)))"

definition powGetBlockHeaderByHashCmd ::
  "ipcExt \<Rightarrow> (blockHeader \<Rightarrow> goerror + string) \<Rightarrow> cliFlags \<Rightarrow> string \<Rightarrow> string outcome" where
  "powGetBlockHeaderByHashCmd I json f hash =
     fst (andThen (wrapErr ''failed to get PoW block'' (ipcGetBlockHeaderByHash I hash)) (\<lambda>b. liftE (json b))
       (newIPCClient (PowSocketPath f)))"

definition powGetBlockHeaderByHeightCmd ::
  "ipcExt \<Rightarrow> (blockHeader \<Rightarrow> goerror + string) \<Rightarrow> cliFlags \<Rightarrow> string \<Rightarrow> string outcome" where
  "powGetBlockHeaderByHeightCmd I json f arg = (case parseUint arg of
      Inl e \<Rightarrow> Fail (Wrapf ''invalid height'' e)
    | Inr height \<Rightarrow>
        fst (andThen (wrapErr ''failed to get PoW block'' (ipcGetBlockHeaderByHeight I height)) (\<lambda>b. liftE (json b))
          (newIPCClient (PowSocketPath f))))"

section \<open>A successful start\<close>

lemma powEnv_fields [simp]:
  "extOps (powEnv I sent f E) = extOps E" "blockDb (powEnv I sent f E) = blockDb E"
  "confDb (powEnv I sent f E) = confDb E"
  by (simp_all add: powEnv_def)

lemma powEnv_laws [simp]:
  "envLaws (powEnv I sent f E) = envLaws E" "storeComplete (powEnv I sent f E) db = storeComplete E db"
  by (simp_all add: envLaws_def storeComplete_def)

lemma run_Ok_onStore [run_Ok]:
  "onStore m s = (Ok x, t) \<longleftrightarrow> (\<exists>a b. s = Some a \<and> m a = (Ok x, b) \<and> t = Some b)"
  by (auto simp: onStore_def map_prod_def split: option.splits prod.splits)

lemma runNode_Ok:
  assumes "runNode P H mux L I sent E S changed f s0 = (Ok n, s1)"
  shows "\<exists>kc i sc db conf txs a b. readKeyConf S (pathWithDefault f (KeyConfFile f) ''keys.json'') = Inr kc \<and>
    nodeID P kc = Inr i \<and> openBlockDB S (pathWithDefault f (BlockDBFile f) blockDBFileName) = Inr db \<and>
    newNodeConf P (confDb E) (memoryDB S) (Some kc) (Some ()) (runOptions f db) (Some a) = (Ok conf, Some b) \<and>
    newFGPTxSystem sc = Inr txs \<and> createNode P H mux (powEnv I sent f E) conf txs b = Ok n"
proof -
  obtain kc i sc db conf txs a b where
    "map_sum (\<lambda>_. Errorf ''failed to load key conf: %s'') id
       (loadConfFile (readKeyConf S) (pathWithDefault f (KeyConfFile f) ''keys.json'')) = Inr kc"
    and facts: "nodeID P kc = Inr i" "newFGPTxSystem sc = Inr txs" "createNode P H mux (powEnv I sent f E) conf txs (the b) = Ok n"
    and db: "initDB (openBlockDB S) f (BlockDBFile f) blockDBFileName = Inr db"
    and conf: "newNodeConf P (confDb E) (memoryDB S) (Some kc) (Some ()) (runOptions f db) a = (Ok conf, b)"
    using assms unfolding runNode_def Let_def
    by (simp only: run_Ok split: if_splits) blast
  moreover have "openBlockDB S (pathWithDefault f (BlockDBFile f) blockDBFileName) = Inr db"
    using db by (auto simp: initDB_def split: sum.splits)
  moreover obtain a' b' where "a = Some a'" "b = Some b'" using newNodeConf_Ok [OF conf] by blast
  ultimately show ?thesis
    by (fastforce simp: loadConfFile_def map_sum_def split: sum.splits)
qed

end
