(* ===== verification/CommandLine.thy ===== *)
theory CommandLine
  imports Command
begin

text \<open>
  The command line of \<open>src/cmd\<close>: the defaults of the flags (\<open>newRunCmd\<close>, \<open>main\<close>), how
  \<open>initializeConfig\<close> completes them from the environment and the configuration file, and the exit
  code of \<open>main\<close>; \<open>src/internal/debug\<close> with the line on the build. The packages pflag and viper
  answer through the parameter \<open>viperEnv\<close>. A flag set is the list of the names of its flags, in the
  order in which \<open>VisitAll\<close> visits them, with the list of those that were set.
\<close>

section \<open>Defaults\<close>

definition defaultFlags :: "('b, 'c) osEnv \<Rightarrow> cliFlags outcome" where
  "defaultFlags S = (case userHomeDir S of
      Inl e \<Rightarrow> Panics ''default user home dir not defined''
    | Inr home \<Rightarrow> Ok
       \<lparr>PowSocketPath = joinPath [home, ''.unicity'', ''node.sock''], HomeDir = '''', CfgFile = '''',
        LogCfgFile = defaultLoggerConfigFile, KeyConfFile = '''', ShardConfFiles = [], TrustBaseFiles = [],
        flAddress = ''/ip4/127.0.0.1/tcp/26652'', AnnounceAddresses = [], BootstrapAddresses = [],
        BootstrapConnectRetryCount = 10, BootstrapConnectRetryDelay = 1,
        BlockDBFile = '''', ShardConfDBFile = '''', TrustBaseDBFile = '''',
        LedgerReplicationMaxBlocksFetch = 1000, LedgerReplicationMaxBlocks = 1000,
        LedgerReplicationMaxWorkers = 10, LedgerReplicationTimeoutMs = 1500,
        T1TimeoutMs = of_int DefaultT1Timeout, flLogFile = '''', flLogLevel = '''', flLogFormat = ''''\<rparr>)"

text \<open>The variable each flag is declared with: the flags of every command, and those of \<open>run\<close>.\<close>

datatype flagValue =
    StringFlag string
  | StringSliceFlag "string list"
  | IntFlag int
  | Uint64Flag uint64
  | Uint32Flag "32 word"

definition persistentFlags :: "cliFlags \<Rightarrow> (string \<times> flagValue) list" where
  "persistentFlags f =
     [(keyHome, StringFlag (HomeDir f)), (keyConfig, StringFlag (CfgFile f)),
      (''logger-config'', StringFlag (LogCfgFile f)), (''log-file'', StringFlag (flLogFile f)),
      (''log-level'', StringFlag (flLogLevel f)), (''log-format'', StringFlag (flLogFormat f))]"

definition runFlags :: "cliFlags \<Rightarrow> (string \<times> flagValue) list" where
  "runFlags f =
     [(''pow-socket-path'', StringFlag (PowSocketPath f)), (''key-conf'', StringFlag (KeyConfFile f)),
      (''shard-conf'', StringSliceFlag (ShardConfFiles f)), (''trust-base'', StringSliceFlag (TrustBaseFiles f)),
      (''address'', StringFlag (flAddress f)), (''announce-addresses'', StringSliceFlag (AnnounceAddresses f)),
      (''bootnodes'', StringSliceFlag (BootstrapAddresses f)),
      (''bootnode-connect-retry-count'', IntFlag (BootstrapConnectRetryCount f)),
      (''bootnode-connect-retry-delay'', IntFlag (BootstrapConnectRetryDelay f)),
      (''block-db'', StringFlag (BlockDBFile f)), (''shard-db'', StringFlag (ShardConfDBFile f)),
      (''trustbase-db'', StringFlag (TrustBaseDBFile f)),
      (''ledger-replication-max-blocks-fetch'', Uint64Flag (LedgerReplicationMaxBlocksFetch f)),
      (''ledger-replication-max-blocks'', Uint64Flag (LedgerReplicationMaxBlocks f)),
      (''ledger-replication-max-workers'', Uint64Flag (LedgerReplicationMaxWorkers f)),
      (''ledger-replication-timeout'', Uint32Flag (LedgerReplicationTimeoutMs f)),
      (''t1-timeout'', Uint32Flag (T1TimeoutMs f))]"

definition flagVar :: "string \<Rightarrow> cliFlags \<Rightarrow> flagValue option" where
  "flagVar n f = map_of (persistentFlags f @ runFlags f) n"

section \<open>initializeConfig\<close>

text \<open>
  \<open>viperValue cfg env name\<close> is what \<open>IsSet\<close> and \<open>Get\<close> answer for a name, printed with \<open>%v\<close>, when
  \<open>cfg\<close> is the configuration file and \<open>env\<close> the variable bound to the name; \<open>configValue cfg name\<close> is what the
  file itself has for the name. \<open>setFlag\<close> is \<open>Set\<close>: it
  parses the text and writes through the pointer the flag was declared with, which some flag types do
  even when they report an error.
\<close>

record viperEnv =
  statFile :: "string \<Rightarrow> bool"
  readInConfig :: "string option \<Rightarrow> goerror option"
  configFileNotFound :: "goerror \<Rightarrow> bool"
  bindEnv :: "string \<Rightarrow> string \<Rightarrow> goerror option"
  viperValue :: "string option \<Rightarrow> string option \<Rightarrow> string \<Rightarrow> string option"
  configValue :: "string option \<Rightarrow> string \<Rightarrow> string option"
  setFlag :: "string \<Rightarrow> string \<Rightarrow> cliFlags \<Rightarrow> goerror option \<times> cliFlags"

record bindState =
  bsFlags :: cliFlags
  bsChanged :: "string list"
  bindFlagErr :: "goerror list"

text \<open>The variable that is bound to a flag: only names with a dash get one.\<close>

definition flagEnvVar :: "string \<Rightarrow> string option" where
  "flagEnvVar name = (if CHR ''-'' \<in> set name
     then Some (envPrefix @ ''_'' @ toUpper (map (\<lambda>c. if c = CHR ''-'' then CHR ''_'' else c) name)) else None)"

definition addErr :: "goerror \<Rightarrow> bindState \<Rightarrow> bindState" where
  "addErr e s = s\<lparr>bindFlagErr := bindFlagErr s @ [e]\<rparr>"

definition setIfUnchanged :: "viperEnv \<Rightarrow> string option \<Rightarrow> string \<Rightarrow> bindState \<Rightarrow> bindState" where
  "setIfUnchanged V cfg name s =
     (if name \<in> set (bsChanged s) then s
      else (case viperValue V cfg (flagEnvVar name) name of
          None \<Rightarrow> s
        | Some val \<Rightarrow> (case setFlag V name val (bsFlags s) of
            (Some e, f) \<Rightarrow> addErr (Wrapf ''setting flag %q value'' e) (s\<lparr>bsFlags := f\<rparr>)
          | (None, f) \<Rightarrow> s\<lparr>bsFlags := f, bsChanged := name # bsChanged s\<rparr>)))"

definition bindFlag :: "viperEnv \<Rightarrow> string option \<Rightarrow> string \<Rightarrow> bindState \<Rightarrow> bindState" where
  "bindFlag V cfg name s =
     (if name = keyHome \<or> name = keyConfig then s
      else (case flagEnvVar name of
          None \<Rightarrow> setIfUnchanged V cfg name s
        | Some var \<Rightarrow> (case bindEnv V name var of
            Some e \<Rightarrow> addErr (Wrapf ''binding env to flag %q'' e) s
          | None \<Rightarrow> setIfUnchanged V cfg name s)))"

definition configFile :: "viperEnv \<Rightarrow> cliFlags \<Rightarrow> string option" where
  "configFile V f = (if statFile V (CfgFile f) then Some (CfgFile f) else None)"

definition initializeConfig ::
  "('b, 'c) osEnv \<Rightarrow> viperEnv \<Rightarrow> string list \<Rightarrow> string list \<Rightarrow> cliFlags \<Rightarrow> (cliFlags \<times> string list) outcome" where
  "initializeConfig S V names changed f0 = thenOut (resolvePaths S f0) (\<lambda>f.
     let cfg = configFile V f;
         visit = fold (bindFlag V cfg) names \<lparr>bsFlags = f, bsChanged = changed, bindFlagErr = []\<rparr>;
         bound = (case joinAll (bindFlagErr visit) of
             Some e \<Rightarrow> Fail e | None \<Rightarrow> Ok (bsFlags visit, bsChanged visit))
     in (case readInConfig V cfg of
          Some e \<Rightarrow> if configFileNotFound V e then bound else Fail e
        | None \<Rightarrow> bound))"

section \<open>main\<close>

definition errQuitSignal :: goerror where
  "errQuitSignal = Errorf ''received quit signal''"

text \<open>\<open>cause\<close> is the cause with which the context was cancelled, if it was.\<close>

definition cancelledByQuitSignal :: "goerror option \<Rightarrow> bool" where
  "cancelledByQuitSignal cause = (case cause of None \<Rightarrow> False | Some e \<Rightarrow> errorsIs e errQuitSignal)"

definition quitCause :: "string \<Rightarrow> goerror" where
  "quitCause sig = Wrapf sig errQuitSignal"

text \<open>
  The exit code, from the result of the command: \<open>PersistentPreRunE\<close> and \<open>RunE\<close>. A panic ends a Go
  program with the code 2.
\<close>

definition exitCode :: "goerror option \<Rightarrow> 'a outcome \<Rightarrow> nat" where
  "exitCode cause r = (case r of
      Ok _ \<Rightarrow> 0
    | Fail e \<Rightarrow> if cancelledByQuitSignal cause then 0 else 1
    | Panics p \<Rightarrow> 2)"

definition preRun ::
  "('b, 'c) osEnv \<Rightarrow> viperEnv \<Rightarrow> string list \<Rightarrow> string list \<Rightarrow> cliFlags \<Rightarrow> (cliFlags \<times> string list) outcome" where
  "preRun S V names changed f = (case initializeConfig S V names changed f of
      Fail e \<Rightarrow> Fail (Wrapf ''failed to initialize configuration'' e)
    | r \<Rightarrow> r)"

section \<open>internal/debug\<close>

definition readBuildInfo :: "(string \<times> string) list option \<Rightarrow> string" where
  "readBuildInfo info = (case info of
      None \<Rightarrow> ''''
    | Some settings \<Rightarrow> joinWith '' '' (map (\<lambda>(k, v). k @ ''='' @ v) (filter (\<lambda>(k, v). take 4 k = ''vcs.'') settings)))"

section \<open>Which source of a value wins\<close>

text \<open>
  Documented of pflag: setting a flag changes the variable of that flag only, and what is written
  depends on the text only.
\<close>

definition flagLaw :: "viperEnv \<Rightarrow> (string \<Rightarrow> string \<Rightarrow> flagValue) \<Rightarrow> bool" where
  "flagLaw V parsed \<longleftrightarrow>
     (\<forall>n v f m. m \<noteq> n \<longrightarrow> flagVar m (snd (setFlag V n v f)) = flagVar m f) \<and>
     (\<forall>n v f. fst (setFlag V n v f) = None \<longrightarrow> flagVar n (snd (setFlag V n v f)) = Some (parsed n v))"

text \<open>
  Documented of viper: an empty environment variable counts as not set; a variable (after
  \<open>AutomaticEnv\<close>, the prefix and the name in upper case; otherwise the bound one) wins over the
  configuration file.
\<close>

definition envSetting :: "('b, 'c) osEnv \<Rightarrow> string \<Rightarrow> string option" where
  "envSetting S var = (if getenv S var = '''' then None else Some (getenv S var))"

definition envValue :: "('b, 'c) osEnv \<Rightarrow> string option \<Rightarrow> string \<Rightarrow> string option" where
  "envValue S bound n = (case envSetting S (toUpper (envPrefix @ ''_'' @ n)) of
      Some v \<Rightarrow> Some v
    | None \<Rightarrow> Option.bind bound (envSetting S))"

definition viperLaw :: "('b, 'c) osEnv \<Rightarrow> viperEnv \<Rightarrow> bool" where
  "viperLaw S V \<longleftrightarrow> (\<forall>cfg bound n. viperValue V cfg bound n =
     (case envValue S bound n of Some v \<Rightarrow> Some v | None \<Rightarrow> configValue V cfg n))"

lemma flagVar_paths [simp]:
  "flagVar keyHome f = Some (StringFlag (HomeDir f))" "flagVar keyConfig f = Some (StringFlag (CfgFile f))"
  "n \<noteq> keyHome \<Longrightarrow> n \<noteq> keyConfig \<Longrightarrow> flagVar n (f\<lparr>HomeDir := h, CfgFile := c\<rparr>) = flagVar n f"
  by (simp_all add: flagVar_def persistentFlags_def runFlags_def keyHome_def keyConfig_def)

text \<open>What a visit does for a flag that was not set before: the value that viper has for it.\<close>

definition configured :: "viperEnv \<Rightarrow> string option \<Rightarrow> string list \<Rightarrow> string \<Rightarrow> string option" where
  "configured V cfg changed n =
     (if n = keyHome \<or> n = keyConfig \<or> n \<in> set changed then None else viperValue V cfg (flagEnvVar n) n)"

lemma bindFlag_errs: "\<exists>es. bindFlagErr (bindFlag V cfg n s) = bindFlagErr s @ es"
  by (auto simp: bindFlag_def setIfUnchanged_def addErr_def split: option.splits prod.splits)

lemma fold_bindFlag_errs: "bindFlagErr (fold (bindFlag V cfg) names s) = [] \<Longrightarrow> bindFlagErr s = []"
proof (induction names arbitrary: s)
  case (Cons n names)
  then show ?case using bindFlag_errs [of V cfg n s] by auto
qed simp

lemma bindFlag_other:
  assumes "flagLaw V parsed" and "m \<noteq> n"
  shows "flagVar m (bsFlags (bindFlag V cfg n s)) = flagVar m (bsFlags s) \<and>
    (m \<in> set (bsChanged (bindFlag V cfg n s)) \<longleftrightarrow> m \<in> set (bsChanged s))"
proof -
  have "flagVar m f = flagVar m (bsFlags s)" if "setFlag V n v (bsFlags s) = (r, f)" for v r f
    using assms that by (metis flagLaw_def snd_conv)
  with assms(2) show ?thesis
    by (auto simp: bindFlag_def setIfUnchanged_def addErr_def split: option.splits prod.splits)
qed

lemma fold_bindFlag_other:
  assumes "flagLaw V parsed" and "m \<notin> set names"
  shows "flagVar m (bsFlags (fold (bindFlag V cfg) names s)) = flagVar m (bsFlags s) \<and>
    (m \<in> set (bsChanged (fold (bindFlag V cfg) names s)) \<longleftrightarrow> m \<in> set (bsChanged s))"
  using assms(2) by (induction names arbitrary: s) (auto simp: bindFlag_other [OF assms(1)])

lemma bindFlag_same:
  assumes "flagLaw V parsed" and "bindFlagErr (bindFlag V cfg n s) = []"
  shows "flagVar n (bsFlags (bindFlag V cfg n s)) =
      (case configured V cfg (bsChanged s) n of None \<Rightarrow> flagVar n (bsFlags s) | Some v \<Rightarrow> Some (parsed n v)) \<and>
    (n \<in> set (bsChanged (bindFlag V cfg n s)) \<longleftrightarrow> n \<in> set (bsChanged s) \<or> configured V cfg (bsChanged s) n \<noteq> None)"
proof -
  have parsed: "flagVar n f = Some (parsed n v)" if "setFlag V n v (bsFlags s) = (None, f)" for v f
    using assms(1) [unfolded flagLaw_def, THEN conjunct2, rule_format, of n v "bsFlags s"] that by simp
  show ?thesis
  proof (cases "configured V cfg (bsChanged s) n")
    case None
    with assms(2) show ?thesis
      by (auto simp: bindFlag_def setIfUnchanged_def addErr_def configured_def split: option.splits if_splits)
  next
    case (Some v)
    then have new: "n \<noteq> keyHome" "n \<noteq> keyConfig"
        "n \<notin> set (bsChanged s)" "viperValue V cfg (flagEnvVar n) n = Some v"
      by (auto simp: configured_def split: if_splits)
    obtain r f where set: "setFlag V n v (bsFlags s) = (r, f)" by fastforce
    have "r = None \<and> bindFlag V cfg n s = s\<lparr>bsFlags := f, bsChanged := n # bsChanged s\<rparr>"
      using assms(2) new set
      by (auto simp: bindFlag_def setIfUnchanged_def addErr_def split: option.splits)
    with Some set parsed show ?thesis by simp
  qed
qed

lemma fold_bindFlag_same:
  assumes law: "flagLaw V parsed" and "distinct names" "n \<in> set names"
    and "bindFlagErr (fold (bindFlag V cfg) names s) = []"
  shows "flagVar n (bsFlags (fold (bindFlag V cfg) names s)) =
      (case configured V cfg (bsChanged s) n of None \<Rightarrow> flagVar n (bsFlags s) | Some v \<Rightarrow> Some (parsed n v)) \<and>
    (n \<in> set (bsChanged (fold (bindFlag V cfg) names s)) \<longleftrightarrow>
      n \<in> set (bsChanged s) \<or> configured V cfg (bsChanged s) n \<noteq> None)"
  using assms(2-4)
proof (induction names arbitrary: s)
  case (Cons m names)
  let ?s = "bindFlag V cfg m s"
  have errs: "bindFlagErr ?s = []" using fold_bindFlag_errs Cons.prems(3) by fastforce
  show ?case
  proof (cases "n = m")
    case True
    show ?thesis unfolding True
      using Cons.prems fold_bindFlag_other [OF law, of m names cfg ?s] bindFlag_same [OF law errs] by simp
  next
    case False
    have "configured V cfg (bsChanged ?s) n = configured V cfg (bsChanged s) n"
      using bindFlag_other [OF law False] by (simp add: configured_def)
    then show ?thesis
      using Cons.IH [of ?s] Cons.prems False bindFlag_other [OF law False] by (simp cong: option.case_cong)
  qed
qed simp

lemma joinAll_None: "joinAll es = None \<longleftrightarrow> es = []"
  by (cases es rule: rev_cases) (simp_all add: joinAll_def)

lemma initializeConfig_Ok:
  assumes "initializeConfig S V names changed f = Ok (f', changed')"
  obtains f1 where "resolvePaths S f = Ok f1"
    and "f' = bsFlags (fold (bindFlag V (configFile V f1)) names \<lparr>bsFlags = f1, bsChanged = changed, bindFlagErr = []\<rparr>)"
    and "changed' = bsChanged (fold (bindFlag V (configFile V f1)) names \<lparr>bsFlags = f1, bsChanged = changed, bindFlagErr = []\<rparr>)"
    and "bindFlagErr (fold (bindFlag V (configFile V f1)) names \<lparr>bsFlags = f1, bsChanged = changed, bindFlagErr = []\<rparr>) = []"
  using assms
  by (auto simp: initializeConfig_def thenOut_def Let_def joinAll_None split: outcome.splits option.splits if_splits)

text \<open>No visit touches the home directory and the configuration file.\<close>

lemma bindFlag_paths:
  assumes "flagLaw V parsed"
  shows "HomeDir (bsFlags (bindFlag V cfg n s)) = HomeDir (bsFlags s) \<and>
    CfgFile (bsFlags (bindFlag V cfg n s)) = CfgFile (bsFlags s)"
proof (cases "n = keyHome \<or> n = keyConfig")
  case True
  then show ?thesis by (simp add: bindFlag_def)
next
  case False
  then show ?thesis
    using bindFlag_other [OF assms, of keyHome n cfg s] bindFlag_other [OF assms, of keyConfig n cfg s] by auto
qed

lemma fold_bindFlag_paths:
  assumes "flagLaw V parsed"
  shows "HomeDir (bsFlags (fold (bindFlag V cfg) names s)) = HomeDir (bsFlags s) \<and>
    CfgFile (bsFlags (fold (bindFlag V cfg) names s)) = CfgFile (bsFlags s)"
  by (induction names arbitrary: s) (simp_all add: bindFlag_paths [OF assms])

lemma path_variables: "toUpper (envPrefix @ ''_'' @ keyHome) = ''FGP_HOME''" "toUpper (envPrefix @ ''_'' @ keyConfig) = ''FGP_CONFIG''"
  by code_simp+

lemma resolvePaths_Ok:
  assumes "resolvePaths S f = Ok f1"
  shows "f1 = f\<lparr>HomeDir := HomeDir f1, CfgFile := CfgFile f1\<rparr>"
    and "HomeDir f1 = (if HomeDir f \<noteq> '''' then HomeDir f else if getenv S ''FGP_HOME'' \<noteq> '''' then getenv S ''FGP_HOME''
      else joinPath [projr (userHomeDir S), ''.fgp''])"
    and "CfgFile f1 = (let c = if CfgFile f \<noteq> '''' then CfgFile f else if getenv S ''FGP_CONFIG'' \<noteq> '''' then getenv S ''FGP_CONFIG''
      else ''config.props'' in if isAbs c then c else joinPath [HomeDir f1, c])"
  using assms unfolding resolvePaths_def path_variables
  by (auto simp: thenOut_def Let_def defaultHomeDir_def defaultDir_def defaultConfigFile_def split: outcome.splits sum.splits if_splits)

text \<open>A node that stops because of a signal is not an error.\<close>

lemma exitCode_zero_iff:
  "exitCode cause r = 0 \<longleftrightarrow> (\<exists>x. r = Ok x) \<or> (\<exists>e. r = Fail e) \<and> (\<exists>c. cause = Some c \<and> errorsIs c errQuitSignal)"
  by (auto simp: exitCode_def cancelledByQuitSignal_def split: outcome.splits option.splits)

lemma quitCause_recognised: "cancelledByQuitSignal (Some (quitCause sig))"
  by (simp add: cancelledByQuitSignal_def quitCause_def errQuitSignal_def)

end
