(* ===== verification/PowChain.thy ===== *)
theory PowChain
  imports IpcClient FgpTxSystem
begin

text \<open>
  The transaction system over its real client. \<open>servesChain\<close> describes a PoW node that answers the
  requests of \<open>src/pow/ipc_client.go\<close> from one active chain, given by the hashes of its blocks; through
  \<open>IpcClient\<close> the methods of \<open>src/txsystem/fgp_txsystem.go\<close> then see that chain, and what a leader
  proposes and a follower accepts can be said in terms of it.
\<close>

section \<open>Chains\<close>

text \<open>The header of block \<open>i\<close>; the number of confirmations of an active block is positive.\<close>

definition headerOf :: "byte list list \<Rightarrow> nat \<Rightarrow> blockHeader \<Rightarrow> bool" where
  "headerOf hs i b \<longleftrightarrow> bhHash b = hexEncodeToString (hs ! i) \<and> unat (bhHeight b) = i \<and> isActive b"

text \<open>What a client has to answer for the chain \<open>hs\<close> and the chain tips \<open>tips\<close>.\<close>

definition seesChain :: "powClient \<Rightarrow> byte list list \<Rightarrow> chainTip list \<Rightarrow> bool" where
  "seesChain c hs tips \<longleftrightarrow>
     (\<exists>b. getTip c = Inr b \<and> headerOf hs (length hs - 1) b) \<and>
     (\<forall>i<length hs. \<exists>b. getBlockHeaderByHash c (hexEncodeToString (hs ! i)) = Inr b \<and> headerOf hs i b) \<and>
     (\<forall>i<length hs. \<exists>b. getBlockHeaderByHeight c (of_nat i) = Inr b \<and> headerOf hs i b) \<and>
     getChainTips c = Inr tips"

text \<open>A PoW node that answers every request, in any state of the client, from the chain.\<close>

definition servesChain :: "ipcExt \<Rightarrow> byte list list \<Rightarrow> chainTip list \<Rightarrow> bool" where
  "servesChain E hs tips \<longleftrightarrow> hs \<noteq> [] \<and> (\<forall>c.
     (\<exists>raw. rpcAnswer E c ''getbestblockhash'' [] = Some raw \<and> unmarshalString E raw = Inr (hexEncodeToString (last hs))) \<and>
     (\<forall>i<length hs. \<exists>raw. rpcAnswer E c ''getblockhash'' [Uint64Param (of_nat i)] = Some raw \<and>
        unmarshalString E raw = Inr (hexEncodeToString (hs ! i))) \<and>
     (\<forall>i<length hs. \<exists>raw b. rpcAnswer E c ''getblockheader'' [StringParam (hexEncodeToString (hs ! i))] = Some raw \<and>
        unmarshalHeader E raw = Inr b \<and> headerOf hs i b) \<and>
     (\<exists>raw. rpcAnswer E c ''getchaintips'' [] = Some raw \<and> unmarshalTips E raw = Inr tips))"

section \<open>Over the client\<close>

lemma answer_Inr: "(\<exists>t. m s = (Ok x, t)) \<Longrightarrow> answer m s = Inr x"
  by (auto simp: answer_def)

lemma ipcPowClient_sees:
  assumes serves: "servesChain E hs tips"
  shows "seesChain (ipcPowClient E at) hs tips"
proof -
  have call: "\<exists>t. ipcCall E meth ps decode c = (Ok r, t)" if "rpcAnswer E c meth ps = Some raw" "decode raw = Inr r"
    for meth ps raw c and decode :: "byte list \<Rightarrow> goerror + 'r" and r
    using that by (auto simp: ipcCall_Ok)
  have hash: "\<exists>t b. ipcGetBlockHeaderByHash E (hexEncodeToString (hs ! i)) c = (Ok b, t) \<and> headerOf hs i b"
    if "i < length hs" for i c
    using serves that unfolding servesChain_def ipcGetBlockHeaderByHash_def by (fastforce simp: run_Ok)
  have height: "\<exists>t b. ipcGetBlockHeaderByHeight E (of_nat i) c = (Ok b, t) \<and> headerOf hs i b" if i: "i < length hs" for i c
  proof -
    have "\<exists>t. ipcCall E ''getblockhash'' [Uint64Param (of_nat i)] (unmarshalString E) c =
        (Ok (hexEncodeToString (hs ! i)), t)"
      using serves i unfolding servesChain_def by (fastforce simp: ipcCall_Ok)
    then show ?thesis using hash [OF i] unfolding ipcGetBlockHeaderByHeight_def by (fastforce simp: run_Ok)
  qed
  have tip: "\<exists>t b. ipcGetTip E c = (Ok b, t) \<and> headerOf hs (length hs - 1) b" for c
  proof -
    have l: "length hs - 1 < length hs" "last hs = hs ! (length hs - 1)"
      using serves by (auto simp: servesChain_def last_conv_nth)
    have "\<exists>t. ipcCall E ''getbestblockhash'' [] (unmarshalString E) c = (Ok (hexEncodeToString (last hs)), t)"
      using serves unfolding servesChain_def by (fastforce simp: ipcCall_Ok)
    then show ?thesis using hash [OF l(1)] unfolding ipcGetTip_def l(2) by (fastforce simp: run_Ok)
  qed
  have "\<exists>t. ipcGetChainTips E c = (Ok tips, t)" for c
    using serves unfolding servesChain_def ipcGetChainTips_def by (fastforce simp: ipcCall_Ok)
  then show ?thesis
    unfolding seesChain_def ipcPowClient_def powClient.select_convs
    using tip hash height by (intro conjI allI impI; blast intro: answer_Inr)
qed

section \<open>Proposing and verifying on a chain\<close>

text \<open>The last certified block is block \<open>h\<close> of the chain, or there is none and \<open>h\<close> is 0.\<close>

definition certifiedAt :: "byte list list \<Rightarrow> nat \<Rightarrow> fgpTxSystem \<Rightarrow> bool" where
  "certifiedAt hs h s \<longleftrightarrow> (case committedStateHash s of None \<Rightarrow> h = 0 | Some x \<Rightarrow> h < length hs \<and> x = hs ! h)"

lemma certifiedHeight_chain:
  assumes "seesChain c hs tips" and "certifiedAt hs h s"
  shows "\<exists>w. certifiedHeight c s = Inr w \<and> unat w = h"
  using assms by (fastforce simp: certifiedHeight_def certifiedAt_def seesChain_def headerOf_def split: option.splits)

text \<open>The leader proposes the block with exactly \<open>dFG\<close> confirmations, the block itself counting as one.\<close>

lemma leader_on_chain:
  assumes sees: "seesChain c hs tips" and d: "dFG s \<noteq> 0" and at: "certifiedAt hs h s"
    and deep: "h + unat (dFG s) < length hs" and forks: "\<forall>t\<in>set tips. \<not> forkBlocks (length hs - unat (dFG s)) t"
  shows "\<exists>s'. leaderPropose c round s = (Ok (summaryOf (Some (hs ! (length hs - unat (dFG s)))) s), s')"
proof -
  let ?i = "length hs - unat (dFG s)"
  obtain w where w: "certifiedHeight c s = Inr w" "unat w = h" using certifiedHeight_chain [OF sees at] by blast
  obtain tip where tip: "getTip c = Inr tip" "unat (bhHeight tip) = length hs - 1"
    using sees by (auto simp: seesChain_def headerOf_def)
  have "unat w + unat (dFG s) \<le> unat (bhHeight tip)" using w(2) tip(2) deep by simp
  note cand = leader_height_checks(2) [OF d this]
  have pos: "unat (dFG s) > 0" using d by (simp add: unat_gt_0)
  then have i: "unat (bhHeight tip - (dFG s - 1)) = ?i" "?i < length hs"
    using cand tip(2) deep by simp_all
  then have "bhHeight tip - (dFG s - 1) = of_nat ?i" by (blast intro: uint64_eq_of_nat)
  then obtain b where b: "getBlockHeaderByHeight c (bhHeight tip - (dFG s - 1)) = Inr b" "bhHash b = hexEncodeToString (hs ! ?i)"
    using sees i(2) by (auto simp: seesChain_def headerOf_def)
  have "getChainTips c = Inr tips" using sees by (simp add: seesChain_def)
  then show ?thesis
    using w tip b i forks deep by (auto simp: leaderPropose_run [OF d] hexDecode_hexEncode)
qed

text \<open>A follower whose node is on the same chain, and maybe further, accepts every block that is deep enough.\<close>

lemma follower_on_chain:
  assumes "seesChain c hs tips" and "dFG s \<noteq> 0" and "i + unat (dFG s) \<le> length hs"
  shows "\<exists>s'. followerVerify c round (Some (hs ! i)) s = (Ok (summaryOf (Some (hs ! i)) s), s')"
proof -
  have "unat (dFG s) > 0" using assms(2) by (simp add: unat_gt_0)
  then have i: "i < length hs" using assms(3) by simp
  obtain b tip where "getBlockHeaderByHash c (hexEncodeToString (hs ! i)) = Inr b" "unat (bhHeight b) = i" "isActive b"
      and "getTip c = Inr tip" "unat (bhHeight tip) = length hs - 1"
    using assms(1) i by (auto simp: seesChain_def headerOf_def)
  then show ?thesis
    using assms(3) i by (cases "bytesEqual (Some (hs ! i)) (committedStateHash s)")
      (auto simp: followerVerify_run [OF assms(2)] sliceBytes_def)
qed

end
