(* ===== verification/SystemProperties.thy ===== *)
theory SystemProperties
  imports CommandLine PowChain NodeSamples FgpProperties NetworkProperties
begin

text \<open>
  Properties of the program as a whole, from the command line to the running node, and of the parts
  around the node: its configuration, its peer, the client of the PoW node and the log.
\<close>

section \<open>A concrete start\<close>

definition sampleKeyExt :: keyExt where
  "sampleKeyExt = \<lparr>unmarshalPrivateKey = (\<lambda>s. Inr (sliceBytes s)), unmarshalPublicKey = (\<lambda>s. Inr (sliceBytes s)),
     getPublic = rev, rawPrivate = (\<lambda>k. Inr (Some k)), rawPublic = (\<lambda>k. Inr (Some k)),
     idFromPublicKey = (\<lambda>k. Inr ''n''), idFromPrivateKey = (\<lambda>k. Inr ''n''),
     newMultiaddr = (\<lambda>s. Inr []), addrInfoFromString = (\<lambda>s. Inr \<lparr>aiID = s, aiAddrs = [[1]]\<rparr>),
     newSignerFromKey = Inr\<rparr>"

text \<open>A host on which the first two dials of every goroutine fail.\<close>

definition sampleHost :: hostEnv where
  "sampleHost = \<lparr>newPeerstore = None, dhtNew = (\<lambda>_. None), libp2pNew = (\<lambda>_. Inr ''n''), dhtBootstrap = (\<lambda>_. None),
     connectAt = (\<lambda>g k. if k < 2 then Some (Errorf ''refused'') else None), retryAt = (\<lambda>_ _. True),
     finishOrder = (\<lambda>n. rev [0..<n]), dhtClose = None, hostClose = None\<rparr>"

lemma sample_host_laws: "keyPairLaw sampleKeyExt" "hostLaw sampleKeyExt sampleHost" "orderLaw sampleHost"
  by (auto simp: keyPairLaw_def hostLaw_def orderLaw_def sampleKeyExt_def sampleHost_def sliceBytes_def)

definition sampleLogExt :: "unit logExt" where
  "sampleLogExt = \<lparr>lxOps = sampleExt, lxFmtTime = (\<lambda>t l. l), lxMarshal = (\<lambda>_. None), lxValueString = (\<lambda>_. ''''),
     lxIsTerminal = (\<lambda>_. False), lxTintEnabled = (\<lambda>opts level. toLevel opts \<le> level)\<rparr>"

definition sampleKeyConf :: keyConf where
  "sampleKeyConf = \<lparr>sigKey = \<lparr>keyAlgorithm = ''secp256k1'', privateKey = Some [7]\<rparr>,
     authKey = \<lparr>keyAlgorithm = ''secp256k1'', privateKey = Some [8]\<rparr>\<rparr>"

definition sampleOs :: "(sampleStore, sampleConfs) osEnv" where
  "sampleOs = \<lparr>fileExists = (\<lambda>_. True), readKeyConf = (\<lambda>_. Inr sampleKeyConf), readShardConf = (\<lambda>_. Inr sampleConf),
     readTrustBase = (\<lambda>_. Inr sampleTB), openBlockDB = (\<lambda>_. Inr RBT.empty), openConfDB = (\<lambda>_. Inr RBT.empty),
     openTrustBaseDB = (\<lambda>_. None), newTrustBaseStore = None,
     storeTrustBase = (\<lambda>_. Some (Errorf ''trust base already exists'')),
     ErrAlreadyExists = Errorf ''trust base already exists'', memoryDB = RBT.empty, getenv = (\<lambda>_. ''''),
     userHomeDir = Inr ''/root'', openLogCfg = (\<lambda>_. Some (Errorf ''no such file'')),
     decodeLogCfg = (\<lambda>_. Inr emptyLogCfg), mkdirAll = (\<lambda>_. None), openLogFile = (\<lambda>_. None)\<rparr>"

definition sampleFlags :: cliFlags where
  "sampleFlags = \<lparr>PowSocketPath = ''/tmp/node.sock'', HomeDir = ''/root/.fgp'', CfgFile = '''', LogCfgFile = ''logger-config.yaml'',
     KeyConfFile = '''', ShardConfFiles = [], TrustBaseFiles = [], flAddress = '''', AnnounceAddresses = [],
     BootstrapAddresses = [''b''], BootstrapConnectRetryCount = 2, BootstrapConnectRetryDelay = 1,
     BlockDBFile = '''', ShardConfDBFile = '''', TrustBaseDBFile = '''', LedgerReplicationMaxBlocksFetch = 1000,
     LedgerReplicationMaxBlocks = 1000, LedgerReplicationMaxWorkers = 10, LedgerReplicationTimeoutMs = 1500,
     T1TimeoutMs = 8640000, flLogFile = '''', flLogLevel = '''', flLogFormat = ''''\<rparr>"

text \<open>A PoW node with eight blocks; the texts of requests and answers are the same.\<close>

definition sampleHashes :: "byte list list" where
  "sampleHashes = [[0], [1], [2], [3], [4], [5], [6], [7]]"

definition sampleHex :: "nat \<Rightarrow> string" where
  "sampleHex i = hexEncodeToString (sampleHashes ! i)"

fun sampleParam :: "rpcParam \<Rightarrow> byte list" where
  "sampleParam (StringParam s) = map of_char s"
| "sampleParam (Uint64Param w) = [ucast w]"

definition sampleIpc :: ipcExt where
  "sampleIpc = \<lparr>marshalRequest = (\<lambda>r. Inr (of_char (rqMethod r ! 6) # concat (map sampleParam (rqParams r)))),
     httpDo = (\<lambda>path k p. Inr \<lparr>httpStatusCode = 200, httpBody = Some (p, None)\<rparr>),
     unmarshalResponse = (\<lambda>b. Inr \<lparr>rspResult = Some b, rspError = None, rspID = 0\<rparr>),
     unmarshalString = (\<lambda>b. Inr (sampleHex (if length b = 1 then 7 else unat (b ! 1)))),
     unmarshalHeader = (\<lambda>b. case filter (\<lambda>i. map of_char (sampleHex i) = tl b) [0..<8] of
        [] \<Rightarrow> Inl (Errorf ''not found'') | i # _ \<Rightarrow> Inr (sampleHeader (sampleHex i) 1 (of_nat i))),
     unmarshalTips = (\<lambda>b. Inr [])\<rparr>"

text \<open>The environment of the node that the flags describe.\<close>

definition sampleNodeEnv :: "(sampleStore, sampleConfs) nodeEnv" where
  "sampleNodeEnv = powEnv sampleIpc (\<lambda>_ _. 0) sampleFlags sampleEnv"

lemma sampleNodeEnv_fields:
  "extOps sampleNodeEnv = extOps sampleEnv" "blockDb sampleNodeEnv = blockDb sampleEnv" "confDb sampleNodeEnv = confDb sampleEnv"
  by (simp_all add: sampleNodeEnv_def)

definition sampleStart :: "sampleStore startConf" where
  "sampleStart = fold applyOption (runOptions sampleFlags RBT.empty) (defaultConf sampleKeyConf (Some [7]) sampleConf RBT.empty)"

lemma sample_strings:
  "toLower '''' = ''''" "toLower ''console'' = ''console''"
  "clean ''/root/.fgp/logger-config.yaml'' = ''/root/.fgp/logger-config.yaml''"
  "joinPath [''/root/.fgp'', ''logger-config.yaml''] = ''/root/.fgp/logger-config.yaml''"
  "isAbs ''logger-config.yaml'' = False"
  by code_simp+

lemma sample_initLogger: "\<exists>h. initLogger sampleLogExt sampleOs [] sampleFlags = Inr h"
  by (simp add: initLogger_def sampleOs_def sampleFlags_def sample_strings defaultLoggerConfigFile_def newLogger_def
      emptyLogCfg_def filenameToWriter_def devNull_def logHandler_def initDefaults_def fmt_defs Let_def)

lemma sample_store:
  "newShardConfStore (extOps sampleEnv) (confDb sampleEnv) RBT.empty = Ok \<lparr>scDb = RBT.empty, scCache = (\<lambda>_. None)\<rparr>"
  "storeConf (extOps sampleEnv) (confDb sampleEnv) sampleConf \<lparr>scDb = RBT.empty, scCache = (\<lambda>_. None)\<rparr> = (Ok (), sampleConfStore)"
  by (simp_all add: newShardConfStore_def verifyDb_def storeConf_def sampleEnv_def treeDb_def comp_defs sampleConfStore_def
      sampleConf_def sampleNetExt_def ext.defs sampleExt_def)

lemma sample_getFirst_cached: "getFirst (confDb sampleEnv) (sampleConfStore\<lparr>scCache := [0 \<mapsto> sampleConf]\<rparr>) =
    (Ok sampleConf, sampleConfStore\<lparr>scCache := [0 \<mapsto> sampleConf]\<rparr>)"
  by (simp add: getFirst_def getConf_def sampleEnv_def treeDb_def sampleConfStore_def entries_single
      comp_defs epochToKey_def uint64BE_put)

lemma sampleStart_fields:
  "scKeyConf sampleStart = sampleKeyConf" "scBootstrapAddresses sampleStart = [''b'']" "scAddress sampleStart = ''''"
  "scAnnounceAddresses sampleStart = []" "scBootstrapConnectRetry sampleStart = Some \<lparr>retryCount = 2, retryDelay = 1\<rparr>"
  "scValidatorNetwork sampleStart = None" "scBlockDB sampleStart = RBT.empty"
  "replicationConfig sampleStart = \<lparr>maxFetchBlocks = 1000, maxReturnBlocks = 1000, maxWorkers = 10, replTimeout = 1500 * 1000000\<rparr>"
  by (simp_all add: sampleStart_def runOptions_def sampleFlags_def defaultConf_def)

lemma sample_nodeConf:
  "newNodeConf sampleKeyExt (confDb sampleEnv) RBT.empty (Some sampleKeyConf) (Some ()) (runOptions sampleFlags RBT.empty)
     (Some (sampleConfStore\<lparr>scCache := [0 \<mapsto> sampleConf]\<rparr>)) =
   (Ok sampleStart, Some (sampleConfStore\<lparr>scCache := [0 \<mapsto> sampleConf]\<rparr>))"
  using sampleStart_fields(8)
  by (simp add: newNodeConf_def andThen_def sample_getFirst_cached keySigner_def sampleKeyExt_def sampleKeyConf_def
      liftE_def ret_def Let_def sampleStart_def [symmetric, unfolded sampleKeyConf_def])

definition samplePeerConf :: peerConfiguration where
  "samplePeerConf = \<lparr>pcID = ''n'', pcAddress = '''', pcAnnounceAddrs = [],
     pcKeyPair = Some \<lparr>kpPublicKey = Some [8], kpPrivateKey = Some [8]\<rparr>,
     pcBootstrapPeers = [\<lparr>aiID = ''b'', aiAddrs = [[1]]\<rparr>], pcBootstrapConnectRetry = Some \<lparr>retryCount = 2, retryDelay = 1\<rparr>\<rparr>"

lemma sample_peerConf: "peerConfOf sampleKeyExt sampleStart = Inr samplePeerConf"
  by (simp add: peerConfOf_def sampleStart_fields authKeyPair_def sampleKeyExt_def sampleKeyConf_def KeyAlgorithmSecp256k1_def
      newPeerConfiguration_def nodeIDFromPublicKeyBytes_def samplePeerConf_def sliceBytes_def)

definition samplePeer :: peer where
  "samplePeer = \<lparr>hostID = ''n'', peerConf = samplePeerConf, peerAddrs = (\<lambda>_. {})\<rparr>"

lemma sample_newPeer: "newPeer sampleKeyExt sampleHost (Some samplePeerConf) = Inr samplePeer"
  by (simp add: newPeer_def readKeyPair_def sampleKeyExt_def sampleHost_def samplePeerConf_def samplePeer_def sliceBytes_def)

lemma sample_bootstrap: "\<exists>t. bootstrapConnect sampleHost samplePeer = (Ok (), t)"
proof -
  have "\<not> refused sampleHost 0 2" by (auto simp: refused_def sampleHost_def)
  then show ?thesis
    using bootstrapConnect_Ok_iff [OF sample_host_laws(3), of samplePeer "\<lparr>retryCount = 2, retryDelay = 1\<rparr>"]
    by (simp add: samplePeer_def samplePeerConf_def sampleHost_def dialCountdown_def Let_def)
qed

lemma sample_createNode:
  "\<exists>n. createNode sampleKeyExt sampleHost [] sampleNodeEnv sampleStart sampleFgp (sampleConfStore\<lparr>scCache := [0 \<mapsto> sampleConf]\<rparr>) = Ok n"
proof -
  obtain nw where "newLibP2PValidatorNetwork (Some ''n'') DefaultValidatorNetworkOptions [] = Ok nw"
    using validator_network_protocols [of "[]" "''n''"] by auto
  then have "initNetwork sampleKeyExt sampleHost [] sampleStart samplePeerConf = Ok nw"
    using sample_bootstrap by (auto simp: initNetwork_def sample_newPeer sampleStart_fields samplePeer_def)
  moreover have "\<exists>n. newNode sampleNodeEnv (nodeConf.truncate sampleStart) sampleFgp RBT.empty
      (sampleConfStore\<lparr>scCache := [0 \<mapsto> sampleConf]\<rparr>) noNetwork = Ok n"
    unfolding newNode_def sampleNodeEnv_fields sample_getFirst_cached
    by (simp add: sampleNodeEnv_fields initState_def restoreBlockProposal_def loadPendingProposal_def sampleEnv_def treeDb_def comp_defs)
  ultimately show ?thesis
    by (auto simp: createNode_def sample_peerConf sampleStart_fields maxChanCap_def)
qed

lemma sample_runNode:
  "\<exists>n s. runNode sampleKeyExt sampleHost [] sampleLogExt sampleIpc (\<lambda>_ _. 0) sampleEnv sampleOs [] sampleFlags None = (Ok n, s)"
proof -
  obtain h where h: "initLogger sampleLogExt sampleOs [] sampleFlags = Inr h" using sample_initLogger by blast
  obtain n where n: "createNode sampleKeyExt sampleHost [] sampleNodeEnv sampleStart sampleFgp
      (sampleConfStore\<lparr>scCache := [0 \<mapsto> sampleConf]\<rparr>) = Ok n" using sample_createNode by blast
  have "nodeID sampleKeyExt sampleKeyConf = Inr ''n''" by (simp add: nodeID_def sampleKeyExt_def)
  moreover have "newFGPTxSystem sampleConf = Inr sampleFgp" by (rule sampleFgp_new)
  ultimately have "runNode sampleKeyExt sampleHost [] sampleLogExt sampleIpc (\<lambda>_ _. 0) sampleEnv sampleOs [] sampleFlags None =
      (Ok n, Some (sampleConfStore\<lparr>scCache := [0 \<mapsto> sampleConf]\<rparr>))"
    using sample_store sample_getFirst sample_nodeConf n [unfolded sampleNodeEnv_def]
    by (simp add: runNode_def h [unfolded sampleOs_def] comp_defs Let_def onStore_def loadConfs_def loadConfFile_def initDB_def storeTrustBases_def
        sampleOs_def sampleFlags_def [THEN arg_cong, of ShardConfFiles] sampleFlags_def [THEN arg_cong, of TrustBaseFiles])
  then show ?thesis by blast
qed

section \<open>From the command line to the running node\<close>

text \<open>
  C9: A node that \<open>runNode\<close> builds also runs: \<open>Run\<close> registers its protocols, and the state in which the
  main loop begins is reachable over the PoW client of the given socket, so it satisfies everything proved of reachable states. What is asked
  of the outside: the documented behaviour of libp2p and of the packages the node calls, a host that
  does not already serve one of the protocols of the node, complete certificates in the block
  database, and a reply size that can be allocated.
\<close>

theorem started_node_runs:
  assumes laws: "envLaws E" "keyPairLaw P" "hostLaw P H"
    and mux: "\<forall>p\<in>set nodeProtocols. p \<notin> fst ` set mux"
    and run: "runNode P H mux L I sent E S changed f s0 = (Ok n, s1)"
    and store: "\<forall>db. openBlockDB S (pathWithDefault f (BlockDBFile f) blockDBFileName) = Inr db \<longrightarrow> storeComplete E db"
    and size: "unat (LedgerReplicationMaxBlocks f) \<le> maxSliceCap"
  shows "\<exists>m. nodeRun (powEnv I sent f E) n = (Ok (), m) \<and> (\<forall>s. theNode s = m \<longrightarrow> nodeReach (powEnv I sent f E) s) \<and>
    replicationConfig (conf n) = \<lparr>maxFetchBlocks = LedgerReplicationMaxBlocksFetch f,
      maxReturnBlocks = LedgerReplicationMaxBlocks f, maxWorkers = LedgerReplicationMaxWorkers f,
      replTimeout = uint (LedgerReplicationTimeoutMs f) * 1000000\<rparr> \<and> LedgerReplicationMaxWorkers f \<noteq> 0"
proof -
  let ?E = "powEnv I sent f E"
  obtain kc i sc db c txs a b where db: "openBlockDB S (pathWithDefault f (BlockDBFile f) blockDBFileName) = Inr db"
    and conf: "newNodeConf P (confDb E) (memoryDB S) (Some kc) (Some ()) (runOptions f db) (Some a) = (Ok c, Some b)"
    and txs: "newFGPTxSystem sc = Inr txs" and new: "createNode P H mux ?E c txs b = Ok n"
    using runNode_Ok [OF run] by blast
  obtain sg where c: "c = fold applyOption (runOptions f db) (defaultConf kc sg (scShardConf c) (memoryDB S))"
    and workers: "maxWorkers (replicationConfig c) \<noteq> 0"
    using newNodeConf_Ok [OF conf] by auto
  have fields: "scValidatorNetwork c = None" "scBlockDB c = db" "replicationConfig c =
      \<lparr>maxFetchBlocks = LedgerReplicationMaxBlocksFetch f, maxReturnBlocks = LedgerReplicationMaxBlocks f,
       maxWorkers = LedgerReplicationMaxWorkers f, replTimeout = uint (LedgerReplicationTimeoutMs f) * 1000000\<rparr>"
    by (subst c, simp add: runOptions_def defaultConf_def)+
  have args: "fgpInv (extOps ?E) txs" "committedUC txs = None"
      "unat (maxReturnBlocks (replicationConfig c)) \<le> maxSliceCap" "storeComplete ?E (scBlockDB c)"
    using newFGPTxSystem_inv [OF txs, of "extOps ?E"] store db size by (simp_all add: fields)
  obtain nw where start: "startable ?E (nodeConf.truncate c) txs (scBlockDB c) nw"
    and n: "newNode ?E (nodeConf.truncate c) txs (scBlockDB c) b nw = Ok n"
    and net: "newLibP2PValidatorNetwork (Some (selfID n)) DefaultValidatorNetworkOptions mux = Ok (network n)"
    using createNode_startable [OF laws(2,3) new fields(1) args] by blast
  obtain nw' where "registerValidatorProtocols (network n) = (Ok (), nw')"
    using validator_network_protocols [OF mux, of "selfID n"] net by auto
  with nodeRun_completes [OF _ newNode_inv [OF start n]] laws(1) [folded powEnv_laws(1) [of I sent f E]] obtain m where m: "nodeRun ?E n = (Ok (), m)" by blast
  moreover have "nodeReach ?E s" if "theNode s = m" for s
    using nodeReach.start [OF start n] m that by simp
  moreover have "conf n = nodeConf.truncate c" by (rule newNode_conf [OF n])
  ultimately show ?thesis using workers fields(3) by (simp add: nodeConf.defs)
qed

theorem started_node_runs_witness:
  "\<exists>n s1 m. runNode sampleKeyExt sampleHost [] sampleLogExt sampleIpc (\<lambda>_ _. 0) sampleEnv sampleOs [] sampleFlags None = (Ok n, s1) \<and>
     nodeRun (powEnv sampleIpc (\<lambda>_ _. 0) sampleFlags sampleEnv) n = (Ok (), m)"
proof -
  obtain n s1 where run: "runNode sampleKeyExt sampleHost [] sampleLogExt sampleIpc (\<lambda>_ _. 0) sampleEnv sampleOs [] sampleFlags None = (Ok n, s1)"
    using sample_runNode by blast
  have "storeComplete sampleEnv RBT.empty" using sample_startable by (simp add: startable_def)
  then have "\<forall>db. openBlockDB sampleOs (pathWithDefault sampleFlags (BlockDBFile sampleFlags) blockDBFileName) = Inr db
      \<longrightarrow> storeComplete sampleEnv db" by (simp add: sampleOs_def)
  moreover have "unat (LedgerReplicationMaxBlocks sampleFlags) \<le> maxSliceCap" by (simp add: sampleFlags_def maxSliceCap_def)
  ultimately show ?thesis
    using started_node_runs [OF sampleEnv_laws sample_host_laws(1,2) _ run] run by auto
qed

section \<open>The peer\<close>

text \<open>
  C37: A node has one identity. The identifier that \<open>runNode\<close> computes from the authentication key, the
  one in the configuration of the peer, and the one of the host are the same, and it is not empty.
\<close>

theorem node_identity:
  assumes "keyPairLaw P" and "hostLaw P H" and "peerConfOf P c = Inr pc" and "newPeer P H (Some pc) = Inr p"
  shows "nodeID P (scKeyConf c) = Inr (pcID pc) \<and> hostID p = pcID pc \<and> pcID pc \<noteq> '''' \<and> peerConf p = pc"
  using peerConf_nodeID [OF assms(1,3)] newPeer_identity [OF assms] newPeer_Inr [OF assms(2,4)] by blast

theorem node_identity_witness:
  "nodeID sampleKeyExt sampleKeyConf = Inr ''n'' \<and> hostID samplePeer = ''n''"
  using node_identity [OF sample_host_laws(1,2) sample_peerConf sample_newPeer]
  by (simp add: sampleStart_fields samplePeerConf_def)

text \<open>
  C38: Bootstrapping ends after finitely many dials and its result is determined: it fails exactly when
  every other bootstrap node refused all its dials and the node is not a bootstrap node itself, or
  when one did not and the bootstrap of the DHT fails. A dial that was cancelled between two attempts
  does not count as refused. A node makes at most one dial more than its retry count to each peer,
  a bootstrap node just one.
\<close>

theorem bootstrap_outcome:
  assumes "orderLaw H" and "pcBootstrapConnectRetry (peerConf p) = Some r"
  defines "others \<equiv> filter (\<lambda>b. aiID b \<noteq> hostID p) (pcBootstrapPeers (peerConf p))"
    and "bootnode \<equiv> hostID p \<in> aiID ` set (pcBootstrapPeers (peerConf p))"
  shows "((\<exists>t. bootstrapConnect H p = (Ok (), t)) \<longleftrightarrow> others = [] \<or>
      (if \<forall>g<length others. refused H g (dialCountdown bootnode r) then bootnode else dhtBootstrap H 1 = None)) \<and>
    (\<forall>m t. bootstrapConnect H p \<noteq> (Panics m, t)) \<and>
    snd (dialLoop H g 0 (dialCountdown bootnode r)) \<le>
      (if bootnode then 1 else if retryCount r < 0 then 2 ^ 63 else nat (retryCount r) + 1)"
proof -
  have "bootstrapConnect H p \<noteq> (Panics m, t)" for m t
    using bootstrapConnect_run [OF assms(2), of H] by (auto simp: Let_def split: option.splits if_splits)
  moreover have "nat (dialCountdown bootnode r) + 1 =
      (if bootnode then 1 else if retryCount r < 0 then 2 ^ 63 else nat (retryCount r) + 1)"
    by (simp add: dialCountdown_def maxInt_def)
  ultimately show ?thesis
    using bootstrapConnect_Ok_iff [OF assms(1,2)] dialLoop_attempts [of 0 H g "dialCountdown bootnode r"]
    unfolding Let_def others_def [symmetric] bootnode_def [symmetric] by auto
qed

theorem bootstrap_outcome_witness:
  "(\<exists>t. bootstrapConnect sampleHost samplePeer = (Ok (), t)) \<and> snd (dialLoop sampleHost 0 0 2) \<le> 3"
proof -
  have "\<not> refused sampleHost 0 2" by (auto simp: refused_def sampleHost_def)
  then show ?thesis
    using bootstrap_outcome [OF sample_host_laws(3), of samplePeer "\<lparr>retryCount = 2, retryDelay = 1\<rparr>" 0]
    by (simp add: samplePeer_def samplePeerConf_def sampleHost_def dialCountdown_def)
qed

section \<open>The client of the PoW node\<close>

text \<open>
  The tip is the header the PoW node reports for the best hash it reported just before: two
  requests with consecutive identifiers, each answered with status 200, a complete body of at most
  5 MiB, no error member and a result of the right type. Otherwise the call returns an error; it
  never panics.
\<close>

lemma ipc_tip:
  assumes "bodyLaw I"
  shows "((\<exists>t. ipcGetTip I c = (Ok h, t)) \<longleftrightarrow> (\<exists>raw hash raw'.
      rpcAnswer I c ''getbestblockhash'' [] = Some raw \<and> unmarshalString I raw = Inr hash \<and>
      rpcAnswer I (c\<lparr>nextID := toInt64 (nextID c + 1), sentRequests := sentRequests c + 1\<rparr>)
        ''getblockheader'' [StringParam hash] = Some raw' \<and> unmarshalHeader I raw' = Inr h)) \<and>
    (\<forall>m t. ipcGetTip I c \<noteq> (Panics m, t))"
proof -
  have "wp False (ipcGetTip I) (\<lambda>_ t. True) (\<lambda>_ t. True) c"
    unfolding ipcGetTip_def ipcGetBlockHeaderByHash_def wp_andThen wp_wrapErr
    by (rule wp_mono [OF ipcCall_safe [OF assms]]) (auto intro: wp_mono [OF ipcCall_safe [OF assms]])
  then have "ipcGetTip I c \<noteq> (Panics m, t)" for m t by (auto simp: wp_def)
  then show ?thesis
    by (auto simp: ipcGetTip_def ipcGetBlockHeaderByHash_def run_Ok afterCall_def)
qed

text \<open>
  C12: Agreement over the real clients. Leader and follower each ask a PoW node of their own; both
  nodes answer from the same active chain, the follower's may know more blocks. When the chain has
  grown \<open>dFG\<close> blocks past the last certified one and no fork competes, the leader proposes exactly the block of
  the chain that has \<open>dFG\<close> confirmations, and the follower accepts it and reports the same root.
\<close>

theorem chain_agreement:
  assumes "servesChain L hs tips" and "servesChain F (hs @ newer) tips'"
    and "dFG l \<noteq> 0" and "dFG f = dFG l" and "certifiedAt hs h l" and "h + unat (dFG l) < length hs"
    and "\<forall>t\<in>set tips. \<not> forkBlocks (length hs - unat (dFG l)) t"
  shows "\<exists>sm l' sm' f'. leaderPropose (ipcPowClient L sl) r l = (Ok sm, l') \<and>
    rootHash sm = Some (hs ! (length hs - unat (dFG l))) \<and>
    followerVerify (ipcPowClient F sf) r (rootHash sm) f = (Ok sm', f') \<and> rootHash sm' = rootHash sm"
proof -
  let ?i = "length hs - unat (dFG l)"
  have "0 < unat (dFG l)" using assms(3) by (simp add: unat_gt_0)
  then have i: "?i < length hs" "?i + unat (dFG f) \<le> length (hs @ newer)" using assms(4,6) by simp_all
  obtain l' where "leaderPropose (ipcPowClient L sl) r l = (Ok (summaryOf (Some (hs ! ?i)) l), l')"
    using leader_on_chain [OF ipcPowClient_sees [OF assms(1)] assms(3,5,6,7)] by blast
  moreover obtain f' where
    "followerVerify (ipcPowClient F sf) r (Some (hs ! ?i)) f = (Ok (summaryOf (Some (hs ! ?i)) f), f')"
    using follower_on_chain [OF ipcPowClient_sees [OF assms(2)] _ i(2)] assms(3,4) i(1)
    by (metis nth_append)
  ultimately show ?thesis by (auto simp: summaryOf_def newStateSummary_def)
qed

lemma sample_rpcAnswer:
  "rpcAnswer sampleIpc c meth [] = Some [of_char (meth ! 6)]"
  "rpcAnswer sampleIpc c meth [Uint64Param w] = Some [of_char (meth ! 6), ucast w]"
  "length s \<le> 2 \<Longrightarrow> rpcAnswer sampleIpc c meth [StringParam s] = Some (of_char (meth ! 6) # map of_char s)"
  by (simp_all add: rpcAnswer_def sampleIpc_def StatusOK_def maxResponseSize_def sliceBytes_def)

lemma sample_hashes:
  "\<forall>i\<in>set [0..<8]. length (sampleHex i) \<le> 2 \<and> unat (ucast (of_nat i :: uint64) :: byte) = i \<and> unat (of_nat i :: uint64) = i \<and>
     filter (\<lambda>j. map of_char (sampleHex j) = (map of_char (sampleHex i) :: byte list)) [0..<8] = [i]"
  by code_simp

lemma sample_serves: "servesChain sampleIpc sampleHashes []"
proof -
  have "unmarshalString sampleIpc raw = Inr (sampleHex (if length raw = 1 then 7 else unat (raw ! 1)))"
      "unmarshalTips sampleIpc raw = Inr []" for raw
    by (simp_all add: sampleIpc_def)
  moreover have "unat (ucast (of_nat i :: uint64) :: byte) = i" if "i < 8" for i
    using sample_hashes that by simp
  moreover have "headerOf sampleHashes i (sampleHeader (sampleHex i) 1 (of_nat i))" if "i < 8" for i
    using sample_hashes that by (simp add: headerOf_def sampleHeader_def sampleHex_def isActive_def)
  moreover have "unmarshalHeader sampleIpc (k # map of_char (sampleHex i)) = Inr (sampleHeader (sampleHex i) 1 (of_nat i))"
    if "i < 8" for i k using sample_hashes that by (simp add: sampleIpc_def)
  moreover have "length (sampleHex i) \<le> 2" if "i < 8" for i using sample_hashes that by simp
  moreover have "length sampleHashes = 8" "last sampleHashes = sampleHashes ! 7" by (simp_all add: sampleHashes_def)
  ultimately show ?thesis
    unfolding servesChain_def by (auto simp: sample_rpcAnswer sampleHex_def [symmetric])
qed

theorem chain_agreement_witness:
  "\<exists>sm l' sm' f'. leaderPropose (ipcPowClient sampleIpc (\<lambda>_. newIPCClient ''/tmp/node.sock'')) 1 sampleFgp = (Ok sm, l') \<and> rootHash sm = Some [2] \<and>
     followerVerify (ipcPowClient sampleIpc (\<lambda>_. newIPCClient ''/tmp/node.sock'')) 1 (rootHash sm) sampleFgp = (Ok sm', f') \<and> rootHash sm' = rootHash sm"
  using chain_agreement [OF sample_serves, of sampleIpc "[]" "[]" sampleFgp sampleFgp 0 "\<lambda>_. newIPCClient ''/tmp/node.sock''" 1 "\<lambda>_. newIPCClient ''/tmp/node.sock''"] sample_serves
  by (simp add: sampleFgp_def certifiedAt_def sampleHashes_def)

section \<open>The command line\<close>

text \<open>
  C39: Which source of a setting wins. A flag that was given on the command line keeps its value; any other
  takes that of its environment variable, then the one of the configuration file, and keeps its default
  when there is none. The flags set in this way count as given from then on. The home directory and the
  name of the configuration file come from their flags, then from \<open>FGP_HOME\<close> and \<open>FGP_CONFIG\<close>, then from
  the defaults.
\<close>

theorem flag_precedence:
  assumes "flagLaw V parsed" and "viperLaw S V" and "distinct names" and "n \<in> set names" and "n \<noteq> keyHome" and "n \<noteq> keyConfig"
    and "initializeConfig S V names changed f = Ok (f', changed')"
  shows "flagVar n f' = (if n \<in> set changed then flagVar n f
       else case envValue S (flagEnvVar n) n of Some v \<Rightarrow> Some (parsed n v)
       | None \<Rightarrow> (case configValue V (configFile V f') n of Some v \<Rightarrow> Some (parsed n v) | None \<Rightarrow> flagVar n f)) \<and>
    (n \<in> set changed' \<longleftrightarrow> n \<in> set changed \<or> envValue S (flagEnvVar n) n \<noteq> None \<or> configValue V (configFile V f') n \<noteq> None) \<and>
    HomeDir f' = (if HomeDir f \<noteq> '''' then HomeDir f else if getenv S ''FGP_HOME'' \<noteq> '''' then getenv S ''FGP_HOME''
      else joinPath [projr (userHomeDir S), ''.fgp'']) \<and>
    CfgFile f' = (let c = if CfgFile f \<noteq> '''' then CfgFile f else if getenv S ''FGP_CONFIG'' \<noteq> '''' then getenv S ''FGP_CONFIG''
      else ''config.props'' in if isAbs c then c else joinPath [HomeDir f', c])"
proof (rule initializeConfig_Ok [OF assms(7)], goal_cases)
  case (1 f1)
  note paths = resolvePaths_Ok [OF 1(1)]
  have kept: "HomeDir f' = HomeDir f1" "CfgFile f' = CfgFile f1"
    unfolding 1(2) using fold_bindFlag_paths [OF assms(1)] by simp_all
  then have cfg: "configFile V f1 = configFile V f'" by (simp add: configFile_def)
  have "flagVar n f1 = flagVar n f" using flagVar_paths(3) [OF assms(5,6)] paths(1) by metis
  moreover have "viperValue V (configFile V f1) (flagEnvVar n) n = (case envValue S (flagEnvVar n) n of
      Some v \<Rightarrow> Some v | None \<Rightarrow> configValue V (configFile V f1) n)"
    using assms(2) by (simp add: viperLaw_def)
  ultimately have "flagVar n f' = (if n \<in> set changed then flagVar n f
       else case envValue S (flagEnvVar n) n of Some v \<Rightarrow> Some (parsed n v)
       | None \<Rightarrow> (case configValue V (configFile V f1) n of Some v \<Rightarrow> Some (parsed n v) | None \<Rightarrow> flagVar n f)) \<and>
    (n \<in> set changed' \<longleftrightarrow> n \<in> set changed \<or> envValue S (flagEnvVar n) n \<noteq> None \<or> configValue V (configFile V f1) n \<noteq> None)"
    using fold_bindFlag_same [OF assms(1,3,4) 1(4)] assms(5,6) 1(2,3)
    by (auto simp: configured_def split: option.splits)
  then show ?case unfolding cfg using paths(2,3) unfolding kept by blast
qed

text \<open>An environment with two variables, and a file that has a value for the first of them and one more.\<close>

definition sampleVars :: "(sampleStore, sampleConfs) osEnv" where
  "sampleVars = sampleOs\<lparr>getenv := (\<lambda>v. if v = ''FGP_BLOCK_DB'' then ''/data/b.db'' else if v = ''FGP_HOME'' then ''/fgp'' else '''')\<rparr>"

definition sampleFile :: "string option \<Rightarrow> string \<Rightarrow> string option" where
  "sampleFile cfg n = (if cfg = Some ''/root/.fgp/config.props'' \<and> (n = ''block-db'' \<or> n = ''shard-db'') then Some ''/file.db'' else None)"

definition sampleSet :: "string \<Rightarrow> string \<Rightarrow> cliFlags \<Rightarrow> goerror option \<times> cliFlags" where
  "sampleSet n v f = (if n = ''block-db'' then (None, f\<lparr>BlockDBFile := v\<rparr>)
     else if n = ''shard-db'' then (None, f\<lparr>ShardConfDBFile := v\<rparr>) else (Some (Errorf ''invalid argument''), f))"

definition sampleViper :: viperEnv where
  "sampleViper = \<lparr>statFile = (\<lambda>_. True), readInConfig = (\<lambda>_. None), configFileNotFound = (\<lambda>_. False), bindEnv = (\<lambda>_ _. None),
     viperValue = (\<lambda>cfg bound n. case envValue sampleVars bound n of Some v \<Rightarrow> Some v | None \<Rightarrow> sampleFile cfg n),
     configValue = sampleFile, setFlag = sampleSet\<rparr>"

lemma sample_viper_laws: "flagLaw sampleViper (\<lambda>n v. StringFlag v)" "viperLaw sampleVars sampleViper"
  by (auto simp: flagLaw_def viperLaw_def sampleViper_def sampleSet_def flagVar_def persistentFlags_def runFlags_def keyHome_def keyConfig_def split: option.splits)

lemma sample_initializeConfig:
  "case initializeConfig sampleVars sampleViper [''address'', ''block-db'', ''shard-db'', ''home''] [''address''] sampleFlags of
     Ok _ \<Rightarrow> True | _ \<Rightarrow> False"
  by code_simp

lemma sample_env_values: "envValue sampleVars (flagEnvVar ''block-db'') ''block-db'' = Some ''/data/b.db''"
  by code_simp

theorem flag_precedence_witness:
  "\<exists>f' changed'. initializeConfig sampleVars sampleViper [''address'', ''block-db'', ''shard-db'', ''home''] [''address''] sampleFlags
       = Ok (f', changed') \<and>
     flagVar ''block-db'' f' = Some (StringFlag ''/data/b.db'') \<and> ''block-db'' \<in> set changed' \<and> HomeDir f' = ''/root/.fgp''"
proof -
  obtain f' changed' where run: "initializeConfig sampleVars sampleViper [''address'', ''block-db'', ''shard-db'', ''home'']
      [''address''] sampleFlags = Ok (f', changed')" using sample_initializeConfig by (auto split: outcome.splits)
  from flag_precedence [OF sample_viper_laws _ _ _ _ this, of "''block-db''"] run show ?thesis
    by (simp add: sample_env_values keyHome_def keyConfig_def) (simp add: sampleFlags_def)
qed

section \<open>The log\<close>

text \<open>
  However many formatters are combined, and however the recursion groups them, the result is to
  run those that are not nil one after the other in the given order, up to the first that panics; it
  is nil when all of them are.
\<close>

lemma formatters_run_in_order:
  "composeAttrFmt fs = (if \<forall>f\<in>set fs. f = None then None
     else Some (\<lambda>groups a. foldl (\<lambda>r f. thenOut r (f groups)) (Ok a) (map the (filter (\<lambda>f. f \<noteq> None) fs))))"
proof -
  have some: "List.map_filter id fs = map the (filter (\<lambda>f. f \<noteq> None) fs)"
    by (simp add: map_filter_def comp_def)
  have "(\<forall>f\<in>set fs. f = None) \<longleftrightarrow> List.map_filter id fs = []"
    unfolding some by (simp add: filter_empty_conv)
  then show ?thesis
    unfolding composeAttrFmt_seq runFmts_def [abs_def] some by (auto split: list.splits)
qed

text \<open>
  C40: Which records a text or JSON log contains. With the format written in lower case, those from the
  configured level on; a format in any other letter case is accepted but loses the configured level
  and logs from INFO on. The level \<open>none\<close> does not switch the log off: every level is enabled.
\<close>

theorem log_enabled_iff:
  assumes "toLower (lcFormat c) \<in> {fmtTEXT, fmtJSON, fmtECS}" and "lcLevel c \<noteq> ''''"
    and "logHandler L c out = Inr h"
  shows "(enabled L h level \<longleftrightarrow>
      (if lcFormat c \<in> {fmtTEXT, fmtJSON, fmtECS} then logLevel c \<le> level else LevelInfo \<le> level)) \<and>
    (lcFormat c \<in> {fmtTEXT, fmtJSON, fmtECS} \<and> toLower (lcLevel c) = ''none'' \<and> - (2 ^ 63) \<le> level \<longrightarrow> enabled L h level)"
proof -
  have "logLevel c = levelNone" if "toLower (lcLevel c) = ''none''"
    using that by (simp add: logLevel_def)
  then show ?thesis using logHandler_enabled [OF assms, of level] by (auto simp: levelNone_def)
qed

theorem log_enabled_iff_witness:
  "\<exists>h. logHandler sampleLogExt (emptyLogCfg\<lparr>lcFormat := ''json'', lcLevel := ''none''\<rparr>) StdoutWriter = Inr h \<and>
     enabled sampleLogExt h LevelDebug"
proof -
  let ?c = "emptyLogCfg\<lparr>lcFormat := ''json'', lcLevel := ''none''\<rparr>"
  have lower: "toLower ''json'' = ''json''" "toLower ''none'' = ''none''" by code_simp+
  obtain h where "logHandler sampleLogExt ?c StdoutWriter = Inr h"
    by (simp add: logHandler_def initDefaults_def fmt_defs Let_def lower emptyLogCfg_def)
  with log_enabled_iff [of ?c sampleLogExt StdoutWriter h LevelDebug] lower show ?thesis
    by (auto simp: fmt_defs LevelDebug_def)
qed

end
