(* ===== verification/Spec2Isabelle.thy ===== *)
theory Spec2Isabelle
  imports FgpProperties NetworkProperties NodeProperties HandlerProperties ReplicationProperties
    ProposalProperties StartProperties RoundProperties RecoveryProperties ServiceProperties SystemProperties
begin

text \<open>
  Verification library of the finality gadget: a partition node of the Unicity BFT network that
  certifies blocks of a proof-of-work chain.

  \<^bold>\<open>The program.\<close> A node (\<open>src/partition\<close>) takes part in rounds. The leader of a round asks its
  transaction system (\<open>src/txsystem\<close>) for a PoW block that is deep enough, sends it to the other
  validators as a block proposal and to the root chain as a certification request; the followers
  check the proposal against their own PoW node (\<open>src/pow\<close>) and send requests of their own. The root
  chain answers with a unicity certificate. A certificate that extends the committed state finalises
  the pending proposal: the block is stored and the transaction system commits. A certificate for
  something the node does not have starts recovery: the missing blocks are fetched from other
  validators and applied one by one. Messages travel over libp2p streams (\<open>src/network\<close>). The
  commands of \<open>src/cmd\<close> read the configuration, build the node and run it.

  \<^bold>\<open>How code becomes definitions.\<close> A Go function is a computation on the state it works on: it ends
  with a value, a returned error or a panic (\<open>Ok\<close>, \<open>Fail\<close>, \<open>Panics\<close> in \<open>Prelude\<close>). A nil dereference, an index
  out of range and an allocation that is too large are panics of the model. 64-bit integers are
  words, and differences wrap as in Go. A nil slice differs from an empty one. An error keeps its format
  string and what it wraps. A struct is a record, an interface a locale or a record of functions. Code
  that is not in the repository is a parameter: \<open>ext\<close> (certificates, hashes, signatures), \<open>kvdb\<close>
  (databases), \<open>netExt\<close> (CBOR), \<open>nodeEnv\<close> (all that a node calls, and time and randomness as answers
  to numbered calls), \<open>keyExt\<close>, \<open>hostEnv\<close> (libp2p), \<open>ipcExt\<close> (HTTP and JSON), \<open>logExt\<close>, \<open>osEnv\<close> and
  \<open>viperEnv\<close>. What is assumed of a parameter is a named predicate that states documented behaviour, such as \<open>envLaws\<close>,
  \<open>kvIterLaw\<close>, \<open>codecLaw\<close>, \<open>keyPairLaw\<close>, \<open>hostLaw\<close>; the sample values of \<open>Samples\<close>, \<open>NodeSamples\<close> and
  \<open>SystemProperties\<close> satisfy them.

  \<^bold>\<open>Theories and sources.\<close>

  \<^item> \<open>Prelude\<close>, \<open>GoStd\<close>, \<open>GoText\<close>: the language and its library. \<open>wp\<close> is the weakest precondition of a
    computation, \<open>keeps\<close> says that it keeps a predicate and does not panic, \<open>leaves\<close> that it does not
    change a view of the state, \<open>commutes\<close> that it does not depend on a part of it. Each has its
    collection of rules, so that the lemma of a function follows from those of the calls it makes.
  \<^item> \<open>BftTypes\<close>, \<open>PowTypes\<close>, \<open>StateSummary\<close>: data (\<open>src/pow/types\<close>, \<open>src/txsystem/state\<close>, and what the
    sources use of bft-go-base).
  \<^item> \<open>TransactionSystem\<close>, \<open>FgpTxSystem\<close>: the interface that the node relies on, and
    \<open>src/txsystem/fgp_txsystem.go\<close>, which implements it (interpretation \<open>fgp\<close>).
  \<^item> \<open>IpcClient\<close>, \<open>PowChain\<close>: \<open>src/pow/ipc_client.go\<close>, the JSON-RPC client behind \<open>powClient\<close>, and what the
    transaction system sees through it of a PoW node that answers from one chain.
  \<^item> \<open>Protocol\<close>, \<open>MsgCodec\<close>, \<open>LibP2P\<close>, \<open>Peer\<close>: \<open>src/network\<close>. Messages and their validity, frames (locale
    \<open>length_prefix\<close>), the network of a validator, the libp2p peer and its bootstrap.
  \<^item> \<open>KeyValueDb\<close>, \<open>ShardConfStore\<close>, \<open>NodeSelector\<close>, \<open>RoundTimer\<close>: what a node is built on
    (\<open>shard_conf_store.go\<close>, \<open>root_node_selector.go\<close>, \<open>round.go\<close> of \<open>src/partition\<close>), with the locales
    \<open>conf_source\<close> and \<open>node_selector\<close>.
  \<^item> \<open>NodeState\<close>, \<open>NodeSending\<close>, \<open>NodeHandlers\<close>, \<open>NodeLoop\<close>: the node, its helpers, what it sends, its message
    handlers, recovery, the main loop, and the initialisation of its state. \<open>loopStep\<close> is one iteration of the loop.
    \<open>nodeStep\<close> interleaves the iterations with the replication workers, the goroutine of the timer and the
    stream handlers of the network; \<open>nodeReach\<close> (in \<open>LoopSafety\<close>) holds of the states reached from a
    start.
  \<^item> \<open>Configuration\<close>, \<open>NodeStart\<close>: \<open>configuration.go\<close>, and \<open>NewNode\<close> with the network of \<open>node_init.go\<close>.
  \<^item> \<open>Logger\<close>, \<open>Command\<close>, \<open>CommandLine\<close>: \<open>src/logger\<close>, \<open>src/cmd\<close> and \<open>src/internal/debug\<close>.
  \<^item> \<open>NodeInvariant\<close>, \<open>NodeSafety\<close>, \<open>HandlerSafety\<close>, \<open>LoopSafety\<close>: the invariant of a node and, for every
    operation, that it does not panic, keeps the invariant and changes the certified chain only by
    validated successors.
  \<^item> \<open>Samples\<close>, \<open>NodeSamples\<close>: concrete values for the witnesses.

  \<^bold>\<open>What is shown.\<close>

  \<^item> Transaction system (\<open>FgpProperties\<close>): exactly when a leader proposes and a follower accepts, with no
    wrap-around; that a follower with the same view accepts what a leader proposes; the invariant of all runs, that an error
    changes nothing, and what a commit installs. A follower also accepts a block below the
    last certified one, as long as it is on the active chain.
  \<^item> Running node (\<open>NodeProperties\<close>): every iteration of the loop ends without a panic, whatever
    message arrived; the committed certificate changes only along validated successors; the latest one
    does not go back in root rounds; the blocks since the start are in the store; the fields
    of the state fit together; one timer at most is running.
  \<^item> Handlers (\<open>HandlerProperties\<close>, \<open>ProposalProperties\<close>, \<open>ReplicationProperties\<close>, \<open>StartProperties\<close>):
    the effect of a certificate on each branch, which proposals are refused and which are certified,
    what a replication request is answered with, and what a node takes over from its store. A node
    that is restarted before its first block is certified takes its own pending proposal for the
    committed state.
  \<^item> Recovery (\<open>RecoveryProperties\<close>): the blocks of a replication response that is handled to the end are in
    the chain, linked to it and stored under their rounds, and the node leaves recovery exactly when the chain has
    reached the latest certificate.
  \<^item> Rounds (\<open>RoundProperties\<close>): what the leader of a round hands to the network, and that a follower with the
    same view of the round that handles the proposal asks for the certification of the same block. The
    block is a function (\<open>roundBlock\<close>) of the proposed root and of the view of the state that the nodes
    of a round share.
  \<^item> Services (\<open>NetworkProperties\<close>, \<open>ServiceProperties\<close>): what a stream delivers, what a send does,
    the bounds of reading, node selection against its reference definition, the configuration store, signatures.
  \<^item> Program (\<open>SystemProperties\<close>): a node that \<open>runNode\<close> builds also runs, over the PoW client of the socket in the
    flags (\<open>powEnv\<close>), and its first state is reachable, so
    that what is shown of reachable states holds for it; over their own clients to PoW nodes on the same chain,
    a leader proposes exactly the block with \<open>dFG\<close> confirmations and a follower accepts it; the identity
    of a node; the outcome of bootstrapping; which source of a setting wins; what is logged.

  \<^bold>\<open>Bounds and termination.\<close> No definition has fuel. The loops are structural recursions or
  functions with a termination proof: \<open>readLoop\<close> (the rest of the stream gets shorter), \<open>chooseLoop\<close> (the wrapping
  index returns), \<open>dialLoop\<close> (the retry counter), \<open>composeAttrFmt\<close> (the number of formatters),
  \<open>messagesOf\<close> (the reference for what a stream contains). The main loop
  does not end and is a step relation. \<open>maxSliceCap\<close> bounds the number of blocks of a reply, which the code allocates
  at once; the start of a node is shown to lead to a reachable state under this bound on the flag.

  \<^bold>\<open>Granularity.\<close> A method that holds a mutex for its whole body is one step, and so is one iteration
  of the main loop, one replication request served by a worker and one stream handled. Dials of the
  bootstrap run concurrently; their order of completion is a parameter.

  \<^bold>\<open>Not modelled.\<close> Log output, except where building a message dereferences a pointer, and the
  rendering of replication responses for it. The context of a call, except where it
  cancels the T1 timer or a dial: the cancellation of the main loop ends the process. The options that replace the
  validators of a node, which no caller in the repository uses outside of tests: a node with other validators
  than the default ones has none of the guarantees shown here. The discovery calls and plain accessors of the
  peer, which only pass on to libp2p. The declaration of the commands to cobra, the delivery of signals by the
  operating system, and the handling of flags by pflag and viper beyond what
  \<open>initializeConfig\<close> asks of them. The helpers of the tests (\<open>src/internal/testutils\<close>).
\<close>

end
